(* ===== verification/GLB_Prelude.thy ===== *)
theory GLB_Prelude
  imports Main "HOL-Library.Multiset" "HOL-Library.List_Lexorder" "HOL-Library.Char_ord" "HOL-Library.Sublist"
    "HOL-Library.AList_Mapping"
begin

text \<open>
  The prelude of the development: the Go language and standard-library behaviour that every
  component uses.

  \<^item> Errors and panics are values. A Go function that returns \<open>(T, error)\<close> is a
    program whose outcome is \<open>Ret\<close>, \<open>Fail\<close> (a non-nil error was returned) or
    \<open>Panic\<close> (a nil dereference, an index or a slice bound out of range).
  \<^item> Effects are explicit. A program runs from a state that holds the world the operator
    talks to (an arbitrary type), the requests sent to it so far, in order, and the operator's
    own mutable data. The state survives an error, as the effects of the Go code do.
  \<^item> Loops over slices are the fold \<open>for_each\<close>, which stops at the first error.
  \<^item> Strings are byte lists; the functions of package strings and sort that the sources call
    are defined here with the laws the components use.
\<close>

section \<open>Errors, panics and outcomes\<close>

text \<open>
  The constructors are the classes of errors the sources tell apart: \<open>ErrNew\<close> is a value
  of \<open>errors.New\<close>, \<open>StatusErr\<close> an error of the Kubernetes API with its reason,
  \<open>AwsErr\<close> an \<open>awserr.Error\<close> with its code, \<open>GoogleErr\<close> a
  \<open>googleapi.Error\<close> with its code, \<open>MultiErr\<close> a \<open>multierror.Error\<close> with at least one error
  and \<open>OtherErr\<close> any other error.
\<close>

datatype status_reason = NotFound | ResourceExpired | OtherReason

datatype error =
    ErrNew string
  | StatusErr status_reason string
  | AwsErr string string
  | GoogleErr int string
  | MultiErr error "error list"
  | OtherErr string

datatype panic =
    NilDereference | IndexOutOfRange | SliceOutOfRange | NilMapWrite | PanicWith error

datatype 'a outcome = Ret 'a | Fail error | Panic panic

text \<open>\<open>errors.IsNotFound\<close> and \<open>errors.IsResourceExpired\<close> of apimachinery read the reason.\<close>

fun IsNotFound :: "error \<Rightarrow> bool" where
  "IsNotFound (StatusErr NotFound _) = True"
| "IsNotFound _ = False"

fun IsResourceExpired :: "error \<Rightarrow> bool" where
  "IsResourceExpired (StatusErr ResourceExpired _) = True"
| "IsResourceExpired _ = False"

section \<open>Programs\<close>

record ('ev, 'w, 'l) io =
  trace :: "'ev list"
  world :: 'w
  local :: 'l

type_synonym ('ev, 'w, 'l, 'a) prog = "('ev, 'w, 'l) io \<Rightarrow> 'a outcome \<times> ('ev, 'w, 'l) io"

definition ret :: "'a \<Rightarrow> ('ev, 'w, 'l, 'a) prog" where
  "ret a = (\<lambda>s. (Ret a, s))"

definition fail :: "error \<Rightarrow> ('ev, 'w, 'l, 'a) prog" where
  "fail e = (\<lambda>s. (Fail e, s))"

definition crash :: "panic \<Rightarrow> ('ev, 'w, 'l, 'a) prog" where
  "crash p = (\<lambda>s. (Panic p, s))"

definition bnd ::
  "('ev, 'w, 'l, 'a) prog \<Rightarrow> ('a \<Rightarrow> ('ev, 'w, 'l, 'b) prog) \<Rightarrow> ('ev, 'w, 'l, 'b) prog" where
  "bnd m k = (\<lambda>s. case m s of
      (Ret a, t) \<Rightarrow> k a t
    | (Fail e, t) \<Rightarrow> (Fail e, t)
    | (Panic p, t) \<Rightarrow> (Panic p, t))"

text \<open>\<open>seq m k\<close> runs \<open>m\<close> for its effect; \<open>attempt m\<close> hands the error of \<open>m\<close> to the
  caller, as \<open>x, err := m()\<close> does before \<open>err\<close> is looked at.\<close>

definition seq ::
  "('ev, 'w, 'l, 'a) prog \<Rightarrow> ('ev, 'w, 'l, 'b) prog \<Rightarrow> ('ev, 'w, 'l, 'b) prog" where
  "seq m k = bnd m (\<lambda>_. k)"

definition attempt :: "('ev, 'w, 'l, 'a) prog \<Rightarrow> ('ev, 'w, 'l, error + 'a) prog" where
  "attempt m = (\<lambda>s. case m s of
      (Ret a, t) \<Rightarrow> (Ret (Inr a), t)
    | (Fail e, t) \<Rightarrow> (Ret (Inl e), t)
    | (Panic p, t) \<Rightarrow> (Panic p, t))"

text \<open>Reading and writing the operator's own data.\<close>

definition get_local :: "('ev, 'w, 'l, 'l) prog" where
  "get_local = (\<lambda>s. (Ret (local s), s))"

definition upd_local :: "('l \<Rightarrow> 'l) \<Rightarrow> ('ev, 'w, 'l, unit) prog" where
  "upd_local f = (\<lambda>s. (Ret (), s\<lparr>local := f (local s)\<rparr>))"

text \<open>A request to the outside: it is recorded, then the world answers.\<close>

definition request ::
  "'ev \<Rightarrow> ('w \<Rightarrow> 'a outcome \<times> 'w) \<Rightarrow> ('ev, 'w, 'l, 'a) prog" where
  "request ev f = (\<lambda>s. case f (world s) of
      (r, w) \<Rightarrow> (r, s\<lparr>trace := trace s @ [ev], world := w\<rparr>))"

text \<open>Pointer dereference, indexing and the slice expression \<open>xs[:n]\<close>.\<close>

definition deref :: "'a option \<Rightarrow> ('ev, 'w, 'l, 'a) prog" where
  "deref x = (case x of None \<Rightarrow> crash NilDereference | Some a \<Rightarrow> ret a)"

definition index :: "'a list \<Rightarrow> nat \<Rightarrow> ('ev, 'w, 'l, 'a) prog" where
  "index xs i = (if i < length xs then ret (xs ! i) else crash IndexOutOfRange)"

definition slice_to :: "'a list \<Rightarrow> nat \<Rightarrow> ('ev, 'w, 'l, 'a list) prog" where
  "slice_to xs n = (if n \<le> length xs then ret (take n xs) else crash SliceOutOfRange)"

fun for_each ::
  "('b \<Rightarrow> 'x \<Rightarrow> ('ev, 'w, 'l, 'b) prog) \<Rightarrow> 'b \<Rightarrow> 'x list \<Rightarrow> ('ev, 'w, 'l, 'b) prog" where
  "for_each f acc [] = ret acc"
| "for_each f acc (x # xs) = bnd (f acc x) (\<lambda>acc'. for_each f acc' xs)"

subsection \<open>Laws of programs\<close>

named_theorems prog_simps \<open>evaluation of programs at a state\<close>

lemma ret_apply [prog_simps]: "ret a s = (Ret a, s)"
  by (simp add: ret_def)

lemma fail_apply [prog_simps]: "fail e s = (Fail e, s)"
  by (simp add: fail_def)

lemma crash_apply [prog_simps]: "crash p s = (Panic p, s)"
  by (simp add: crash_def)

lemma get_local_apply [prog_simps]: "get_local s = (Ret (local s), s)"
  by (simp add: get_local_def)

lemma upd_local_apply [prog_simps]: "upd_local f s = (Ret (), s\<lparr>local := f (local s)\<rparr>)"
  by (simp add: upd_local_def)

lemma deref_apply [prog_simps]:
  "deref None s = (Panic NilDereference, s)" "deref (Some a) s = (Ret a, s)"
  by (simp_all add: deref_def prog_simps)

lemma bnd_ret [simp]: "bnd (ret a) k = k a"
  by (simp add: bnd_def ret_def)

lemma bnd_fail [simp]: "bnd (fail e) k = fail e"
  by (simp add: bnd_def fail_def)

lemma bnd_crash [simp]: "bnd (crash p) k = crash p"
  by (simp add: bnd_def crash_def)

lemma bnd_ret_right [simp]: "bnd m ret = m"
  by (rule ext) (simp add: bnd_def ret_def split: prod.splits outcome.splits)

lemma bnd_assoc: "bnd (bnd m f) g = bnd m (\<lambda>x. bnd (f x) g)"
  by (rule ext) (simp add: bnd_def split: prod.splits outcome.splits)

lemma attempt_ret [simp]: "attempt (ret a) = ret (Inr a)"
  by (simp add: attempt_def ret_def)

lemma attempt_fail [simp]: "attempt (fail e) = ret (Inl e)"
  by (simp add: attempt_def fail_def ret_def)

lemma attempt_crash [simp]: "attempt (crash p) = crash p"
  by (simp add: attempt_def crash_def)

text \<open>Sequencing from a known first result: the rule witnesses and branch lemmas compute with.\<close>

lemma bnd_Ret: "m s = (Ret a, t) \<Longrightarrow> bnd m k s = k a t"
  by (simp add: bnd_def)

lemma bnd_Fail: "m s = (Fail e, t) \<Longrightarrow> bnd m k s = (Fail e, t)"
  by (simp add: bnd_def)

lemma bnd_Panic: "m s = (Panic p, t) \<Longrightarrow> bnd m k s = (Panic p, t)"
  by (simp add: bnd_def)

lemma bnd_eq_Ret:
  "bnd m k s = (Ret b, u) \<longleftrightarrow> (\<exists>a t. m s = (Ret a, t) \<and> k a t = (Ret b, u))"
  by (auto simp: bnd_def split: prod.splits outcome.splits)

lemma seq_eq_Ret:
  "seq m k s = (Ret b, u) \<longleftrightarrow> (\<exists>a t. m s = (Ret a, t) \<and> k t = (Ret b, u))"
  by (simp add: seq_def bnd_eq_Ret)

lemma attempt_eq_Ret:
  "attempt m s = (Ret r, t) \<longleftrightarrow>
     (\<exists>a. m s = (Ret a, t) \<and> r = Inr a) \<or> (\<exists>e. m s = (Fail e, t) \<and> r = Inl e)"
  by (auto simp: attempt_def split: prod.splits outcome.splits)

text \<open>Inversion of runs that return: the collection \<open>run_simps\<close> reads a successful run backwards.\<close>

named_theorems run_simps \<open>when a program returns\<close>

lemma pure_eq_Ret [run_simps]:
  "ret a s = (Ret b, t) \<longleftrightarrow> b = a \<and> t = s" "fail e s \<noteq> (Ret b, t)" "crash p s \<noteq> (Ret b, t)"
  "get_local s = (Ret l, t) \<longleftrightarrow> l = local s \<and> t = s"
  by (auto simp: prog_simps)

lemma upd_local_eq_Ret [run_simps]:
  "upd_local f s = (Ret u, t) \<longleftrightarrow> t = s\<lparr>local := f (local s)\<rparr>"
  by (auto simp: prog_simps)

lemma deref_eq_Ret [run_simps]: "deref x s = (Ret a, t) \<longleftrightarrow> x = Some a \<and> t = s"
  by (cases x) (auto simp: prog_simps)

lemma index_eq_Ret [run_simps]: "index xs i s = (Ret a, t) \<longleftrightarrow> i < length xs \<and> a = xs ! i \<and> t = s"
  by (auto simp: index_def prog_simps)

lemma slice_to_eq_Ret [run_simps]:
  "slice_to xs n s = (Ret a, t) \<longleftrightarrow> n \<le> length xs \<and> a = take n xs \<and> t = s"
  by (auto simp: slice_to_def prog_simps)

lemma request_eq_Ret [run_simps]:
  "request ev f s = (Ret a, t) \<longleftrightarrow>
     (\<exists>w. f (world s) = (Ret a, w) \<and> t = s\<lparr>trace := trace s @ [ev], world := w\<rparr>)"
  by (auto simp: request_def split: prod.splits)

lemmas inv_Ret = run_simps bnd_eq_Ret seq_eq_Ret attempt_eq_Ret

lemma for_each_append:
  "for_each f acc (xs @ ys) = bnd (for_each f acc xs) (\<lambda>acc'. for_each f acc' ys)"
  by (induction xs arbitrary: acc) (simp_all add: bnd_assoc)

lemma for_each_cong:
  "(\<And>acc x. x \<in> set xs \<Longrightarrow> f acc x = g acc x) \<Longrightarrow> for_each f acc xs = for_each g acc xs"
  by (induction xs arbitrary: acc) simp_all

lemma for_each_pure:
  "(\<And>acc x. x \<in> set xs \<Longrightarrow> f acc x = ret (g acc x)) \<Longrightarrow>
     for_each f acc xs = ret (foldl g acc xs)"
  by (induction xs arbitrary: acc) simp_all


text \<open>The result of a loop that succeeds, when an invariant of the state determines each step.\<close>

lemma for_each_result:
  assumes run: "for_each f acc xs s = (Ret r, t)" and inv: "I s"
    and step: "\<And>acc x s r t. x \<in> set xs \<Longrightarrow> I s \<Longrightarrow> f acc x s = (Ret r, t) \<Longrightarrow> r = g acc x \<and> I t"
  shows "r = foldl g acc xs \<and> I t"
  using run inv step
proof (induction xs arbitrary: acc s)
  case Nil
  then show ?case by (simp add: ret_def)
next
  case (Cons x xs)
  from Cons.prems(1) obtain b u where x: "f acc x s = (Ret b, u)" and xs: "for_each f b xs u = (Ret r, t)"
    by (auto simp: bnd_eq_Ret)
  from Cons.prems(3) [OF _ Cons.prems(2) x] have b: "b = g acc x" and u: "I u" by simp_all
  have "r = foldl g b xs \<and> I t"
    by (rule Cons.IH [OF xs u]) (rule Cons.prems(3), simp_all)
  with b show ?case by simp
qed

text \<open>A loop that succeeds has succeeded on every item.\<close>

lemma for_each_item:
  assumes "for_each f acc xs s = (Ret r, t)" and "x \<in> set xs"
  shows "\<exists>acc' s' r' t'. f acc' x s' = (Ret r', t')"
  using assms by (induction xs arbitrary: acc s) (auto simp: bnd_eq_Ret)

text \<open>An invariant of the items done so far and the accumulator.\<close>

lemma for_each_invariant:
  assumes "for_each f acc xs s = (Ret r, t)" and "P [] acc"
    and "\<And>ys y acc s r t. y \<in> set xs \<Longrightarrow> P ys acc \<Longrightarrow> f acc y s = (Ret r, t) \<Longrightarrow> P (ys @ [y]) r"
  shows "P xs r"
proof -
  have "P (zs @ ys) r'" if "for_each f acc' ys s' = (Ret r', t')" and "P zs acc'" and "set ys \<subseteq> set xs" for zs ys acc' s' r' t'
    using that
  proof (induction ys arbitrary: zs acc' s')
    case (Cons y ys)
    then obtain b u where "f acc' y s' = (Ret b, u)" and "for_each f b ys u = (Ret r', t')" by (auto simp: bnd_eq_Ret)
    with Cons.IH [of b u "zs @ [y]"] Cons.prems assms(3) [of y zs acc'] show ?case by auto
  qed (simp add: ret_def)
  from this [of acc xs s r t "[]"] assms show ?thesis by simp
qed

text \<open>The requests of a loop that succeeds, when the requests of a successful step are known.\<close>

lemma for_each_trace:
  assumes "for_each f acc xs s = (Ret r, t)"
    and "\<And>acc x s r t. x \<in> set xs \<Longrightarrow> f acc x s = (Ret r, t) \<Longrightarrow> trace t = trace s @ g x"
  shows "trace t = trace s @ concat (map g xs)"
  using assms
proof (induction xs arbitrary: acc s)
  case (Cons x xs)
  from Cons.prems(1) obtain b u where "f acc x s = (Ret b, u)" and "for_each f b xs u = (Ret r, t)"
    by (auto simp: bnd_eq_Ret)
  with Cons.IH [of b u] Cons.prems(2) show ?case by simp
qed (simp add: ret_def)

text \<open>An invariant of the items done so far, the accumulator and the requests sent so far.\<close>

lemma for_each_events:
  assumes "for_each f acc xs s = (Ret r, t)" and "P [] acc []"
    and "\<And>ys y acc evs s r t. y \<in> set xs \<Longrightarrow> P ys acc evs \<Longrightarrow> f acc y s = (Ret r, t) \<Longrightarrow>
      \<exists>tr. trace t = trace s @ tr \<and> P (ys @ [y]) r (evs @ tr)"
  shows "\<exists>evs. trace t = trace s @ evs \<and> P xs r evs"
proof -
  have "\<exists>tr. trace t' = trace s' @ tr \<and> P (zs @ ys) r' (evs @ tr)"
    if "for_each f acc' ys s' = (Ret r', t')" and "P zs acc' evs" and "set ys \<subseteq> set xs" for zs ys acc' s' r' t' evs
    using that
  proof (induction ys arbitrary: zs acc' s' evs)
    case (Cons y ys)
    then obtain b u where b: "f acc' y s' = (Ret b, u)" and u: "for_each f b ys u = (Ret r', t')" by (auto simp: bnd_eq_Ret)
    from Cons.prems have "y \<in> set xs" "P zs acc' evs" by simp_all
    from assms(3) [OF this b] obtain tr where "trace u = trace s' @ tr" "P (zs @ [y]) b (evs @ tr)" by (elim exE conjE)
    with Cons.IH [OF u this(2)] Cons.prems(3) show ?case by auto
  qed (simp add: ret_def)
  from this [of acc xs s r t "[]" "[]"] assms show ?thesis by simp
qed

text \<open>A step that sends under a condition, and a loop whose steps always succeed and only send.\<close>

lemma for_each_no_Fail:
  assumes "\<And>acc x s e t. f acc x s \<noteq> (Fail e, t)"
  shows "for_each f acc xs s \<noteq> (Fail e, t)"
  by (induction xs arbitrary: acc s) (auto simp: ret_def bnd_def assms split: prod.splits outcome.splits)

lemma send_if:
  "\<exists>w. (if c then request ev (\<lambda>w. (Ret (), f w)) else ret ()) s
     = (Ret (), s\<lparr>trace := trace s @ (if c then [ev] else []), world := w\<rparr>)"
  by (cases c) (auto simp: request_def ret_def intro: exI [of _ "world s"])

lemma for_each_sends:
  assumes "\<And>x s. \<exists>w. f () x s = (Ret (), s\<lparr>trace := trace s @ g x, world := w\<rparr>)"
  shows "\<exists>w. for_each f () xs s = (Ret (), s\<lparr>trace := trace s @ concat (map g xs), world := w\<rparr>)"
proof (induction xs arbitrary: s)
  case Nil
  show ?case by (auto simp: ret_def intro: exI [of _ "world s"])
next
  case (Cons x xs)
  obtain w where w: "f () x s = (Ret (), s\<lparr>trace := trace s @ g x, world := w\<rparr>)" using assms by blast
  from Cons.IH [of "s\<lparr>trace := trace s @ g x, world := w\<rparr>"] w show ?case by (auto simp: bnd_def)
qed

section \<open>What a program may do\<close>

text \<open>
  A program obeys a relation between states when every run, whatever its outcome, ends in a
  state related to the one it started in. For a reflexive and transitive relation this composes
  along the structure of programs; the locale proves that once. Two relations are used: every
  new request satisfies a predicate, and a part of the operator's data is left as it is.
\<close>

definition obeys ::
  "(('ev, 'w, 'l) io \<Rightarrow> ('ev, 'w, 'l) io \<Rightarrow> bool) \<Rightarrow> ('ev, 'w, 'l, 'a) prog \<Rightarrow> bool" where
  "obeys R m \<longleftrightarrow> (\<forall>s. R s (snd (m s)))"

text \<open>Total correctness: the run from \<open>s\<close> returns \<open>a\<close>, in a state related to \<open>s\<close>.\<close>

definition returns ::
  "(('ev, 'w, 'l) io \<Rightarrow> ('ev, 'w, 'l) io \<Rightarrow> bool) \<Rightarrow> ('ev, 'w, 'l, 'a) prog \<Rightarrow> ('ev, 'w, 'l) io \<Rightarrow>
     'a \<Rightarrow> bool" where
  "returns R m s a \<longleftrightarrow> (\<exists>t. m s = (Ret a, t) \<and> R s t)"

text \<open>The same for runs that may fail, but only with an allowed error, and then in a related state too.\<close>

definition settles ::
  "(('ev, 'w, 'l) io \<Rightarrow> ('ev, 'w, 'l) io \<Rightarrow> bool) \<Rightarrow> (error \<Rightarrow> bool) \<Rightarrow> ('ev, 'w, 'l, 'a) prog \<Rightarrow> ('ev, 'w, 'l) io \<Rightarrow>
     'a \<Rightarrow> bool" where
  "settles R allowed m s a \<longleftrightarrow> (\<exists>t. R s t \<and> (m s = (Ret a, t) \<or> (\<exists>e. m s = (Fail e, t) \<and> allowed e)))"

named_theorems frame_intros \<open>rules for obeys over the program constructors\<close>

locale frame =
  fixes R :: "('ev, 'w, 'l) io \<Rightarrow> ('ev, 'w, 'l) io \<Rightarrow> bool"
  assumes R_refl: "R s s"
    and R_trans: "R s t \<Longrightarrow> R t u \<Longrightarrow> R s u"
begin

lemma obeys_pure [frame_intros]:
  "obeys R (ret a)" "obeys R (fail e)" "obeys R (crash p)" "obeys R get_local"
  by (simp_all add: obeys_def prog_simps R_refl)

text \<open>The continuation may use what the first program returns.\<close>

lemma obeys_bnd_result:
  assumes m: "obeys R m" and k: "\<And>a s t. m s = (Ret a, t) \<Longrightarrow> obeys R (k a)"
  shows "obeys R (bnd m k)"
proof -
  have "R s (snd (bnd m k s))" for s
  proof (cases "m s")
    case (Pair r t)
    with m have st: "R s t" by (auto simp: obeys_def dest: spec [of _ s])
    show ?thesis
    proof (cases r)
      case (Ret a)
      from k [OF Pair [unfolded Ret]] have "R t (snd (k a t))" by (simp add: obeys_def)
      with st Pair Ret show ?thesis by (auto simp: bnd_def intro: R_trans)
    qed (use st Pair in \<open>simp_all add: bnd_def\<close>)
  qed
  then show ?thesis by (simp add: obeys_def)
qed

lemma obeys_bnd [frame_intros]: "obeys R m \<Longrightarrow> (\<And>a. obeys R (k a)) \<Longrightarrow> obeys R (bnd m k)"
  by (rule obeys_bnd_result)

lemma obeys_seq [frame_intros]: "obeys R m \<Longrightarrow> obeys R k \<Longrightarrow> obeys R (seq m k)"
  by (simp add: seq_def obeys_bnd)

lemma obeys_attempt [frame_intros]:
  assumes "obeys R m"
  shows "obeys R (attempt m)"
proof -
  have "snd (attempt m s) = snd (m s)" for s
    by (simp add: attempt_def split: prod.splits outcome.splits)
  with assms show ?thesis by (simp add: obeys_def)
qed

lemma obeys_deref [frame_intros]: "obeys R (deref x)"
  by (cases x) (simp_all add: deref_def obeys_pure)

lemma obeys_index [frame_intros]: "obeys R (index xs i)"
  by (simp add: index_def obeys_pure)

lemma obeys_slice_to [frame_intros]: "obeys R (slice_to xs n)"
  by (simp add: slice_to_def obeys_pure)

lemma obeys_for_each [frame_intros]:
  "(\<And>acc x. x \<in> set xs \<Longrightarrow> obeys R (f acc x)) \<Longrightarrow> obeys R (for_each f acc xs)"
  by (induction xs arbitrary: acc) (simp_all add: obeys_pure obeys_bnd)

lemma obeys_if [frame_intros]:
  "(c \<Longrightarrow> obeys R m) \<Longrightarrow> (\<not> c \<Longrightarrow> obeys R n) \<Longrightarrow> obeys R (if c then m else n)"
  by simp

lemma obeys_case_option [frame_intros]:
  "(x = None \<Longrightarrow> obeys R m) \<Longrightarrow> (\<And>y. x = Some y \<Longrightarrow> obeys R (f y)) \<Longrightarrow>
     obeys R (case x of None \<Rightarrow> m | Some y \<Rightarrow> f y)"
  by (cases x) simp_all

lemma obeys_case_sum [frame_intros]:
  "(\<And>e. x = Inl e \<Longrightarrow> obeys R (f e)) \<Longrightarrow> (\<And>y. x = Inr y \<Longrightarrow> obeys R (g y)) \<Longrightarrow>
     obeys R (case x of Inl e \<Rightarrow> f e | Inr y \<Rightarrow> g y)"
  by (cases x) simp_all

lemma obeys_case_prod [frame_intros]:
  "(\<And>y z. x = (y, z) \<Longrightarrow> obeys R (f y z)) \<Longrightarrow> obeys R (case x of (y, z) \<Rightarrow> f y z)"
  by (cases x) simp

lemma obeys_Let [frame_intros]: "obeys R (f x) \<Longrightarrow> obeys R (let y = x in f y)"
  by simp

lemma returns_ret: "returns R (ret a) s a"
  by (simp add: returns_def prog_simps R_refl)

lemma returns_get_local: "returns R get_local s (local s)"
  by (simp add: returns_def prog_simps R_refl)

lemma returns_deref: "returns R (deref (Some a)) s a"
  by (simp add: returns_def prog_simps R_refl)

lemma returns_bnd:
  assumes "returns R m s a" and "\<And>t. R s t \<Longrightarrow> returns R (k a) t b"
  shows "returns R (bnd m k) s b"
  using assms by (fastforce simp: returns_def bnd_def intro: R_trans)

lemma returns_seq:
  assumes "returns R m s a" and "\<And>t. R s t \<Longrightarrow> returns R k t b"
  shows "returns R (seq m k) s b"
  unfolding seq_def by (rule returns_bnd [OF assms(1)]) (rule assms(2))

lemma returns_for_each:
  assumes "\<And>acc x t. x \<in> set xs \<Longrightarrow> R s t \<Longrightarrow> returns R (f acc x) t (g acc x)"
  shows "returns R (for_each f acc xs) s (foldl g acc xs)"
  using assms
proof (induction xs arbitrary: acc s)
  case Nil
  show ?case by (simp add: returns_ret)
next
  case (Cons x xs)
  have "returns R (for_each f (g acc x) xs) t (foldl g (g acc x) xs)" if "R s t" for t
    by (rule Cons.IH, rule Cons.prems) (auto intro: R_trans [OF that])
  moreover have "returns R (f acc x) s (g acc x)" by (rule Cons.prems) (simp_all add: R_refl)
  ultimately show ?case by (auto intro: returns_bnd)
qed

lemma settles_returns: "returns R m s a \<Longrightarrow> settles R allowed m s a"
  by (auto simp: returns_def settles_def)

lemma settles_bnd:
  assumes "settles R allowed m s a" and "\<And>t. R s t \<Longrightarrow> settles R allowed (k a) t b"
  shows "settles R allowed (bnd m k) s b"
proof -
  from assms(1) obtain t where t: "R s t" "m s = (Ret a, t) \<or> (\<exists>e. m s = (Fail e, t) \<and> allowed e)"
    by (auto simp: settles_def)
  from assms(2) [OF t(1)] obtain u where u: "R t u" "k a t = (Ret b, u) \<or> (\<exists>e. k a t = (Fail e, u) \<and> allowed e)"
    by (auto simp: settles_def)
  from t(2) show ?thesis
  proof
    assume "m s = (Ret a, t)"
    with u R_trans [OF t(1) u(1)] show ?thesis by (auto simp: settles_def bnd_def)
  next
    assume "\<exists>e. m s = (Fail e, t) \<and> allowed e"
    with t(1) show ?thesis by (auto simp: settles_def bnd_def)
  qed
qed

lemma settles_for_each:
  assumes "\<And>acc x t. x \<in> set xs \<Longrightarrow> R s t \<Longrightarrow> settles R allowed (f acc x) t (g acc x)"
  shows "settles R allowed (for_each f acc xs) s (foldl g acc xs)"
  using assms
proof (induction xs arbitrary: acc s)
  case Nil
  show ?case by (simp add: settles_returns returns_ret)
next
  case (Cons x xs)
  have "settles R allowed (for_each f (g acc x) xs) t (foldl g (g acc x) xs)" if "R s t" for t
    by (rule Cons.IH, rule Cons.prems) (auto intro: R_trans [OF that])
  moreover have "settles R allowed (f acc x) s (g acc x)" by (rule Cons.prems) (simp_all add: R_refl)
  ultimately show ?case by (auto intro: settles_bnd)
qed

end

lemma settles_Ret: "settles R allowed m s a \<Longrightarrow> m s = (Ret b, t) \<Longrightarrow> b = a \<and> R s t"
  by (auto simp: settles_def)

lemma returnsD: "returns R m s a \<Longrightarrow> m s = (r, t) \<Longrightarrow> r = Ret a \<and> R s t"
  by (auto simp: returns_def)

definition emits_rel :: "('ev \<Rightarrow> bool) \<Rightarrow> ('ev, 'w, 'l) io \<Rightarrow> ('ev, 'w, 'l) io \<Rightarrow> bool" where
  "emits_rel P s t \<longleftrightarrow> (\<exists>tr. trace t = trace s @ tr \<and> list_all P tr)"

definition keeps_rel :: "('l \<Rightarrow> 'b) \<Rightarrow> ('ev, 'w, 'l) io \<Rightarrow> ('ev, 'w, 'l) io \<Rightarrow> bool" where
  "keeps_rel f s t \<longleftrightarrow> f (local t) = f (local s)"

abbreviation emits :: "('ev \<Rightarrow> bool) \<Rightarrow> ('ev, 'w, 'l, 'a) prog \<Rightarrow> bool" where
  "emits P m \<equiv> obeys (emits_rel P) m"

abbreviation keeps :: "('l \<Rightarrow> 'b) \<Rightarrow> ('ev, 'w, 'l, 'a) prog \<Rightarrow> bool" where
  "keeps f m \<equiv> obeys (keeps_rel f) m"

interpretation emits_frame: frame "emits_rel P" for P
proof unfold_locales
  fix s t u :: "('a, 'b, 'c) io"
  show "emits_rel P s s" by (simp add: emits_rel_def)
  assume "emits_rel P s t" and "emits_rel P t u"
  then show "emits_rel P s u" by (fastforce simp: emits_rel_def)
qed

interpretation keeps_frame: frame "keeps_rel f" for f
  by unfold_locales (simp_all add: keeps_rel_def)

text \<open>Programs that leave the state as it is.\<close>

interpretation same_frame: frame "(=)"
  by unfold_locales simp_all

lemma sameD: "obeys (=) m \<Longrightarrow> m s = (r, t) \<Longrightarrow> t = s"
  by (auto simp: obeys_def dest: spec [of _ s])

lemma emits_request [frame_intros]: "P ev \<Longrightarrow> emits P (request ev f)"
  by (auto simp: obeys_def emits_rel_def request_def split: prod.splits)

lemma emits_upd_local [frame_intros]: "emits P (upd_local g)"
  by (simp add: obeys_def emits_rel_def prog_simps)

lemma keeps_request [frame_intros]: "keeps f (request ev g)"
  by (simp add: obeys_def keeps_rel_def request_def split: prod.splits)

lemma keeps_upd_local [frame_intros]: "(\<And>l. f (g l) = f l) \<Longrightarrow> keeps f (upd_local g)"
  by (simp add: obeys_def keeps_rel_def prog_simps)

lemma emits_mono: "emits P m \<Longrightarrow> (\<And>ev. P ev \<Longrightarrow> Q ev) \<Longrightarrow> emits Q m"
  by (auto simp: obeys_def emits_rel_def list_all_iff) blast

lemma emitsD: "emits P m \<Longrightarrow> m s = (r, t) \<Longrightarrow> \<exists>tr. trace t = trace s @ tr \<and> list_all P tr"
  by (auto simp: obeys_def emits_rel_def dest: spec [of _ s])

lemma keepsD: "keeps f m \<Longrightarrow> m s = (r, t) \<Longrightarrow> f (local t) = f (local s)"
  by (auto simp: obeys_def keeps_rel_def dest: spec [of _ s])

text \<open>The requests of one run, for statements about their order.\<close>

definition requests :: "('ev, 'w, 'l, 'a) prog \<Rightarrow> ('ev, 'w, 'l) io \<Rightarrow> 'ev list" where
  "requests m s = drop (length (trace s)) (trace (snd (m s)))"

lemma requests_emits: "emits P m \<Longrightarrow> list_all P (requests m s)"
  by (auto simp: obeys_def emits_rel_def requests_def dest: spec [of _ s])

text \<open>Every item of a loop that succeeds has had its step between the first and the last state.\<close>

lemma for_each_item_trace:
  assumes "for_each f acc xs s = (Ret r, t)" and "x \<in> set xs"
    and ext: "\<And>acc x. emits (\<lambda>_. True) (f acc x)" and keep: "\<And>acc x. keeps h (f acc x)"
  shows "\<exists>acc' s' r' t'. f acc' x s' = (Ret r', t') \<and> h (local s') = h (local s)
     \<and> prefix (trace s) (trace s') \<and> prefix (trace t') (trace t)"
  using assms(1,2)
proof (induction xs arbitrary: acc s)
  case (Cons y xs)
  from Cons.prems(1) obtain b u where y: "f acc y s = (Ret b, u)" and xs: "for_each f b xs u = (Ret r, t)"
    by (auto simp: bnd_eq_Ret)
  have "emits (\<lambda>_. True) (for_each f b xs)" by (intro frame_intros ext)
  then have ut: "prefix (trace u) (trace t)" using xs by (auto dest!: emitsD)
  have su: "prefix (trace s) (trace u)" using y ext by (auto dest!: emitsD simp: prefix_def)
  have hu: "h (local u) = h (local s)" by (rule keepsD [OF keep y])
  show ?case
  proof (cases "x = y")
    case True
    with y ut show ?thesis by blast
  next
    case False
    with Cons.prems(2) Cons.IH [OF xs] hu show ?thesis using su prefix_order.trans by fastforce
  qed
qed simp

lemma emits_any: "emits P m \<Longrightarrow> emits (\<lambda>_. True) m"
  by (erule emits_mono) simp

lemma first_request:
  assumes "\<And>a. emits (\<lambda>_. True) (k a)"
  shows "\<exists>tr. trace (snd (bnd (request ev f) k s)) = trace s @ ev # tr"
proof (cases "f (world s)")
  case (Pair r w)
  let ?s = "s\<lparr>trace := trace s @ [ev], world := w\<rparr>"
  have "\<exists>tr. trace (snd (k a ?s)) = trace ?s @ tr" for a
    using assms [of a] by (auto simp: obeys_def emits_rel_def dest: spec [of _ ?s])
  with Pair show ?thesis by (cases r) (auto simp: bnd_def request_def)
qed

lemma request_then:
  assumes "P ev" and "\<And>a w w'. f w = (Ret a, w') \<Longrightarrow> emits P (k a)"
  shows "emits P (bnd (request ev f) k)"
proof -
  have "emits_rel P s (snd (bnd (request ev f) k s))" for s
  proof (cases "f (world s)")
    case (Pair r w)
    let ?s = "s\<lparr>trace := trace s @ [ev], world := w\<rparr>"
    have step: "emits_rel P s ?s" using assms(1) by (simp add: emits_rel_def)
    show ?thesis
    proof (cases r)
      case (Ret a)
      with Pair assms(2) have "emits_rel P ?s (snd (k a ?s))" by (auto simp: obeys_def)
      from emits_frame.R_trans [OF step this] show ?thesis
        by (simp add: bnd_def request_def Pair Ret)
    qed (use Pair step in \<open>simp_all add: bnd_def request_def\<close>)
  qed
  then show ?thesis by (simp add: obeys_def)
qed

text \<open>Requests that are allowed by what a part of the operator's data says: the part stays, and
  when it has the given value the new requests satisfy the predicate.\<close>

definition guarded_rel ::
  "('l \<Rightarrow> 'b) \<Rightarrow> 'b \<Rightarrow> ('ev \<Rightarrow> bool) \<Rightarrow> ('ev, 'w, 'l) io \<Rightarrow> ('ev, 'w, 'l) io \<Rightarrow> bool" where
  "guarded_rel f c P s t \<longleftrightarrow> keeps_rel f s t \<and> (f (local s) = c \<longrightarrow> emits_rel P s t)"

interpretation guarded_frame: frame "guarded_rel f c P" for f c P
  by unfold_locales
    (auto simp: guarded_rel_def keeps_rel_def emits_frame.R_refl intro: emits_frame.R_trans)

lemma guardedI [intro]: "keeps f m \<Longrightarrow> emits P m \<Longrightarrow> obeys (guarded_rel f c P) m"
  by (simp add: obeys_def guarded_rel_def)

lemma guarded_get_local:
  assumes "\<And>l. keeps f (k l)" and "\<And>l. f l = c \<Longrightarrow> obeys (guarded_rel f c P) (k l)"
  shows "obeys (guarded_rel f c P) (bnd get_local k)"
  using assms by (auto simp: obeys_def guarded_rel_def bnd_def prog_simps)

lemma guardedD:
  "obeys (guarded_rel f c P) m \<Longrightarrow> f (local s) = c \<Longrightarrow> m s = (r, t) \<Longrightarrow>
     \<exists>tr. trace t = trace s @ tr \<and> list_all P tr"
  by (auto simp: obeys_def guarded_rel_def emits_rel_def dest: spec [of _ s])

section \<open>Strings\<close>

text \<open>\<open>strings.Split\<close> with a one-byte separator: the empty string has one empty part.\<close>

fun split_on :: "char \<Rightarrow> string \<Rightarrow> string list" where
  "split_on c [] = [[]]"
| "split_on c (x # xs) =
     (if x = c then [] # split_on c xs
      else (case split_on c xs of [] \<Rightarrow> [[x]] | y # ys \<Rightarrow> (x # y) # ys))"

text \<open>\<open>strings.Split(s, c)[len(strings.Split(s, c))-1]\<close> and \<open>strings.Split(s, c)[0]\<close>:
  in range, since a split is never empty.\<close>

definition last_part :: "char \<Rightarrow> string \<Rightarrow> string" where
  "last_part c s = last (split_on c s)"

definition first_part :: "char \<Rightarrow> string \<Rightarrow> string" where
  "first_part c s = hd (split_on c s)"

fun join_with :: "char \<Rightarrow> string list \<Rightarrow> string" where
  "join_with c [] = []"
| "join_with c [x] = x"
| "join_with c (x # xs) = x @ c # join_with c xs"

definition has_suffix :: "string \<Rightarrow> string \<Rightarrow> bool" where
  "has_suffix s suf \<longleftrightarrow> length suf \<le> length s \<and> drop (length s - length suf) s = suf"

definition trim_prefix :: "string \<Rightarrow> string \<Rightarrow> string" where
  "trim_prefix s pre = (if take (length pre) s = pre then drop (length pre) s else s)"

lemma split_on_nonempty [simp]: "split_on c s \<noteq> []"
  by (induction s) (auto split: list.splits)

lemma join_split_on: "join_with c (split_on c s) = s"
proof (induction s)
  case (Cons x xs)
  obtain y ys where ys: "split_on c xs = y # ys" by (cases "split_on c xs") auto
  with Cons.IH show ?case by (cases ys) auto
qed simp

lemma split_on_no_sep: "y \<in> set (split_on c s) \<Longrightarrow> c \<notin> set y"
  by (induction s arbitrary: y) (auto split: list.splits if_splits)

lemma split_on_plain: "c \<notin> set s \<Longrightarrow> split_on c s = [s]"
  by (induction s) auto

lemma split_on_cut: "c \<notin> set a \<Longrightarrow> split_on c (a @ c # b) = a # split_on c b"
  by (induction a) auto

lemma split_on_append_sep: "split_on c (a @ c # b) = split_on c a @ split_on c b"
proof (induction a)
  case (Cons x xs)
  then show ?case by (cases "split_on c xs") auto
qed simp

lemma last_part_append: "c \<notin> set b \<Longrightarrow> last_part c (a @ c # b) = b"
  by (simp add: last_part_def split_on_append_sep split_on_plain)

lemma first_part_append: "c \<notin> set a \<Longrightarrow> first_part c (a @ c # b) = a"
  by (simp add: first_part_def split_on_cut)

lemma first_part_no_sep: "c \<notin> set (first_part c s)"
  using split_on_no_sep [OF hd_in_set [OF split_on_nonempty]] by (simp add: first_part_def)

lemma first_part_eq_takeWhile: "first_part c s = takeWhile (\<lambda>x. x \<noteq> c) s"
  unfolding first_part_def
proof (induction s)
  case (Cons x xs)
  then show ?case by (cases "split_on c xs") auto
qed simp

lemma has_suffix_iff: "has_suffix s suf \<longleftrightarrow> (\<exists>pre. s = pre @ suf)"
proof
  assume "has_suffix s suf"
  then have "s = take (length s - length suf) s @ suf"
    by (metis append_take_drop_id has_suffix_def)
  then show "\<exists>pre. s = pre @ suf" by blast
qed (auto simp: has_suffix_def)

text \<open>Cutting at the first separator is unique: joined keys can be read back.\<close>

lemma append_sep_inject:
  "c \<notin> set a \<Longrightarrow> c \<notin> set a' \<Longrightarrow> a @ c # b = a' @ c # b' \<longleftrightarrow> a = a' \<and> b = b'"
proof (induction a arbitrary: a')
  case Nil
  then show ?case by (cases a') auto
next
  case (Cons x xs)
  then show ?case by (cases a') auto
qed

section \<open>Slices and sets of keys\<close>

text \<open>Loops that append to a slice.\<close>

lemma foldl_snoc: "foldl (\<lambda>acc x. acc @ [f x]) acc xs = acc @ map f xs"
  by (induction xs arbitrary: acc) simp_all

lemma foldl_append: "foldl (\<lambda>acc x. acc @ f x) acc xs = acc @ concat (map f xs)"
  by (induction xs arbitrary: acc) simp_all

text \<open>Permuting what a loop collects: the generic facts behind Go's unspecified map order.\<close>

lemma set_concat_map_perm: "set xs = set ys \<Longrightarrow> set (concat (map f xs)) = set (concat (map f ys))"
  by auto

lemma map_of_perm:
  assumes "mset xs = mset ys" and "distinct (map fst xs)"
  shows "map_of xs = map_of ys"
proof -
  from assms have "distinct (map fst ys)"
    by (metis distinct_map mset_eq_imp_distinct_iff mset_eq_setD)
  with assms show ?thesis by (metis map_of_inject_set mset_eq_setD)
qed


text \<open>A map filled by a loop holds exactly the pairs, when the pairs are functional. Maps that the
  sources compare with \<open>reflect.DeepEqual\<close> are mappings, whose equality can be computed.\<close>

definition upd_all :: "('k, 'v) mapping \<Rightarrow> ('k \<times> 'v) list \<Rightarrow> ('k, 'v) mapping" where
  "upd_all m ps = foldl (\<lambda>m (k, v). Mapping.update k v m) m ps"

lemma upd_all_simps [simp]:
  "upd_all m [] = m" "upd_all m ((k, v) # ps) = upd_all (Mapping.update k v m) ps"
  by (simp_all add: upd_all_def)

lemma upd_all_append: "upd_all m (ps @ qs) = upd_all (upd_all m ps) qs"
  by (simp add: upd_all_def)

definition functional :: "('k \<times> 'v) set \<Rightarrow> bool" where
  "functional A \<longleftrightarrow> (\<forall>k v v'. (k, v) \<in> A \<longrightarrow> (k, v') \<in> A \<longrightarrow> v = v')"

lemma functional_distinct: "distinct (map fst ps) \<Longrightarrow> functional (set ps)"
  by (auto simp: functional_def dest: eq_key_imp_eq_value)

lemma upd_all_eq:
  assumes "functional (set ps)"
  shows "Mapping.lookup (upd_all Mapping.empty ps) k = Some v \<longleftrightarrow> (k, v) \<in> set ps"
  using assms
proof (induction ps rule: rev_induct)
  case (snoc p ps)
  obtain a b where p: "p = (a, b)" by (cases p)
  from snoc.prems have "functional (set ps)" by (auto simp: functional_def)
  with snoc show ?case by (auto simp: p upd_all_append functional_def lookup_update')
qed (simp add: lookup_empty)

lemma upd_all_cong:
  assumes "set ps = set qs" and "functional (set ps)"
  shows "upd_all Mapping.empty ps = upd_all Mapping.empty qs"
proof (rule mapping_eqI)
  fix k
  show "Mapping.lookup (upd_all Mapping.empty ps) k = Mapping.lookup (upd_all Mapping.empty qs) k"
    using assms upd_all_eq [of ps k] upd_all_eq [of qs k]
    by (cases "Mapping.lookup (upd_all Mapping.empty ps) k";
        cases "Mapping.lookup (upd_all Mapping.empty qs) k") auto
qed

end
