(* ===== verification/API_Types.thy ===== *)
theory API_Types
  imports GLB_Prelude
begin

text \<open>
  The custom resources of package api/v1alpha1 and the parts of the Kubernetes types they embed.

  Go structs are records with the source's field names after a short prefix; a pointer that the
  sources test against nil is an \<open>option\<close>; a Go map that is only read and written by key is a
  partial map. The integer fields (TTL, thresholds, ports) are read, compared and copied, never
  computed with, so they are kept as \<open>int\<close>.
\<close>

section \<open>Kubernetes types the resources embed\<close>

text \<open>Of \<open>metav1.ObjectMeta\<close>, \<open>metav1.Condition\<close> and \<open>corev1.Probe\<close> the fields that the sources
  read or write.\<close>

text \<open>A \<open>map[string]string\<close> that the sources compare: \<open>None\<close> is the nil map, which
  \<open>reflect.DeepEqual\<close> tells from an empty one.\<close>

type_synonym string_map = "(string, string) mapping option"

record ObjectMeta =
  om_Name :: string
  om_Namespace :: string
  om_Labels :: string_map
  om_Annotations :: string_map
  om_Finalizers :: "string list"
  om_DeletionTimestamp :: "int option"
  om_ResourceVersion :: string

record Condition =
  cond_Type :: string
  cond_Status :: string
  cond_LastTransitionTime :: int
  cond_Reason :: string
  cond_Message :: string

type_synonym Conditions = "Condition list"

record HTTPHeader =
  hh_Name :: string
  hh_Value :: string

record IntOrString =
  ios_IntVal :: int
  ios_StrVal :: string

record HTTPGetAction =
  hg_Path :: string
  hg_Port :: IntOrString
  hg_Host :: string
  hg_Scheme :: string
  hg_HTTPHeaders :: "HTTPHeader list"

record Probe =
  pr_HTTPGet :: "HTTPGetAction option"
  pr_InitialDelaySeconds :: int
  pr_TimeoutSeconds :: int
  pr_PeriodSeconds :: int
  pr_SuccessThreshold :: int
  pr_FailureThreshold :: int

section \<open>GlobalDNSRecord\<close>

text \<open>\<open>NamespacedName\<close> and \<open>Endpoint\<close> of globaldnsrecord\_types.go.\<close>

record NamespacedName =
  nn_Name :: string
  nn_Namespace :: string

record Endpoint =
  ep_ClusterName :: string
  ep_CredentialsSecretRef :: NamespacedName
  ep_LoadBalancerServiceRef :: NamespacedName

definition Endpoint_GetKey :: "Endpoint \<Rightarrow> string" where
  "Endpoint_GetKey e =
     nn_Namespace (ep_LoadBalancerServiceRef e) @ ''/'' @ nn_Name (ep_LoadBalancerServiceRef e)
     @ ''@'' @ nn_Namespace (ep_CredentialsSecretRef e) @ ''/'' @ nn_Name (ep_CredentialsSecretRef e)"

text \<open>\<open>LoadBalancingPolicy\<close> is a string type with named constants; any string can reach the code,
  for instance through a route annotation.\<close>

type_synonym LoadBalancingPolicy = string

definition Multivalue :: LoadBalancingPolicy where "Multivalue = ''Multivalue''"
definition Weighted :: LoadBalancingPolicy where "Weighted = ''Weighted''"
definition Geolocation :: LoadBalancingPolicy where "Geolocation = ''Geolocation''"
definition Geoproximity :: LoadBalancingPolicy where "Geoproximity = ''Geoproximity''"
definition Latency :: LoadBalancingPolicy where "Latency = ''Latency''"
definition Failover :: LoadBalancingPolicy where "Failover = ''Failover''"
definition Geographic :: LoadBalancingPolicy where "Geographic = ''Geographic''"
definition Performance :: LoadBalancingPolicy where "Performance = ''Performance''"
definition Subnet :: LoadBalancingPolicy where "Subnet = ''Subnet''"

lemmas policy_defs = Multivalue_def Weighted_def Geolocation_def Geoproximity_def Latency_def
  Failover_def Geographic_def Performance_def Subnet_def

record GlobalDNSRecordSpec =
  rs_Name :: string
  rs_Endpoints :: "Endpoint list"
  rs_TTL :: int
  rs_HealthCheck :: "Probe option"
  rs_LoadBalancingPolicy :: LoadBalancingPolicy
  rs_GlobalZoneRef :: string

record TrafficManagerProviderStatus =
  tms_Name :: string

text \<open>\<open>HealthCheckIDs\<close> is a Go map that may be nil: \<open>None\<close> is the nil map, into which a write
  panics.\<close>

record Route53ProviderStatus =
  r53s_PolicyID :: string
  r53s_HealthCheckIDs :: "(string \<rightharpoonup> string) option"
  r53s_PolicyInstanceID :: string

record ProviderStatus =
  ps_Route53 :: "Route53ProviderStatus option"
  ps_TrafficManager :: "TrafficManagerProviderStatus option"

record GlobalDNSRecordStatus =
  rst_Conditions :: Conditions
  rst_MonitoredServiceStatuses :: "(string \<rightharpoonup> Conditions)"
  rst_EndpointStatuses :: "(string \<rightharpoonup> Conditions)"
  rst_ProviderStatus :: ProviderStatus

record GlobalDNSRecord =
  rec_Meta :: ObjectMeta
  rec_Spec :: GlobalDNSRecordSpec
  rec_Status :: GlobalDNSRecordStatus

section \<open>GlobalDNSZone\<close>

record Route53ProviderConfig =
  r53c_ZoneID :: string
  r53c_CredentialsSecretRef :: NamespacedName

record ExternalDNSProviderConfig =
  edc_Annotations :: string_map

record TrafficManagerProviderConfig =
  tmc_CredentialsSecretRef :: NamespacedName
  tmc_ResourceGroup :: string
  tmc_DNSZoneResourceGroup :: string

record GCPGLBProviderConfig =
  gcpc_CredentialsSecretRef :: NamespacedName
  gcpc_ManagedZoneName :: string

record ProviderConfig =
  pc_Route53 :: "Route53ProviderConfig option"
  pc_ExternalDNS :: "ExternalDNSProviderConfig option"
  pc_TrafficManager :: "TrafficManagerProviderConfig option"
  pc_GCPGLB :: "GCPGLBProviderConfig option"

record GlobalDNSZoneSpec =
  zs_Domain :: string
  zs_Provider :: ProviderConfig

record GlobalDNSZone =
  zone_Meta :: ObjectMeta
  zone_Spec :: GlobalDNSZoneSpec
  zone_Conditions :: Conditions

definition zone_GetConditions :: "GlobalDNSZone \<Rightarrow> Conditions" where
  "zone_GetConditions m = zone_Conditions m"

definition zone_SetConditions :: "GlobalDNSZone \<Rightarrow> Conditions \<Rightarrow> GlobalDNSZone" where
  "zone_SetConditions m cs = m\<lparr>zone_Conditions := cs\<rparr>"

section \<open>GlobalRouteDiscovery\<close>

record ClusterReference =
  cr_ClusterName :: string
  cr_CredentialsSecretRef :: NamespacedName

definition ClusterReference_GetKey :: "ClusterReference \<Rightarrow> string" where
  "ClusterReference_GetKey c =
     nn_Namespace (cr_CredentialsSecretRef c) @ ''/'' @ nn_Name (cr_CredentialsSecretRef c)"

text \<open>A \<open>metav1.LabelSelector\<close> is only handed to the label package: it is opaque.\<close>

type_synonym LabelSelector = string

record GlobalRouteDiscoverySpec =
  gs_Clusters :: "ClusterReference list"
  gs_RouteSelector :: LabelSelector
  gs_DefaultLoadBalancingPolicy :: LoadBalancingPolicy
  gs_DefaultTTL :: int
  gs_GlobalZoneRef :: string

record GlobalRouteDiscoveryStatus =
  gst_Conditions :: Conditions
  gst_ClusterReferenceStatuses :: "(string \<rightharpoonup> Conditions)"

record GlobalRouteDiscovery =
  grd_Meta :: ObjectMeta
  grd_Spec :: GlobalRouteDiscoverySpec
  grd_Status :: GlobalRouteDiscoveryStatus

section \<open>Keys\<close>

text \<open>
  Kubernetes names hold neither a slash nor an at sign. For such names the keys are injective
  on the references they are built from, so a map keyed by them never merges two services.
\<close>

definition plain_name :: "NamespacedName \<Rightarrow> bool" where
  "plain_name n \<longleftrightarrow> CHR ''/'' \<notin> set (nn_Namespace n) \<and> CHR ''@'' \<notin> set (nn_Namespace n)
     \<and> CHR ''/'' \<notin> set (nn_Name n) \<and> CHR ''@'' \<notin> set (nn_Name n)"

lemma ClusterReference_GetKey_inject:
  assumes "plain_name (cr_CredentialsSecretRef c)" and "plain_name (cr_CredentialsSecretRef d)"
  shows "ClusterReference_GetKey c = ClusterReference_GetKey d \<longleftrightarrow>
     cr_CredentialsSecretRef c = cr_CredentialsSecretRef d"
  using assms append_sep_inject [of "CHR ''/''" "nn_Namespace (cr_CredentialsSecretRef c)"
      "nn_Namespace (cr_CredentialsSecretRef d)" "nn_Name (cr_CredentialsSecretRef c)"
      "nn_Name (cr_CredentialsSecretRef d)"]
  by (auto simp: ClusterReference_GetKey_def plain_name_def)

lemma Endpoint_GetKey_inject:
  assumes "plain_name (ep_LoadBalancerServiceRef e)" and "plain_name (ep_CredentialsSecretRef e)"
    and "plain_name (ep_LoadBalancerServiceRef f)" and "plain_name (ep_CredentialsSecretRef f)"
  shows "Endpoint_GetKey e = Endpoint_GetKey f \<longleftrightarrow>
     ep_LoadBalancerServiceRef e = ep_LoadBalancerServiceRef f
     \<and> ep_CredentialsSecretRef e = ep_CredentialsSecretRef f"
proof -
  let ?svc = "\<lambda>x. nn_Namespace (ep_LoadBalancerServiceRef x) @ ''/'' @ nn_Name (ep_LoadBalancerServiceRef x)"
  let ?sec = "\<lambda>x. nn_Namespace (ep_CredentialsSecretRef x) @ ''/'' @ nn_Name (ep_CredentialsSecretRef x)"
  have key: "Endpoint_GetKey x = ?svc x @ CHR ''@'' # ?sec x" for x
    by (simp add: Endpoint_GetKey_def)
  have "Endpoint_GetKey e = Endpoint_GetKey f \<longleftrightarrow> ?svc e = ?svc f \<and> ?sec e = ?sec f"
    unfolding key using assms by (intro append_sep_inject) (auto simp: plain_name_def)
  moreover have "?svc e = ?svc f \<longleftrightarrow> ep_LoadBalancerServiceRef e = ep_LoadBalancerServiceRef f"
    using assms append_sep_inject [of "CHR ''/''" "nn_Namespace (ep_LoadBalancerServiceRef e)"
      "nn_Namespace (ep_LoadBalancerServiceRef f)"] by (auto simp: plain_name_def)
  moreover have "?sec e = ?sec f \<longleftrightarrow> ep_CredentialsSecretRef e = ep_CredentialsSecretRef f"
    using assms append_sep_inject [of "CHR ''/''" "nn_Namespace (ep_CredentialsSecretRef e)"
      "nn_Namespace (ep_CredentialsSecretRef f)"] by (auto simp: plain_name_def)
  ultimately show ?thesis by blast
qed

end
