(* ===== verification/Rule_Reference_Set.thy ===== *)
theory Rule_Reference_Set
  imports GLB_Prelude "HOL-Library.Word"
begin

text \<open>
  The traffic policy document of controllers/common/route53/trafficpolicydocument.go and the set
  of rule references of package route53endpointrulereferenceset.

  The Go set is a map from items to the empty struct. The model keeps the items in a list without
  duplicates whose order stands for the order in which the runtime happens to iterate; every
  theorem is over arbitrary such lists, hence over every iteration order. The type of items is a
  parameter, because the Go package is one instance of a template that is also the source of the
  string sets the operator uses.

  The locale \<open>go_set\<close> is the interface its clients rely on; it is interpreted on the operations of
  the package.
\<close>

section \<open>The traffic policy document\<close>

record Route53EndpointRuleReference =
  err_EndpointReference :: string
  err_RuleReference :: string
  err_EvaluateTargetHealth :: bool
  err_HealthCheck :: string
  err_IsDefault :: bool
  err_Continent :: string
  err_Country :: string
  err_Subdivision :: string
  err_Region :: string
  err_Latitude :: int
  err_Longitude :: int
  err_Bias :: int
  err_Weight :: int

text \<open>The zero value of the struct, which \<open>nonExistent\<close> is.\<close>

definition nonExistent :: Route53EndpointRuleReference where
  "nonExistent = \<lparr>err_EndpointReference = [], err_RuleReference = [],
     err_EvaluateTargetHealth = False, err_HealthCheck = [], err_IsDefault = False,
     err_Continent = [], err_Country = [], err_Subdivision = [], err_Region = [],
     err_Latitude = 0, err_Longitude = 0, err_Bias = 0, err_Weight = 0\<rparr>"

type_synonym Route53EndpointType = string
type_synonym Route53RuleType = string

definition tp_Value :: Route53EndpointType where "tp_Value = ''value''"
definition tp_Cloudfront :: Route53EndpointType where "tp_Cloudfront = ''cloudfront''"
definition tp_ElasticLoadBalacer :: Route53EndpointType where
  "tp_ElasticLoadBalacer = ''elastic-load-balancer''"
definition tp_S3Website :: Route53EndpointType where "tp_S3Website = ''s3-website''"

definition tp_Failover :: Route53RuleType where "tp_Failover = ''failover''"
definition tp_Geolocation :: Route53RuleType where "tp_Geolocation = ''geo''"
definition tp_Geoproximity :: Route53RuleType where "tp_Geoproximity = ''geoproximity''"
definition tp_Latency :: Route53RuleType where "tp_Latency = ''latency''"
definition tp_Multivalue :: Route53RuleType where "tp_Multivalue = ''multivalue''"
definition tp_Weighted :: Route53RuleType where "tp_Weighted = ''weighted''"

record Route53Endpoint =
  r53e_Type :: Route53EndpointType
  r53e_Region :: string
  r53e_Value :: string

record Route53Rule =
  rule_RuleType :: Route53RuleType
  rule_Primary :: "Route53EndpointRuleReference option"
  rule_Secondary :: "Route53EndpointRuleReference option"
  rule_Locations :: "Route53EndpointRuleReference list"
  rule_GeoproximityLocations :: "Route53EndpointRuleReference list"
  rule_Regions :: "Route53EndpointRuleReference list"
  rule_Items :: "Route53EndpointRuleReference list"

text \<open>The zero value, which a Go map returns for a missing rule.\<close>

definition zero_rule :: Route53Rule where
  "zero_rule = \<lparr>rule_RuleType = [], rule_Primary = None, rule_Secondary = None,
     rule_Locations = [], rule_GeoproximityLocations = [], rule_Regions = [], rule_Items = []\<rparr>"

record Route53TrafficPolicyDocument =
  tpd_AWSPolicyFormatVersion :: string
  tpd_RecordType :: string
  tpd_StartEndpoint :: string
  tpd_StartRule :: string
  tpd_Endpoints :: "(string, Route53Endpoint) mapping option"
  tpd_Rules :: "(string \<rightharpoonup> Route53Rule)"

section \<open>The set\<close>

record 'a Set =
  set_m :: "'a list"

definition maxInt :: int where
  "maxInt = uint (drop_bit 1 (not 0 :: 64 word))"

text \<open>\<open>s.m[item] = keyExists\<close> and \<open>delete(s.m, item)\<close>.\<close>

definition map_put :: "'a Set \<Rightarrow> 'a \<Rightarrow> 'a Set" where
  "map_put s x = (if x \<in> set (set_m s) then s else s\<lparr>set_m := set_m s @ [x]\<rparr>)"

definition map_delete :: "'a Set \<Rightarrow> 'a \<Rightarrow> 'a Set" where
  "map_delete s x = s\<lparr>set_m := removeAll x (set_m s)\<rparr>"

definition NewWithSize :: "nat \<Rightarrow> 'a Set" where
  "NewWithSize n = \<lparr>set_m = []\<rparr>"

definition Add :: "'a Set \<Rightarrow> 'a list \<Rightarrow> 'a Set" where
  "Add s items = foldl map_put s items"

definition New :: "'a list \<Rightarrow> 'a Set" where
  "New ts = Add (NewWithSize (length ts)) ts"

definition Remove :: "'a Set \<Rightarrow> 'a list \<Rightarrow> 'a Set" where
  "Remove s items = foldl map_delete s items"

text \<open>\<open>Pop\<close> and \<open>Pop2\<close> return from the first iteration of the loop; \<open>zero\<close> is the zero value of
  the item type.\<close>

definition Pop :: "'a \<Rightarrow> 'a Set \<Rightarrow> 'a \<times> 'a Set" where
  "Pop zero s = (case set_m s of [] \<Rightarrow> (zero, s) | item # _ \<Rightarrow> (item, map_delete s item))"

definition Pop2 :: "'a \<Rightarrow> 'a Set \<Rightarrow> ('a \<times> bool) \<times> 'a Set" where
  "Pop2 zero s = (case set_m s of
      [] \<Rightarrow> ((zero, False), s) | item # _ \<Rightarrow> ((item, True), map_delete s item))"

fun Has_loop :: "'a Set \<Rightarrow> bool \<Rightarrow> 'a list \<Rightarrow> bool" where
  "Has_loop s has [] = has"
| "Has_loop s has (item # items) =
     (let has' = item \<in> set (set_m s) in if \<not> has' then has' else Has_loop s has' items)"

definition Has :: "'a Set \<Rightarrow> 'a list \<Rightarrow> bool" where
  "Has s items = Has_loop s False items"

fun HasAny_loop :: "'a Set \<Rightarrow> bool \<Rightarrow> 'a list \<Rightarrow> bool" where
  "HasAny_loop s has [] = has"
| "HasAny_loop s has (item # items) =
     (let has' = item \<in> set (set_m s) in if has' then has' else HasAny_loop s has' items)"

definition HasAny :: "'a Set \<Rightarrow> 'a list \<Rightarrow> bool" where
  "HasAny s items = HasAny_loop s False items"

definition Size :: "'a Set \<Rightarrow> int" where
  "Size s = int (length (set_m s))"

definition Clear :: "'a Set \<Rightarrow> 'a Set" where
  "Clear s = s\<lparr>set_m := []\<rparr>"

definition IsEmpty :: "'a Set \<Rightarrow> bool" where
  "IsEmpty s \<longleftrightarrow> Size s = 0"

text \<open>\<open>Each\<close> calls the closure on the items until it returns false. The closure's captured
  variable is the accumulator; it returns the new value and whether to go on.\<close>

fun Each_loop :: "('b \<Rightarrow> 'a \<Rightarrow> 'b \<times> bool) \<Rightarrow> 'b \<Rightarrow> 'a list \<Rightarrow> 'b" where
  "Each_loop f acc [] = acc"
| "Each_loop f acc (item # items) =
     (case f acc item of (acc', go) \<Rightarrow> if \<not> go then acc' else Each_loop f acc' items)"

definition Each :: "'a Set \<Rightarrow> ('b \<Rightarrow> 'a \<Rightarrow> 'b \<times> bool) \<Rightarrow> 'b \<Rightarrow> 'b" where
  "Each s f acc = Each_loop f acc (set_m s)"

definition IsEqual :: "'a Set \<Rightarrow> 'a Set \<Rightarrow> bool" where
  "IsEqual s t =
     (if Size s \<noteq> Size t then False
      else Each t (\<lambda>_ item. let equal = item \<in> set (set_m s) in (equal, equal)) True)"

definition IsSubset :: "'a Set \<Rightarrow> 'a Set \<Rightarrow> bool" where
  "IsSubset s t =
     (if Size s < Size t then False
      else Each t (\<lambda>_ item. let subset = item \<in> set (set_m s) in (subset, subset)) True)"

definition IsSuperset :: "'a Set \<Rightarrow> 'a Set \<Rightarrow> bool" where
  "IsSuperset s t = IsSubset t s"

definition Copy :: "'a Set \<Rightarrow> 'a Set" where
  "Copy s = foldl map_put (NewWithSize (nat (Size s))) (set_m s)"

definition List_items :: "'a Set \<Rightarrow> 'a list" where
  "List_items s = foldl (\<lambda>v item. v @ [item]) [] (set_m s)"

definition Merge :: "'a Set \<Rightarrow> 'a Set \<Rightarrow> 'a Set" where
  "Merge s t = foldl map_put s (set_m t)"

definition Separate :: "'a Set \<Rightarrow> 'a Set \<Rightarrow> 'a Set" where
  "Separate s t = foldl map_delete s (set_m t)"

text \<open>The scans for the largest and the smallest set, with the position and the size so far.\<close>

fun max_scan :: "int \<Rightarrow> int \<times> int \<Rightarrow> 'a Set list \<Rightarrow> int \<times> int" where
  "max_scan i pos [] = pos"
| "max_scan i (maxPos, maxSize) (s # sets) =
     max_scan (i + 1) (if Size s > maxSize then (i, Size s) else (maxPos, maxSize)) sets"

fun min_scan :: "int \<Rightarrow> int \<times> int \<Rightarrow> 'a Set list \<Rightarrow> int \<times> int" where
  "min_scan i pos [] = pos"
| "min_scan i (minPos, minSize) (s # sets) =
     min_scan (i + 1) (if Size s < minSize then (i, Size s) else (minPos, minSize)) sets"

fun Union_loop :: "int \<Rightarrow> int \<Rightarrow> 'a Set \<Rightarrow> 'a Set list \<Rightarrow> 'a Set" where
  "Union_loop maxPos i u [] = u"
| "Union_loop maxPos i u (s # sets) =
     Union_loop maxPos (i + 1) (if i = maxPos then u else foldl map_put u (set_m s)) sets"

definition Set_Union :: "'a Set list \<Rightarrow> 'a Set" where
  "Set_Union sets = (case max_scan 0 (-1, 0) sets of (maxPos, maxSize) \<Rightarrow>
     if maxSize = 0 then New [] else Union_loop maxPos 0 (Copy (sets ! nat maxPos)) sets)"

definition Difference :: "'a Set \<Rightarrow> 'a Set list \<Rightarrow> 'a Set" where
  "Difference set1 sets = foldl Separate (Copy set1) sets"

text \<open>The inner loop deletes from the map it ranges over, which Go allows: each item of \<open>t\<close> is
  visited once and removed when the other set lacks it.\<close>

fun Intersection_loop :: "int \<Rightarrow> int \<Rightarrow> 'a Set \<Rightarrow> 'a Set list \<Rightarrow> 'a Set" where
  "Intersection_loop minPos i t [] = t"
| "Intersection_loop minPos i t (s # sets) =
     Intersection_loop minPos (i + 1)
       (if i = minPos then t
        else foldl (\<lambda>t item. if item \<in> set (set_m s) then t else map_delete t item) t (set_m t))
       sets"

definition Intersection :: "'a Set list \<Rightarrow> 'a Set" where
  "Intersection sets = (case min_scan 0 (-1, maxInt) sets of (minPos, minSize) \<Rightarrow>
     if minSize = maxInt \<or> minSize = 0 then New []
     else Intersection_loop minPos 0 (Copy (sets ! nat minPos)) sets)"

definition SymmetricDifference :: "'a Set \<Rightarrow> 'a Set \<Rightarrow> 'a Set" where
  "SymmetricDifference s t = (let u = Difference s [t]; v = Difference t [s] in Set_Union [u, v])"


subsection \<open>Abstraction and well-formedness\<close>

definition items :: "'a Set \<Rightarrow> 'a set" where
  "items s = set (set_m s)"

definition wf_Set :: "'a Set \<Rightarrow> bool" where
  "wf_Set s \<longleftrightarrow> distinct (set_m s)"

named_theorems set_abs \<open>what each operation does to the set of items\<close>
named_theorems set_wf \<open>each operation keeps the representation free of duplicates\<close>

lemma items_map_put [set_abs]: "items (map_put s x) = insert x (items s)"
  by (auto simp: map_put_def items_def)

lemma wf_map_put [set_wf]: "wf_Set s \<Longrightarrow> wf_Set (map_put s x)"
  by (auto simp: map_put_def wf_Set_def)

lemma items_map_delete [set_abs]: "items (map_delete s x) = items s - {x}"
  by (auto simp: map_delete_def items_def)

lemma wf_map_delete [set_wf]: "wf_Set s \<Longrightarrow> wf_Set (map_delete s x)"
  by (simp add: map_delete_def wf_Set_def distinct_removeAll)

lemma items_fold_put [set_abs]: "items (foldl map_put s xs) = items s \<union> set xs"
  by (induction xs arbitrary: s) (auto simp: set_abs)

lemma wf_fold_put [set_wf]: "wf_Set s \<Longrightarrow> wf_Set (foldl map_put s xs)"
  by (induction xs arbitrary: s) (auto simp: set_wf)

lemma items_fold_delete [set_abs]: "items (foldl map_delete s xs) = items s - set xs"
  by (induction xs arbitrary: s) (auto simp: set_abs)

lemma wf_fold_delete [set_wf]: "wf_Set s \<Longrightarrow> wf_Set (foldl map_delete s xs)"
  by (induction xs arbitrary: s) (auto simp: set_wf)

lemma NewWithSize_empty [simp]: "items (NewWithSize n) = {}" "wf_Set (NewWithSize n)"
  by (simp_all add: NewWithSize_def items_def wf_Set_def)

lemma New_Add [set_abs]: "items (New xs) = set xs" "items (Add s xs) = items s \<union> set xs"
  by (simp_all add: New_def Add_def set_abs)

lemma wf_New_Add [set_wf]: "wf_Set (New xs)" "wf_Set s \<Longrightarrow> wf_Set (Add s xs)"
  by (simp_all add: New_def Add_def set_wf)

lemma items_Remove [set_abs]: "items (Remove s xs) = items s - set xs"
  by (simp add: Remove_def set_abs)

lemma wf_Remove [set_wf]: "wf_Set s \<Longrightarrow> wf_Set (Remove s xs)"
  by (simp add: Remove_def set_wf)

lemma items_Clear [set_abs]: "items (Clear s) = {}"
  by (simp add: Clear_def items_def)

lemma Copy_same [set_abs]: "items (Copy s) = items s"
  by (simp add: Copy_def set_abs) (simp add: items_def)

lemma wf_Copy [set_wf]: "wf_Set (Copy s)"
  by (simp add: Copy_def set_wf)

lemma items_Merge [set_abs]: "items (Merge s t) = items s \<union> items t"
  by (simp add: Merge_def set_abs) (simp add: items_def)

lemma items_Separate [set_abs]: "items (Separate s t) = items s - items t"
  by (simp add: Separate_def set_abs) (simp add: items_def)

lemma wf_Merge_Separate [set_wf]:
  "wf_Set s \<Longrightarrow> wf_Set (Merge s t)" "wf_Set s \<Longrightarrow> wf_Set (Separate s t)"
  by (simp_all add: Merge_def Separate_def set_wf)

lemma Size_card: "wf_Set s \<Longrightarrow> Size s = int (card (items s))"
  by (simp add: Size_def wf_Set_def items_def distinct_card)

lemma Size_zero: "Size s = 0 \<longleftrightarrow> items s = {}"
  by (simp add: Size_def items_def)

lemma Has_loop_spec: "Has_loop s b xs \<longleftrightarrow> (if xs = [] then b else set xs \<subseteq> items s)"
  by (induction xs arbitrary: b) (auto simp: items_def Let_def)

lemma HasAny_loop_spec: "HasAny_loop s False xs \<longleftrightarrow> set xs \<inter> items s \<noteq> {}"
  by (induction xs) (auto simp: items_def Let_def)

lemma Each_member: "Each t (\<lambda>_ x. let b = x \<in> set (set_m s) in (b, b)) True \<longleftrightarrow> items t \<subseteq> items s"
proof -
  have "Each_loop (\<lambda>_ x. let b = x \<in> A in (b, b)) True xs \<longleftrightarrow> set xs \<subseteq> A" for A and xs :: "'a list"
    by (induction xs) (auto simp: Let_def)
  then show ?thesis by (simp add: Each_def items_def)
qed

lemma IsEqual_iff: "wf_Set s \<Longrightarrow> wf_Set t \<Longrightarrow> IsEqual s t \<longleftrightarrow> items s = items t"
proof -
  assume wf: "wf_Set s" "wf_Set t"
  have fin: "finite (items s)" by (simp add: items_def)
  then have "items t \<subseteq> items s \<Longrightarrow> card (items s) = card (items t) \<Longrightarrow> items t = items s"
    by (metis card_subset_eq)
  then show ?thesis using wf unfolding IsEqual_def Each_member by (auto simp: Size_card)
qed

lemma IsSubset_iff: "wf_Set s \<Longrightarrow> wf_Set t \<Longrightarrow> IsSubset s t \<longleftrightarrow> items t \<subseteq> items s"
proof -
  assume wf: "wf_Set s" "wf_Set t"
  have "items t \<subseteq> items s \<Longrightarrow> card (items t) \<le> card (items s)"
    by (intro card_mono) (simp add: items_def)
  then show ?thesis using wf unfolding IsSubset_def Each_member by (auto simp: Size_card)
qed

lemma List_items_eq: "List_items s = set_m s"
  using foldl_snoc [of id "[]" "set_m s"] by (simp add: List_items_def)

lemma List_items_spec: "set (List_items s) = items s" "wf_Set s \<Longrightarrow> distinct (List_items s)"
  by (simp_all add: List_items_eq items_def wf_Set_def)

subsection \<open>The binary and n-ary operations\<close>

lemma items_Difference [set_abs]: "items (Difference s ts) = items s - (\<Union>t \<in> set ts. items t)"
proof -
  have "items (foldl Separate u ts) = items u - (\<Union>t \<in> set ts. items t)" for u
    by (induction ts arbitrary: u) (auto simp: set_abs)
  then show ?thesis by (simp add: Difference_def set_abs)
qed

lemma wf_Difference [set_wf]: "wf_Set (Difference s ts)"
proof -
  have "wf_Set u \<Longrightarrow> wf_Set (foldl Separate u ts)" for u
    by (induction ts arbitrary: u) (auto simp: set_wf)
  then show ?thesis by (simp add: Difference_def set_wf)
qed

text \<open>A scan returns the start value when no set beats it, and otherwise a position in range
  with the size of the set there, which no other set beats.\<close>

lemma nat_shift: "i + 1 \<le> (q::int) \<Longrightarrow> nat (q - i) - Suc 0 = nat (q - (i + 1))"
  by simp

lemma max_scan_spec:
  assumes "max_scan i (p, n) sets = (q, k)"
  shows "n \<le> k \<and> (\<forall>s \<in> set sets. Size s \<le> k)
     \<and> (k = n \<and> q = p \<or> i \<le> q \<and> q < i + int (length sets) \<and> Size (sets ! nat (q - i)) = k)"
  using assms
proof (induction sets arbitrary: i p n)
  case (Cons s sets)
  show ?case
  proof (cases "Size s > n")
    case True
    with Cons.prems have "max_scan (i + 1) (i, Size s) sets = (q, k)" by simp
    from Cons.IH [OF this] True show ?thesis
      by (cases "k = Size s \<and> q = i") (auto simp: nat_shift)
  next
    case False
    with Cons.prems have "max_scan (i + 1) (p, n) sets = (q, k)" by simp
    from Cons.IH [OF this] False show ?thesis
      by (cases "k = n \<and> q = p") (auto simp: nat_shift)
  qed
qed simp

lemma min_scan_spec:
  assumes "min_scan i (p, n) sets = (q, k)"
  shows "k \<le> n \<and> (\<forall>s \<in> set sets. k \<le> Size s)
     \<and> (k = n \<and> q = p \<or> i \<le> q \<and> q < i + int (length sets) \<and> Size (sets ! nat (q - i)) = k)"
  using assms
proof (induction sets arbitrary: i p n)
  case (Cons s sets)
  show ?case
  proof (cases "Size s < n")
    case True
    with Cons.prems have "min_scan (i + 1) (i, Size s) sets = (q, k)" by simp
    from Cons.IH [OF this] True show ?thesis
      by (cases "k = Size s \<and> q = i") (auto simp: nat_shift)
  next
    case False
    with Cons.prems have "min_scan (i + 1) (p, n) sets = (q, k)" by simp
    from Cons.IH [OF this] False show ?thesis
      by (cases "k = n \<and> q = p") (auto simp: nat_shift)
  qed
qed simp

lemma items_Union_loop:
  assumes "i \<le> q \<and> q < i + int (length sets) \<longrightarrow> items (sets ! nat (q - i)) \<subseteq> items u"
  shows "items (Union_loop q i u sets) = items u \<union> (\<Union>s \<in> set sets. items s)"
  using assms
proof (induction sets arbitrary: i u)
  case (Cons s sets)
  let ?u = "if i = q then u else foldl map_put u (set_m s)"
  have u: "items ?u = items u \<union> (if i = q then {} else items s)"
    by (simp add: set_abs) (simp add: items_def)
  have "i + 1 \<le> q \<and> q < i + 1 + int (length sets) \<longrightarrow> items (sets ! nat (q - (i + 1))) \<subseteq> items ?u"
    using Cons.prems u by (auto simp: nat_shift)
  from Cons.IH [OF this] u Cons.prems show ?case by (cases "i = q") auto
qed simp

lemma items_Set_Union [set_abs]: "items (Set_Union sets) = (\<Union>s \<in> set sets. items s)"
proof -
  obtain q k where scan: "max_scan 0 (-1, 0) sets = (q, k)" by (cases "max_scan 0 (-1, 0) sets")
  note spec = max_scan_spec [OF scan]
  show ?thesis
  proof (cases "k = 0")
    case True
    with spec have "\<forall>s \<in> set sets. Size s = 0" by (force simp: Size_def)
    then show ?thesis using True scan by (auto simp: Set_Union_def set_abs Size_zero)
  next
    case False
    with spec have q: "0 \<le> q" "q < int (length sets)" by auto
    have "items (Union_loop q 0 (Copy (sets ! nat q)) sets)
        = items (Copy (sets ! nat q)) \<union> (\<Union>s \<in> set sets. items s)"
      by (rule items_Union_loop) (simp add: set_abs)
    moreover have "sets ! nat q \<in> set sets" using q by simp
    ultimately show ?thesis using False scan by (auto simp: Set_Union_def set_abs)
  qed
qed

lemma wf_Set_Union [set_wf]: "wf_Set (Set_Union sets)"
proof -
  have "wf_Set u \<Longrightarrow> wf_Set (Union_loop q i u sets)" for q i and u :: "'a Set" and sets
    by (induction sets arbitrary: i u) (auto simp: set_wf)
  then show ?thesis by (auto simp: Set_Union_def set_wf split: prod.splits)
qed

lemma items_retain: "items (foldl (\<lambda>t x. if x \<in> set (set_m s) then t else map_delete t x) t (set_m t))
    = items t \<inter> items s"
proof -
  have "items (foldl (\<lambda>t x. if x \<in> A then t else map_delete t x) u xs) = items u - (set xs - A)"
    for A and u :: "'a Set" and xs
    by (induction xs arbitrary: u) (auto simp: set_abs)
  then show ?thesis by (auto simp: items_def)
qed

lemma items_Intersection_loop:
  assumes "i \<le> q \<and> q < i + int (length sets) \<longrightarrow> items t \<subseteq> items (sets ! nat (q - i))"
  shows "items (Intersection_loop q i t sets) = items t \<inter> (\<Inter>s \<in> set sets. items s)"
  using assms
proof (induction sets arbitrary: i t)
  case (Cons s sets)
  let ?t = "if i = q then t
    else foldl (\<lambda>t x. if x \<in> set (set_m s) then t else map_delete t x) t (set_m t)"
  have t: "items ?t = (if i = q then items t else items t \<inter> items s)"
    by (simp only: items_retain split: if_split) simp
  have "i + 1 \<le> q \<and> q < i + 1 + int (length sets) \<longrightarrow> items ?t \<subseteq> items (sets ! nat (q - (i + 1)))"
    using Cons.prems t by (auto simp: nat_shift)
  from Cons.IH [OF this] t Cons.prems show ?case by (cases "i = q") auto
qed simp

lemma items_Intersection:
  assumes "sets \<noteq> []" and "\<forall>s \<in> set sets. Size s < maxInt"
  shows "items (Intersection sets) = (\<Inter>s \<in> set sets. items s)"
proof -
  obtain q k where scan: "min_scan 0 (-1, maxInt) sets = (q, k)"
    by (cases "min_scan 0 (-1, maxInt) sets")
  note spec = min_scan_spec [OF scan]
  from assms spec have k: "k < maxInt" by (cases sets) auto
  with spec have q: "0 \<le> q" "q < int (length sets)" "Size (sets ! nat q) = k" by auto
  then have mem: "sets ! nat q \<in> set sets" by simp
  show ?thesis
  proof (cases "k = 0")
    case True
    with q have "items (sets ! nat q) = {}" by (simp add: Size_zero [symmetric])
    then show ?thesis using True scan mem by (auto simp: Intersection_def set_abs)
  next
    case False
    have "items (Intersection_loop q 0 (Copy (sets ! nat q)) sets)
        = items (Copy (sets ! nat q)) \<inter> (\<Inter>s \<in> set sets. items s)"
      by (rule items_Intersection_loop) (simp add: set_abs)
    with mem show ?thesis using False k scan by (auto simp: Intersection_def set_abs)
  qed
qed

lemma items_SymmetricDifference [set_abs]:
  "items (SymmetricDifference s t) = (items s - items t) \<union> (items t - items s)"
  by (simp add: SymmetricDifference_def Let_def set_abs)

lemma maxInt_value: "maxInt = 2 ^ 63 - 1"
  by code_simp

section \<open>The interface of a Go set\<close>

text \<open>
  What the clients of a set package rely on: a set made from a slice lists exactly the items of
  the slice, each once, in some order; equality and difference are those of the items.
\<close>

locale go_set =
  fixes mk :: "'a list \<Rightarrow> 's"
    and to_list :: "'s \<Rightarrow> 'a list"
    and is_equal :: "'s \<Rightarrow> 's \<Rightarrow> bool"
    and difference :: "'s \<Rightarrow> 's \<Rightarrow> 's"
    and add :: "'s \<Rightarrow> 'a \<Rightarrow> 's"
    and ok :: "'s \<Rightarrow> bool"
  assumes ok_mk: "ok (mk xs)"
    and ok_add: "ok s \<Longrightarrow> ok (add s x)"
    and to_list_add: "ok s \<Longrightarrow> set (to_list (add s x)) = insert x (set (to_list s))"
    and ok_difference: "ok s \<Longrightarrow> ok t \<Longrightarrow> ok (difference s t)"
    and to_list_mk: "set (to_list (mk xs)) = set xs"
    and distinct_to_list: "ok s \<Longrightarrow> distinct (to_list s)"
    and is_equal_iff: "ok s \<Longrightarrow> ok t \<Longrightarrow> is_equal s t \<longleftrightarrow> set (to_list s) = set (to_list t)"
    and to_list_difference:
      "ok s \<Longrightarrow> ok t \<Longrightarrow> set (to_list (difference s t)) = set (to_list s) - set (to_list t)"
begin

text \<open>Comparing slices as sets forgets order and repetition.\<close>

lemma is_equal_mk: "is_equal (mk xs) (mk ys) \<longleftrightarrow> set xs = set ys"
  by (simp add: is_equal_iff ok_mk to_list_mk)

text \<open>The two differences of a desired and a current slice: what has to be added and removed.\<close>

lemma to_add_set: "set (to_list (difference (mk xs) (mk ys))) = set xs - set ys"
  by (simp add: to_list_difference ok_mk to_list_mk)

lemma to_add_distinct: "distinct (to_list (difference (mk xs) (mk ys)))"
  by (simp add: distinct_to_list ok_difference ok_mk)

text \<open>A set filled item by item.\<close>

lemma ok_add_all: "ok s \<Longrightarrow> ok (foldl add s xs)"
  by (induction xs arbitrary: s) (simp_all add: ok_add)

lemma to_list_add_all: "ok s \<Longrightarrow> set (to_list (foldl add s xs)) = set (to_list s) \<union> set xs"
  by (induction xs arbitrary: s) (auto simp: ok_add to_list_add)

lemma collected_difference:
  "set (to_list (difference (foldl add (mk []) xs) (foldl add (mk []) ys))) = set xs - set ys"
  "distinct (to_list (difference (foldl add (mk []) xs) (foldl add (mk []) ys)))"
  by (simp_all add: to_list_difference to_list_add_all to_list_mk ok_mk ok_add_all ok_difference distinct_to_list)

lemma dedup: "set (to_list (mk xs)) = set xs" "distinct (to_list (mk xs))"
  by (simp_all add: to_list_mk distinct_to_list ok_mk)

end

interpretation ref_set: go_set New List_items IsEqual "\<lambda>s t. Difference s [t]" "\<lambda>s x. Add s [x]" wf_Set
  by unfold_locales (simp_all add: List_items_spec IsEqual_iff set_abs set_wf)

section \<open>Properties\<close>

text \<open>
  C7: the set type implements finite sets. For any number of well-formed sets, \<open>Union\<close>,
  \<open>Difference\<close>, \<open>SymmetricDifference\<close> and, of at least one set, \<open>Intersection\<close> compute the set
  operations on the items although they start from a copy of the largest or smallest set and skip
  its position; the results are well-formed, and \<open>IsEqual\<close>, \<open>IsSubset\<close>, \<open>IsSuperset\<close> and \<open>Size\<close>
  decide the corresponding relations and give the number of items.
\<close>

theorem set_operations_refine:
  assumes "\<forall>s \<in> set sets. Size s < maxInt" and "sets \<noteq> []" and "wf_Set s" and "wf_Set t"
  shows "items (Set_Union sets) = (\<Union>x \<in> set sets. items x) \<and> wf_Set (Set_Union sets)
     \<and> items (Intersection sets) = (\<Inter>x \<in> set sets. items x)
     \<and> items (Difference s sets) = items s - (\<Union>x \<in> set sets. items x) \<and> wf_Set (Difference s sets)
     \<and> items (SymmetricDifference s t) = (items s - items t) \<union> (items t - items s)
     \<and> (IsEqual s t \<longleftrightarrow> items s = items t) \<and> (IsSubset s t \<longleftrightarrow> items t \<subseteq> items s)
     \<and> (IsSuperset s t \<longleftrightarrow> items s \<subseteq> items t) \<and> Size s = int (card (items s))"
  using assms
  by (simp add: set_abs set_wf items_Intersection IsEqual_iff IsSubset_iff IsSuperset_def Size_card)

theorem set_operations_refine_witness:
  "items (Intersection [New [1, 2, 3 :: nat], New [3, 2]]) = {2, 3}
   \<and> items (Set_Union [New [1, 2, 3 :: nat], New [3, 4]]) = {1, 2, 3, 4}"
proof -
  have "\<forall>s \<in> set [New [1, 2, 3 :: nat], New [3, 2]]. Size s < maxInt"
    "\<forall>s \<in> set [New [1, 2, 3 :: nat], New [3, 4]]. Size s < maxInt"
    by code_simp+
  from set_operations_refine [OF this(1) _ wf_New_Add(1) wf_New_Add(1)]
    set_operations_refine [OF this(2) _ wf_New_Add(1) wf_New_Add(1)]
  show ?thesis by (auto simp: set_abs)
qed

text \<open>
  Membership tests and removal. \<open>Has\<close> of a non-empty argument list is true when every argument
  is an item, and false of no arguments; \<open>HasAny\<close> when some argument is an item. \<open>Pop2\<close> removes
  and returns one item of a non-empty set, reports failure on an empty one and leaves it alone;
  adding and removing change the items as sets do.
\<close>

lemma set_members:
  "Has s xs = (xs \<noteq> [] \<and> set xs \<subseteq> items s) \<and> HasAny s xs = (set xs \<inter> items s \<noteq> {})
   \<and> items (Add s xs) = items s \<union> set xs \<and> items (Remove s xs) = items s - set xs
   \<and> (case Pop2 zero s of ((x, ok), s') \<Rightarrow>
        (ok \<longleftrightarrow> items s \<noteq> {}) \<and> (if ok then x \<in> items s \<and> items s' = items s - {x} else x = zero \<and> s' = s))"
  by (auto simp: Has_def HasAny_def Has_loop_spec HasAny_loop_spec set_abs Pop2_def split: list.split)
    (auto simp: items_def)

end
