(* ===== verification/Services.thy ===== *)
theory Services
  imports API_Types Rule_Reference_Set
begin

text \<open>
  The code the operator calls and that is not part of the repository: the Kubernetes API of the
  control cluster and of the controlled clusters, Amazon Route53, Azure, Google Cloud, the host resolver, the packages
  operator-utils, labels, go-set/strset and encoding/json. All of it is a parameter of the model, a field
  of the record \<open>env\<close>; nothing is assumed here about what it answers. Every request that leaves
  the operator is recorded as an \<open>event\<close> with its arguments, in the order of the calls.

  The second half names the documented behaviour that some properties rely on.
\<close>

section \<open>Types of the external APIs\<close>

text \<open>Of each type the fields the sources read or write; pointers of the AWS SDK are \<open>option\<close>s.
  \<open>hcc_Other\<close> stands for the remaining pointer fields of the SDK's struct, which the sources
  never set.\<close>

record HealthCheckConfig =
  hcc_IPAddress :: "string option"
  hcc_Disabled :: "bool option"
  hcc_Inverted :: "bool option"
  hcc_MeasureLatency :: "bool option"
  hcc_EnableSNI :: "bool option"
  hcc_FailureThreshold :: "int option"
  hcc_FullyQualifiedDomainName :: "string option"
  hcc_Port :: "int option"
  hcc_RequestInterval :: "int option"
  hcc_ResourcePath :: "string option"
  hcc_Type :: "string option"
  hcc_Other :: "string option"

record HealthCheck =
  hc_Id :: "string option"
  hc_HealthCheckConfig :: "HealthCheckConfig option"

record CreateHealthCheckInput =
  chi_CallerReference :: "string option"
  chi_HealthCheckConfig :: "HealthCheckConfig option"

text \<open>The SDK's struct of an update has the address, but no field for the request interval and none for
  the type; \<open>uhi_Other\<close> stands for its remaining pointer fields, which the sources never set.\<close>

record UpdateHealthCheckInput =
  uhi_HealthCheckId :: "string option"
  uhi_EnableSNI :: "bool option"
  uhi_FailureThreshold :: "int option"
  uhi_FullyQualifiedDomainName :: "string option"
  uhi_Port :: "int option"
  uhi_ResourcePath :: "string option"
  uhi_Disabled :: "bool option"
  uhi_Inverted :: "bool option"
  uhi_IPAddress :: "string option"
  uhi_Other :: "string option"

record ChangeTagsInput =
  cti_Tags :: "(string \<times> string) list"
  cti_ResourceId :: "string option"
  cti_ResourceType :: "string option"

record TrafficPolicySummary =
  tpsum_Id :: "string option"
  tpsum_Name :: "string option"

record TrafficPolicy =
  tp_Id :: "string option"
  tp_Document :: "string option"

record TrafficPolicyInstance =
  tpi_Id :: "string option"
  tpi_HostedZoneId :: "string option"
  tpi_Name :: "string option"
  tpi_TTL :: "int option"
  tpi_TrafficPolicyId :: "string option"

record CreateTrafficPolicyInstanceInput =
  ctpi_HostedZoneId :: string
  ctpi_Name :: string
  ctpi_TTL :: int
  ctpi_TrafficPolicyId :: string
  ctpi_TrafficPolicyVersion :: int

text \<open>Secrets, services and infrastructure objects of Kubernetes and OpenShift. \<open>sec_String\<close> is
  the rendering by the generated \<open>String\<close> method.\<close>

record Secret =
  sec_Data :: "(string \<rightharpoonup> string)"
  sec_String :: string

record LoadBalancerIngress =
  ing_IP :: string
  ing_Hostname :: string

record ServicePort =
  sp_Name :: string
  sp_NodePort :: int

record Service =
  svc_Name :: string
  svc_Namespace :: string
  svc_Type :: string
  svc_Selector :: "(string \<rightharpoonup> string) option"
  svc_Ports :: "ServicePort list"
  svc_Ingress :: "LoadBalancerIngress list"

record PlatformStatus =
  pl_Type :: string
  pl_AWS_Region :: "string option"
  pl_Azure_NetworkResourceGroupName :: "string option"
  pl_GCP_Region :: "string option"

record Infrastructure =
  inf_InfrastructureName :: string
  inf_PlatformStatus :: "PlatformStatus option"

definition AWSPlatformType :: string where "AWSPlatformType = ''AWS''"
definition AzurePlatformType :: string where "AzurePlatformType = ''Azure''"
definition GCPPlatformType :: string where "GCPPlatformType = ''GCP''"

text \<open>A \<open>RawExtension\<close> holds either the object the program put in or the bytes the API server sent.\<close>

record StatementEntry =
  se_Action :: "string list"
  se_Effect :: string
  se_Resource :: string

datatype ProviderSpec =
    AWSProviderSpec "StatementEntry list"
  | AzureProviderSpec "string list"
  | GCPProviderSpec "string list"

datatype RawExtension = RawObject ProviderSpec | RawBytes string

record CredentialsRequestSpec =
  crs_SecretRef :: NamespacedName
  crs_ProviderSpec :: "RawExtension option"

record CredentialsRequest =
  creq_Name :: string
  creq_Namespace :: string
  creq_Spec :: CredentialsRequestSpec

text \<open>The custom resource of external-dns; \<open>dt_Other\<close> stands for the fields of its endpoints that
  the sources never set.\<close>

record DNSTarget =
  dt_DNSName :: string
  dt_RecordTTL :: int
  dt_RecordType :: string
  dt_Targets :: "string list"
  dt_Other :: "string option"

record DNSEndpoint =
  de_Name :: string
  de_Namespace :: string
  de_Labels :: string_map
  de_Annotations :: string_map
  de_OwnerName :: "string option"
  de_Endpoints :: "DNSTarget list"

text \<open>Public IP addresses, Traffic Manager profiles and record sets of Azure. \<open>pip_Properties\<close> and
  \<open>tpr_Properties\<close> are embedded pointers of the SDK's structs.\<close>

record PublicIPAddressDNSSettings =
  pds_DomainNameLabel :: "string option"
  pds_Fqdn :: "string option"

record PublicIPAddressProperties =
  pipp_IPAddress :: "string option"
  pipp_DNSSettings :: "PublicIPAddressDNSSettings option"

record PublicIPAddress =
  pip_ID :: "string option"
  pip_Name :: "string option"
  pip_Location :: "string option"
  pip_Properties :: "PublicIPAddressProperties option"

record MonitorConfig =
  mc_ProfileMonitorStatus :: string
  mc_Protocol :: string
  mc_Port :: int
  mc_Path :: string
  mc_IntervalInSeconds :: "int option"
  mc_TimeoutInSeconds :: "int option"
  mc_ToleratedNumberOfFailures :: "int option"
  mc_CustomHeaders :: "(string \<times> string) list option"

record TMEndpoint =
  tme_Name :: string
  tme_Type :: string
  tme_EndpointStatus :: string
  tme_EndpointMonitorStatus :: string
  tme_TargetResourceID :: "string option"
  tme_Target :: "string option"
  tme_Weight :: int
  tme_EndpointLocation :: "string option"

record TMProfile =
  tmp_Location :: string
  tmp_ProfileStatus :: string
  tmp_TrafficRoutingMethod :: string
  tmp_RelativeName :: string
  tmp_Fqdn :: string
  tmp_TTL :: int
  tmp_MonitorConfig :: MonitorConfig
  tmp_Endpoints :: "TMEndpoint list"
  tmp_TrafficViewEnrollmentStatus :: string
  tmp_MaxReturn :: int

record DNSConfigResult =
  dcr_Fqdn :: "string option"

record ProfilePropertiesResult =
  ppr_DNSConfig :: "DNSConfigResult option"

record TMProfileResult =
  tpr_Properties :: "ProfilePropertiesResult option"

record RecordSet =
  rset_TTL :: int
  rset_Fqdn :: string
  rset_Cname :: "string option"

text \<open>Routes, pods and nodes of the controlled clusters. \<open>rt_TLS\<close> says whether the route has a TLS
  section.\<close>

record RouteIngress =
  ri_RouterName :: string

record Route =
  rt_Meta :: ObjectMeta
  rt_Host :: string
  rt_TLS :: bool
  rt_To_Name :: string
  rt_Ingress :: "RouteIngress list"

record Container =
  cnt_Name :: string
  cnt_ReadinessProbe :: "Probe option"

record Pod =
  pod_NodeSelector :: "(string \<rightharpoonup> string) option"
  pod_Containers :: "Container list"

record Node =
  node_ProviderID :: string
  node_Labels :: "(string \<rightharpoonup> string)"

text \<open>Objects of Google Cloud. A slice that the sources test against nil is an \<open>option\<close>; \<open>TargetLink\<close>
  is all that is read of an operation.\<close>

record Firewall =
  fw_Allowed :: "string list option"
  fw_Direction :: string
  fw_SourceRanges :: "string list"
  fw_TargetTags :: "string list"
  fw_Network :: string
  fw_Name :: string

record HTTPHealthCheck =
  hhc_Host :: string
  hhc_RequestPath :: string
  hhc_PortSpecification :: string

record ComputeHealthCheck =
  chc_Name :: string
  chc_CheckIntervalSec :: int
  chc_UnhealthyThreshold :: int
  chc_TimeoutSec :: int
  chc_Type :: string
  chc_HttpHealthCheck :: "HTTPHealthCheck option"
  chc_HttpsHealthCheck :: "HTTPHealthCheck option"
  chc_SelfLink :: string

record NetworkEndpointGroup =
  neg_Zone :: string
  neg_Network :: string
  neg_Subnetwork :: string
  neg_DefaultPort :: int
  neg_Name :: string
  neg_NetworkEndpointType :: string
  neg_SelfLink :: string

record NetworkEndpoint =
  ne_Instance :: string
  ne_Port :: int

record Backend =
  be_BalancingMode :: string
  be_MaxConnectionsPerEndpoint :: int
  be_Group :: string

record BackendService =
  bs_Protocol :: string
  bs_LoadBalancingScheme :: string
  bs_LocalityLbPolicy :: string
  bs_SessionAffinity :: string
  bs_HealthChecks :: "string list option"
  bs_Backends :: "Backend list"
  bs_Name :: string
  bs_Fingerprint :: string
  bs_SelfLink :: string

record ForwardingRule =
  fr_IPProtocol :: string
  fr_IPAddress :: string
  fr_LoadBalancingScheme :: string
  fr_PortRange :: string
  fr_Target :: string
  fr_Name :: string

record TargetTcpProxy =
  ttp_Name :: string
  ttp_Service :: string
  ttp_SelfLink :: string

record Address =
  adr_IpVersion :: string
  adr_Name :: string
  adr_Address :: string

record ResourceRecordSet =
  rrs_Name :: string
  rrs_Type :: string
  rrs_Ttl :: int
  rrs_Rrdatas :: "string list option"

record Operation =
  op_TargetLink :: string

text \<open>Handles of a REST configuration and of a client for a controlled cluster.\<close>

type_synonym RestConfig = string
type_synonym RemoteClient = string

text \<open>A \<open>labels.Selector\<close>, as the label package makes it.\<close>

type_synonym Selector = string

section \<open>Events\<close>

text \<open>The two reconcilers inside the remote managers send the address of their loop variable over a channel,
  and the receiver reads the variable when it gets to it. The variable is shared with the receiver:
  its assignments are events, \<open>SetRecordVar\<close> and \<open>SetDiscoveryVar\<close>, and the events of a send,
  \<open>NotifyRecord\<close> and \<open>NotifyDiscovery\<close>, carry no value.\<close>

datatype k8s_event =
    GetGlobalDNSRecord NamespacedName
  | GetGlobalDNSZone string
  | UpdateGlobalDNSRecord GlobalDNSRecord
  | UpdateGlobalDNSRecordStatus GlobalDNSRecord
  | ManageZoneError GlobalDNSZone error
  | ManageZoneSuccess GlobalDNSZone
  | ListGlobalDNSRecords
  | GetSecret NamespacedName
  | GetCredentialsRequest NamespacedName
  | CreateCredentialsRequest CredentialsRequest
  | UpdateCredentialsRequest CredentialsRequest
  | GetDNSEndpoint NamespacedName
  | CreateDNSEndpoint DNSEndpoint
  | UpdateDNSEndpoint DNSEndpoint
  | GetGlobalRouteDiscovery NamespacedName
  | UpdateGlobalRouteDiscovery GlobalRouteDiscovery
  | UpdateGlobalRouteDiscoveryStatus GlobalRouteDiscovery
  | ListGlobalRouteDiscoveries
  | CreateOrUpdateRecord GlobalRouteDiscovery string GlobalDNSRecord
  | RecordEvent string string string
  | SetRecordVar GlobalDNSRecord
  | NotifyRecord
  | SetDiscoveryVar GlobalRouteDiscovery
  | NotifyDiscovery

datatype remote_event =
    DiscoverMapper RestConfig
  | NewClient RestConfig
  | GetRemoteService RemoteClient NamespacedName
  | GetRemoteInfrastructure RemoteClient string
  | NewManager RestConfig string
  | NewController string
  | WatchService NamespacedName
  | WatchKind string
  | GetRoute RemoteClient NamespacedName
  | ListRoutes RemoteClient "Selector option"
  | ListPods RemoteClient Selector string
  | ListNodes RemoteClient Selector
  | GetIngressController RemoteClient NamespacedName
  | Enqueue NamespacedName
  | ManagerStart string
  | ManagerStop string

datatype aws_event =
    ListHealthChecks
  | CreateHealthCheck CreateHealthCheckInput
  | UpdateHealthCheck UpdateHealthCheckInput
  | DeleteHealthCheck "string option"
  | ChangeTagsForResource ChangeTagsInput
  | ListTrafficPolicies
  | GetTrafficPolicy string int
  | CreateTrafficPolicy string string
  | DeleteTrafficPolicy "string option" int
  | ListTrafficPolicyInstancesByPolicy "string option" int
  | ListTrafficPolicyInstancesByHostedZone string
  | GetTrafficPolicyInstance "string option"
  | CreateTrafficPolicyInstance CreateTrafficPolicyInstanceInput
  | DeleteTrafficPolicyInstance "string option"
  | GetHostedZone string

datatype azure_event =
    DeleteProfile string string
  | CheckRelativeDNSName string
  | CreateOrUpdateProfile string string TMProfile
  | ListPublicIPs string
  | CheckDNSName string string
  | CreateOrUpdatePublicIP string string PublicIPAddress
  | DeleteRecordSet string string string string
  | CreateOrUpdateRecordSet string string string string RecordSet

text \<open>The arguments are those of the calls, the project first.\<close>

datatype google_event =
    GetFirewall string string
  | InsertFirewall string Firewall
  | UpdateFirewall string string Firewall
  | GetComputeHealthCheck string string
  | InsertComputeHealthCheck string ComputeHealthCheck
  | UpdateComputeHealthCheck string string ComputeHealthCheck
  | DeleteComputeHealthCheck string string
  | GetNEG string string string
  | InsertNEG string string NetworkEndpointGroup
  | DeleteNEG string string string
  | ListNetworkEndpoints string string string
  | DetachNetworkEndpoints string string string "NetworkEndpoint option list"
  | AttachNetworkEndpoints string string string "NetworkEndpoint option list"
  | GetBackendService string string
  | InsertBackendService string BackendService
  | UpdateBackendService string string BackendService
  | DeleteBackendService string string
  | GetTargetTcpProxy string string
  | InsertTargetTcpProxy string TargetTcpProxy
  | SetBackendService string string string
  | DeleteTargetTcpProxy string string
  | GetAddress string string
  | InsertAddress string Address
  | DeleteAddress string string
  | GetForwardingRule string string
  | InsertForwardingRule string ForwardingRule
  | DeleteForwardingRule string string
  | GetRecordSet string string string string
  | CreateRecordSet string string ResourceRecordSet
  | PatchRecordSet string string string string ResourceRecordSet
  | DeleteGoogleRecordSet string string string string

datatype event =
    K8s k8s_event
  | Remote remote_event
  | Aws aws_event
  | Azure azure_event
  | Google google_event
  | LookupHost string

text \<open>Events after which the state of an external system may be different.\<close>

fun mutating :: "event \<Rightarrow> bool" where
  "mutating (K8s e) = (case e of
      UpdateGlobalDNSRecord _ \<Rightarrow> True | UpdateGlobalDNSRecordStatus _ \<Rightarrow> True
    | ManageZoneError _ _ \<Rightarrow> True | ManageZoneSuccess _ \<Rightarrow> True
    | CreateCredentialsRequest _ \<Rightarrow> True | UpdateCredentialsRequest _ \<Rightarrow> True
    | CreateDNSEndpoint _ \<Rightarrow> True | UpdateDNSEndpoint _ \<Rightarrow> True
    | UpdateGlobalRouteDiscovery _ \<Rightarrow> True | UpdateGlobalRouteDiscoveryStatus _ \<Rightarrow> True
    | CreateOrUpdateRecord _ _ _ \<Rightarrow> True | SetDiscoveryVar _ \<Rightarrow> True | NotifyDiscovery \<Rightarrow> True
    | RecordEvent _ _ _ \<Rightarrow> True | SetRecordVar _ \<Rightarrow> True | NotifyRecord \<Rightarrow> True | _ \<Rightarrow> False)"
| "mutating (Remote e) = (case e of
      WatchKind _ \<Rightarrow> True | Enqueue _ \<Rightarrow> True
    | NewManager _ _ \<Rightarrow> True | NewController _ \<Rightarrow> True | WatchService _ \<Rightarrow> True
    | ManagerStart _ \<Rightarrow> True | ManagerStop _ \<Rightarrow> True | _ \<Rightarrow> False)"
| "mutating (Aws e) = (case e of
      CreateHealthCheck _ \<Rightarrow> True | UpdateHealthCheck _ \<Rightarrow> True | DeleteHealthCheck _ \<Rightarrow> True
    | ChangeTagsForResource _ \<Rightarrow> True
    | CreateTrafficPolicy _ _ \<Rightarrow> True | DeleteTrafficPolicy _ _ \<Rightarrow> True
    | CreateTrafficPolicyInstance _ \<Rightarrow> True | DeleteTrafficPolicyInstance _ \<Rightarrow> True
    | _ \<Rightarrow> False)"
| "mutating (Azure e) = (case e of
      CheckRelativeDNSName _ \<Rightarrow> False | ListPublicIPs _ \<Rightarrow> False | CheckDNSName _ _ \<Rightarrow> False | _ \<Rightarrow> True)"
| "mutating (Google e) = (case e of
      GetFirewall _ _ \<Rightarrow> False | GetComputeHealthCheck _ _ \<Rightarrow> False | GetNEG _ _ _ \<Rightarrow> False
    | ListNetworkEndpoints _ _ _ \<Rightarrow> False | GetBackendService _ _ \<Rightarrow> False | GetTargetTcpProxy _ _ \<Rightarrow> False
    | GetAddress _ _ \<Rightarrow> False | GetForwardingRule _ _ \<Rightarrow> False | GetRecordSet _ _ _ _ \<Rightarrow> False | _ \<Rightarrow> True)"
| "mutating (LookupHost _) = False"

section \<open>The environment\<close>

type_synonym ('w, 'a) answer = "'w \<Rightarrow> 'a outcome \<times> 'w"

record 'w route53_api =
  r53_ListHealthChecks :: "('w, HealthCheck list) answer"
  r53_CreateHealthCheck :: "CreateHealthCheckInput \<Rightarrow> ('w, string option) answer"
  r53_UpdateHealthCheck :: "UpdateHealthCheckInput \<Rightarrow> ('w, HealthCheck option) answer"
  r53_DeleteHealthCheck :: "string option \<Rightarrow> ('w, unit) answer"
  r53_ChangeTagsForResource :: "ChangeTagsInput \<Rightarrow> ('w, unit) answer"
  r53_ListTrafficPolicies :: "('w, TrafficPolicySummary list) answer"
  r53_GetTrafficPolicy :: "string \<Rightarrow> int \<Rightarrow> ('w, TrafficPolicy option) answer"
  r53_CreateTrafficPolicy :: "string \<Rightarrow> string \<Rightarrow> ('w, TrafficPolicy option) answer"
  r53_DeleteTrafficPolicy :: "string option \<Rightarrow> int \<Rightarrow> ('w, unit) answer"
  r53_ListTrafficPolicyInstancesByPolicy ::
    "string option \<Rightarrow> int \<Rightarrow> ('w, TrafficPolicyInstance list) answer"
  r53_ListTrafficPolicyInstancesByHostedZone ::
    "string \<Rightarrow> ('w, TrafficPolicyInstance list) answer"
  r53_GetTrafficPolicyInstance :: "string option \<Rightarrow> ('w, TrafficPolicyInstance option) answer"
  r53_CreateTrafficPolicyInstance ::
    "CreateTrafficPolicyInstanceInput \<Rightarrow> ('w, TrafficPolicyInstance option) answer"
  r53_DeleteTrafficPolicyInstance :: "string option \<Rightarrow> ('w, unit) answer"
  r53_GetHostedZone :: "string \<Rightarrow> ('w, string option) answer"

record 'w k8s_api =
  k_GetGlobalDNSRecord :: "NamespacedName \<Rightarrow> ('w, GlobalDNSRecord) answer"
  k_GetGlobalDNSZone :: "string \<Rightarrow> ('w, GlobalDNSZone) answer"
  k_UpdateGlobalDNSRecord :: "GlobalDNSRecord \<Rightarrow> ('w, GlobalDNSRecord) answer"
  k_UpdateGlobalDNSRecordStatus :: "GlobalDNSRecord \<Rightarrow> ('w, GlobalDNSRecord) answer"
  k_ListGlobalDNSRecords :: "('w, GlobalDNSRecord list) answer"
  k_GetSecret :: "NamespacedName \<Rightarrow> ('w, Secret) answer"
  k_GetCredentialsRequest :: "NamespacedName \<Rightarrow> ('w, CredentialsRequest) answer"
  k_CreateCredentialsRequest :: "CredentialsRequest \<Rightarrow> ('w, CredentialsRequest) answer"
  k_UpdateCredentialsRequest :: "CredentialsRequest \<Rightarrow> ('w, CredentialsRequest) answer"
  k_GetDNSEndpoint :: "NamespacedName \<Rightarrow> ('w, DNSEndpoint) answer"
  k_CreateDNSEndpoint :: "DNSEndpoint \<Rightarrow> ('w, unit) answer"
  k_UpdateDNSEndpoint :: "DNSEndpoint \<Rightarrow> ('w, unit) answer"
  k_SetControllerReference :: "ObjectMeta \<Rightarrow> DNSEndpoint \<Rightarrow> DNSEndpoint outcome"
  k_ManageZoneError :: "GlobalDNSZone \<Rightarrow> error \<Rightarrow> ('w, unit) answer"
  k_ManageZoneSuccess :: "GlobalDNSZone \<Rightarrow> ('w, unit) answer"
  k_GetGlobalRouteDiscovery :: "NamespacedName \<Rightarrow> ('w, GlobalRouteDiscovery) answer"
  k_UpdateGlobalRouteDiscovery :: "GlobalRouteDiscovery \<Rightarrow> ('w, GlobalRouteDiscovery) answer"
  k_UpdateGlobalRouteDiscoveryStatus :: "GlobalRouteDiscovery \<Rightarrow> ('w, GlobalRouteDiscovery) answer"
  k_ListGlobalRouteDiscoveries :: "('w, GlobalRouteDiscovery list) answer"
  k_CreateOrUpdateRecord :: "GlobalRouteDiscovery \<Rightarrow> string \<Rightarrow> GlobalDNSRecord \<Rightarrow> ('w, unit) answer"
  k_SetDiscoveryVar :: "GlobalRouteDiscovery \<Rightarrow> 'w \<Rightarrow> 'w"
  k_NotifyDiscovery :: "'w \<Rightarrow> 'w"
  k_RecordEvent :: "string \<Rightarrow> string \<Rightarrow> string \<Rightarrow> 'w \<Rightarrow> 'w"
  k_SetRecordVar :: "GlobalDNSRecord \<Rightarrow> 'w \<Rightarrow> 'w"
  k_Notify :: "'w \<Rightarrow> 'w"

text \<open>\<open>ListComplete\<close> returns an iterator: its values, and the error of the call that fetches what comes
  after the last of them.\<close>

record 'w azure_api =
  az_DeleteProfile :: "string \<Rightarrow> string \<Rightarrow> ('w, unit) answer"
  az_CheckRelativeDNSName :: "string \<Rightarrow> ('w, bool option) answer"
  az_CreateOrUpdateProfile :: "string \<Rightarrow> string \<Rightarrow> TMProfile \<Rightarrow> ('w, TMProfileResult) answer"
  az_ListComplete :: "string \<Rightarrow> ('w, PublicIPAddress list \<times> error option) answer"
  az_CheckDNSName :: "string \<Rightarrow> string \<Rightarrow> ('w, bool option) answer"
  az_CreateOrUpdatePublicIP :: "string \<Rightarrow> string \<Rightarrow> PublicIPAddress \<Rightarrow> ('w, unit) answer"
  az_DeleteRecordSet :: "string \<Rightarrow> string \<Rightarrow> string \<Rightarrow> string \<Rightarrow> ('w, unit) answer"
  az_CreateOrUpdateRecordSet :: "string \<Rightarrow> string \<Rightarrow> string \<Rightarrow> string \<Rightarrow> RecordSet \<Rightarrow> ('w, unit) answer"

text \<open>The \<open>ListNetworkEndpoints\<close> call hands the items of its pages to a callback, until a page fails.\<close>

record 'w google_api =
  g_GetFirewall :: "string \<Rightarrow> string \<Rightarrow> ('w, Firewall) answer"
  g_InsertFirewall :: "string \<Rightarrow> Firewall \<Rightarrow> ('w, Operation) answer"
  g_UpdateFirewall :: "string \<Rightarrow> string \<Rightarrow> Firewall \<Rightarrow> ('w, Operation) answer"
  g_GetHealthCheck :: "string \<Rightarrow> string \<Rightarrow> ('w, ComputeHealthCheck) answer"
  g_InsertHealthCheck :: "string \<Rightarrow> ComputeHealthCheck \<Rightarrow> ('w, Operation) answer"
  g_UpdateHealthCheck :: "string \<Rightarrow> string \<Rightarrow> ComputeHealthCheck \<Rightarrow> ('w, Operation) answer"
  g_DeleteHealthCheck :: "string \<Rightarrow> string \<Rightarrow> ('w, Operation) answer"
  g_GetNEG :: "string \<Rightarrow> string \<Rightarrow> string \<Rightarrow> ('w, NetworkEndpointGroup) answer"
  g_InsertNEG :: "string \<Rightarrow> string \<Rightarrow> NetworkEndpointGroup \<Rightarrow> ('w, Operation) answer"
  g_DeleteNEG :: "string \<Rightarrow> string \<Rightarrow> string \<Rightarrow> ('w, Operation) answer"
  g_ListNetworkEndpoints :: "string \<Rightarrow> string \<Rightarrow> string \<Rightarrow> ('w, NetworkEndpoint option list \<times> error option) answer"
  g_DetachNetworkEndpoints :: "string \<Rightarrow> string \<Rightarrow> string \<Rightarrow> NetworkEndpoint option list \<Rightarrow> ('w, Operation) answer"
  g_AttachNetworkEndpoints :: "string \<Rightarrow> string \<Rightarrow> string \<Rightarrow> NetworkEndpoint option list \<Rightarrow> ('w, Operation) answer"
  g_GetBackendService :: "string \<Rightarrow> string \<Rightarrow> ('w, BackendService) answer"
  g_InsertBackendService :: "string \<Rightarrow> BackendService \<Rightarrow> ('w, Operation) answer"
  g_UpdateBackendService :: "string \<Rightarrow> string \<Rightarrow> BackendService \<Rightarrow> ('w, Operation) answer"
  g_DeleteBackendService :: "string \<Rightarrow> string \<Rightarrow> ('w, Operation) answer"
  g_GetTargetTcpProxy :: "string \<Rightarrow> string \<Rightarrow> ('w, TargetTcpProxy) answer"
  g_InsertTargetTcpProxy :: "string \<Rightarrow> TargetTcpProxy \<Rightarrow> ('w, Operation) answer"
  g_SetBackendService :: "string \<Rightarrow> string \<Rightarrow> string \<Rightarrow> ('w, Operation) answer"
  g_DeleteTargetTcpProxy :: "string \<Rightarrow> string \<Rightarrow> ('w, Operation) answer"
  g_GetAddress :: "string \<Rightarrow> string \<Rightarrow> ('w, Address) answer"
  g_InsertAddress :: "string \<Rightarrow> Address \<Rightarrow> ('w, Operation) answer"
  g_DeleteAddress :: "string \<Rightarrow> string \<Rightarrow> ('w, Operation) answer"
  g_GetForwardingRule :: "string \<Rightarrow> string \<Rightarrow> ('w, ForwardingRule) answer"
  g_InsertForwardingRule :: "string \<Rightarrow> ForwardingRule \<Rightarrow> ('w, Operation) answer"
  g_DeleteForwardingRule :: "string \<Rightarrow> string \<Rightarrow> ('w, Operation) answer"
  g_GetRecordSet :: "string \<Rightarrow> string \<Rightarrow> string \<Rightarrow> string \<Rightarrow> ('w, ResourceRecordSet) answer"
  g_CreateRecordSet :: "string \<Rightarrow> string \<Rightarrow> ResourceRecordSet \<Rightarrow> ('w, ResourceRecordSet) answer"
  g_PatchRecordSet :: "string \<Rightarrow> string \<Rightarrow> string \<Rightarrow> string \<Rightarrow> ResourceRecordSet \<Rightarrow> ('w, ResourceRecordSet) answer"
  g_DeleteRecordSet :: "string \<Rightarrow> string \<Rightarrow> string \<Rightarrow> string \<Rightarrow> ('w, unit) answer"

record 'w remote_api =
  m_RESTConfigFromKubeConfig :: "string \<Rightarrow> RestConfig outcome"
  m_NewDiscoveryRESTMapper :: "RestConfig \<Rightarrow> ('w, unit) answer"
  m_AddToScheme :: "unit outcome"
  m_NewClient :: "RestConfig \<Rightarrow> ('w, RemoteClient) answer"
  m_GetService :: "RemoteClient \<Rightarrow> NamespacedName \<Rightarrow> ('w, Service) answer"
  m_GetInfrastructure :: "RemoteClient \<Rightarrow> string \<Rightarrow> ('w, Infrastructure) answer"
  m_NewStoppableManager :: "RestConfig \<Rightarrow> ('w, unit) answer"
  m_NewController :: "string \<Rightarrow> ('w, unit) answer"
  m_Watch :: "NamespacedName \<Rightarrow> ('w, unit) answer"
  m_WatchKind :: "string \<Rightarrow> ('w, unit) answer"
  m_GetRoute :: "RemoteClient \<Rightarrow> NamespacedName \<Rightarrow> ('w, Route) answer"
  m_ListRoutes :: "RemoteClient \<Rightarrow> Selector option \<Rightarrow> ('w, Route list) answer"
  m_ListPods :: "RemoteClient \<Rightarrow> Selector \<Rightarrow> string \<Rightarrow> ('w, Pod list) answer"
  m_ListNodes :: "RemoteClient \<Rightarrow> Selector \<Rightarrow> ('w, Node list) answer"
  m_GetIngressController :: "RemoteClient \<Rightarrow> NamespacedName \<Rightarrow> ('w, string) answer"
  m_Enqueue :: "NamespacedName \<Rightarrow> 'w \<Rightarrow> 'w"
  m_Start :: "string \<Rightarrow> 'w \<Rightarrow> 'w"
  m_Stop :: "string \<Rightarrow> 'w \<Rightarrow> 'w"

text \<open>Packages util and apis of operator-utils.\<close>

record util_pkg =
  u_HasFinalizer :: "ObjectMeta \<Rightarrow> string \<Rightarrow> bool"
  u_AddFinalizer :: "ObjectMeta \<Rightarrow> string \<Rightarrow> ObjectMeta"
  u_RemoveFinalizer :: "ObjectMeta \<Rightarrow> string \<Rightarrow> ObjectMeta"
  u_IsBeingDeleted :: "ObjectMeta \<Rightarrow> bool"
  u_AddOrReplaceCondition :: "Condition \<Rightarrow> Conditions \<Rightarrow> Conditions"
  u_GetLastCondition :: "Conditions \<Rightarrow> Condition option"
  u_GetKeyShort :: "ObjectMeta \<Rightarrow> string"
  u_ReconcileError :: string
  u_ReconcileErrorReason :: string
  u_ReconcileSuccess :: string
  u_ReconcileSuccessReason :: string

text \<open>Package strset: the same template as the rule reference set, at strings.\<close>

record strset_pkg =
  ss_New :: "string list \<Rightarrow> string Set"
  ss_List :: "string Set \<Rightarrow> string list"
  ss_IsEqual :: "string Set \<Rightarrow> string Set \<Rightarrow> bool"
  ss_Difference :: "string Set \<Rightarrow> string Set \<Rightarrow> string Set"
  ss_Add :: "string Set \<Rightarrow> string \<Rightarrow> string Set"

record json_pkg =
  j_Marshal :: "Route53TrafficPolicyDocument \<Rightarrow> string outcome"
  j_Unmarshal :: "string \<Rightarrow> Route53TrafficPolicyDocument outcome"
  j_UnmarshalProbe :: "string \<Rightarrow> Probe outcome"

text \<open>Labels and selectors of apimachinery; a nil map of labels is told from an empty one.\<close>

record label_pkg =
  l_LabelSelectorAsSelector :: "LabelSelector \<Rightarrow> Selector outcome"
  l_SetAsLabelSelector :: "(string \<rightharpoonup> string) option \<Rightarrow> LabelSelector"
  l_SelectorFromSet :: "(string \<rightharpoonup> string) option \<Rightarrow> Selector"
  l_Matches :: "Selector \<Rightarrow> string_map \<Rightarrow> bool"

text \<open>Building the clients of the clouds: \<open>session.NewSession\<close>, the adal package, and the
  constructors of the Google clients. Credentials and clients are opaque handles.\<close>

record cloud_auth =
  ca_NewSession :: "unit outcome"
  ca_NewOAuthConfig :: "string \<Rightarrow> string outcome"
  ca_NewServicePrincipalToken :: "string \<Rightarrow> string \<Rightarrow> string \<Rightarrow> string outcome"
  ca_NewBearerAuthorizer :: "string \<Rightarrow> string"
  ca_CredentialsFromJSON :: "string \<Rightarrow> (string \<times> string) outcome"
  ca_NewComputeService :: "string \<Rightarrow> string outcome"
  ca_NewDNSService :: "string \<Rightarrow> string outcome"

record 'w env =
  e_auth :: cloud_auth
  e_k8s :: "'w k8s_api"
  e_remote :: "'w remote_api"
  e_route53 :: "string \<Rightarrow> string \<Rightarrow> 'w route53_api"
  e_azure :: "string \<Rightarrow> string \<Rightarrow> 'w azure_api"
  e_google :: "string \<Rightarrow> string \<Rightarrow> 'w google_api"
  e_labels :: label_pkg
  e_util :: util_pkg
  e_strset :: strset_pkg
  e_json :: json_pkg
  e_lookup_host :: "string \<Rightarrow> ('w, string list) answer"
  e_now :: "'w \<Rightarrow> int"
  e_uuid :: "'w \<Rightarrow> string \<times> 'w"
  e_rand_Intn :: "nat \<Rightarrow> 'w \<Rightarrow> nat \<times> 'w"
  e_multierror :: "error option list \<Rightarrow> error option"
  e_multierror_text :: "string list \<Rightarrow> string"
  e_operator_namespace :: string

text \<open>The programs of the operator: their local data is a parameter until a controller fixes it.\<close>

type_synonym ('w, 'l, 'a) op = "(event, 'w, 'l, 'a) prog"

text \<open>\<open>metav1.Now()\<close> and \<open>uuid.NewUUID()\<close> read the clock and the random source.\<close>

definition now :: "'w env \<Rightarrow> ('w, 'l, int) op" where
  "now E = (\<lambda>s. (Ret (e_now E (world s)), s))"

definition new_uuid :: "'w env \<Rightarrow> ('w, 'l, string) op" where
  "new_uuid E = (\<lambda>s. case e_uuid E (world s) of (u, w) \<Rightarrow> (Ret u, s\<lparr>world := w\<rparr>))"

definition rand_Intn :: "'w env \<Rightarrow> nat \<Rightarrow> ('w, 'l, nat) op" where
  "rand_Intn E n = (\<lambda>s. case e_rand_Intn E n (world s) of (i, w) \<Rightarrow> (Ret i, s\<lparr>world := w\<rparr>))"

text \<open>A call that answers without a request: a pure function of a package.\<close>

definition pure_call :: "'a outcome \<Rightarrow> ('w, 'l, 'a) op" where
  "pure_call r = (\<lambda>s. (r, s))"

text \<open>The text of an error, \<open>err.Error()\<close>.\<close>

fun error_text :: "'w env \<Rightarrow> error \<Rightarrow> string" where
  "error_text E (ErrNew s) = s"
| "error_text E (StatusErr _ s) = s"
| "error_text E (AwsErr _ s) = s"
| "error_text E (GoogleErr _ s) = s"
| "error_text E (MultiErr e es) = e_multierror_text E (error_text E e # map (error_text E) es)"
| "error_text E (OtherErr s) = s"

lemma now_frame [frame_intros]: "emits P (now E)" "keeps f (now E)"
  by (simp_all add: now_def obeys_def emits_rel_def keeps_rel_def)

lemma new_uuid_frame [frame_intros]: "emits P (new_uuid E)" "keeps f (new_uuid E)"
  by (simp_all add: new_uuid_def obeys_def emits_rel_def keeps_rel_def split: prod.splits)

lemma rand_Intn_frame [frame_intros]: "emits P (rand_Intn E n)" "keeps f (rand_Intn E n)"
  by (simp_all add: rand_Intn_def obeys_def emits_rel_def keeps_rel_def split: prod.splits)

lemma pure_call_frame [frame_intros]: "emits P (pure_call r)" "keeps f (pure_call r)"
  by (simp_all add: pure_call_def obeys_def emits_rel_def keeps_rel_def)

lemma call_eq_Ret [run_simps]:
  "pure_call r s = (Ret a, t) \<longleftrightarrow> r = Ret a \<and> t = s"
  "now E s = (Ret i, t) \<longleftrightarrow> i = e_now E (world s) \<and> t = s"
  "new_uuid E s = (Ret u, t) \<longleftrightarrow> (\<exists>w. e_uuid E (world s) = (u, w) \<and> t = s\<lparr>world := w\<rparr>)"
  "rand_Intn E n s = (Ret j, t) \<longleftrightarrow> (\<exists>w. e_rand_Intn E n (world s) = (j, w) \<and> t = s\<lparr>world := w\<rparr>)"
  by (auto simp: pure_call_def now_def new_uuid_def rand_Intn_def split: prod.splits)

section \<open>Runs that only read\<close>

text \<open>No request that changes something is sent, and a part of the operator's data and a part of
  the world, such as the objects a cloud stores, are as before.\<close>

definition reads_rel :: "('l \<Rightarrow> 'b) \<Rightarrow> ('w \<Rightarrow> 'c) \<Rightarrow> (event, 'w, 'l) io \<Rightarrow> (event, 'w, 'l) io \<Rightarrow> bool" where
  "reads_rel f g s t \<longleftrightarrow> emits_rel (\<lambda>ev. \<not> mutating ev) s t \<and> f (local t) = f (local s)
     \<and> g (world t) = g (world s)"

interpretation reads: frame "reads_rel f g" for f g
  by unfold_locales (auto simp: reads_rel_def emits_frame.R_refl intro: emits_frame.R_trans)

lemma reads_request:
  assumes "\<not> mutating ev" and "q (world s) = (Ret a, w)" and "g w = g (world s)"
  shows "returns (reads_rel f g) (request ev q) s a"
  using assms by (auto simp: returns_def request_def reads_rel_def emits_rel_def)

lemma reads_settle:
  assumes "\<not> mutating ev"
    and "\<And>r w. q (world s) = (r, w) \<Longrightarrow> g w = g (world s) \<and> (r = Ret a \<or> (\<exists>e. r = Fail e \<and> allowed e))"
  shows "settles (reads_rel f g) allowed (request ev q) s a"
  using assms by (cases "q (world s)") (force simp: settles_def request_def reads_rel_def emits_rel_def)

lemma reads_local: "reads_rel f g s t \<Longrightarrow> f (local t) = f (local s)"
  by (simp add: reads_rel_def)

lemma reads_world: "reads_rel f g s t \<Longrightarrow> g (world t) = g (world s)"
  by (simp add: reads_rel_def)

lemmas reads_intros = reads.returns_ret reads.returns_get_local reads.returns_deref reads.returns_bnd
  reads.returns_seq reads.returns_for_each

section \<open>Documented behaviour\<close>

text \<open>\<open>e_multierror\<close> appends results to a multierror.Error and takes its \<open>ErrorOrNil\<close>: documented to be nil
  when all results were.\<close>

definition multierror_ok :: "'w env \<Rightarrow> bool" where
  "multierror_ok E \<longleftrightarrow> (\<forall>results. e_multierror E results = None \<longleftrightarrow> (\<forall>r \<in> set results. r = None))"

text \<open>strset is a set package.\<close>

definition strset_ok :: "'w env \<Rightarrow> bool" where
  "strset_ok E \<longleftrightarrow> (\<exists>ok. go_set (ss_New (e_strset E)) (ss_List (e_strset E))
     (ss_IsEqual (e_strset E)) (ss_Difference (e_strset E)) (ss_Add (e_strset E)) ok)"

lemma strset_facts:
  assumes "strset_ok E"
  shows "set (ss_List (e_strset E) (ss_Difference (e_strset E)
      (ss_New (e_strset E) xs) (ss_New (e_strset E) ys))) = set xs - set ys"
    and "distinct (ss_List (e_strset E) (ss_Difference (e_strset E)
      (ss_New (e_strset E) xs) (ss_New (e_strset E) ys)))"
    and "set (ss_List (e_strset E) (ss_New (e_strset E) xs)) = set xs"
    and "distinct (ss_List (e_strset E) (ss_New (e_strset E) xs))"
    and "ss_IsEqual (e_strset E) (ss_New (e_strset E) xs) (ss_New (e_strset E) ys) \<longleftrightarrow> set xs = set ys"
  using assms go_set.to_add_set go_set.to_add_distinct go_set.dedup go_set.is_equal_mk
  unfolding strset_ok_def by metis+

lemma strset_collected:
  assumes "strset_ok E"
  shows "set (ss_List (e_strset E) (ss_Difference (e_strset E)
      (foldl (ss_Add (e_strset E)) (ss_New (e_strset E) []) xs)
      (foldl (ss_Add (e_strset E)) (ss_New (e_strset E) []) ys))) = set xs - set ys"
    and "distinct (ss_List (e_strset E) (ss_Difference (e_strset E)
      (foldl (ss_Add (e_strset E)) (ss_New (e_strset E) []) xs)
      (foldl (ss_Add (e_strset E)) (ss_New (e_strset E) []) ys)))"
  using assms go_set.collected_difference unfolding strset_ok_def by metis+

text \<open>Finalizers: adding makes it present, removing makes it absent, other finalizers stay, and
  neither touches the deletion timestamp.\<close>

definition finalizers_ok :: "'w env \<Rightarrow> bool" where
  "finalizers_ok E \<longleftrightarrow> (let U = e_util E in
     (\<forall>m f. u_HasFinalizer U m f \<longleftrightarrow> f \<in> set (om_Finalizers m))
     \<and> (\<forall>m f. set (om_Finalizers (u_AddFinalizer U m f)) = insert f (set (om_Finalizers m)))
     \<and> (\<forall>m f. set (om_Finalizers (u_RemoveFinalizer U m f)) = set (om_Finalizers m) - {f})
     \<and> (\<forall>m. u_IsBeingDeleted U m \<longleftrightarrow> om_DeletionTimestamp m \<noteq> None)
     \<and> (\<forall>m f. om_DeletionTimestamp (u_AddFinalizer U m f) = om_DeletionTimestamp m))"

end
