(* ===== verification/Endpoint_Status.thy ===== *)
theory Endpoint_Status
  imports Services
begin

text \<open>
  controllers/globaldnsrecord/endpointstatus.go and controllers/common/remotemanager: what the
  operator knows of one endpoint of a record (its service and infrastructure objects in the
  controlled cluster, or the error of looking them up), the IPs of its load balancer, and the
  managers that watch controlled clusters.

  A Go map with string keys over which the sources range is a list of pairs with distinct keys;
  the order of the list is the order of that iteration.
\<close>

section \<open>EndpointStatus\<close>

record EndpointStatus =
  es_endpoint :: Endpoint
  es_client :: "RemoteClient option"
  es_service :: Service
  es_infrastructure :: Infrastructure
  es_err :: "error option"

type_synonym endpoint_map = "(string \<times> EndpointStatus) list"

text \<open>The value of a failed lookup: \<open>EndpointStatus{err: err, endpoint: endpoint}\<close>, the other
  fields being zero values. The platform status is a pointer, hence nil.\<close>

definition zero_Service :: Service where
  "zero_Service = \<lparr>svc_Name = [], svc_Namespace = [], svc_Type = [], svc_Selector = None,
     svc_Ports = [], svc_Ingress = []\<rparr>"

definition zero_Infrastructure :: Infrastructure where
  "zero_Infrastructure = \<lparr>inf_InfrastructureName = [], inf_PlatformStatus = None\<rparr>"

definition failed_status :: "error \<Rightarrow> Endpoint \<Rightarrow> EndpointStatus" where
  "failed_status e ep = \<lparr>es_endpoint = ep, es_client = None, es_service = zero_Service,
     es_infrastructure = zero_Infrastructure, es_err = Some e\<rparr>"

definition getDefaultIPs :: "EndpointStatus \<Rightarrow> ('w, 'l, string list) op" where
  "getDefaultIPs es =
     for_each (\<lambda>IPs ingress. ret (IPs @ [ing_IP ingress])) [] (svc_Ingress (es_service es))"

definition getAWSIPs :: "'w env \<Rightarrow> EndpointStatus \<Rightarrow> ('w, 'l, string list) op" where
  "getAWSIPs E es =
     for_each (\<lambda>IPs ingress.
         bnd (request (LookupHost (ing_Hostname ingress)) (e_lookup_host E (ing_Hostname ingress)))
           (\<lambda>addrs. ret (IPs @ addrs)))
       [] (svc_Ingress (es_service es))"

definition getIPs :: "'w env \<Rightarrow> EndpointStatus \<Rightarrow> ('w, 'l, string list) op" where
  "getIPs E es =
     bnd (deref (inf_PlatformStatus (es_infrastructure es))) (\<lambda>platform.
     bnd (if pl_Type platform = AWSPlatformType then getAWSIPs E es else getDefaultIPs es) (\<lambda>IPs.
     ret (sort IPs)))"

definition getRestConfig :: "'w env \<Rightarrow> NamespacedName \<Rightarrow> ('w, 'l, RestConfig) op" where
  "getRestConfig E secretRef =
     bnd (request (K8s (GetSecret secretRef)) (k_GetSecret (e_k8s E) secretRef)) (\<lambda>secret.
     case sec_Data secret ''kubeconfig'' of
       None \<Rightarrow> fail (ErrNew ''unable to find kubeconfig key in secret'')
     | Some kubeconfig \<Rightarrow> pure_call (m_RESTConfigFromKubeConfig (e_remote E) kubeconfig))"

definition record_getRestConfig :: "'w env \<Rightarrow> Endpoint \<Rightarrow> ('w, 'l, RestConfig) op" where
  "record_getRestConfig E endpoint = getRestConfig E (ep_CredentialsSecretRef endpoint)"

definition getClient :: "'w env \<Rightarrow> Endpoint \<Rightarrow> ('w, 'l, RemoteClient) op" where
  "getClient E endpoint =
     bnd (record_getRestConfig E endpoint) (\<lambda>restConfig.
     seq (request (Remote (DiscoverMapper restConfig)) (m_NewDiscoveryRESTMapper (e_remote E) restConfig))
    (seq (pure_call (m_AddToScheme (e_remote E)))
         (request (Remote (NewClient restConfig)) (m_NewClient (e_remote E) restConfig))))"

definition getEndPointStatus :: "'w env \<Rightarrow> Endpoint \<Rightarrow> ('w, 'l, EndpointStatus) op" where
  "getEndPointStatus E endpoint =
     bnd (getClient E endpoint) (\<lambda>client.
     bnd (request (Remote (GetRemoteService client (ep_LoadBalancerServiceRef endpoint)))
            (m_GetService (e_remote E) client (ep_LoadBalancerServiceRef endpoint))) (\<lambda>service.
     bnd (request (Remote (GetRemoteInfrastructure client ''cluster''))
            (m_GetInfrastructure (e_remote E) client ''cluster'')) (\<lambda>infrastructure.
     ret \<lparr>es_endpoint = endpoint, es_client = Some client, es_service = service,
          es_infrastructure = infrastructure, es_err = None\<rparr>)))"

text \<open>The conditions the controllers write. \<open>message\<close> is empty for a success.\<close>

definition error_condition :: "'w env \<Rightarrow> int \<Rightarrow> string \<Rightarrow> Condition" where
  "error_condition E t message = \<lparr>cond_Type = u_ReconcileError (e_util E), cond_Status = ''True'',
     cond_LastTransitionTime = t, cond_Reason = u_ReconcileErrorReason (e_util E),
     cond_Message = message\<rparr>"

definition success_condition :: "'w env \<Rightarrow> int \<Rightarrow> Condition" where
  "success_condition E t = \<lparr>cond_Type = u_ReconcileSuccess (e_util E), cond_Status = ''True'',
     cond_LastTransitionTime = t, cond_Reason = u_ReconcileSuccessReason (e_util E),
     cond_Message = []\<rparr>"

definition record_event :: "'w env \<Rightarrow> string \<Rightarrow> ('w, 'l, unit) op" where
  "record_event E message = request (K8s (RecordEvent ''Warning'' ''ProcessingError'' message))
     (\<lambda>w. (Ret (), k_RecordEvent (e_k8s E) ''Warning'' ''ProcessingError'' message w))"

definition map_lookup :: "(string \<rightharpoonup> 'a list) \<Rightarrow> string \<Rightarrow> 'a list" where
  "map_lookup m k = (case m k of None \<Rightarrow> [] | Some xs \<Rightarrow> xs)"

definition getEndpointStatuses ::
  "'w env \<Rightarrow> endpoint_map \<Rightarrow> ('w, 'l, string \<rightharpoonup> Conditions) op" where
  "getEndpointStatuses E endpointStatusMap =
     for_each (\<lambda>conditionMap (key, endpointStatus).
         case es_err endpointStatus of
           Some err \<Rightarrow>
             seq (record_event E (error_text E err))
            (bnd (now E) (\<lambda>t.
             ret (conditionMap(key \<mapsto> u_AddOrReplaceCondition (e_util E)
                    (error_condition E t (error_text E err)) (map_lookup conditionMap key)))))
         | None \<Rightarrow>
             bnd (now E) (\<lambda>t.
             ret (conditionMap(key \<mapsto> u_AddOrReplaceCondition (e_util E)
                    (success_condition E t) (map_lookup conditionMap key)))))
       Map.empty endpointStatusMap"

section \<open>Remote managers\<close>

text \<open>The status and key of a \<open>RemoteManager\<close>; starting and stopping the embedded manager are
  requests. The mutex makes \<open>GetStatus\<close> and \<open>SetStatus\<close> atomic.\<close>

record RemoteManager =
  rm_status :: Conditions
  rm_key :: string

definition GetStatus :: "RemoteManager \<Rightarrow> Conditions" where
  "GetStatus rm = rm_status rm"

definition SetStatus :: "RemoteManager \<Rightarrow> Conditions \<Rightarrow> RemoteManager" where
  "SetStatus rm status = rm\<lparr>rm_status := status\<rparr>"

definition RemoteManager_GetKey :: "RemoteManager \<Rightarrow> string" where
  "RemoteManager_GetKey rm = rm_key rm"

definition NewRemoteManager :: "'w env \<Rightarrow> RestConfig \<Rightarrow> string \<Rightarrow> ('w, 'l, RemoteManager) op" where
  "NewRemoteManager E restConfig key =
     seq (request (Remote (NewManager restConfig key)) (m_NewStoppableManager (e_remote E) restConfig))
         (ret \<lparr>rm_status = [], rm_key = key\<rparr>)"

definition manager_Start :: "'w env \<Rightarrow> string \<Rightarrow> ('w, 'l, unit) op" where
  "manager_Start E key = request (Remote (ManagerStart key)) (\<lambda>w. (Ret (), m_Start (e_remote E) key w))"

definition manager_Stop :: "'w env \<Rightarrow> string \<Rightarrow> ('w, 'l, unit) op" where
  "manager_Stop E key = request (Remote (ManagerStop key)) (\<lambda>w. (Ret (), m_Stop (e_remote E) key w))"

section \<open>The data of a reconciliation of a GlobalDNSRecord\<close>

text \<open>The record being reconciled, which the controller and the provider share through a pointer,
  and the reconciler's map of remote managers.\<close>

record record_locals =
  rl_instance :: GlobalDNSRecord
  rl_remoteManagersMap :: "(string \<times> RemoteManager) list"

abbreviation spec_of :: "record_locals \<Rightarrow> GlobalDNSRecordSpec" where
  "spec_of l \<equiv> rec_Spec (rl_instance l)"

abbreviation provider_status :: "record_locals \<Rightarrow> ProviderStatus" where
  "provider_status l \<equiv> rst_ProviderStatus (rec_Status (rl_instance l))"

definition set_provider_status :: "ProviderStatus \<Rightarrow> record_locals \<Rightarrow> record_locals" where
  "set_provider_status ps l = l\<lparr>rl_instance := (rl_instance l)\<lparr>rec_Status :=
     (rec_Status (rl_instance l))\<lparr>rst_ProviderStatus := ps\<rparr>\<rparr>\<rparr>"

text \<open>
  The endpoint map of a provider. Go leaves the order of iteration open and each range statement
  may visit the entries in another order, so the map is a family of lists: entry \<open>i\<close> is the
  order of the \<open>i\<close>-th range statement that is executed.
\<close>

type_synonym endpoint_ranges = "nat \<Rightarrow> endpoint_map"

definition wf_ranges :: "endpoint_ranges \<Rightarrow> bool" where
  "wf_ranges r \<longleftrightarrow> distinct (map fst (r 0)) \<and> (\<forall>i. mset (r i) = mset (r 0))
     \<and> (\<forall>(k, es) \<in> set (r 0). k = Endpoint_GetKey (es_endpoint es))"

section \<open>Lemmas\<close>

lemma wf_ranges_set: "wf_ranges r \<Longrightarrow> set (r i) = set (r j)"
  by (metis mset_eq_setD wf_ranges_def)

lemma wf_ranges_distinct: "wf_ranges r \<Longrightarrow> distinct (map fst (r i))"
  by (metis distinct_map mset_eq_imp_distinct_iff mset_eq_setD wf_ranges_def)

lemma wf_ranges_keyed: "wf_ranges r \<Longrightarrow> (k, es) \<in> set (r i) \<Longrightarrow> k = Endpoint_GetKey (es_endpoint es)"
  using wf_ranges_set [of r i 0] by (auto simp: wf_ranges_def)

lemma set_provider_status_simps [simp]:
  "provider_status (set_provider_status ps l) = ps"
  "spec_of (set_provider_status ps l) = spec_of l"
  "rec_Meta (rl_instance (set_provider_status ps l)) = rec_Meta (rl_instance l)"
  "rl_remoteManagersMap (set_provider_status ps l) = rl_remoteManagersMap l"
  by (simp_all add: set_provider_status_def)

lemma getDefaultIPs_eq: "getDefaultIPs es = ret (map ing_IP (svc_Ingress (es_service es)))"
  by (simp add: getDefaultIPs_def for_each_pure foldl_snoc)

text \<open>On platforms other than AWS the IPs are those of the service status, sorted: no request is
  sent and the outcome depends only on the multiset of ingress points.\<close>

lemma getIPs_default:
  assumes "inf_PlatformStatus (es_infrastructure es) = Some platform"
    and "pl_Type platform \<noteq> AWSPlatformType"
  shows "getIPs E es = ret (sort (map ing_IP (svc_Ingress (es_service es))))"
  using assms by (simp add: getIPs_def deref_def getDefaultIPs_eq)

lemma getIPs_nil_platform:
  "inf_PlatformStatus (es_infrastructure es) = None \<Longrightarrow> getIPs E es = crash NilDereference"
  by (simp add: getIPs_def deref_def)

lemma getIPs_sorted: "getIPs E es s = (Ret IPs, t) \<Longrightarrow> sorted IPs"
  by (auto simp: getIPs_def bnd_eq_Ret ret_def)

lemma getAWSIPs_frame [frame_intros]:
  "(\<And>h. P (LookupHost h)) \<Longrightarrow> emits P (getAWSIPs E es)" "keeps f (getAWSIPs E es)"
  unfolding getAWSIPs_def by (intro frame_intros; simp)+

lemma getIPs_frame [frame_intros]:
  "(\<And>h. P (LookupHost h)) \<Longrightarrow> emits P (getIPs E es)" "keeps f (getIPs E es)"
  unfolding getIPs_def getDefaultIPs_eq by (intro frame_intros; simp)+

lemma getEndpointStatuses_frame [frame_intros]:
  "(\<And>t r m. P (K8s (RecordEvent t r m))) \<Longrightarrow> emits P (getEndpointStatuses E em)"
  "keeps f (getEndpointStatuses E em)"
  unfolding getEndpointStatuses_def record_event_def by (intro frame_intros; simp)+

lemma getEndPointStatus_keeps [frame_intros]: "keeps f (getEndPointStatus E ep)"
  unfolding getEndPointStatus_def getClient_def record_getRestConfig_def getRestConfig_def
  by (intro frame_intros)

section \<open>The addresses of an endpoint\<close>

text \<open>A resolver that answers every host with the same addresses while the policy is built.\<close>

definition resolves_to :: "'w env \<Rightarrow> (string \<Rightarrow> string list) \<Rightarrow> bool" where
  "resolves_to E hosts \<longleftrightarrow> (\<forall>h w. e_lookup_host E h w = (Ret (hosts h), w))"

definition endpoint_ips :: "(string \<Rightarrow> string list) \<Rightarrow> EndpointStatus \<Rightarrow> string list" where
  "endpoint_ips hosts es = sort (case inf_PlatformStatus (es_infrastructure es) of
      None \<Rightarrow> []
    | Some platform \<Rightarrow>
        if pl_Type platform = AWSPlatformType
        then concat (map (\<lambda>ingress. hosts (ing_Hostname ingress)) (svc_Ingress (es_service es)))
        else map ing_IP (svc_Ingress (es_service es)))"

lemma getAWSIPs_result:
  assumes "resolves_to E hosts" and "getAWSIPs E es s = (Ret xs, t)"
  shows "xs = concat (map (\<lambda>i. hosts (ing_Hostname i)) (svc_Ingress (es_service es))) \<and> local t = local s"
proof -
  let ?g = "\<lambda>acc i. acc @ hosts (ing_Hostname i)"
  have "xs = foldl ?g [] (svc_Ingress (es_service es)) \<and> local t = local s"
    by (rule for_each_result [OF assms(2) [unfolded getAWSIPs_def], where I = "\<lambda>u. local u = local s"])
      (use assms(1) in \<open>auto simp: resolves_to_def request_def bnd_eq_Ret ret_def\<close>)
  then show ?thesis by (simp add: foldl_append)
qed

lemma getIPs_ips:
  assumes "resolves_to E hosts" and "getIPs E es s = (Ret IPs, t)"
  shows "IPs = endpoint_ips hosts es \<and> local t = local s"
  using assms(2) getAWSIPs_result [OF assms(1)] unfolding getIPs_def
  by (cases "inf_PlatformStatus (es_infrastructure es)")
    (auto simp: bnd_eq_Ret deref_def prog_simps endpoint_ips_def getDefaultIPs_eq split: if_splits)

lemma getIPs_returns:
  assumes "resolves_to E hosts" and "inf_PlatformStatus (es_infrastructure es) \<noteq> None"
  shows "returns (reads_rel f g) (getIPs E es) s (endpoint_ips hosts es)"
proof -
  have look: "returns (reads_rel f g) (bnd (request (LookupHost (ing_Hostname i)) (e_lookup_host E (ing_Hostname i)))
      (\<lambda>addrs. ret (IPs @ addrs))) t (IPs @ hosts (ing_Hostname i))" for i IPs t
    by (rule reads.returns_bnd [OF reads_request [where w = "world t"]])
      (use assms(1) in \<open>auto simp: resolves_to_def intro: reads.returns_ret\<close>)
  have "returns (reads_rel f g) (getAWSIPs E es) t
      (concat (map (\<lambda>i. hosts (ing_Hostname i)) (svc_Ingress (es_service es))))" for t
    using reads.returns_for_each [where g = "\<lambda>acc i. acc @ hosts (ing_Hostname i)" and acc = "[]", OF look]
    unfolding getAWSIPs_def by (simp add: foldl_append)
  then show ?thesis
    using assms(2) unfolding getIPs_def endpoint_ips_def
    by (auto intro!: reads_intros simp: deref_def getDefaultIPs_eq)
qed

end
