(* ===== verification/Provider_Interface.thy ===== *)
theory Provider_Interface
  imports Endpoint_Status
begin

text \<open>
  The interface \<open>globalDNSProvider\<close> of the record controller: the two operations a provider
  offers and what the controller relies on. A provider works on the record the controller holds
  and may write its provider status; the metadata (finalizers included), the specification, the
  conditions and the controller's managers stay as they are, and the record objects themselves
  are written by the controller alone.
\<close>

text \<open>Everything of the shared data but the provider status.\<close>

definition frozen :: "record_locals \<Rightarrow> ObjectMeta \<times> GlobalDNSRecordSpec \<times> Conditions
    \<times> (string \<rightharpoonup> Conditions) \<times> (string \<rightharpoonup> Conditions) \<times> (string \<times> RemoteManager) list" where
  "frozen l = (rec_Meta (rl_instance l), rec_Spec (rl_instance l),
     rst_Conditions (rec_Status (rl_instance l)),
     rst_MonitoredServiceStatuses (rec_Status (rl_instance l)),
     rst_EndpointStatuses (rec_Status (rl_instance l)), rl_remoteManagersMap l)"

lemma frozen_set_provider_status [simp]: "frozen (set_provider_status ps l) = frozen l"
  by (simp add: frozen_def set_provider_status_def)

lemma frozen_spec: "frozen l = frozen l' \<Longrightarrow> spec_of l = spec_of l'"
  by (simp add: frozen_def)

text \<open>Requests a provider never sends: it does not write GlobalDNSRecord objects and does not
  touch the managers.\<close>

fun provider_event :: "event \<Rightarrow> bool" where
  "provider_event (K8s e) = (case e of
      UpdateGlobalDNSRecord _ \<Rightarrow> False | UpdateGlobalDNSRecordStatus _ \<Rightarrow> False
    | ManageZoneError _ _ \<Rightarrow> False | ManageZoneSuccess _ \<Rightarrow> False | NotifyRecord \<Rightarrow> False | SetRecordVar _ \<Rightarrow> False
    | CreateOrUpdateRecord _ _ _ \<Rightarrow> False | NotifyDiscovery \<Rightarrow> False | SetDiscoveryVar _ \<Rightarrow> False
    | UpdateGlobalRouteDiscovery _ \<Rightarrow> False | UpdateGlobalRouteDiscoveryStatus _ \<Rightarrow> False
    | RecordEvent _ _ _ \<Rightarrow> False | _ \<Rightarrow> True)"
| "provider_event (Remote e) = (case e of ManagerStart _ \<Rightarrow> False | ManagerStop _ \<Rightarrow> False | _ \<Rightarrow> True)"
| "provider_event _ = True"

locale dns_provider =
  fixes ensureDNSRecord :: "('w, record_locals, unit) op"
    and deleteDNSRecord :: "('w, record_locals, unit) op"
  assumes ensure_frozen: "keeps frozen ensureDNSRecord"
    and delete_frozen: "keeps frozen deleteDNSRecord"
    and ensure_events: "emits provider_event ensureDNSRecord"
    and delete_events: "emits provider_event deleteDNSRecord"
begin

lemma ensure_spec: "ensureDNSRecord s = (r, t) \<Longrightarrow> spec_of (local t) = spec_of (local s)"
  using keepsD [OF ensure_frozen] frozen_spec by blast

lemma no_record_update:
  assumes "ensureDNSRecord s = (r, t)"
  shows "\<exists>tr. trace t = trace s @ tr \<and> K8s (UpdateGlobalDNSRecord x) \<notin> set tr
     \<and> K8s (UpdateGlobalDNSRecordStatus x) \<notin> set tr"
  using emitsD [OF ensure_events assms] by (force simp: list_all_iff)

end

end
