(* ===== verification/Credentials.thy ===== *)
theory Credentials
  imports Services
begin

text \<open>
  The packages controllers/common/route53, azure and google: obtaining the credentials of a cloud
  and a client for it. Each package makes sure that a CredentialsRequest object exists and has
  the permissions the operator needs, reads the secret the zone names (or the minted one) and
  builds the client.

  The three packages repeat the same code for \<open>ensureCredentialsRequestExists\<close> and for choosing
  the secret; the model states it once and each package's function is an instance.
\<close>

section \<open>What the three packages share\<close>

definition credentialsName :: string where
  "credentialsName = ''global-load-balancer-operator-infra-credentials''"

definition credentialsNamespace :: string where
  "credentialsNamespace = ''openshift-cloud-credential-operator''"

definition credentialsSecretName :: string where
  "credentialsSecretName = ''global-load-balancer-operator-infra-credentials''"

text \<open>The package variable \<open>operatorNamespace\<close> as \<open>init\<close> sets it from the environment.\<close>

definition init_operatorNamespace :: "string option \<Rightarrow> string" where
  "init_operatorNamespace on =
     (case on of None \<Rightarrow> ''global-load-balancer-operator'' | Some ns \<Rightarrow> ns)"

definition credentials_request :: "'w env \<Rightarrow> ProviderSpec \<Rightarrow> CredentialsRequest" where
  "credentials_request E provider = \<lparr>creq_Name = credentialsName,
     creq_Namespace = credentialsNamespace,
     creq_Spec = \<lparr>crs_SecretRef = \<lparr>nn_Name = credentialsSecretName,
                                  nn_Namespace = e_operator_namespace E\<rparr>,
                  crs_ProviderSpec = Some (RawObject provider)\<rparr>\<rparr>"

definition ensure_credentials_request ::
  "'w env \<Rightarrow> CredentialsRequest \<Rightarrow> ('w, 'l, unit) op" where
  "ensure_credentials_request E desired =
     (let name = \<lparr>nn_Name = credentialsName, nn_Namespace = credentialsNamespace\<rparr> in
      bnd (attempt (request (K8s (GetCredentialsRequest name))
                            (k_GetCredentialsRequest (e_k8s E) name))) (\<lambda>r.
      bnd (case r of
             Inl err \<Rightarrow>
               if IsNotFound err
               then request (K8s (CreateCredentialsRequest desired))
                            (k_CreateCredentialsRequest (e_k8s E) desired)
               else fail err
           | Inr credentialRequest \<Rightarrow> ret credentialRequest) (\<lambda>credentialRequest.
      if creq_Spec credentialRequest \<noteq> creq_Spec desired
      then (let updated = credentialRequest\<lparr>creq_Spec := creq_Spec desired\<rparr> in
            seq (request (K8s (UpdateCredentialsRequest updated))
                         (k_UpdateCredentialsRequest (e_k8s E) updated))
                (ret ()))
      else ret ())))"

definition credential_secret :: "'w env \<Rightarrow> NamespacedName \<Rightarrow> ('w, 'l, Secret) op" where
  "credential_secret E ref =
     (let chosen = (if nn_Name ref \<noteq> [] then ref
                    else \<lparr>nn_Name = credentialsSecretName, nn_Namespace = e_operator_namespace E\<rparr>)
      in request (K8s (GetSecret chosen)) (k_GetSecret (e_k8s E) chosen))"

definition secret_key :: "Secret \<Rightarrow> string \<Rightarrow> ('w, 'l, string) op" where
  "secret_key secret key =
     (case sec_Data secret key of
        None \<Rightarrow> fail (ErrNew (''unable to find key '' @ key @ '' in secret '' @ sec_String secret))
      | Some v \<Rightarrow> ret v)"

section \<open>Route53\<close>

definition getAWSCredentialRequest :: "'w env \<Rightarrow> CredentialsRequest" where
  "getAWSCredentialRequest E = credentials_request E (AWSProviderSpec
     [\<lparr>se_Action =
         [''route53:GetHostedZone'',
          ''route53:CreateTrafficPolicy'',
          ''route53:DeleteTrafficPolicy'',
          ''route53:GetTrafficPolicy'',
          ''route53:ListTrafficPolicies'',
          ''route53:CreateTrafficPolicyInstance'',
          ''route53:DeleteTrafficPolicyInstance'',
          ''route53:GetTrafficPolicyInstance'',
          ''route53:ListTrafficPolicyInstancesByHostedZone'',
          ''route53:ListTrafficPolicyInstancesByPolicy'',
          ''route53:ListHealthChecks'',
          ''route53:GetHealthCheck'',
          ''route53:UpdateHealthCheck'',
          ''route53:DeleteHealthCheck'',
          ''route53:CreateHealthCheck'',
          ''route53:ChangeTagsForResource''],
       se_Effect = ''Allow'', se_Resource = ''*''\<rparr>])"

definition aws_ensureCredentialsRequestExists :: "'w env \<Rightarrow> ('w, 'l, unit) op" where
  "aws_ensureCredentialsRequestExists E = ensure_credentials_request E (getAWSCredentialRequest E)"

definition getAWSCredentialSecret :: "'w env \<Rightarrow> GlobalDNSZone \<Rightarrow> ('w, 'l, Secret) op" where
  "getAWSCredentialSecret E zone =
     bnd (deref (pc_Route53 (zs_Provider (zone_Spec zone)))) (\<lambda>c.
     credential_secret E (r53c_CredentialsSecretRef c))"

definition getAWSCredentials :: "'w env \<Rightarrow> GlobalDNSZone \<Rightarrow> ('w, 'l, string \<times> string) op" where
  "getAWSCredentials E zone =
     bnd (getAWSCredentialSecret E zone) (\<lambda>secret.
     bnd (secret_key secret ''aws_access_key_id'') (\<lambda>awsAccessKeyID.
     bnd (secret_key secret ''aws_secret_access_key'') (\<lambda>awsSecretAccessKey.
     ret (awsAccessKeyID, awsSecretAccessKey))))"

text \<open>\<open>session.Must\<close> panics when the session cannot be built.\<close>

definition GetRoute53Client :: "'w env \<Rightarrow> GlobalDNSZone \<Rightarrow> ('w, 'l, 'w route53_api) op" where
  "GetRoute53Client E zone =
     seq (aws_ensureCredentialsRequestExists E)
    (bnd (getAWSCredentials E zone) (\<lambda>(id, key).
     case ca_NewSession (e_auth E) of
       Ret _ \<Rightarrow> ret (e_route53 E id key)
     | Fail err \<Rightarrow> crash (PanicWith err)
     | Panic p \<Rightarrow> crash p))"

section \<open>Azure\<close>

record AzureClients =
  az_subscription :: string
  az_authorizer :: string

definition getAzureCredentialRequest :: "'w env \<Rightarrow> CredentialsRequest" where
  "getAzureCredentialRequest E = credentials_request E (AzureProviderSpec
     [''Traffic Manager Contributor'', ''DNS Zone Contributor'', ''Network Contributor''])"

definition azure_ensureCredentialsRequestExists :: "'w env \<Rightarrow> ('w, 'l, unit) op" where
  "azure_ensureCredentialsRequestExists E =
     ensure_credentials_request E (getAzureCredentialRequest E)"

definition getAzureCredentialSecret :: "'w env \<Rightarrow> GlobalDNSZone \<Rightarrow> ('w, 'l, Secret) op" where
  "getAzureCredentialSecret E zone =
     bnd (deref (pc_TrafficManager (zs_Provider (zone_Spec zone)))) (\<lambda>c.
     credential_secret E (tmc_CredentialsSecretRef c))"

definition getAzureCredentials ::
  "'w env \<Rightarrow> GlobalDNSZone \<Rightarrow> ('w, 'l, string \<times> string \<times> string \<times> string) op" where
  "getAzureCredentials E zone =
     bnd (getAzureCredentialSecret E zone) (\<lambda>secret.
     bnd (secret_key secret ''azure_client_id'') (\<lambda>clientID.
     bnd (secret_key secret ''azure_client_secret'') (\<lambda>clientSecret.
     bnd (secret_key secret ''azure_tenant_id'') (\<lambda>tenantID.
     bnd (secret_key secret ''azure_subscription_id'') (\<lambda>subscription.
     ret (clientID, clientSecret, tenantID, subscription))))))"

definition getAuthorizer :: "'w env \<Rightarrow> string \<Rightarrow> string \<Rightarrow> string \<Rightarrow> ('w, 'l, string) op" where
  "getAuthorizer E clientID clientSecret tenantID =
     bnd (pure_call (ca_NewOAuthConfig (e_auth E) tenantID)) (\<lambda>oauthConfig.
     bnd (pure_call (ca_NewServicePrincipalToken (e_auth E) oauthConfig clientID clientSecret)) (\<lambda>spToken.
     ret (ca_NewBearerAuthorizer (e_auth E) spToken)))"

definition GetAzureClient :: "'w env \<Rightarrow> GlobalDNSZone \<Rightarrow> ('w, 'l, AzureClients) op" where
  "GetAzureClient E zone =
     seq (azure_ensureCredentialsRequestExists E)
    (bnd (getAzureCredentials E zone) (\<lambda>(clientID, clientSecret, tenantID, subscription).
     bnd (getAuthorizer E clientID clientSecret tenantID) (\<lambda>authorizer.
     ret \<lparr>az_subscription = subscription, az_authorizer = authorizer\<rparr>)))"

section \<open>Google\<close>

definition getGCPCredentialRequest :: "'w env \<Rightarrow> CredentialsRequest" where
  "getGCPCredentialRequest E = credentials_request E (GCPProviderSpec
     [''roles/compute.loadBalancerAdmin'', ''roles/compute.securityAdmin'', ''roles/dns.admin''])"

definition gcp_ensureCredentialsRequestExists :: "'w env \<Rightarrow> ('w, 'l, unit) op" where
  "gcp_ensureCredentialsRequestExists E = ensure_credentials_request E (getGCPCredentialRequest E)"

definition getGCPCredentialSecret :: "'w env \<Rightarrow> GlobalDNSZone \<Rightarrow> ('w, 'l, Secret) op" where
  "getGCPCredentialSecret E zone =
     bnd (deref (pc_GCPGLB (zs_Provider (zone_Spec zone)))) (\<lambda>c.
     credential_secret E (gcpc_CredentialsSecretRef c))"

definition getGCPCredentials :: "'w env \<Rightarrow> GlobalDNSZone \<Rightarrow> ('w, 'l, string) op" where
  "getGCPCredentials E zone =
     bnd (getGCPCredentialSecret E zone) (\<lambda>secret. secret_key secret ''service_account.json'')"

text \<open>The project, the compute client and the DNS client.\<close>

definition GetGCPClients :: "'w env \<Rightarrow> GlobalDNSZone \<Rightarrow> ('w, 'l, string \<times> string \<times> string) op" where
  "GetGCPClients E zone =
     seq (gcp_ensureCredentialsRequestExists E)
    (bnd (getGCPCredentials E zone) (\<lambda>jsonSecret.
     bnd (pure_call (ca_CredentialsFromJSON (e_auth E) jsonSecret)) (\<lambda>(creds, project).
     bnd (pure_call (ca_NewComputeService (e_auth E) creds)) (\<lambda>computeClient.
     bnd (pure_call (ca_NewDNSService (e_auth E) creds)) (\<lambda>dnsClient.
     ret (project, computeClient, dnsClient))))))"

section \<open>Lemmas\<close>

text \<open>The requests obtaining a client may send.\<close>

fun credential_event :: "event \<Rightarrow> bool" where
  "credential_event (K8s e) = (case e of
      GetCredentialsRequest _ \<Rightarrow> True | CreateCredentialsRequest _ \<Rightarrow> True
    | UpdateCredentialsRequest _ \<Rightarrow> True | GetSecret _ \<Rightarrow> True | _ \<Rightarrow> False)"
| "credential_event _ = False"

lemmas credential_defs = ensure_credentials_request_def credential_secret_def secret_key_def

lemma ensure_credentials_request_frame [frame_intros]:
  "emits credential_event (ensure_credentials_request E d)"
  "keeps f (ensure_credentials_request E d)"
  unfolding ensure_credentials_request_def Let_def by (intro frame_intros; simp)+

lemma credential_secret_frame [frame_intros]:
  "emits credential_event (credential_secret E r)" "keeps f (credential_secret E r)"
  unfolding credential_secret_def Let_def by (intro frame_intros; simp)+

lemma secret_key_frame [frame_intros]: "emits P (secret_key s k)" "keeps f (secret_key s k)"
  unfolding secret_key_def by (intro frame_intros)+

lemma case_outcome_frame [frame_intros]:
  "emits P (case r of Ret a \<Rightarrow> ret (g a) | Fail e \<Rightarrow> crash (h e) | Panic p \<Rightarrow> crash p)"
  "keeps f (case r of Ret a \<Rightarrow> ret (g a) | Fail e \<Rightarrow> crash (h e) | Panic p \<Rightarrow> crash p)"
  by (cases r; simp; intro frame_intros)+

lemma GetRoute53Client_frame [frame_intros]:
  "emits credential_event (GetRoute53Client E z)" "keeps f (GetRoute53Client E z)"
  unfolding GetRoute53Client_def aws_ensureCredentialsRequestExists_def getAWSCredentials_def
    getAWSCredentialSecret_def
  by (intro frame_intros)+

lemma GetAzureClient_frame [frame_intros]:
  "emits credential_event (GetAzureClient E z)" "keeps f (GetAzureClient E z)"
  unfolding GetAzureClient_def azure_ensureCredentialsRequestExists_def getAzureCredentials_def
    getAzureCredentialSecret_def getAuthorizer_def
  by (intro frame_intros)+

lemma GetGCPClients_frame [frame_intros]:
  "emits credential_event (GetGCPClients E z)" "keeps f (GetGCPClients E z)"
  unfolding GetGCPClients_def gcp_ensureCredentialsRequestExists_def getGCPCredentials_def
    getGCPCredentialSecret_def
  by (intro frame_intros)+

end
