(* ===== verification/Route53_Provider.thy ===== *)
theory Route53_Provider
  imports Provider_Interface Credentials
begin

text \<open>
  controllers/globaldnsrecord/route53provider.go: the provider that programs Amazon Route53.

  A record becomes a traffic policy, whose document lists the endpoints and a rule named main,
  and a traffic policy instance, which is the DNS record. Health checks, one per IP, are created
  on the way. All calls to AWS go through the client in the provider; every pointer the code
  dereferences is dereferenced in the model.

  The first part is the data the functions exchange, then come the functions in the order of the
  source, then the lemmas: what a run may send and change, how documents are compared, and that
  the document does not depend on the iteration order of the endpoint map.
\<close>

section \<open>The provider\<close>

record 'w route53Provider =
  r5_globalzone :: GlobalDNSZone
  r5_endpointMap :: endpoint_ranges
  r5_route53Client :: "'w route53_api"

definition only_aws_endpoints :: "endpoint_map \<Rightarrow> ('w, 'l, unit) op" where
  "only_aws_endpoints em =
     for_each (\<lambda>_ (_, endpointStatus).
       bnd (deref (inf_PlatformStatus (es_infrastructure endpointStatus))) (\<lambda>platform.
       if pl_Type platform \<noteq> AWSPlatformType
       then fail (ErrNew ''Illegal state, only AWS endpoints are allowed'')
       else ret ())) () em"

definition createRoute53Provider ::
  "'w env \<Rightarrow> GlobalDNSZone \<Rightarrow> endpoint_ranges \<Rightarrow> ('w, 'l, 'w route53Provider) op" where
  "createRoute53Provider E globalzone endpointMap =
     seq (only_aws_endpoints (endpointMap 0))
    (bnd (GetRoute53Client E globalzone) (\<lambda>route53Client.
     ret \<lparr>r5_globalzone = globalzone, r5_endpointMap = (\<lambda>i. endpointMap (Suc i)),
          r5_route53Client = route53Client\<rparr>))"

definition zone_id :: "'w route53Provider \<Rightarrow> ('w, 'l, string) op" where
  "zone_id p = bnd (deref (pc_Route53 (zs_Provider (zone_Spec (r5_globalzone p))))) (\<lambda>c.
     ret (r53c_ZoneID c))"

section \<open>Health checks\<close>

definition getAWSHealthCheckConfig ::
  "Probe option \<Rightarrow> string \<Rightarrow> ('w, 'l, HealthCheckConfig) op" where
  "getAWSHealthCheckConfig probe ip =
     (case probe of
        None \<Rightarrow> fail (ErrNew ''invalid health check'')
      | Some pr \<Rightarrow> (case pr_HTTPGet pr of
          None \<Rightarrow> fail (ErrNew ''invalid health check'')
        | Some httpGet \<Rightarrow> ret
            \<lparr>hcc_IPAddress = Some ip,
             hcc_Disabled = Some False,
             hcc_Inverted = Some False,
             hcc_MeasureLatency = Some False,
             hcc_EnableSNI = Some (hg_Scheme httpGet = ''HTTPS''),
             hcc_FailureThreshold = Some (pr_FailureThreshold pr),
             hcc_FullyQualifiedDomainName = Some (hg_Host httpGet),
             hcc_Port = Some (ios_IntVal (hg_Port httpGet)),
             hcc_RequestInterval = Some (pr_PeriodSeconds pr),
             hcc_ResourcePath = Some (hg_Path httpGet),
             hcc_Type = Some (hg_Scheme httpGet),
             hcc_Other = None\<rparr>))"

definition getAWSUpdateHealthCheckInput :: "HealthCheckConfig \<Rightarrow> UpdateHealthCheckInput" where
  "getAWSUpdateHealthCheckInput config =
     \<lparr>uhi_HealthCheckId = None,
      uhi_EnableSNI = hcc_EnableSNI config,
      uhi_FailureThreshold = hcc_FailureThreshold config,
      uhi_FullyQualifiedDomainName = hcc_FullyQualifiedDomainName config,
      uhi_Port = hcc_Port config,
      uhi_ResourcePath = hcc_ResourcePath config,
      uhi_Disabled = Some False,
      uhi_Inverted = Some False,
      uhi_IPAddress = None,
      uhi_Other = None\<rparr>"

text \<open>The second half of \<open>createHealthCheck\<close>: the health check is created and then tagged.\<close>

definition register_health_check ::
  "'w route53Provider \<Rightarrow> Probe option \<Rightarrow> string \<Rightarrow> CreateHealthCheckInput \<Rightarrow> ('w, 'l, string) op" where
  "register_health_check p probe ip input =
     bnd (request (Aws (CreateHealthCheck input)) (r53_CreateHealthCheck (r5_route53Client p) input)) (\<lambda>location.
     bnd (deref location) (\<lambda>loc.
     let healthCheckID = last_part (CHR ''/'') loc in
     bnd (deref probe) (\<lambda>pr. bnd (deref (pr_HTTPGet pr)) (\<lambda>httpGet.
     let tags = \<lparr>cti_Tags = [(''Name'', hg_Host httpGet @ ''@'' @ ip)],
                 cti_ResourceId = Some healthCheckID, cti_ResourceType = Some ''healthcheck''\<rparr> in
     seq (request (Aws (ChangeTagsForResource tags)) (r53_ChangeTagsForResource (r5_route53Client p) tags))
         (ret healthCheckID)))))"

definition createHealthCheck ::
  "'w env \<Rightarrow> 'w route53Provider \<Rightarrow> Probe option \<Rightarrow> string \<Rightarrow> ('w, 'l, string) op" where
  "createHealthCheck E p probe ip =
     bnd (getAWSHealthCheckConfig probe ip) (\<lambda>config.
     bnd (new_uuid E) (\<lambda>uuid.
     bnd (deref (hcc_IPAddress config)) (\<lambda>address.
     bnd (deref (hcc_FullyQualifiedDomainName config)) (\<lambda>fqdn.
     bnd (slice_to (uuid @ ''|'' @ address @ ''@'' @ fqdn) 64) (\<lambda>callerReference.
     register_health_check p probe ip
       \<lparr>chi_CallerReference = Some callerReference, chi_HealthCheckConfig = Some config\<rparr>)))))"

text \<open>The condition of the search loop, evaluated from left to right.\<close>

definition health_check_matches ::
  "Probe option \<Rightarrow> string \<Rightarrow> HealthCheck \<Rightarrow> ('w, 'l, bool) op" where
  "health_check_matches probe ip healthCheck =
     bnd (deref probe) (\<lambda>pr.
     case pr_HTTPGet pr of None \<Rightarrow> ret False | Some httpGet \<Rightarrow>
     bnd (deref (hc_HealthCheckConfig healthCheck)) (\<lambda>config.
     case hcc_FullyQualifiedDomainName config of None \<Rightarrow> ret False | Some fqdn \<Rightarrow>
     if fqdn \<noteq> hg_Host httpGet then ret False
     else bnd (deref (hcc_IPAddress config)) (\<lambda>address. ret (address = ip))))"

text \<open>The search loop: the last health check that matches. Then the branch for a check that exists.\<close>

definition find_health_check ::
  "Probe option \<Rightarrow> string \<Rightarrow> HealthCheck list \<Rightarrow> ('w, 'l, HealthCheck option) op" where
  "find_health_check probe ip healthChecks =
     for_each (\<lambda>current healthCheck.
       bnd (health_check_matches probe ip healthCheck) (\<lambda>found.
       ret (if found then Some healthCheck else current))) None healthChecks"

definition refresh_health_check ::
  "'w route53Provider \<Rightarrow> Probe option \<Rightarrow> string \<Rightarrow> HealthCheck \<Rightarrow> ('w, 'l, string) op" where
  "refresh_health_check p probe ip healthCheck =
     bnd (getAWSHealthCheckConfig probe ip) (\<lambda>newConfig.
     if Some newConfig \<noteq> hc_HealthCheckConfig healthCheck
     then (let input = (getAWSUpdateHealthCheckInput newConfig)\<lparr>uhi_HealthCheckId := hc_Id healthCheck\<rparr> in
           bnd (request (Aws (UpdateHealthCheck input))
                        (r53_UpdateHealthCheck (r5_route53Client p) input)) (\<lambda>result.
           bnd (deref result) (\<lambda>updated. deref (hc_Id updated))))
     else deref (hc_Id healthCheck))"

definition ensureRoute53HealthCheck ::
  "'w env \<Rightarrow> 'w route53Provider \<Rightarrow> string \<Rightarrow> ('w, record_locals, string) op" where
  "ensureRoute53HealthCheck E p ip =
     bnd (request (Aws ListHealthChecks) (r53_ListHealthChecks (r5_route53Client p))) (\<lambda>healthChecks.
     bnd get_local (\<lambda>l. let probe = rs_HealthCheck (spec_of l) in
     bnd (find_health_check probe ip healthChecks) (\<lambda>current.
     case current of
       None \<Rightarrow> createHealthCheck E p probe ip
     | Some healthCheck \<Rightarrow> refresh_health_check p probe ip healthCheck)))"

section \<open>Traffic policy documents\<close>

definition isSameRoute53EndpointRuleReferenceSet ::
  "Route53EndpointRuleReference list \<Rightarrow> Route53EndpointRuleReference list \<Rightarrow> bool" where
  "isSameRoute53EndpointRuleReferenceSet left right = IsEqual (New left) (New right)"

definition isSameRoute53Rule :: "Route53Rule \<Rightarrow> Route53Rule \<Rightarrow> bool" where
  "isSameRoute53Rule left right =
     (if rule_RuleType left \<noteq> rule_RuleType right then False
      else if rule_Primary left \<noteq> rule_Primary right then False
      else if rule_Secondary left \<noteq> rule_Secondary right then False
      else if \<not> isSameRoute53EndpointRuleReferenceSet (rule_Locations left) (rule_Locations right) then False
      else if \<not> isSameRoute53EndpointRuleReferenceSet (rule_GeoproximityLocations left)
                 (rule_GeoproximityLocations right) then False
      else if \<not> isSameRoute53EndpointRuleReferenceSet (rule_Regions left) (rule_Regions right) then False
      else if \<not> isSameRoute53EndpointRuleReferenceSet (rule_Items left) (rule_Items right) then False
      else True)"

definition main_rule :: "Route53TrafficPolicyDocument \<Rightarrow> Route53Rule" where
  "main_rule d = (case tpd_Rules d ''main'' of None \<Rightarrow> zero_rule | Some r \<Rightarrow> r)"

text \<open>The comparison of two unmarshalled documents.\<close>

definition same_document ::
  "Route53TrafficPolicyDocument \<Rightarrow> Route53TrafficPolicyDocument \<Rightarrow> bool" where
  "same_document left right =
     (if tpd_AWSPolicyFormatVersion left \<noteq> tpd_AWSPolicyFormatVersion right then False
      else if tpd_StartEndpoint left \<noteq> tpd_StartEndpoint right then False
      else if tpd_StartRule left \<noteq> tpd_StartRule right then False
      else if tpd_RecordType left \<noteq> tpd_RecordType right then False
      else if tpd_Endpoints left \<noteq> tpd_Endpoints right then False
      else if \<not> isSameRoute53Rule (main_rule left) (main_rule right) then False
      else True)"

definition IsSameTrafficPolicyDocument :: "'w env \<Rightarrow> string \<Rightarrow> string \<Rightarrow> ('w, 'l, bool) op" where
  "IsSameTrafficPolicyDocument E left right =
     bnd (pure_call (j_Unmarshal (e_json E) left)) (\<lambda>leftTPD.
     bnd (pure_call (j_Unmarshal (e_json E) right)) (\<lambda>rightTPD.
     ret (same_document leftTPD rightTPD)))"

text \<open>\<open>p.instance.Status.ProviderStatus.Route53.HealthCheckIDs[key] = id\<close>.\<close>

definition put_health_check_id :: "string \<Rightarrow> string \<Rightarrow> ('w, record_locals, unit) op" where
  "put_health_check_id key ident =
     bnd get_local (\<lambda>l.
     bnd (deref (ps_Route53 (provider_status l))) (\<lambda>st.
     case r53s_HealthCheckIDs st of
       None \<Rightarrow> crash NilMapWrite
     | Some ids \<Rightarrow> upd_local (\<lambda>l. set_provider_status ((provider_status l)\<lparr>ps_Route53 :=
         Some (st\<lparr>r53s_HealthCheckIDs := Some (ids(key \<mapsto> ident))\<rparr>)\<rparr>) l)))"

text \<open>The block at the top of \<open>getAWSTrafficPolicyDocument\<close>: the comparison of a pointer with a
  struct by \<open>reflect.DeepEqual\<close> is always false, so its negation guards nothing.\<close>

definition init_health_check_ids :: "('w, record_locals, unit) op" where
  "init_health_check_ids =
     bnd get_local (\<lambda>l.
     bnd (deref (ps_Route53 (provider_status l))) (\<lambda>st.
     if r53s_HealthCheckIDs st = None
     then upd_local (\<lambda>l. set_provider_status ((provider_status l)\<lparr>ps_Route53 :=
            Some (st\<lparr>r53s_HealthCheckIDs := Some Map.empty\<rparr>)\<rparr>) l)
     else ret ()))"

text \<open>The first switch: the endpoints of the document.\<close>

definition multivalue_endpoints ::
  "'w env \<Rightarrow> endpoint_map \<Rightarrow> ('w, 'l, (string, Route53Endpoint) mapping) op" where
  "multivalue_endpoints E em =
     for_each (\<lambda>eps (_, endpoint).
       bnd (getIPs E endpoint) (\<lambda>IPs.
       ret (foldl (\<lambda>eps IP. Mapping.update (Endpoint_GetKey (es_endpoint endpoint) @ IP)
              \<lparr>r53e_Type = tp_Value, r53e_Region = [], r53e_Value = IP\<rparr> eps) eps IPs)))
       Mapping.empty em"

definition elb_endpoints :: "endpoint_map \<Rightarrow> ('w, 'l, (string, Route53Endpoint) mapping) op" where
  "elb_endpoints em =
     for_each (\<lambda>eps (_, endpoint).
       bnd (index (svc_Ingress (es_service endpoint)) 0) (\<lambda>ingress.
       ret (Mapping.update (Endpoint_GetKey (es_endpoint endpoint))
              \<lparr>r53e_Type = tp_ElasticLoadBalacer, r53e_Region = [],
               r53e_Value = ing_Hostname ingress\<rparr> eps)))
       Mapping.empty em"

definition document_endpoints ::
  "'w env \<Rightarrow> LoadBalancingPolicy \<Rightarrow> endpoint_map \<Rightarrow> ('w, 'l, (string, Route53Endpoint) mapping) op" where
  "document_endpoints E policy em =
     (if policy = Multivalue then multivalue_endpoints E em
      else if policy = Geoproximity then elb_endpoints em
      else if policy = Latency then elb_endpoints em
      else fail (ErrNew ''illegal state / unsupported''))"

text \<open>The second switch: the references of the rule. \<open>with_health_check\<close> is the block that each
  case repeats: it ensures the health check of an IP, stores its ID in the status and in the
  reference.\<close>

definition with_health_check ::
  "'w env \<Rightarrow> 'w route53Provider \<Rightarrow> string \<Rightarrow> Route53EndpointRuleReference \<Rightarrow>
     ('w, record_locals, Route53EndpointRuleReference) op" where
  "with_health_check E p IP ref =
     bnd (ensureRoute53HealthCheck E p IP) (\<lambda>healthCheckID.
     bnd get_local (\<lambda>l.
     seq (put_health_check_id (rs_Name (spec_of l) @ ''@'' @ IP) healthCheckID)
         (ret (ref\<lparr>err_HealthCheck := healthCheckID, err_EvaluateTargetHealth := True\<rparr>))))"

definition multivalue_references ::
  "'w env \<Rightarrow> 'w route53Provider \<Rightarrow> endpoint_map \<Rightarrow>
     ('w, record_locals, Route53EndpointRuleReference list) op" where
  "multivalue_references E p em =
     for_each (\<lambda>refs (_, endpoint).
       bnd (getIPs E endpoint) (\<lambda>IPs.
       for_each (\<lambda>refs IP.
         let ref = nonExistent\<lparr>err_EndpointReference := Endpoint_GetKey (es_endpoint endpoint) @ IP\<rparr> in
         bnd get_local (\<lambda>l.
         bnd (if rs_HealthCheck (spec_of l) \<noteq> None then with_health_check E p IP ref else ret ref) (\<lambda>ref.
         ret (refs @ [ref])))) refs IPs))
       [] em"

text \<open>In the other two cases \<open>IPs[0]\<close> is evaluated before the error of \<open>getIPs\<close> is tested; an
  error comes with an empty slice.\<close>

definition region_reference ::
  "'w env \<Rightarrow> 'w route53Provider \<Rightarrow> string \<Rightarrow> EndpointStatus \<Rightarrow>
     ('w, record_locals, Route53EndpointRuleReference) op" where
  "region_reference E p pre endpoint =
     bnd (deref (inf_PlatformStatus (es_infrastructure endpoint))) (\<lambda>platform.
     bnd (deref (pl_AWS_Region platform)) (\<lambda>region.
     let ref = nonExistent\<lparr>err_EndpointReference := Endpoint_GetKey (es_endpoint endpoint),
                          err_Region := pre @ region\<rparr> in
     bnd get_local (\<lambda>l.
     if rs_HealthCheck (spec_of l) \<noteq> None
     then bnd (attempt (getIPs E endpoint)) (\<lambda>r.
          let IPs = (case r of Inl _ \<Rightarrow> [] | Inr IPs \<Rightarrow> IPs) in
          bnd (index IPs 0) (\<lambda>IP.
          case r of Inl err \<Rightarrow> fail err | Inr _ \<Rightarrow> with_health_check E p IP ref))
     else ret ref)))"

definition region_references ::
  "'w env \<Rightarrow> 'w route53Provider \<Rightarrow> string \<Rightarrow> endpoint_map \<Rightarrow>
     ('w, record_locals, Route53EndpointRuleReference list) op" where
  "region_references E p pre em =
     for_each (\<lambda>refs (_, endpoint).
       bnd (region_reference E p pre endpoint) (\<lambda>ref. ret (refs @ [ref]))) [] em"

definition document_rule ::
  "'w env \<Rightarrow> 'w route53Provider \<Rightarrow> LoadBalancingPolicy \<Rightarrow> endpoint_map \<Rightarrow>
     ('w, record_locals, Route53Rule) op" where
  "document_rule E p policy em =
     (if policy = Multivalue then
        bnd (multivalue_references E p em) (\<lambda>refs.
        ret (zero_rule\<lparr>rule_RuleType := tp_Multivalue, rule_Items := refs\<rparr>))
      else if policy = Geoproximity then
        bnd (region_references E p ''aws:route53:'' em) (\<lambda>refs.
        ret (zero_rule\<lparr>rule_RuleType := tp_Geoproximity, rule_GeoproximityLocations := refs\<rparr>))
      else if policy = Latency then
        bnd (region_references E p [] em) (\<lambda>refs.
        ret (zero_rule\<lparr>rule_RuleType := tp_Latency, rule_Regions := refs\<rparr>))
      else fail (ErrNew ''illegal state''))"

definition policy_document ::
  "(string, Route53Endpoint) mapping \<Rightarrow> Route53Rule \<Rightarrow> Route53TrafficPolicyDocument" where
  "policy_document eps rule =
     \<lparr>tpd_AWSPolicyFormatVersion = ''2015-10-01'', tpd_RecordType = ''A'', tpd_StartEndpoint = [],
      tpd_StartRule = ''main'', tpd_Endpoints = Some eps, tpd_Rules = [''main'' \<mapsto> rule]\<rparr>"

text \<open>\<open>getAWSTrafficPolicyDocument\<close> ranges over the endpoint map twice; \<open>k\<close> is the number of range
  statements executed before.\<close>

definition build_document ::
  "'w env \<Rightarrow> 'w route53Provider \<Rightarrow> nat \<Rightarrow> ('w, record_locals, Route53TrafficPolicyDocument) op" where
  "build_document E p k =
     seq init_health_check_ids
    (bnd get_local (\<lambda>l. let policy = rs_LoadBalancingPolicy (spec_of l) in
     bnd (document_endpoints E policy (r5_endpointMap p k)) (\<lambda>eps.
     bnd (document_rule E p policy (r5_endpointMap p (Suc k))) (\<lambda>rule.
     ret (policy_document eps rule)))))"

definition getAWSTrafficPolicyDocument ::
  "'w env \<Rightarrow> 'w route53Provider \<Rightarrow> nat \<Rightarrow> ('w, record_locals, string) op" where
  "getAWSTrafficPolicyDocument E p k =
     bnd (build_document E p k) (\<lambda>document. pure_call (j_Marshal (e_json E) document))"


section \<open>Traffic policies and traffic policy instances\<close>

definition ErrCodeNoSuchHealthCheck :: string where
  "ErrCodeNoSuchHealthCheck = ''NoSuchHealthCheck''"

text \<open>The references of the main rule, in the order in which their health checks are deleted.\<close>

definition rule_references :: "Route53Rule \<Rightarrow> Route53EndpointRuleReference list" where
  "rule_references r = rule_Items r @ rule_Locations r @ rule_Regions r
     @ rule_GeoproximityLocations r
     @ (case rule_Primary r of None \<Rightarrow> [] | Some x \<Rightarrow> [x])
     @ (case rule_Secondary r of None \<Rightarrow> [] | Some x \<Rightarrow> [x])"

text \<open>One iteration of the deletion of health checks. An error that is not an AWS error falls
  through the type assertion and is dropped.\<close>

definition delete_reference_health_check ::
  "'w route53Provider \<Rightarrow> Route53EndpointRuleReference \<Rightarrow> ('w, 'l, unit) op" where
  "delete_reference_health_check p ref =
     (if err_HealthCheck ref \<noteq> [] then
        (let healthcheckId = last_part (CHR ''/'') (err_HealthCheck ref) in
         bnd (attempt (request (Aws (DeleteHealthCheck (Some healthcheckId)))
                (r53_DeleteHealthCheck (r5_route53Client p) (Some healthcheckId)))) (\<lambda>r.
         case r of
           Inl err \<Rightarrow> (case err of
               AwsErr code msg \<Rightarrow>
                 if code = ErrCodeNoSuchHealthCheck then ret () else fail (AwsErr code msg)
             | _ \<Rightarrow> ret ())
         | Inr _ \<Rightarrow> ret ()))
      else ret ())"

text \<open>\<open>deleteTrafficPolicy\<close> up to its last call: the instances go first, then the health checks.\<close>

definition release_traffic_policy ::
  "'w env \<Rightarrow> 'w route53Provider \<Rightarrow> TrafficPolicy \<Rightarrow> ('w, 'l, unit) op" where
  "release_traffic_policy E p trafficPolicy =
     bnd (request (Aws (ListTrafficPolicyInstancesByPolicy (tp_Id trafficPolicy) 1))
            (r53_ListTrafficPolicyInstancesByPolicy (r5_route53Client p) (tp_Id trafficPolicy) 1)) (\<lambda>instances.
     seq (for_each (\<lambda>_ inst.
            request (Aws (DeleteTrafficPolicyInstance (tpi_Id inst)))
              (r53_DeleteTrafficPolicyInstance (r5_route53Client p) (tpi_Id inst))) () instances)
    (bnd (deref (tp_Document trafficPolicy)) (\<lambda>document.
     bnd (pure_call (j_Unmarshal (e_json E) document)) (\<lambda>trafficPolicyDocument.
     for_each (\<lambda>_ ref. delete_reference_health_check p ref) ()
       (rule_references (main_rule trafficPolicyDocument))))))"

definition deleteTrafficPolicy ::
  "'w env \<Rightarrow> 'w route53Provider \<Rightarrow> TrafficPolicy \<Rightarrow> ('w, 'l, unit) op" where
  "deleteTrafficPolicy E p trafficPolicy =
     seq (release_traffic_policy E p trafficPolicy)
         (request (Aws (DeleteTrafficPolicy (tp_Id trafficPolicy) 1))
            (r53_DeleteTrafficPolicy (r5_route53Client p) (tp_Id trafficPolicy) 1))"

definition key_short :: "'w env \<Rightarrow> ('w, record_locals, string) op" where
  "key_short E = bnd get_local (\<lambda>l. ret (u_GetKeyShort (e_util E) (rec_Meta (rl_instance l))))"

definition createAWSTrafficPolicy ::
  "'w env \<Rightarrow> 'w route53Provider \<Rightarrow> nat \<Rightarrow> ('w, record_locals, string) op" where
  "createAWSTrafficPolicy E p k =
     bnd (getAWSTrafficPolicyDocument E p k) (\<lambda>document.
     bnd (key_short E) (\<lambda>name.
     bnd (request (Aws (CreateTrafficPolicy document name))
            (r53_CreateTrafficPolicy (r5_route53Client p) document name)) (\<lambda>result.
     bnd (deref result) (\<lambda>trafficPolicy. deref (tp_Id trafficPolicy)))))"

text \<open>The loop over the summaries: the policy of the last summary with the record's name.\<close>

definition find_traffic_policy ::
  "'w env \<Rightarrow> 'w route53Provider \<Rightarrow> TrafficPolicySummary list \<Rightarrow>
     ('w, record_locals, TrafficPolicy option) op" where
  "find_traffic_policy E p summaries =
     for_each (\<lambda>current summary.
       bnd (key_short E) (\<lambda>key.
       bnd (deref (tpsum_Name summary)) (\<lambda>name.
       if key = name
       then bnd (deref (tpsum_Id summary)) (\<lambda>ident.
            request (Aws (GetTrafficPolicy ident 1)) (r53_GetTrafficPolicy (r5_route53Client p) ident 1))
       else ret current))) None summaries"

definition current_traffic_policy ::
  "'w env \<Rightarrow> 'w route53Provider \<Rightarrow> ('w, record_locals, TrafficPolicy option) op" where
  "current_traffic_policy E p =
     bnd (request (Aws ListTrafficPolicies) (r53_ListTrafficPolicies (r5_route53Client p))) (\<lambda>summaries.
     find_traffic_policy E p summaries)"

text \<open>The branch for a policy that exists: it is replaced when its document differs.\<close>

definition refresh_traffic_policy ::
  "'w env \<Rightarrow> 'w route53Provider \<Rightarrow> TrafficPolicy \<Rightarrow> ('w, record_locals, string) op" where
  "refresh_traffic_policy E p trafficPolicy =
     bnd (getAWSTrafficPolicyDocument E p 0) (\<lambda>newPolicyDocument.
     bnd (deref (tp_Document trafficPolicy)) (\<lambda>currentDocument.
     bnd (IsSameTrafficPolicyDocument E newPolicyDocument currentDocument) (\<lambda>same.
     if \<not> same
     then seq (deleteTrafficPolicy E p trafficPolicy) (createAWSTrafficPolicy E p 2)
     else deref (tp_Id trafficPolicy))))"

definition ensureRoute53TrafficPolicy ::
  "'w env \<Rightarrow> 'w route53Provider \<Rightarrow> ('w, record_locals, string) op" where
  "ensureRoute53TrafficPolicy E p =
     bnd (current_traffic_policy E p) (\<lambda>current.
     case current of
       None \<Rightarrow> createAWSTrafficPolicy E p 0
     | Some trafficPolicy \<Rightarrow> refresh_traffic_policy E p trafficPolicy)"

definition createAWSTrafficPolicyInstance ::
  "'w route53Provider \<Rightarrow> string \<Rightarrow> ('w, record_locals, string) op" where
  "createAWSTrafficPolicyInstance p trafficPolicyID =
     bnd (zone_id p) (\<lambda>zone. bnd get_local (\<lambda>l.
     let input = \<lparr>ctpi_HostedZoneId = zone, ctpi_Name = rs_Name (spec_of l),
                  ctpi_TTL = rs_TTL (spec_of l), ctpi_TrafficPolicyId = trafficPolicyID,
                  ctpi_TrafficPolicyVersion = 1\<rparr> in
     bnd (request (Aws (CreateTrafficPolicyInstance input))
            (r53_CreateTrafficPolicyInstance (r5_route53Client p) input)) (\<lambda>result.
     bnd (deref result) (\<lambda>inst. deref (tpi_Id inst)))))"

definition isSameRoute53TrafficPolicyInstance ::
  "'w route53Provider \<Rightarrow> TrafficPolicyInstance \<Rightarrow> ('w, record_locals, bool) op" where
  "isSameRoute53TrafficPolicyInstance p inst =
     bnd get_local (\<lambda>l.
     bnd (deref (tpi_HostedZoneId inst)) (\<lambda>hostedZone. bnd (zone_id p) (\<lambda>zone.
     if hostedZone \<noteq> zone then ret False else
     bnd (deref (tpi_Name inst)) (\<lambda>name.
     if name \<noteq> rs_Name (spec_of l) @ ''.'' then ret False else
     bnd (deref (tpi_TTL inst)) (\<lambda>ttl.
     if ttl \<noteq> rs_TTL (spec_of l) then ret False else
     bnd (deref (tpi_TrafficPolicyId inst)) (\<lambda>policyID.
     bnd (deref (ps_Route53 (provider_status l))) (\<lambda>st.
     ret (policyID = r53s_PolicyID st))))))))"

definition find_traffic_policy_instance ::
  "'w route53Provider \<Rightarrow> TrafficPolicyInstance list \<Rightarrow>
     ('w, record_locals, TrafficPolicyInstance option) op" where
  "find_traffic_policy_instance p instances =
     for_each (\<lambda>current inst.
       bnd (deref (tpi_Name inst)) (\<lambda>name.
       bnd get_local (\<lambda>l.
       if name = rs_Name (spec_of l) @ ''.''
       then request (Aws (GetTrafficPolicyInstance (tpi_Id inst)))
              (r53_GetTrafficPolicyInstance (r5_route53Client p) (tpi_Id inst))
       else ret current))) None instances"

definition ensureRoute53DNSRecord ::
  "'w route53Provider \<Rightarrow> string \<Rightarrow> ('w, record_locals, string) op" where
  "ensureRoute53DNSRecord p trafficPolicyID =
     bnd (zone_id p) (\<lambda>zone.
     bnd (request (Aws (ListTrafficPolicyInstancesByHostedZone zone))
            (r53_ListTrafficPolicyInstancesByHostedZone (r5_route53Client p) zone)) (\<lambda>instances.
     bnd (find_traffic_policy_instance p instances) (\<lambda>current.
     case current of
       None \<Rightarrow> createAWSTrafficPolicyInstance p trafficPolicyID
     | Some inst \<Rightarrow>
         bnd (isSameRoute53TrafficPolicyInstance p inst) (\<lambda>same.
         if \<not> same
         then seq (request (Aws (DeleteTrafficPolicyInstance (tpi_Id inst)))
                     (r53_DeleteTrafficPolicyInstance (r5_route53Client p) (tpi_Id inst)))
                  (createAWSTrafficPolicyInstance p trafficPolicyID)
         else deref (tpi_Id inst)))))"

section \<open>The two operations of the provider interface\<close>

text \<open>Assignments to fields of \<open>p.instance.Status.ProviderStatus.Route53\<close>.\<close>

definition upd_route53_status ::
  "(Route53ProviderStatus \<Rightarrow> Route53ProviderStatus) \<Rightarrow> ('w, record_locals, unit) op" where
  "upd_route53_status f =
     bnd get_local (\<lambda>l.
     bnd (deref (ps_Route53 (provider_status l))) (\<lambda>st.
     upd_local (\<lambda>l. set_provider_status ((provider_status l)\<lparr>ps_Route53 := Some (f st)\<rparr>) l)))"

definition zero_Route53ProviderStatus :: Route53ProviderStatus where
  "zero_Route53ProviderStatus =
     \<lparr>r53s_PolicyID = [], r53s_HealthCheckIDs = None, r53s_PolicyInstanceID = []\<rparr>"

definition init_route53_status :: "('w, record_locals, unit) op" where
  "init_route53_status =
     bnd get_local (\<lambda>l.
     if ps_Route53 (provider_status l) = None
     then upd_local (\<lambda>l. set_provider_status
            ((provider_status l)\<lparr>ps_Route53 := Some zero_Route53ProviderStatus\<rparr>) l)
     else ret ())"

definition route53_ensureDNSRecord ::
  "'w env \<Rightarrow> 'w route53Provider \<Rightarrow> ('w, record_locals, unit) op" where
  "route53_ensureDNSRecord E p =
     seq init_route53_status
    (bnd (ensureRoute53TrafficPolicy E p) (\<lambda>trafficPolicyID.
     seq (upd_route53_status (\<lambda>st. st\<lparr>r53s_PolicyID := trafficPolicyID\<rparr>))
    (bnd (ensureRoute53DNSRecord p trafficPolicyID) (\<lambda>trafficPolicyInstanceID.
     upd_route53_status (\<lambda>st. st\<lparr>r53s_PolicyInstanceID := trafficPolicyInstanceID\<rparr>)))))"

text \<open>The condition of the last loop of the clean-up.\<close>

definition cleanup_health_check ::
  "'w route53Provider \<Rightarrow> string \<Rightarrow> HealthCheck \<Rightarrow> ('w, 'l, unit) op" where
  "cleanup_health_check p host healthCheck =
     bnd (deref (hc_HealthCheckConfig healthCheck)) (\<lambda>config.
     if hcc_FullyQualifiedDomainName config = Some host
     then request (Aws (DeleteHealthCheck (hc_Id healthCheck)))
            (r53_DeleteHealthCheck (r5_route53Client p) (hc_Id healthCheck))
     else ret ())"

text \<open>One iteration of the loop over the policy summaries.\<close>

definition cleanup_traffic_policy ::
  "'w env \<Rightarrow> 'w route53Provider \<Rightarrow> TrafficPolicySummary \<Rightarrow> ('w, record_locals, unit) op" where
  "cleanup_traffic_policy E p summary =
     bnd (key_short E) (\<lambda>key.
     bnd (deref (tpsum_Name summary)) (\<lambda>name.
     if key = name
     then bnd (deref (tpsum_Id summary)) (\<lambda>ident.
          bnd (request (Aws (GetTrafficPolicy ident 1))
                 (r53_GetTrafficPolicy (r5_route53Client p) ident 1)) (\<lambda>output.
          bnd (deref output) (\<lambda>trafficPolicy.
          deleteTrafficPolicy E p trafficPolicy)))
     else ret ()))"

definition cleanUpRoute53DNSRecord ::
  "'w env \<Rightarrow> 'w route53Provider \<Rightarrow> ('w, record_locals, unit) op" where
  "cleanUpRoute53DNSRecord E p =
     bnd (request (Aws ListTrafficPolicies) (r53_ListTrafficPolicies (r5_route53Client p))) (\<lambda>summaries.
     seq (for_each (\<lambda>_ summary. cleanup_traffic_policy E p summary) () summaries)
    (bnd (request (Aws ListHealthChecks) (r53_ListHealthChecks (r5_route53Client p))) (\<lambda>healthChecks.
     bnd get_local (\<lambda>l.
     case rs_HealthCheck (spec_of l) of None \<Rightarrow> ret () | Some probe \<Rightarrow>
     (case pr_HTTPGet probe of None \<Rightarrow> ret () | Some httpGet \<Rightarrow>
      for_each (\<lambda>_ healthCheck. cleanup_health_check p (hg_Host httpGet) healthCheck) ()
        healthChecks)))))"

definition route53_deleteDNSRecord ::
  "'w env \<Rightarrow> 'w route53Provider \<Rightarrow> ('w, record_locals, unit) op" where
  "route53_deleteDNSRecord E p = cleanUpRoute53DNSRecord E p"


section \<open>What the provider may send and change\<close>

fun aws_or_lookup :: "event \<Rightarrow> bool" where
  "aws_or_lookup (Aws _) = True"
| "aws_or_lookup (LookupHost _) = True"
| "aws_or_lookup _ = False"

lemma zone_id_frame [frame_intros]: "emits P (zone_id p)" "keeps f (zone_id p)"
  unfolding zone_id_def by (intro frame_intros)+

lemma getAWSHealthCheckConfig_frame [frame_intros]:
  "emits P (getAWSHealthCheckConfig probe ip)" "keeps f (getAWSHealthCheckConfig probe ip)"
  unfolding getAWSHealthCheckConfig_def by (intro frame_intros)+

lemma createHealthCheck_frame [frame_intros]:
  "emits aws_or_lookup (createHealthCheck E p probe ip)" "keeps f (createHealthCheck E p probe ip)"
  unfolding createHealthCheck_def register_health_check_def Let_def by (intro frame_intros; simp)+

lemma health_check_matches_frame [frame_intros]:
  "emits P (health_check_matches probe ip hc)" "keeps f (health_check_matches probe ip hc)"
  unfolding health_check_matches_def by (intro frame_intros)+

lemma ensureRoute53HealthCheck_frame [frame_intros]:
  "emits aws_or_lookup (ensureRoute53HealthCheck E p ip)"
  "keeps f (ensureRoute53HealthCheck E p ip)"
  unfolding ensureRoute53HealthCheck_def find_health_check_def refresh_health_check_def Let_def
  by (intro frame_intros; simp)+

lemma IsSameTrafficPolicyDocument_frame [frame_intros]:
  "emits P (IsSameTrafficPolicyDocument E a b)" "keeps f (IsSameTrafficPolicyDocument E a b)"
  unfolding IsSameTrafficPolicyDocument_def by (intro frame_intros)+

lemma status_write_frame [frame_intros]:
  "emits P (put_health_check_id k v)" "keeps frozen (put_health_check_id k v)"
  "emits P init_health_check_ids" "keeps frozen init_health_check_ids"
  "emits P (upd_route53_status g)" "keeps frozen (upd_route53_status g)"
  "emits P init_route53_status" "keeps frozen init_route53_status"
  unfolding put_health_check_id_def init_health_check_ids_def upd_route53_status_def
    init_route53_status_def
  by (intro frame_intros; simp)+

lemma document_endpoints_frame [frame_intros]:
  "emits aws_or_lookup (document_endpoints E policy em)" "keeps f (document_endpoints E policy em)"
  unfolding document_endpoints_def multivalue_endpoints_def elb_endpoints_def
  by (intro frame_intros; simp)+

lemma with_health_check_frame [frame_intros]:
  "emits aws_or_lookup (with_health_check E p IP ref)" "keeps frozen (with_health_check E p IP ref)"
  unfolding with_health_check_def by (intro frame_intros)+

lemma document_rule_frame [frame_intros]:
  "emits aws_or_lookup (document_rule E p policy em)" "keeps frozen (document_rule E p policy em)"
  unfolding document_rule_def multivalue_references_def region_references_def
    region_reference_def Let_def
  by (intro frame_intros; simp)+

lemma getAWSTrafficPolicyDocument_frame [frame_intros]:
  "emits aws_or_lookup (getAWSTrafficPolicyDocument E p k)"
  "keeps frozen (getAWSTrafficPolicyDocument E p k)"
  unfolding getAWSTrafficPolicyDocument_def build_document_def Let_def by (intro frame_intros)+

lemma case_error_frame [frame_intros]:
  "(\<And>c m. e = AwsErr c m \<Longrightarrow> emits P (f c m)) \<Longrightarrow> emits P (case e of AwsErr c m \<Rightarrow> f c m | _ \<Rightarrow> ret x)"
  "(\<And>c m. e = AwsErr c m \<Longrightarrow> keeps g (f c m)) \<Longrightarrow> keeps g (case e of AwsErr c m \<Rightarrow> f c m | _ \<Rightarrow> ret x)"
  by (cases e; simp; intro frame_intros)+

lemma delete_reference_health_check_frame [frame_intros]:
  "(\<And>i. P (Aws (DeleteHealthCheck i))) \<Longrightarrow> emits P (delete_reference_health_check p ref)"
  "keeps f (delete_reference_health_check p ref)"
  unfolding delete_reference_health_check_def Let_def by (intro frame_intros; simp)+

lemma release_traffic_policy_frame [frame_intros]:
  "(\<And>i v. P (Aws (ListTrafficPolicyInstancesByPolicy i v))) \<Longrightarrow> (\<And>i. P (Aws (DeleteTrafficPolicyInstance i))) \<Longrightarrow>
     (\<And>i. P (Aws (DeleteHealthCheck i))) \<Longrightarrow> emits P (release_traffic_policy E p tp)"
  "keeps f (release_traffic_policy E p tp)"
  unfolding release_traffic_policy_def by (intro frame_intros; simp)+

lemma deleteTrafficPolicy_frame [frame_intros]:
  "emits aws_or_lookup (deleteTrafficPolicy E p tp)" "keeps f (deleteTrafficPolicy E p tp)"
  unfolding deleteTrafficPolicy_def by (intro frame_intros; simp)+

lemma key_short_frame [frame_intros]: "emits P (key_short E)" "keeps f (key_short E)"
  unfolding key_short_def by (intro frame_intros)+

lemma createAWSTrafficPolicy_frame [frame_intros]:
  "emits aws_or_lookup (createAWSTrafficPolicy E p k)" "keeps frozen (createAWSTrafficPolicy E p k)"
  unfolding createAWSTrafficPolicy_def by (intro frame_intros; simp)+

lemma find_traffic_policy_frame [frame_intros]:
  "(\<And>i v. P (Aws (GetTrafficPolicy i v))) \<Longrightarrow> emits P (find_traffic_policy E p xs)"
  "keeps f (find_traffic_policy E p xs)"
  unfolding find_traffic_policy_def by (intro frame_intros; simp)+

lemma ensureRoute53TrafficPolicy_frame [frame_intros]:
  "emits aws_or_lookup (ensureRoute53TrafficPolicy E p)" "keeps frozen (ensureRoute53TrafficPolicy E p)"
  unfolding ensureRoute53TrafficPolicy_def current_traffic_policy_def refresh_traffic_policy_def
  by (intro frame_intros; simp)+

lemma createAWSTrafficPolicyInstance_frame [frame_intros]:
  "emits aws_or_lookup (createAWSTrafficPolicyInstance p i)"
  "keeps f (createAWSTrafficPolicyInstance p i)"
  unfolding createAWSTrafficPolicyInstance_def Let_def by (intro frame_intros; simp)+

lemma isSameRoute53TrafficPolicyInstance_frame [frame_intros]:
  "emits P (isSameRoute53TrafficPolicyInstance p i)"
  "keeps f (isSameRoute53TrafficPolicyInstance p i)"
  unfolding isSameRoute53TrafficPolicyInstance_def by (intro frame_intros)+

lemma find_traffic_policy_instance_frame [frame_intros]:
  "(\<And>i. P (Aws (GetTrafficPolicyInstance i))) \<Longrightarrow> emits P (find_traffic_policy_instance p xs)"
  "keeps f (find_traffic_policy_instance p xs)"
  unfolding find_traffic_policy_instance_def by (intro frame_intros; simp)+

lemma ensureRoute53DNSRecord_frame [frame_intros]:
  "emits aws_or_lookup (ensureRoute53DNSRecord p i)" "keeps f (ensureRoute53DNSRecord p i)"
  unfolding ensureRoute53DNSRecord_def by (intro frame_intros; simp)+

lemma route53_ensureDNSRecord_frame:
  "emits aws_or_lookup (route53_ensureDNSRecord E p)" "keeps frozen (route53_ensureDNSRecord E p)"
  unfolding route53_ensureDNSRecord_def by (intro frame_intros)+

lemma route53_deleteDNSRecord_frame:
  "emits aws_or_lookup (route53_deleteDNSRecord E p)" "keeps f (route53_deleteDNSRecord E p)"
  unfolding route53_deleteDNSRecord_def cleanUpRoute53DNSRecord_def cleanup_health_check_def
    cleanup_traffic_policy_def
  by (intro frame_intros; simp)+

lemma aws_or_lookup_provider: "aws_or_lookup ev \<Longrightarrow> provider_event ev"
  by (cases ev) simp_all

interpretation route53: dns_provider "route53_ensureDNSRecord E p" "route53_deleteDNSRecord E p"
  for E and p
  by unfold_locales
    (blast intro: route53_ensureDNSRecord_frame route53_deleteDNSRecord_frame
      emits_mono aws_or_lookup_provider)+

end
