(* ===== verification/Route53_Documents.thy ===== *)
theory Route53_Documents
  imports Route53_Provider
begin

text \<open>
  The traffic policy documents of the Route53 provider: what the comparison of two documents
  decides, what document the provider builds, and that it is the same document whatever order
  Go chooses for the iterations over the endpoint map.
\<close>

section \<open>Comparing documents\<close>

text \<open>What a document means to the comparison: the rule main with its references as sets.\<close>

definition rule_view :: "Route53Rule \<Rightarrow> Route53RuleType \<times> Route53EndpointRuleReference option
    \<times> Route53EndpointRuleReference option \<times> Route53EndpointRuleReference set list" where
  "rule_view r = (rule_RuleType r, rule_Primary r, rule_Secondary r,
     [set (rule_Locations r), set (rule_GeoproximityLocations r), set (rule_Regions r), set (rule_Items r)])"

definition document_view :: "Route53TrafficPolicyDocument \<Rightarrow> string list \<times> (string, Route53Endpoint) mapping option
    \<times> Route53RuleType \<times> Route53EndpointRuleReference option
    \<times> Route53EndpointRuleReference option \<times> Route53EndpointRuleReference set list" where
  "document_view d = ([tpd_AWSPolicyFormatVersion d, tpd_StartEndpoint d, tpd_StartRule d, tpd_RecordType d],
     tpd_Endpoints d, rule_view (main_rule d))"

lemma same_references_iff:
  "isSameRoute53EndpointRuleReferenceSet xs ys \<longleftrightarrow> set xs = set ys"
  by (simp add: isSameRoute53EndpointRuleReferenceSet_def ref_set.is_equal_mk)

lemma same_rule_iff: "isSameRoute53Rule r r' \<longleftrightarrow> rule_view r = rule_view r'"
  by (auto simp: isSameRoute53Rule_def rule_view_def same_references_iff)

lemma same_document_view: "same_document d d' \<longleftrightarrow> document_view d = document_view d'"
  by (auto simp: same_document_def document_view_def same_rule_iff)

lemma same_document_refl [simp]: "same_document d d"
  by (simp add: same_document_view)

lemma IsSame_apply:
  assumes "j_Unmarshal (e_json E) left = Ret d" and "j_Unmarshal (e_json E) right = Ret d'"
  shows "IsSameTrafficPolicyDocument E left right = ret (same_document d d')"
  using assms by (simp add: IsSameTrafficPolicyDocument_def pure_call_def ret_def bnd_def)

lemma IsSame_eq_Ret:
  "IsSameTrafficPolicyDocument E left right s = (Ret b, t) \<longleftrightarrow>
     (\<exists>d d'. j_Unmarshal (e_json E) left = Ret d \<and> j_Unmarshal (e_json E) right = Ret d'
        \<and> b = same_document d d' \<and> t = s)"
  by (auto simp: IsSameTrafficPolicyDocument_def bnd_eq_Ret run_simps)

section \<open>The document the provider builds\<close>

definition region_of :: "EndpointStatus \<Rightarrow> string" where
  "region_of es = (case inf_PlatformStatus (es_infrastructure es) of
      None \<Rightarrow> [] | Some platform \<Rightarrow> (case pl_AWS_Region platform of None \<Rightarrow> [] | Some r \<Rightarrow> r))"

text \<open>The endpoints and the references that one endpoint of the record contributes. \<open>ids\<close> gives the
  health check of an IP; it is used when the record has a health check.\<close>

definition endpoint_entries ::
  "(string \<Rightarrow> string list) \<Rightarrow> LoadBalancingPolicy \<Rightarrow> EndpointStatus \<Rightarrow> (string \<times> Route53Endpoint) list" where
  "endpoint_entries hosts policy es =
     (if policy = Multivalue
      then map (\<lambda>IP. (Endpoint_GetKey (es_endpoint es) @ IP,
             \<lparr>r53e_Type = tp_Value, r53e_Region = [], r53e_Value = IP\<rparr>)) (endpoint_ips hosts es)
      else [(Endpoint_GetKey (es_endpoint es),
             \<lparr>r53e_Type = tp_ElasticLoadBalacer, r53e_Region = [],
              r53e_Value = ing_Hostname (hd (svc_Ingress (es_service es)))\<rparr>)])"

definition checked :: "(string \<Rightarrow> string) option \<Rightarrow> string \<Rightarrow> Route53EndpointRuleReference \<Rightarrow>
    Route53EndpointRuleReference" where
  "checked ids IP ref = (case ids of None \<Rightarrow> ref
     | Some f \<Rightarrow> ref\<lparr>err_HealthCheck := f IP, err_EvaluateTargetHealth := True\<rparr>)"

definition endpoint_references ::
  "(string \<Rightarrow> string list) \<Rightarrow> (string \<Rightarrow> string) option \<Rightarrow> LoadBalancingPolicy \<Rightarrow> EndpointStatus \<Rightarrow>
     Route53EndpointRuleReference list" where
  "endpoint_references hosts ids policy es =
     (if policy = Multivalue
      then map (\<lambda>IP. checked ids IP
             (nonExistent\<lparr>err_EndpointReference := Endpoint_GetKey (es_endpoint es) @ IP\<rparr>))
             (endpoint_ips hosts es)
      else [checked ids (hd (endpoint_ips hosts es))
             (nonExistent\<lparr>err_EndpointReference := Endpoint_GetKey (es_endpoint es),
                err_Region := (if policy = Geoproximity then ''aws:route53:'' else []) @ region_of es\<rparr>)])"

definition rule_of :: "LoadBalancingPolicy \<Rightarrow> Route53EndpointRuleReference list \<Rightarrow> Route53Rule" where
  "rule_of policy refs =
     (if policy = Multivalue then zero_rule\<lparr>rule_RuleType := tp_Multivalue, rule_Items := refs\<rparr>
      else if policy = Geoproximity
      then zero_rule\<lparr>rule_RuleType := tp_Geoproximity, rule_GeoproximityLocations := refs\<rparr>
      else zero_rule\<lparr>rule_RuleType := tp_Latency, rule_Regions := refs\<rparr>)"

text \<open>The document for two orders of the endpoint map, one per loop.\<close>

definition document_spec ::
  "(string \<Rightarrow> string list) \<Rightarrow> (string \<Rightarrow> string) option \<Rightarrow> LoadBalancingPolicy \<Rightarrow>
     endpoint_map \<Rightarrow> endpoint_map \<Rightarrow> Route53TrafficPolicyDocument" where
  "document_spec hosts ids policy em em' =
     policy_document (upd_all Mapping.empty (concat (map (\<lambda>(_, es). endpoint_entries hosts policy es) em)))
       (rule_of policy (concat (map (\<lambda>(_, es). endpoint_references hosts ids policy es) em')))"

definition map_ips :: "(string \<Rightarrow> string list) \<Rightarrow> endpoint_map \<Rightarrow> string set" where
  "map_ips hosts em = (\<Union>(_, es) \<in> set em. set (endpoint_ips hosts es))"

lemma map_ips_range: "wf_ranges r \<Longrightarrow> map_ips hosts (r i) = map_ips hosts (r j)"
  using wf_ranges_set [of r i j] by (simp add: map_ips_def)

section \<open>The loops that build the document\<close>

lemma elb_endpoints_result:
  assumes "elb_endpoints em s = (Ret eps, t)" and "policy \<noteq> Multivalue"
  shows "eps = upd_all Mapping.empty (concat (map (\<lambda>(_, es). endpoint_entries hosts policy es) em))
    \<and> local t = local s"
proof -
  let ?g = "\<lambda>eps (k, es). upd_all eps (endpoint_entries hosts policy es)"
  have "eps = foldl ?g Mapping.empty em \<and> local t = local s"
  proof (rule for_each_result [OF assms(1) [unfolded elb_endpoints_def], where I = "\<lambda>u. local u = local s"])
    fix acc :: "(string, Route53Endpoint) mapping" and x :: "string \<times> EndpointStatus" and s' r t'
    assume "local s' = local s" and "(case x of (_, endpoint) \<Rightarrow>
       bnd (index (svc_Ingress (es_service endpoint)) 0) (\<lambda>ingress.
       ret (Mapping.update (Endpoint_GetKey (es_endpoint endpoint))
              \<lparr>r53e_Type = tp_ElasticLoadBalacer, r53e_Region = [], r53e_Value = ing_Hostname ingress\<rparr> acc)))
       s' = (Ret r, t')"
    then show "r = ?g acc x \<and> local t' = local s"
      using assms(2)
      by (auto simp: index_def endpoint_entries_def hd_conv_nth prog_simps split: if_splits prod.splits)
  qed simp
  moreover have "foldl ?g m em
      = upd_all m (concat (map (\<lambda>(_, es). endpoint_entries hosts policy es) em))" for m
    by (induction em arbitrary: m) (auto simp: upd_all_append)
  ultimately show ?thesis by simp
qed

lemma foldl_upd_map:
  "foldl (\<lambda>m x. Mapping.update (f x) (g x) m) m xs = upd_all m (map (\<lambda>x. (f x, g x)) xs)"
  by (induction xs arbitrary: m) simp_all

lemma multivalue_endpoints_result:
  assumes "resolves_to E hosts" and "multivalue_endpoints E em s = (Ret eps, t)"
  shows "eps = upd_all Mapping.empty (concat (map (\<lambda>(_, es). endpoint_entries hosts Multivalue es) em))
    \<and> local t = local s"
proof -
  let ?g = "\<lambda>eps (k, es). upd_all eps (endpoint_entries hosts Multivalue es)"
  have "eps = foldl ?g Mapping.empty em \<and> local t = local s"
  proof (rule for_each_result [OF assms(2) [unfolded multivalue_endpoints_def], where I = "\<lambda>u. local u = local s"])
    fix acc :: "(string, Route53Endpoint) mapping" and x :: "string \<times> EndpointStatus" and s' r t'
    assume "local s' = local s" and "(case x of (_, endpoint) \<Rightarrow>
       bnd (getIPs E endpoint) (\<lambda>IPs.
       ret (foldl (\<lambda>eps IP. Mapping.update (Endpoint_GetKey (es_endpoint endpoint) @ IP)
              \<lparr>r53e_Type = tp_Value, r53e_Region = [], r53e_Value = IP\<rparr> eps) acc IPs))) s' = (Ret r, t')"
    then show "r = ?g acc x \<and> local t' = local s"
      by (auto simp: bnd_eq_Ret endpoint_entries_def prog_simps foldl_upd_map split: prod.splits
          dest!: getIPs_ips [OF assms(1)])
  qed simp
  moreover have "foldl ?g m em
      = upd_all m (concat (map (\<lambda>(_, es). endpoint_entries hosts Multivalue es) em))" for m
    by (induction em arbitrary: m) (auto simp: upd_all_append)
  ultimately show ?thesis by simp
qed

lemma document_endpoints_result:
  assumes "resolves_to E hosts" and "document_endpoints E policy em s = (Ret eps, t)"
  shows "eps = upd_all Mapping.empty (concat (map (\<lambda>(_, es). endpoint_entries hosts policy es) em))
    \<and> local t = local s"
  using assms(2) multivalue_endpoints_result [OF assms(1), of em s eps t]
    elb_endpoints_result [of em s eps t policy hosts]
  by (auto simp: document_endpoints_def prog_simps split: if_splits)

text \<open>The health checks are stable: each of the given IPs gets the same ID in every run.\<close>

definition checks_to ::
  "'w env \<Rightarrow> 'w route53Provider \<Rightarrow> GlobalDNSRecordSpec \<Rightarrow> string set \<Rightarrow>
     (string \<Rightarrow> string) option \<Rightarrow> bool" where
  "checks_to E p spec A ids = (case ids of
      None \<Rightarrow> rs_HealthCheck spec = None
    | Some f \<Rightarrow> rs_HealthCheck spec \<noteq> None \<and>
        (\<forall>ip \<in> A. \<forall>s i t. spec_of (local s) = spec \<longrightarrow>
           ensureRoute53HealthCheck E p ip s = (Ret i, t) \<longrightarrow> i = f ip))"

lemma with_health_check_result:
  assumes "checks_to E p spec A (Some f)" and "spec_of (local s) = spec"
    and "with_health_check E p IP ref s = (Ret r, t)" and "IP \<in> A"
  shows "r = checked (Some f) IP ref \<and> spec_of (local t) = spec"
proof -
  from assms(3) obtain i u where "ensureRoute53HealthCheck E p IP s = (Ret i, u)"
    and "r = ref\<lparr>err_HealthCheck := i, err_EvaluateTargetHealth := True\<rparr>"
    by (auto simp: with_health_check_def bnd_eq_Ret seq_eq_Ret prog_simps)
  moreover have "spec_of (local t) = spec_of (local s)"
    using keepsD [OF with_health_check_frame(2) assms(3)] by (rule frozen_spec)
  ultimately show ?thesis using assms(1,2,4) by (auto simp: checks_to_def checked_def)
qed

lemma maybe_health_check_result:
  assumes "checks_to E p spec A ids" and "spec_of (local s) = spec"
    and "(if rs_HealthCheck spec \<noteq> None then with_health_check E p IP ref else ret ref) s = (Ret r, t)"
    and "IP \<in> A"
  shows "r = checked ids IP ref \<and> spec_of (local t) = spec"
proof (cases ids)
  case None
  with assms show ?thesis by (auto simp: checks_to_def checked_def prog_simps)
next
  case (Some f)
  with assms(1) have "rs_HealthCheck spec \<noteq> None" by (auto simp: checks_to_def)
  with assms(3) have "with_health_check E p IP ref s = (Ret r, t)" by simp
  with with_health_check_result [OF assms(1) [unfolded Some] assms(2)] assms(4) show ?thesis
    unfolding Some by blast
qed

text \<open>The inner loop over the IPs of an endpoint.\<close>

lemma ip_references_result:
  assumes "checks_to E p spec A ids" and "spec_of (local s) = spec"
    and "for_each (\<lambda>refs IP.
         let ref = nonExistent\<lparr>err_EndpointReference := key @ IP\<rparr> in
         bnd get_local (\<lambda>l.
         bnd (if rs_HealthCheck (spec_of l) \<noteq> None then with_health_check E p IP ref else ret ref) (\<lambda>ref.
         ret (refs @ [ref])))) refs IPs s = (Ret r, t)"
    and "set IPs \<subseteq> A"
  shows "r = refs @ map (\<lambda>IP. checked ids IP (nonExistent\<lparr>err_EndpointReference := key @ IP\<rparr>)) IPs
    \<and> spec_of (local t) = spec"
proof -
  let ?ref = "\<lambda>IP. nonExistent\<lparr>err_EndpointReference := key @ IP\<rparr>"
  have "r = foldl (\<lambda>acc IP. acc @ [checked ids IP (?ref IP)]) refs IPs \<and> spec_of (local t) = spec"
  proof (rule for_each_result [OF assms(3), where I = "\<lambda>u. spec_of (local u) = spec"])
    fix acc IP s' r t'
    assume IP: "IP \<in> set IPs" and spec: "spec_of (local s') = spec"
      and run: "(let ref = ?ref IP in bnd get_local (\<lambda>l.
         bnd (if rs_HealthCheck (spec_of l) \<noteq> None then with_health_check E p IP ref else ret ref) (\<lambda>ref.
         ret (acc @ [ref])))) s' = (Ret r, t')"
    from run obtain ref where "r = acc @ [ref]"
      and "(if rs_HealthCheck spec \<noteq> None then with_health_check E p IP (?ref IP) else ret (?ref IP)) s' = (Ret ref, t')"
      using spec by (auto simp: Let_def bnd_eq_Ret prog_simps simp del: not_None_eq split del: if_split)
    with maybe_health_check_result [OF assms(1) spec] IP assms(4)
    show "r = acc @ [checked ids IP (?ref IP)] \<and> spec_of (local t') = spec" by blast
  qed (rule assms(2))
  then show ?thesis by (simp add: foldl_snoc)
qed

lemma multivalue_references_result:
  assumes "resolves_to E hosts" and "checks_to E p spec A ids" and "spec_of (local s) = spec"
    and "multivalue_references E p em s = (Ret refs, t)" and "map_ips hosts em \<subseteq> A"
  shows "refs = concat (map (\<lambda>(_, es). endpoint_references hosts ids Multivalue es) em)
    \<and> spec_of (local t) = spec"
proof -
  let ?g = "\<lambda>refs (k, es). refs @ endpoint_references hosts ids Multivalue es"
  have "refs = foldl ?g [] em \<and> spec_of (local t) = spec"
  proof (rule for_each_result [OF assms(4) [unfolded multivalue_references_def],
        where I = "\<lambda>u. spec_of (local u) = spec"], goal_cases)
    case (2 acc x s' r t')
    obtain k es where x: "x = (k, es)" by (cases x)
    from 2(3) [unfolded x case_prod_conv bnd_eq_Ret] obtain IPs u
      where ips: "getIPs E es s' = (Ret IPs, u)"
        and loop: "for_each (\<lambda>refs IP.
         let ref = nonExistent\<lparr>err_EndpointReference := Endpoint_GetKey (es_endpoint es) @ IP\<rparr> in
         bnd get_local (\<lambda>l.
         bnd (if rs_HealthCheck (spec_of l) \<noteq> None then with_health_check E p IP ref else ret ref) (\<lambda>ref.
         ret (refs @ [ref])))) acc IPs u = (Ret r, t')"
      by blast
    from getIPs_ips [OF assms(1) ips] 2(2) have IPs: "IPs = endpoint_ips hosts es"
      and u: "spec_of (local u) = spec" by simp_all
    from 2(1) assms(5) have "set IPs \<subseteq> A" by (auto simp: x IPs map_ips_def)
    from ip_references_result [OF assms(2) u loop this] show ?case
      by (simp add: x IPs endpoint_references_def)
  qed (rule assms(3))
  then show ?thesis
    using foldl_append [of "\<lambda>(_, es). endpoint_references hosts ids Multivalue es" "[]" em]
    by (simp add: case_prod_unfold)
qed

lemma region_reference_result:
  assumes "resolves_to E hosts" and "checks_to E p spec A ids" and "spec_of (local s) = spec"
    and "policy \<noteq> Multivalue" and "pre = (if policy = Geoproximity then ''aws:route53:'' else [])"
    and "region_reference E p pre es s = (Ret r, t)" and "set (endpoint_ips hosts es) \<subseteq> A"
  shows "[r] = endpoint_references hosts ids policy es \<and> spec_of (local t) = spec"
proof -
  from assms(6) obtain platform region where
    region: "inf_PlatformStatus (es_infrastructure es) = Some platform" "pl_AWS_Region platform = Some region"
    by (auto simp: region_reference_def bnd_eq_Ret deref_def prog_simps split: option.splits)
  define ref where "ref = nonExistent\<lparr>err_EndpointReference := Endpoint_GetKey (es_endpoint es),
    err_Region := pre @ region\<rparr>"
  have spec: "endpoint_references hosts ids policy es = [checked ids (hd (endpoint_ips hosts es)) ref]"
    using assms(4,5) region by (simp add: endpoint_references_def region_of_def ref_def)
  show ?thesis
  proof (cases ids)
    case None
    with assms(2,3,6) region spec show ?thesis
      by (auto simp: region_reference_def checks_to_def checked_def deref_def prog_simps bnd_eq_Ret
          Let_def ref_def)
  next
    case (Some f)
    with assms(2,3) have "rs_HealthCheck (spec_of (local s)) \<noteq> None" by (simp add: checks_to_def)
    with assms(6) obtain IPs u where ips: "getIPs E es s = (Ret IPs, u)" and "IPs \<noteq> []"
      and hc: "with_health_check E p (hd IPs) ref u = (Ret r, t)"
      by (auto simp: region_reference_def region deref_def prog_simps bnd_eq_Ret attempt_eq_Ret
          Let_def ref_def index_def hd_conv_nth split: if_splits)
    from getIPs_ips [OF assms(1) ips] assms(3) have IPs: "IPs = endpoint_ips hosts es"
      and u: "spec_of (local u) = spec" by simp_all
    have "hd IPs \<in> A" using assms(7) \<open>IPs \<noteq> []\<close> by (auto simp: IPs)
    from with_health_check_result [OF assms(2) [unfolded Some] u hc this] show ?thesis
      using spec by (simp add: Some IPs)
  qed
qed

lemma region_references_result:
  assumes "resolves_to E hosts" and "checks_to E p spec A ids" and "spec_of (local s) = spec"
    and "policy \<noteq> Multivalue" and "pre = (if policy = Geoproximity then ''aws:route53:'' else [])"
    and "region_references E p pre em s = (Ret refs, t)" and "map_ips hosts em \<subseteq> A"
  shows "refs = concat (map (\<lambda>(_, es). endpoint_references hosts ids policy es) em)
    \<and> spec_of (local t) = spec"
proof -
  let ?g = "\<lambda>refs (k, es). refs @ endpoint_references hosts ids policy es"
  have "refs = foldl ?g [] em \<and> spec_of (local t) = spec"
  proof (rule for_each_result [OF assms(6) [unfolded region_references_def],
        where I = "\<lambda>u. spec_of (local u) = spec"], goal_cases)
    case (2 acc x s' r t')
    obtain k es where x: "x = (k, es)" by (cases x)
    from 2(3) obtain ref where run: "region_reference E p pre es s' = (Ret ref, t')" and r: "r = acc @ [ref]"
      by (auto simp: x bnd_eq_Ret prog_simps)
    from 2(1) assms(7) have "set (endpoint_ips hosts es) \<subseteq> A" by (auto simp: x map_ips_def)
    from region_reference_result [OF assms(1,2) 2(2) assms(4,5) run this] show ?case
      by (simp add: x r)
  qed (rule assms(3))
  then show ?thesis
    using foldl_append [of "\<lambda>(_, es). endpoint_references hosts ids policy es" "[]" em]
    by (simp add: case_prod_unfold)
qed

lemma document_rule_result:
  assumes "resolves_to E hosts" and "checks_to E p spec A ids" and "spec_of (local s) = spec"
    and "document_rule E p policy em s = (Ret rule, t)" and "map_ips hosts em \<subseteq> A"
  shows "rule = rule_of policy (concat (map (\<lambda>(_, es). endpoint_references hosts ids policy es) em))"
  using assms(4) multivalue_references_result [OF assms(1-3) _ assms(5)]
    region_references_result [OF assms(1-3) _ _ _ assms(5), of policy]
  by (auto simp: document_rule_def bnd_eq_Ret prog_simps rule_of_def policy_defs split: if_splits)

lemma init_health_check_ids_result:
  "init_health_check_ids s = (Ret u, t) \<Longrightarrow> spec_of (local t) = spec_of (local s)"
  using keepsD [OF status_write_frame(4)] frozen_spec by blast

lemma build_document_result:
  assumes "resolves_to E hosts" and "checks_to E p (spec_of (local s)) (map_ips hosts (r5_endpointMap p 0)) ids"
    and "wf_ranges (r5_endpointMap p)" and "build_document E p k s = (Ret d, t)"
  shows "d = document_spec hosts ids (rs_LoadBalancingPolicy (spec_of (local s)))
     (r5_endpointMap p k) (r5_endpointMap p (Suc k))"
proof -
  let ?policy = "rs_LoadBalancingPolicy (spec_of (local s))"
  from assms(4) obtain u v eps rule where init: "init_health_check_ids s = (Ret (), u)"
    and eps: "document_endpoints E (rs_LoadBalancingPolicy (spec_of (local u))) (r5_endpointMap p k) u = (Ret eps, v)"
    and rule: "document_rule E p (rs_LoadBalancingPolicy (spec_of (local u))) (r5_endpointMap p (Suc k)) v = (Ret rule, t)"
    and d: "d = policy_document eps rule"
    by (auto simp: build_document_def seq_eq_Ret bnd_eq_Ret prog_simps Let_def)
  note u = init_health_check_ids_result [OF init]
  from document_endpoints_result [OF assms(1) eps [unfolded u]] have
    e: "eps = upd_all Mapping.empty (concat (map (\<lambda>(_, es). endpoint_entries hosts ?policy es) (r5_endpointMap p k)))"
    and v: "spec_of (local v) = spec_of (local s)" using u by simp_all
  have "map_ips hosts (r5_endpointMap p (Suc k)) \<subseteq> map_ips hosts (r5_endpointMap p 0)"
    using map_ips_range [OF assms(3)] by blast
  from document_rule_result [OF assms(1,2) v rule [unfolded u] this] d e show ?thesis
    by (simp add: document_spec_def)
qed

section \<open>Independence of the iteration order\<close>

text \<open>Two IPs of different endpoints may yield the same name in the document, since the key and
  the IP are joined without a separator; the entries have to be functional.\<close>

definition entries :: "(string \<Rightarrow> string list) \<Rightarrow> LoadBalancingPolicy \<Rightarrow> endpoint_map \<Rightarrow>
    (string \<times> Route53Endpoint) list" where
  "entries hosts policy em = concat (map (\<lambda>(_, es). endpoint_entries hosts policy es) em)"

lemma elb_entries_functional:
  assumes "wf_ranges r" and "policy \<noteq> Multivalue"
  shows "functional (set (entries hosts policy (r i)))"
proof -
  have "functional (set (r i))"
    by (rule functional_distinct) (rule wf_ranges_distinct [OF assms(1)])
  moreover have "k = Endpoint_GetKey (es_endpoint es)" if "(k, es) \<in> set (r i)" for k es
    using wf_ranges_keyed [OF assms(1) that] .
  ultimately show ?thesis
    using assms(2) by (fastforce simp: entries_def endpoint_entries_def functional_def)
qed

lemma document_spec_order:
  assumes "set em1 = set em2" and "set em1' = set em2'"
    and "functional (set (entries hosts policy em1))"
  shows "same_document (document_spec hosts ids policy em1 em1') (document_spec hosts ids policy em2 em2')"
proof -
  have "set (entries hosts policy em1) = set (entries hosts policy em2)"
    using assms(1) by (simp add: entries_def)
  from upd_all_cong [OF this assms(3)] have
    "upd_all Mapping.empty (entries hosts policy em1) = upd_all Mapping.empty (entries hosts policy em2)" .
  with assms(2) show ?thesis
    by (simp add: same_document_view document_view_def document_spec_def policy_document_def
        main_rule_def rule_view_def rule_of_def zero_rule_def entries_def)
qed

lemma build_document_order:
  assumes "resolves_to E hosts" and "checks_to E p (spec_of (local s)) (map_ips hosts (r5_endpointMap p 0)) ids"
    and "wf_ranges (r5_endpointMap p)" and "spec_of (local s') = spec_of (local s)"
    and "functional (set (entries hosts (rs_LoadBalancingPolicy (spec_of (local s))) (r5_endpointMap p 0)))"
    and "build_document E p k s = (Ret d, t)" and "build_document E p k' s' = (Ret d', t')"
  shows "same_document d d'"
proof -
  let ?r = "r5_endpointMap p" and ?policy = "rs_LoadBalancingPolicy (spec_of (local s))"
  have "set (entries hosts ?policy (?r k)) = set (entries hosts ?policy (?r 0))"
    using wf_ranges_set [OF assms(3), of k 0] by (simp add: entries_def)
  with assms(5) have fn: "functional (set (entries hosts ?policy (?r k)))" by simp
  note d = build_document_result [OF assms(1,2,3,6)]
  note d' = build_document_result [OF assms(1) _ assms(3,7), unfolded assms(4), OF assms(2)]
  show ?thesis unfolding d d'
    by (rule document_spec_order [OF _ _ fn]) (rule wf_ranges_set [OF assms(3)])+
qed

section \<open>Health checks that exist\<close>

text \<open>The condition of the search loop as a predicate, and the check the loop selects.\<close>

definition is_check_of :: "HTTPGetAction \<Rightarrow> string \<Rightarrow> HealthCheck \<Rightarrow> bool" where
  "is_check_of httpGet ip hc = (\<exists>config. hc_HealthCheckConfig hc = Some config
     \<and> hcc_FullyQualifiedDomainName config = Some (hg_Host httpGet) \<and> hcc_IPAddress config = Some ip)"

definition selected_check :: "HTTPGetAction \<Rightarrow> string \<Rightarrow> HealthCheck list \<Rightarrow> HealthCheck option" where
  "selected_check httpGet ip hcs = foldl (\<lambda>cur hc. if is_check_of httpGet ip hc then Some hc else cur) None hcs"

lemma selected_check_filter:
  "selected_check httpGet ip hcs = (case filter (is_check_of httpGet ip) hcs of [] \<Rightarrow> None | hc # hcs' \<Rightarrow> Some (last (hc # hcs')))"
proof -
  have "foldl (\<lambda>cur hc. if is_check_of httpGet ip hc then Some hc else cur) c hcs
      = (case filter (is_check_of httpGet ip) hcs of [] \<Rightarrow> c | hc # hcs' \<Rightarrow> Some (last (hc # hcs')))" for c
    by (induction hcs arbitrary: c) (auto split: list.splits)
  then show ?thesis by (simp add: selected_check_def)
qed

lemma health_check_matches_result:
  assumes "health_check_matches (Some pr) ip hc s = (Ret b, t)" and "pr_HTTPGet pr = Some httpGet"
  shows "b = is_check_of httpGet ip hc \<and> t = s"
  using assms
  by (auto simp: health_check_matches_def is_check_of_def deref_def prog_simps bnd_eq_Ret split: option.splits if_splits)

text \<open>Route53 lists the same health checks in every run, and an update returns the check it
  updated.\<close>

definition steady_checks :: "'w route53_api \<Rightarrow> HealthCheck list \<Rightarrow> bool" where
  "steady_checks api hcs \<longleftrightarrow> (\<forall>w. fst (r53_ListHealthChecks api w) = Ret hcs)
     \<and> (\<forall>input w h w'. r53_UpdateHealthCheck api input w = (Ret (Some h), w') \<longrightarrow>
          hc_Id h = uhi_HealthCheckId input)"

lemma find_health_check_result:
  assumes "find_health_check (Some pr) ip hcs s = (Ret current, t)" and "pr_HTTPGet pr = Some httpGet"
  shows "current = selected_check httpGet ip hcs"
proof -
  have "current = foldl (\<lambda>cur hc. if is_check_of httpGet ip hc then Some hc else cur) None hcs \<and> True"
    by (rule for_each_result [OF assms(1) [unfolded find_health_check_def], where I = "\<lambda>_. True"])
      (auto simp: bnd_eq_Ret prog_simps dest: health_check_matches_result [OF _ assms(2)])
  then show ?thesis by (simp add: selected_check_def)
qed

lemma refresh_health_check_result:
  assumes "steady_checks (r5_route53Client p) hcs" and "refresh_health_check p probe ip hc s = (Ret i, t)"
  shows "hc_Id hc = Some i"
proof -
  from assms(2) obtain config u where
    "(if Some config \<noteq> hc_HealthCheckConfig hc
      then (let input = (getAWSUpdateHealthCheckInput config)\<lparr>uhi_HealthCheckId := hc_Id hc\<rparr> in
           bnd (request (Aws (UpdateHealthCheck input))
                        (r53_UpdateHealthCheck (r5_route53Client p) input)) (\<lambda>result.
           bnd (deref result) (\<lambda>updated. deref (hc_Id updated))))
      else deref (hc_Id hc)) u = (Ret i, t)"
    by (auto simp: refresh_health_check_def bnd_eq_Ret)
  then show ?thesis
    using assms(1)
    by (fastforce simp: steady_checks_def inv_Ret Let_def split: if_splits)
qed

lemma ensureRoute53HealthCheck_existing:
  assumes "steady_checks (r5_route53Client p) hcs"
    and "rs_HealthCheck (spec_of (local s)) = Some pr" and "pr_HTTPGet pr = Some httpGet"
    and "selected_check httpGet ip hcs = Some hc"
    and "ensureRoute53HealthCheck E p ip s = (Ret i, t)"
  shows "hc_Id hc = Some i"
proof -
  from assms(5) obtain xs u current v where
    list: "request (Aws ListHealthChecks) (r53_ListHealthChecks (r5_route53Client p)) s = (Ret xs, u)"
    and find: "find_health_check (rs_HealthCheck (spec_of (local u))) ip xs u = (Ret current, v)"
    and rest: "(case current of None \<Rightarrow> createHealthCheck E p (rs_HealthCheck (spec_of (local u))) ip
       | Some hc \<Rightarrow> refresh_health_check p (rs_HealthCheck (spec_of (local u))) ip hc) v = (Ret i, t)"
    by (auto simp: ensureRoute53HealthCheck_def bnd_eq_Ret Let_def get_local_apply)
  from list have u: "local u = local s" by (auto simp: request_def split: prod.splits)
  have "fst (r53_ListHealthChecks (r5_route53Client p) (world s)) = Ret xs"
    using list by (auto simp: request_def split: prod.splits)
  with assms(1) have "xs = hcs" by (simp add: steady_checks_def)
  with find u assms(2-4) have "current = Some hc" using find_health_check_result by metis
  with rest refresh_health_check_result [OF assms(1)] show ?thesis by fastforce
qed

lemma checks_to_steady:
  assumes "steady_checks (r5_route53Client p) hcs"
    and "rs_HealthCheck spec = Some pr" and "pr_HTTPGet pr = Some httpGet"
    and "\<forall>ip \<in> A. \<exists>hc. selected_check httpGet ip hcs = Some hc"
  shows "checks_to E p spec A (Some (\<lambda>ip. the (hc_Id (the (selected_check httpGet ip hcs)))))"
  using assms ensureRoute53HealthCheck_existing [OF assms(1) _ assms(3)]
  by (fastforce simp: checks_to_def)

end
