(* ===== verification/Route53_Converge.thy ===== *)
theory Route53_Converge
  imports Route53_Documents
begin

text \<open>
  Convergence of the traffic policy of a record. For a Route53 that stores policies as its
  documentation says, one successful run of \<open>ensureRoute53TrafficPolicy\<close> makes every later run
  a no-op: the policy is found, its document compares equal to the one built again, its ID is
  returned, unless a read of Route53 fails, and nothing is created, deleted or updated. This is what keeps the controller from
  deleting and creating the live policy on every reconcile cycle.
\<close>

section \<open>The policy store of Route53\<close>

text \<open>\<open>pol w\<close> are the stored policies in the order of their creation, which is the order in
  which Route53 lists them: ID, name and document. A list request without a marker answers with the
  first page, of at most 100 policies; the code never asks for another page. Any request may fail.\<close>

type_synonym policy_row = "string \<times> string \<times> string"

definition summary_of :: "policy_row \<Rightarrow> TrafficPolicySummary" where
  "summary_of = (\<lambda>(i, n, d). \<lparr>tpsum_Id = Some i, tpsum_Name = Some n\<rparr>)"

definition policy_of :: "policy_row \<Rightarrow> TrafficPolicy" where
  "policy_of = (\<lambda>(i, n, d). \<lparr>tp_Id = Some i, tp_Document = Some d\<rparr>)"

definition policy_store :: "'w route53_api \<Rightarrow> ('w \<Rightarrow> policy_row list) \<Rightarrow> bool" where
  "policy_store api pol \<longleftrightarrow>
     (\<forall>w r w'. r53_ListTrafficPolicies api w = (r, w') \<longrightarrow> pol w' = pol w
        \<and> (r = Ret (map summary_of (take 100 (pol w))) \<or> (\<exists>e. r = Fail e)))
   \<and> (\<forall>w i n d r w'. (i, n, d) \<in> set (pol w) \<and> r53_GetTrafficPolicy api i 1 w = (r, w') \<longrightarrow> pol w' = pol w
        \<and> (r = Ret (Some (policy_of (i, n, d))) \<or> (\<exists>e. r = Fail e)))
   \<and> (\<forall>w d n r w'. r53_CreateTrafficPolicy api d n w = (Ret r, w') \<longrightarrow>
        (\<exists>i. r = Some (policy_of (i, n, d)) \<and> pol w' = pol w @ [(i, n, d)]))"

text \<open>The errors with which the reads of policies can fail.\<close>

definition read_error :: "'w route53_api \<Rightarrow> error \<Rightarrow> bool" where
  "read_error api e \<longleftrightarrow> (\<exists>w w'. r53_ListTrafficPolicies api w = (Fail e, w'))
     \<or> (\<exists>i w w'. r53_GetTrafficPolicy api i 1 w = (Fail e, w'))"

text \<open>A run that only reads here keeps the stored policies, the record but for its provider status,
  and whether that is allocated.\<close>

definition held :: "record_locals \<Rightarrow> (ObjectMeta \<times> GlobalDNSRecordSpec \<times> Conditions
    \<times> (string \<rightharpoonup> Conditions) \<times> (string \<rightharpoonup> Conditions) \<times> (string \<times> RemoteManager) list) \<times> bool" where
  "held l = (frozen l, ps_Route53 (provider_status l) \<noteq> None)"

abbreviation idle_rel :: "('w \<Rightarrow> policy_row list) \<Rightarrow> (event, 'w, record_locals) io \<Rightarrow>
    (event, 'w, record_locals) io \<Rightarrow> bool" where
  "idle_rel pol \<equiv> reads_rel held pol"

lemma idle_status:
  "idle_rel pol s t \<Longrightarrow> ps_Route53 (provider_status (local t)) \<noteq> None
     \<longleftrightarrow> ps_Route53 (provider_status (local s)) \<noteq> None"
  by (auto simp: reads_rel_def held_def)

lemma idle_frozen: "idle_rel pol s t \<Longrightarrow> frozen (local t) = frozen (local s)"
  by (simp add: reads_rel_def held_def)

lemma idle_spec: "idle_rel pol s t \<Longrightarrow> spec_of (local t) = spec_of (local s)"
  using frozen_spec idle_frozen by blast

lemma frozen_meta: "frozen l = frozen l' \<Longrightarrow> rec_Meta (rl_instance l) = rec_Meta (rl_instance l')"
  by (simp add: frozen_def)

section \<open>Finding the policy\<close>

definition record_key :: "'w env \<Rightarrow> record_locals \<Rightarrow> string" where
  "record_key E l = u_GetKeyShort (e_util E) (rec_Meta (rl_instance l))"

lemma record_key_frozen: "frozen l = frozen l' \<Longrightarrow> record_key E l = record_key E l'"
  unfolding record_key_def by (drule frozen_meta) simp

definition stored_policy :: "string \<Rightarrow> policy_row list \<Rightarrow> policy_row option" where
  "stored_policy key rows = foldl (\<lambda>cur row. if key = fst (snd row) then Some row else cur) None rows"

lemma stored_policy_snoc: "stored_policy key (rows @ [(i, key, d)]) = Some (i, key, d)"
  by (simp add: stored_policy_def)

lemma stored_policy_mem: "stored_policy key rows = Some row \<Longrightarrow> row \<in> set rows \<and> fst (snd row) = key"
  unfolding stored_policy_def by (induction rows rule: rev_induct) (auto split: if_splits)

abbreviation idles :: "'w route53Provider \<Rightarrow> ('w \<Rightarrow> policy_row list) \<Rightarrow> ('w, record_locals, 'a) op \<Rightarrow>
    (event, 'w, record_locals) io \<Rightarrow> 'a \<Rightarrow> bool" where
  "idles p pol \<equiv> settles (idle_rel pol) (read_error (r5_route53Client p))"

lemma find_traffic_policy_settles:
  assumes "policy_store (r5_route53Client p) pol" and "set rows \<subseteq> set (pol (world s))"
  shows "idles p pol (find_traffic_policy E p (map summary_of rows)) s
     (map_option policy_of (stored_policy (record_key E (local s)) rows))"
proof -
  let ?key = "record_key E (local s)"
  let ?step = "\<lambda>current summary. bnd (key_short E) (\<lambda>key.
       bnd (deref (tpsum_Name summary)) (\<lambda>name.
       if key = name
       then bnd (deref (tpsum_Id summary)) (\<lambda>ident.
            request (Aws (GetTrafficPolicy ident 1)) (r53_GetTrafficPolicy (r5_route53Client p) ident 1))
       else ret current))"
  have get: "idles p pol (request (Aws (GetTrafficPolicy i 1))
      (r53_GetTrafficPolicy (r5_route53Client p) i 1)) t (Some (policy_of (i, n, d)))"
    if "(i, n, d) \<in> set (pol (world t))" for i n d t
    using assms(1) that by (intro reads_settle) (auto simp: policy_store_def read_error_def, blast+)
  have step: "idles p pol (?step current (summary_of row)) t
      (if ?key = fst (snd row) then Some (policy_of row) else current)"
    if "row \<in> set rows" and "idle_rel pol s t" for current row t
  proof -
    obtain i n d where row: "row = (i, n, d)" by (cases row)
    have key: "record_key E (local t) = ?key"
      by (rule record_key_frozen) (rule idle_frozen [OF that(2)])
    have "pol (world t) = pol (world s)" by (rule reads_world [OF that(2)])
    with that(1) assms(2) have mem: "(i, n, d) \<in> set (pol (world t))" by (auto simp: row)
    have "?step current (summary_of row) t = (if ?key = n
        then request (Aws (GetTrafficPolicy i 1)) (r53_GetTrafficPolicy (r5_route53Client p) i 1)
        else ret current) t"
      using key by (simp add: row summary_of_def key_short_def record_key_def bnd_def deref_def prog_simps)
    with get [OF mem] reads.settles_returns [OF reads.returns_ret, of held pol "read_error (r5_route53Client p)" current t] show ?thesis
      by (cases "?key = n") (simp_all add: row settles_def)
  qed
  have "for_each ?step c (map summary_of xs) = for_each (\<lambda>c row. ?step c (summary_of row)) c xs" for c xs
    by (induction xs arbitrary: c) simp_all
  then have "idles p pol (for_each ?step None (map summary_of rows)) s
      (foldl (\<lambda>cur row. if ?key = fst (snd row) then Some (policy_of row) else cur) None rows)"
    using step by (auto intro!: reads.settles_for_each)
  moreover have "foldl (\<lambda>cur row. if ?key = fst (snd row) then Some (policy_of row) else cur)
      (map_option policy_of c) xs
    = map_option policy_of (foldl (\<lambda>cur row. if ?key = fst (snd row) then Some row else cur) c xs)" for c xs
    by (induction xs arbitrary: c rule: rev_induct) auto
  from this [of None rows] have "foldl (\<lambda>cur row. if ?key = fst (snd row) then Some (policy_of row) else cur) None rows
      = map_option policy_of (stored_policy ?key rows)" by (simp add: stored_policy_def)
  ultimately show ?thesis by (simp add: find_traffic_policy_def)
qed

lemma current_traffic_policy_settles:
  assumes "policy_store (r5_route53Client p) pol"
  shows "idles p pol (current_traffic_policy E p) s
     (map_option policy_of (stored_policy (record_key E (local s)) (take 100 (pol (world s)))))"
  unfolding current_traffic_policy_def
proof (rule reads.settles_bnd)
  show "idles p pol (request (Aws ListTrafficPolicies) (r53_ListTrafficPolicies (r5_route53Client p))) s
      (map summary_of (take 100 (pol (world s))))"
    using assms by (intro reads_settle) (auto simp: policy_store_def read_error_def, blast+)
next
  fix t assume t: "idle_rel pol s t"
  have "set (take 100 (pol (world s))) \<subseteq> set (pol (world t))"
    using reads_world [OF t] by (simp add: set_take_subset)
  from find_traffic_policy_settles [OF assms this, of E] record_key_frozen [OF idle_frozen [OF t], of E]
  show "idles p pol (find_traffic_policy E p (map summary_of (take 100 (pol (world s))))) t
      (map_option policy_of (stored_policy (record_key E (local s)) (take 100 (pol (world s)))))" by simp
qed

section \<open>Building the document again\<close>

text \<open>What an endpoint needs for the document of a record without health check to be built.\<close>

definition buildable :: "LoadBalancingPolicy \<Rightarrow> EndpointStatus \<Rightarrow> bool" where
  "buildable policy es \<longleftrightarrow> inf_PlatformStatus (es_infrastructure es) \<noteq> None \<and>
     (policy \<noteq> Multivalue \<longrightarrow> svc_Ingress (es_service es) \<noteq> []
        \<and> pl_AWS_Region (the (inf_PlatformStatus (es_infrastructure es))) \<noteq> None)"

definition supported_policy :: "LoadBalancingPolicy \<Rightarrow> bool" where
  "supported_policy policy \<longleftrightarrow> policy \<in> {Multivalue, Geoproximity, Latency}"

lemma multivalue_endpoints_returns:
  assumes "resolves_to E hosts" and "\<forall>(_, es) \<in> set em. buildable policy es"
  shows "\<exists>eps. returns (idle_rel pol) (multivalue_endpoints E em) s eps"
proof -
  let ?g = "\<lambda>eps (k, es). foldl (\<lambda>eps IP. Mapping.update (Endpoint_GetKey (es_endpoint es) @ IP)
              \<lparr>r53e_Type = tp_Value, r53e_Region = [], r53e_Value = IP\<rparr> eps) eps (endpoint_ips hosts es)"
  have "returns (idle_rel pol) (multivalue_endpoints E em) s (foldl ?g Mapping.empty em)"
    unfolding multivalue_endpoints_def
    by (rule reads.returns_for_each)
      (use assms(2) in \<open>auto intro!: reads.returns_bnd [OF getIPs_returns [OF assms(1)]] reads.returns_ret
        simp: buildable_def\<close>)
  then show ?thesis by blast
qed

lemma elb_endpoints_returns:
  assumes "policy \<noteq> Multivalue" and "\<forall>(_, es) \<in> set em. buildable policy es"
  shows "\<exists>eps. returns (idle_rel pol) (elb_endpoints em) s eps"
proof -
  let ?g = "\<lambda>eps (k, es). Mapping.update (Endpoint_GetKey (es_endpoint es))
              \<lparr>r53e_Type = tp_ElasticLoadBalacer, r53e_Region = [],
               r53e_Value = ing_Hostname (svc_Ingress (es_service es) ! 0)\<rparr> eps"
  have "returns (idle_rel pol) (elb_endpoints em) s (foldl ?g Mapping.empty em)"
    unfolding elb_endpoints_def
    by (rule reads.returns_for_each)
      (use assms in \<open>auto simp: index_def buildable_def reads.returns_ret\<close>)
  then show ?thesis by blast
qed

lemma multivalue_references_returns:
  assumes "resolves_to E hosts" and "rs_HealthCheck (spec_of (local s)) = None"
    and "\<forall>(_, es) \<in> set em. buildable policy es"
  shows "\<exists>refs. returns (idle_rel pol) (multivalue_references E p em) s refs"
proof -
  let ?ref = "\<lambda>es IP. nonExistent\<lparr>err_EndpointReference := Endpoint_GetKey (es_endpoint es) @ IP\<rparr>"
  let ?g = "\<lambda>refs (k, es). foldl (\<lambda>refs IP. refs @ [?ref es IP]) refs (endpoint_ips hosts es)"
  have none: "rs_HealthCheck (spec_of (local t)) = None" if "idle_rel pol s t" for t
    using idle_spec [OF that] assms(2) by simp
  have "returns (idle_rel pol) (multivalue_references E p em) s (foldl ?g [] em)"
    unfolding multivalue_references_def Let_def
  proof (rule reads.returns_for_each, clarsimp, rule reads.returns_bnd, rule getIPs_returns [OF assms(1)], goal_cases)
    case (1 acc k es t)
    then show ?case using assms(3) by (auto simp: buildable_def)
  next
    case (2 acc k es t u)
    show ?case
      by (rule reads.returns_for_each)
        (use none 2 in \<open>auto intro!: reads_intros dest: reads.R_trans\<close>)
  qed
  then show ?thesis by blast
qed

lemma region_references_returns:
  assumes "policy \<noteq> Multivalue" and "rs_HealthCheck (spec_of (local s)) = None"
    and "\<forall>(_, es) \<in> set em. buildable policy es"
  shows "\<exists>refs. returns (idle_rel pol) (region_references E p pre em) s refs"
proof -
  let ?ref = "\<lambda>es. nonExistent\<lparr>err_EndpointReference := Endpoint_GetKey (es_endpoint es),
     err_Region := pre @ region_of es\<rparr>"
  have step: "region_reference E p pre es t = (Ret (?ref es), t)"
    if "idle_rel pol s t" and "buildable policy es" for es t
    using idle_spec [OF that(1)] that(2) assms(1,2)
    by (auto simp: region_reference_def buildable_def deref_def Let_def region_of_def bnd_def prog_simps)
  have "returns (idle_rel pol) (region_references E p pre em) s (foldl (\<lambda>refs (k, es). refs @ [?ref es]) [] em)"
    unfolding region_references_def
    by (rule reads.returns_for_each)
      (use step assms(3) in \<open>auto simp: returns_def bnd_def prog_simps reads.R_refl\<close>)
  then show ?thesis by blast
qed

lemma document_endpoints_returns:
  assumes "resolves_to E hosts" and "supported_policy policy" and "\<forall>(_, es) \<in> set em. buildable policy es"
  shows "\<exists>eps. returns (idle_rel pol) (document_endpoints E policy em) s eps"
proof (cases "policy = Multivalue")
  case True
  then show ?thesis
    using multivalue_endpoints_returns [OF assms(1,3)] by (simp add: document_endpoints_def)
next
  case False
  with assms(2) have "document_endpoints E policy em = elb_endpoints em"
    by (auto simp: document_endpoints_def supported_policy_def)
  then show ?thesis using elb_endpoints_returns [OF False assms(3)] by metis
qed

lemma document_rule_returns:
  assumes "resolves_to E hosts" and "rs_HealthCheck (spec_of (local s)) = None"
    and "supported_policy policy" and "\<forall>(_, es) \<in> set em. buildable policy es"
  shows "\<exists>r. returns (idle_rel pol) (document_rule E p policy em) s r"
proof -
  have then_ret: "\<exists>r. returns (idle_rel pol) (bnd m (\<lambda>refs. ret (f refs))) s r"
    if "\<exists>refs. returns (idle_rel pol) m s refs" for m and f :: "Route53EndpointRuleReference list \<Rightarrow> Route53Rule"
    using that reads.returns_bnd reads.returns_ret by metis
  show ?thesis
  proof (cases "policy = Multivalue")
    case True
    with then_ret [OF multivalue_references_returns [OF assms(1,2,4)]] show ?thesis
      by (simp add: document_rule_def)
  next
    case False
    with assms(3) then_ret [OF region_references_returns [OF False assms(2,4)]] show ?thesis
      by (cases "policy = Geoproximity") (auto simp: document_rule_def supported_policy_def)
  qed
qed

lemma build_document_returns:
  assumes "resolves_to E hosts" and "rs_HealthCheck (spec_of (local s)) = None"
    and "supported_policy (rs_LoadBalancingPolicy (spec_of (local s)))"
    and "\<forall>i. \<forall>(_, es) \<in> set (r5_endpointMap p i). buildable (rs_LoadBalancingPolicy (spec_of (local s))) es"
    and "ps_Route53 (provider_status (local s)) \<noteq> None"
  shows "\<exists>d. returns (idle_rel pol) (build_document E p k) s d"
proof -
  let ?policy = "rs_LoadBalancingPolicy (spec_of (local s))"
  have init: "returns (idle_rel pol) init_health_check_ids s ()"
    using assms(5) by (auto simp: returns_def init_health_check_ids_def bnd_def deref_def prog_simps
        reads_rel_def held_def emits_rel_def)
  obtain u where u: "init_health_check_ids s = (Ret (), u)" "idle_rel pol s u"
    using init by (auto simp: returns_def)
  obtain e v where v: "document_endpoints E ?policy (r5_endpointMap p k) u = (Ret e, v)" "idle_rel pol u v"
    using document_endpoints_returns [OF assms(1,3) assms(4) [THEN spec, of k], of pol u]
    by (auto simp: returns_def)
  obtain r w where "document_rule E p ?policy (r5_endpointMap p (Suc k)) v = (Ret r, w)" "idle_rel pol v w"
    using document_rule_returns [OF assms(1) _ assms(3) assms(4) [THEN spec, of "Suc k"], of v pol p]
      idle_spec [OF u(2)] idle_spec [OF v(2)] assms(2)
    by (auto simp: returns_def)
  then have "build_document E p k s = (Ret (policy_document e r), w)" and "idle_rel pol s w"
    using u v idle_spec [OF u(2)] reads.R_trans [OF u(2) reads.R_trans [OF v(2)]]
    by (simp_all add: build_document_def seq_def bnd_def Let_def prog_simps)
  then show ?thesis by (auto simp: returns_def)
qed

text \<open>A document that was built once shows that its endpoints allow it.\<close>

lemma build_document_buildable:
  assumes "resolves_to E hosts" and "rs_HealthCheck (spec_of (local s)) = None"
    and "wf_ranges (r5_endpointMap p)" and "build_document E p k s = (Ret d, t)"
  shows "supported_policy (rs_LoadBalancingPolicy (spec_of (local s)))"
    and "\<forall>i. \<forall>(_, es) \<in> set (r5_endpointMap p i). buildable (rs_LoadBalancingPolicy (spec_of (local s))) es"
    and "ps_Route53 (provider_status (local s)) \<noteq> None"
proof -
  let ?policy = "rs_LoadBalancingPolicy (spec_of (local s))"
  from assms(4) obtain u v eps rule where init: "init_health_check_ids s = (Ret (), u)"
    and eps: "document_endpoints E (rs_LoadBalancingPolicy (spec_of (local u))) (r5_endpointMap p k) u = (Ret eps, v)"
    and rule: "document_rule E p (rs_LoadBalancingPolicy (spec_of (local u))) (r5_endpointMap p (Suc k)) v = (Ret rule, t)"
    by (auto simp: build_document_def inv_Ret Let_def)
  note u = init_health_check_ids_result [OF init]
  note eps = eps [unfolded u] and rule = rule [unfolded u]
  show sup: "supported_policy ?policy"
    using eps by (auto simp: document_endpoints_def supported_policy_def inv_Ret split: if_splits)
  show "ps_Route53 (provider_status (local s)) \<noteq> None"
    using init by (auto simp: init_health_check_ids_def inv_Ret)
  have "buildable ?policy es" if "(x, es) \<in> set (r5_endpointMap p i)" for x es i
  proof -
    have k: "(x, es) \<in> set (r5_endpointMap p k)" and k': "(x, es) \<in> set (r5_endpointMap p (Suc k))"
      using that wf_ranges_set [OF assms(3), of i] by blast+
    show ?thesis
    proof (cases "?policy = Multivalue")
      case True
      with eps have "multivalue_endpoints E (r5_endpointMap p k) u = (Ret eps, v)"
        by (simp add: document_endpoints_def)
      from for_each_item [OF this [unfolded multivalue_endpoints_def] k] True show ?thesis
        by (auto simp: buildable_def getIPs_def inv_Ret)
    next
      case False
      with eps have elb: "elb_endpoints (r5_endpointMap p k) u = (Ret eps, v)"
        by (auto simp: document_endpoints_def inv_Ret split: if_splits)
      from rule False obtain pre refs t' where "region_references E p pre (r5_endpointMap p (Suc k)) v = (Ret refs, t')"
        by (auto simp: document_rule_def inv_Ret split: if_splits)
      from for_each_item [OF this [unfolded region_references_def] k'] obtain ref v' t''
        where "region_reference E p pre es v' = (Ret ref, t'')" by (auto simp: inv_Ret)
      then have "\<exists>platform region. inf_PlatformStatus (es_infrastructure es) = Some platform
          \<and> pl_AWS_Region platform = Some region"
        by (auto simp: region_reference_def bnd_eq_Ret deref_eq_Ret)
      moreover from for_each_item [OF elb [unfolded elb_endpoints_def] k]
      have "svc_Ingress (es_service es) \<noteq> []" by (auto simp: inv_Ret)
      ultimately show ?thesis by (auto simp: buildable_def)
    qed
  qed
  then show "\<forall>i. \<forall>(_, es) \<in> set (r5_endpointMap p i). buildable ?policy es" by blast
qed

section \<open>A settled policy\<close>

text \<open>Encoding and decoding a document gives the document back; demanded of the documents the
  provider can build, for every order of its loops.\<close>

definition json_roundtrip :: "'w env \<Rightarrow> Route53TrafficPolicyDocument \<Rightarrow> bool" where
  "json_roundtrip E d \<longleftrightarrow> (\<exists>j. j_Marshal (e_json E) d = Ret j \<and> j_Unmarshal (e_json E) j = Ret d)"

definition documents_roundtrip ::
  "'w env \<Rightarrow> 'w route53Provider \<Rightarrow> (string \<Rightarrow> string list) \<Rightarrow> LoadBalancingPolicy \<Rightarrow> bool" where
  "documents_roundtrip E p hosts policy \<longleftrightarrow> (\<forall>k. json_roundtrip E
     (document_spec hosts None policy (r5_endpointMap p k) (r5_endpointMap p (Suc k))))"

text \<open>The stored policy of the record has the given ID and a document that compares equal.\<close>

definition settled :: "'w env \<Rightarrow> policy_row list \<Rightarrow> string \<Rightarrow> string \<Rightarrow> Route53TrafficPolicyDocument \<Rightarrow> bool" where
  "settled E rows key i d \<longleftrightarrow> (\<exists>doc d'. stored_policy key rows = Some (i, key, doc)
     \<and> j_Unmarshal (e_json E) doc = Ret d' \<and> same_document d d')"

text \<open>The situation in which the lemmas below are used: a record without health check, a resolver
  with stable answers, a provider whose endpoint map is consistent.\<close>

definition calm :: "'w env \<Rightarrow> (string \<Rightarrow> string list) \<Rightarrow> ('w \<Rightarrow> policy_row list) \<Rightarrow>
    GlobalDNSRecordSpec \<Rightarrow> 'w route53Provider \<Rightarrow> bool" where
  "calm E hosts pol spec p \<longleftrightarrow> resolves_to E hosts \<and> rs_HealthCheck spec = None
     \<and> wf_ranges (r5_endpointMap p)
     \<and> functional (set (entries hosts (rs_LoadBalancingPolicy spec) (r5_endpointMap p 0)))
     \<and> policy_store (r5_route53Client p) pol
     \<and> documents_roundtrip E p hosts (rs_LoadBalancingPolicy spec)"

definition spec_document :: "(string \<Rightarrow> string list) \<Rightarrow> GlobalDNSRecordSpec \<Rightarrow> 'w route53Provider \<Rightarrow> nat \<Rightarrow>
    Route53TrafficPolicyDocument" where
  "spec_document hosts spec p k = document_spec hosts None (rs_LoadBalancingPolicy spec)
     (r5_endpointMap p k) (r5_endpointMap p (Suc k))"

lemma calm_build:
  assumes "calm E hosts pol (spec_of (local s)) p" and "build_document E p k s = (Ret d, t)"
  shows "d = spec_document hosts (spec_of (local s)) p k"
proof -
  have "checks_to E p (spec_of (local s)) (map_ips hosts (r5_endpointMap p 0)) None"
    using assms(1) by (simp add: calm_def checks_to_def)
  from build_document_result [OF _ this _ assms(2)] assms(1) show ?thesis
    by (simp add: calm_def spec_document_def)
qed

lemma calm_marshal:
  assumes "calm E hosts pol (spec_of (local s)) p" and "getAWSTrafficPolicyDocument E p k s = (Ret doc, t)"
  shows "j_Unmarshal (e_json E) doc = Ret (spec_document hosts (spec_of (local s)) p k)"
proof -
  from assms(2) obtain d u where "build_document E p k s = (Ret d, u)" and doc: "j_Marshal (e_json E) d = Ret doc"
    by (auto simp: getAWSTrafficPolicyDocument_def inv_Ret run_simps)
  then have "d = spec_document hosts (spec_of (local s)) p k" using calm_build [OF assms(1)] by blast
  moreover have "json_roundtrip E (spec_document hosts (spec_of (local s)) p k)"
    using assms(1) by (simp add: calm_def documents_roundtrip_def spec_document_def)
  ultimately show ?thesis using doc by (auto simp: json_roundtrip_def)
qed

lemma spec_document_same:
  assumes "calm E hosts pol spec p" and "wf_ranges (r5_endpointMap p')"
    and "set (r5_endpointMap p' 0) = set (r5_endpointMap p 0)"
  shows "same_document (spec_document hosts spec p' k) (spec_document hosts spec p j)"
proof -
  have sets: "set (r5_endpointMap p' a) = set (r5_endpointMap p b)" for a b
    using wf_ranges_set [OF assms(2), of a 0] wf_ranges_set [of "r5_endpointMap p" b 0] assms(1,3)
    by (simp add: calm_def)
  have "set (entries hosts (rs_LoadBalancingPolicy spec) (r5_endpointMap p' k))
      = set (entries hosts (rs_LoadBalancingPolicy spec) (r5_endpointMap p 0))"
    using sets [of k 0] by (simp add: entries_def)
  with assms(1) have "functional (set (entries hosts (rs_LoadBalancingPolicy spec) (r5_endpointMap p' k)))"
    by (simp add: calm_def)
  then show ?thesis unfolding spec_document_def by (rule document_spec_order [OF sets sets])
qed

lemma createAWSTrafficPolicy_settled:
  assumes "calm E hosts pol (spec_of (local s)) p" and "createAWSTrafficPolicy E p k s = (Ret i, t)"
  shows "settled E (pol (world t)) (record_key E (local s)) i (spec_document hosts (spec_of (local s)) p j)"
proof -
  from assms(2) obtain doc u w result where doc: "getAWSTrafficPolicyDocument E p k s = (Ret doc, u)"
    and create: "r53_CreateTrafficPolicy (r5_route53Client p) doc (record_key E (local u)) (world u) = (Ret result, w)"
    and i: "\<exists>tp. result = Some tp \<and> tp_Id tp = Some i" and t: "world t = w"
    by (auto simp: createAWSTrafficPolicy_def key_short_def record_key_def inv_Ret)
  have key: "record_key E (local u) = record_key E (local s)"
    by (rule record_key_frozen) (rule keepsD [OF getAWSTrafficPolicyDocument_frame(2) doc])
  from assms(1) create i have "\<exists>rows. pol w = rows @ [(i, record_key E (local s), doc)]"
    unfolding calm_def policy_store_def key by (fastforce simp: policy_of_def)
  then have "stored_policy (record_key E (local s)) (pol w) = Some (i, record_key E (local s), doc)"
    using stored_policy_snoc by metis
  moreover have "same_document (spec_document hosts (spec_of (local s)) p j) (spec_document hosts (spec_of (local s)) p k)"
    by (rule spec_document_same [OF assms(1)]) (use assms(1) in \<open>simp_all add: calm_def\<close>)
  ultimately show ?thesis using calm_marshal [OF assms(1) doc] t by (auto simp: settled_def)
qed

text \<open>Building and encoding the document in the calm situation only reads.\<close>

lemma getAWSTrafficPolicyDocument_returns:
  assumes "calm E hosts pol (spec_of (local s)) p"
    and "supported_policy (rs_LoadBalancingPolicy (spec_of (local s)))"
    and "\<forall>i. \<forall>(_, es) \<in> set (r5_endpointMap p i). buildable (rs_LoadBalancingPolicy (spec_of (local s))) es"
    and "ps_Route53 (provider_status (local s)) \<noteq> None"
  shows "\<exists>doc. returns (idle_rel pol) (getAWSTrafficPolicyDocument E p k) s doc
     \<and> j_Unmarshal (e_json E) doc = Ret (spec_document hosts (spec_of (local s)) p k)"
proof -
  obtain d where d: "returns (idle_rel pol) (build_document E p k) s d"
    using build_document_returns [OF _ _ assms(2-4), of E hosts pol k] assms(1) by (auto simp: calm_def)
  then have spec: "d = spec_document hosts (spec_of (local s)) p k"
    using calm_build [OF assms(1)] by (auto simp: returns_def)
  obtain doc where doc: "j_Marshal (e_json E) d = Ret doc" "j_Unmarshal (e_json E) doc = Ret d"
    using assms(1) by (auto simp: spec calm_def documents_roundtrip_def spec_document_def json_roundtrip_def)
  have "returns (idle_rel pol) (getAWSTrafficPolicyDocument E p k) s doc"
    unfolding getAWSTrafficPolicyDocument_def
    by (rule reads.returns_bnd [OF d]) (simp add: doc(1) pure_call_def returns_def reads.R_refl)
  with doc(2) spec show ?thesis by blast
qed

lemma refresh_traffic_policy_settled:
  assumes "calm E hosts pol (spec_of (local s)) p" and "refresh_traffic_policy E p (policy_of (i0, key, doc0)) s = (Ret i, t)"
    and "length (pol (world t)) \<le> 100"
    and "stored_policy key (take 100 (pol (world s))) = Some (i0, key, doc0)" and "key = record_key E (local s)"
  shows "settled E (pol (world t)) key i (spec_document hosts (spec_of (local s)) p j)"
proof -
  let ?tp = "policy_of (i0, key, doc0)"
  have tp: "tp_Document ?tp = Some doc0" "tp_Id ?tp = Some i0" by (simp_all add: policy_of_def)
  from assms(2) obtain doc u same where doc: "getAWSTrafficPolicyDocument E p 0 s = (Ret doc, u)"
    and same: "IsSameTrafficPolicyDocument E doc doc0 u = (Ret same, u)"
    and rest: "(if \<not> same then seq (deleteTrafficPolicy E p ?tp) (createAWSTrafficPolicy E p 2)
         else deref (Some i0)) u = (Ret i, t)"
    unfolding refresh_traffic_policy_def bnd_eq_Ret deref_eq_Ret tp IsSame_eq_Ret by blast
  have u: "frozen (local u) = frozen (local s)" by (rule keepsD [OF getAWSTrafficPolicyDocument_frame(2) doc])
  show ?thesis
  proof (cases same)
    case False
    with rest obtain v where del: "deleteTrafficPolicy E p (policy_of (i0, key, doc0)) u = (Ret (), v)"
      and create: "createAWSTrafficPolicy E p 2 v = (Ret i, t)"
      by (auto simp: seq_eq_Ret)
    have "frozen (local v) = frozen (local s)" using keepsD [OF deleteTrafficPolicy_frame(2) del, of frozen] u by simp
    then have "spec_of (local v) = spec_of (local s)" "record_key E (local v) = record_key E (local s)"
      using frozen_spec record_key_frozen by blast+
    with createAWSTrafficPolicy_settled [OF _ create] assms(1,5) show ?thesis by simp
  next
    case True
    note un = calm_marshal [OF assms(1) doc]
    from same obtain d0 where d0: "j_Unmarshal (e_json E) doc0 = Ret d0"
      "same_document (spec_document hosts (spec_of (local s)) p 0) d0"
      using True un by (auto simp: IsSame_eq_Ret)
    obtain d where "build_document E p 0 s = (Ret d, u)"
      using doc by (auto simp: getAWSTrafficPolicyDocument_def bnd_eq_Ret run_simps)
    note ok = build_document_buildable [OF _ _ _ this, of hosts]
    have "\<exists>doc. returns (idle_rel pol) (getAWSTrafficPolicyDocument E p 0) s doc"
      using getAWSTrafficPolicyDocument_returns [OF assms(1) ok, of 0] assms(1) by (auto simp: calm_def)
    then have "pol (world u) = pol (world s)" using doc by (auto simp: returns_def reads_rel_def)
    moreover from rest True have "i = i0" "t = u" by (simp_all add: run_simps)
    moreover have "same_document (spec_document hosts (spec_of (local s)) p j) (spec_document hosts (spec_of (local s)) p 0)"
      by (rule spec_document_same [OF assms(1)]) (use assms(1) in \<open>simp_all add: calm_def\<close>)
    ultimately show ?thesis using d0 assms(3,4) by (auto simp: settled_def same_document_view)
  qed
qed

lemma ensureRoute53TrafficPolicy_settled:
  assumes "calm E hosts pol (spec_of (local s)) p" and "ensureRoute53TrafficPolicy E p s = (Ret i, t)"
    and "length (pol (world t)) \<le> 100"
  shows "settled E (pol (world t)) (record_key E (local s)) i (spec_document hosts (spec_of (local s)) p j)"
proof -
  let ?key = "record_key E (local s)" and ?rows = "take 100 (pol (world s))"
  from assms(2) obtain current v where cur: "current_traffic_policy E p s = (Ret current, v)"
    and rest: "(case current of None \<Rightarrow> createAWSTrafficPolicy E p 0 | Some tp \<Rightarrow> refresh_traffic_policy E p tp) v = (Ret i, t)"
    by (auto simp: ensureRoute53TrafficPolicy_def bnd_eq_Ret)
  have c: "current = map_option policy_of (stored_policy ?key ?rows)" and v: "idle_rel pol s v"
    using settles_Ret [OF current_traffic_policy_settles cur] assms(1) by (auto simp: calm_def)
  note vs = idle_spec [OF v] and vk = record_key_frozen [OF idle_frozen [OF v], of E]
  note vp = reads_world [OF v]
  show ?thesis
  proof (cases "stored_policy ?key ?rows")
    case None
    with rest c have "createAWSTrafficPolicy E p 0 v = (Ret i, t)" by simp
    from createAWSTrafficPolicy_settled [OF _ this, of hosts pol j, unfolded vs vk, OF assms(1)]
    show ?thesis .
  next
    case (Some row)
    with stored_policy_mem [OF Some] obtain i0 doc0 where row: "row = (i0, ?key, doc0)" by (cases row) auto
    with rest c Some have "refresh_traffic_policy E p (policy_of (i0, ?key, doc0)) v = (Ret i, t)" by simp
    from refresh_traffic_policy_settled [OF _ this, of hosts pol j, unfolded vs vk vp] assms(1,3) Some row
    show ?thesis by auto
  qed
qed

text \<open>A run that returns has built the document.\<close>

lemma createAWSTrafficPolicy_builds:
  "createAWSTrafficPolicy E p k s = (Ret i, t) \<Longrightarrow> \<exists>d t'. build_document E p k s = (Ret d, t')"
  by (auto simp: createAWSTrafficPolicy_def getAWSTrafficPolicyDocument_def bnd_eq_Ret)

lemma ensureRoute53TrafficPolicy_builds:
  assumes "ensureRoute53TrafficPolicy E p s = (Ret i, t)"
  shows "\<exists>s' d t'. spec_of (local s') = spec_of (local s) \<and> build_document E p 0 s' = (Ret d, t')"
proof -
  from assms obtain current u where cur: "current_traffic_policy E p s = (Ret current, u)"
    and rest: "(case current of None \<Rightarrow> createAWSTrafficPolicy E p 0
      | Some tp \<Rightarrow> refresh_traffic_policy E p tp) u = (Ret i, t)"
    by (auto simp: ensureRoute53TrafficPolicy_def bnd_eq_Ret)
  have "keeps frozen (current_traffic_policy E p)"
    unfolding current_traffic_policy_def by (intro frame_intros)
  from frozen_spec [OF keepsD [OF this cur]] have u: "spec_of (local u) = spec_of (local s)" .
  from rest have "\<exists>d t'. build_document E p 0 u = (Ret d, t')"
    by (cases current)
      (auto dest: createAWSTrafficPolicy_builds
        simp: refresh_traffic_policy_def getAWSTrafficPolicyDocument_def bnd_eq_Ret)
  with u show ?thesis by blast
qed

text \<open>A settled policy is left alone.\<close>

lemma settled_idle:
  assumes calm: "calm E hosts pol (spec_of (local s)) p"
    and "supported_policy (rs_LoadBalancingPolicy (spec_of (local s)))"
    and "\<forall>i. \<forall>(_, es) \<in> set (r5_endpointMap p i). buildable (rs_LoadBalancingPolicy (spec_of (local s))) es"
    and "ps_Route53 (provider_status (local s)) \<noteq> None"
    and settled: "settled E (pol (world s)) (record_key E (local s)) i (spec_document hosts (spec_of (local s)) p 0)"
    and page: "length (pol (world s)) \<le> 100"
  shows "idles p pol (ensureRoute53TrafficPolicy E p) s i"
proof -
  let ?key = "record_key E (local s)"
  from settled obtain doc d where st: "stored_policy ?key (pol (world s)) = Some (i, ?key, doc)"
    and un: "j_Unmarshal (e_json E) doc = Ret d"
    and same: "same_document (spec_document hosts (spec_of (local s)) p 0) d"
    by (auto simp: settled_def)
  have "idles p pol (current_traffic_policy E p) s (Some (policy_of (i, ?key, doc)))"
    using current_traffic_policy_settles [of p pol E s] calm page by (simp add: calm_def st)
  then show ?thesis unfolding ensureRoute53TrafficPolicy_def
  proof (rule reads.settles_bnd)
    fix t assume t: "idle_rel pol s t"
    note spec = idle_spec [OF t]
    have "ps_Route53 (provider_status (local t)) \<noteq> None" using idle_status [OF t] assms(4) by simp
    from getAWSTrafficPolicyDocument_returns [where s = t and k = 0, unfolded spec, OF assms(1-3) this]
    obtain new where new: "returns (idle_rel pol) (getAWSTrafficPolicyDocument E p 0) t new"
      "j_Unmarshal (e_json E) new = Ret (spec_document hosts (spec_of (local s)) p 0)" by blast
    have "returns (idle_rel pol) (refresh_traffic_policy E p (policy_of (i, ?key, doc))) t i"
      unfolding refresh_traffic_policy_def
      by (rule reads.returns_bnd [OF new(1)])
        (simp add: policy_of_def deref_def IsSame_apply [OF new(2) un] same reads.returns_ret)
    then show "idles p pol (case Some (policy_of (i, ?key, doc)) of
        None \<Rightarrow> createAWSTrafficPolicy E p 0
      | Some trafficPolicy \<Rightarrow> refresh_traffic_policy E p trafficPolicy) t i"
      unfolding option.case by (rule reads.settles_returns)
  qed
qed

text \<open>Two runs: the second one, by a provider with the same client for the same endpoints in any
  iteration order, from a state that holds the same record and the policies the first run left.\<close>

lemma ensureRoute53TrafficPolicy_idempotent:
  assumes calm: "calm E hosts pol (spec_of (local s)) p" and calm': "calm E hosts pol (spec_of (local s)) p'"
    and map: "set (r5_endpointMap p' 0) = set (r5_endpointMap p 0)"
    and run: "ensureRoute53TrafficPolicy E p s = (Ret i, t)" and page: "length (pol (world t)) \<le> 100"
    and s': "frozen (local s') = frozen (local s)" "pol (world s') = pol (world t)"
      "ps_Route53 (provider_status (local s')) \<noteq> None"
  shows "idles p' pol (ensureRoute53TrafficPolicy E p') s' i"
proof -
  note spec = frozen_spec [OF s'(1)] and key = record_key_frozen [OF s'(1), of E]
  note settled = ensureRoute53TrafficPolicy_settled [OF calm run page]
  obtain s0 d t0 where s0: "spec_of (local s0) = spec_of (local s)" and b: "build_document E p 0 s0 = (Ret d, t0)"
    using ensureRoute53TrafficPolicy_builds [OF run] by blast
  have ok: "supported_policy (rs_LoadBalancingPolicy (spec_of (local s)))"
    "\<forall>i. \<forall>(_, es) \<in> set (r5_endpointMap p i). buildable (rs_LoadBalancingPolicy (spec_of (local s))) es"
    using build_document_buildable(1,2) [OF _ _ _ b, of hosts, unfolded s0] calm by (simp_all add: calm_def)
  have sets: "set (r5_endpointMap p' k) = set (r5_endpointMap p 0)" for k
    using wf_ranges_set [of "r5_endpointMap p'" k 0] calm' map by (simp add: calm_def)
  have ok': "\<forall>i. \<forall>(_, es) \<in> set (r5_endpointMap p' i). buildable (rs_LoadBalancingPolicy (spec_of (local s))) es"
    using ok(2) sets by auto
  have "same_document (spec_document hosts (spec_of (local s)) p' 0) (spec_document hosts (spec_of (local s)) p 0)"
    by (rule spec_document_same [OF calm _ map]) (use calm' in \<open>simp add: calm_def\<close>)
  with settled [of 0] have "settled E (pol (world s')) (record_key E (local s')) i
      (spec_document hosts (spec_of (local s')) p' 0)"
    unfolding s'(2) spec key by (auto simp: settled_def same_document_view)
  with calm' ok(1) ok' s'(2,3) page show ?thesis unfolding spec [symmetric] by (intro settled_idle) simp_all
qed

end
