(* ===== verification/Sample_World.thy ===== *)
theory Sample_World
  imports Endpoint_Status
begin

text \<open>
  A concrete environment on which the properties with hypotheses are exercised: an in-memory
  Route53 that stores policies, instances and health checks, a Kubernetes API that holds one
  record and one zone, and straightforward versions of the packages the operator calls. The
  string set package is the rule reference set at strings, which has the same source template.
\<close>

record sample_world =
  sw_policies :: "(string \<times> string) list"
  sw_instances :: "TrafficPolicyInstance list"
  sw_checks :: "HealthCheck list"
  sw_record :: "GlobalDNSRecord option"
  sw_records :: "GlobalDNSRecord list"
  sw_zone :: "GlobalDNSZone option"
  sw_dns_endpoints :: "NamespacedName \<rightharpoonup> DNSEndpoint"
  sw_addresses :: "string list"
  sw_discovery :: "GlobalRouteDiscovery option"
  sw_routes :: "Route list"
  sw_nodes :: "Node list"
  sw_next :: nat

definition fresh_id :: "sample_world \<Rightarrow> string" where
  "fresh_id w = CHR ''i'' # replicate (sw_next w) (CHR ''x'')"

text \<open>Policies are numbered by their position; deleting one leaves a nameless entry behind.\<close>

definition policy_id :: "nat \<Rightarrow> string" where
  "policy_id i = CHR ''p'' # replicate i (CHR ''x'')"

definition policy_rows :: "sample_world \<Rightarrow> (string \<times> string \<times> string) list" where
  "policy_rows w = map (\<lambda>i. (policy_id i, sw_policies w ! i)) [0..<length (sw_policies w)]"

definition not_found :: error where
  "not_found = StatusErr NotFound ''not found''"

text \<open>An update replaces the elements it carries.\<close>

definition given :: "'a option \<Rightarrow> 'a option \<Rightarrow> 'a option" where
  "given new old = (case new of None \<Rightarrow> old | Some _ \<Rightarrow> new)"

definition update_check :: "UpdateHealthCheckInput \<Rightarrow> HealthCheck \<Rightarrow> HealthCheck" where
  "update_check input hc = (if hc_Id hc \<noteq> uhi_HealthCheckId input then hc
     else hc\<lparr>hc_HealthCheckConfig := map_option (\<lambda>config. config\<lparr>
       hcc_EnableSNI := given (uhi_EnableSNI input) (hcc_EnableSNI config),
       hcc_FailureThreshold := given (uhi_FailureThreshold input) (hcc_FailureThreshold config),
       hcc_FullyQualifiedDomainName := given (uhi_FullyQualifiedDomainName input) (hcc_FullyQualifiedDomainName config),
       hcc_Port := given (uhi_Port input) (hcc_Port config),
       hcc_ResourcePath := given (uhi_ResourcePath input) (hcc_ResourcePath config),
       hcc_Disabled := given (uhi_Disabled input) (hcc_Disabled config),
       hcc_Inverted := given (uhi_Inverted input) (hcc_Inverted config),
       hcc_IPAddress := given (uhi_IPAddress input) (hcc_IPAddress config)\<rparr>) (hc_HealthCheckConfig hc)\<rparr>)"

definition sample_route53 :: "sample_world route53_api" where
  "sample_route53 =
     \<lparr>r53_ListHealthChecks = (\<lambda>w. (Ret (sw_checks w), w)),
      r53_CreateHealthCheck = (\<lambda>input w. (Ret (Some (''loc/'' @ fresh_id w)),
        w\<lparr>sw_checks := sw_checks w @ [\<lparr>hc_Id = Some (fresh_id w), hc_HealthCheckConfig = chi_HealthCheckConfig input\<rparr>],
          sw_next := Suc (sw_next w)\<rparr>)),
      r53_UpdateHealthCheck = (\<lambda>input w. (Ret (Some \<lparr>hc_Id = uhi_HealthCheckId input, hc_HealthCheckConfig = None\<rparr>),
        w\<lparr>sw_checks := map (update_check input) (sw_checks w)\<rparr>)),
      r53_DeleteHealthCheck = (\<lambda>i w. (Ret (), w\<lparr>sw_checks := filter (\<lambda>hc. hc_Id hc \<noteq> i) (sw_checks w)\<rparr>)),
      r53_ChangeTagsForResource = (\<lambda>_ w. (Ret (), w)),
      r53_ListTrafficPolicies = (\<lambda>w. (Ret (map (\<lambda>(i, n, d). \<lparr>tpsum_Id = Some i, tpsum_Name = Some n\<rparr>) (take 100 (policy_rows w))), w)),
      r53_GetTrafficPolicy = (\<lambda>i v w. (case map_of (policy_rows w) i of
          None \<Rightarrow> (Fail (AwsErr ''NoSuchTrafficPolicy'' []), w)
        | Some (n, d) \<Rightarrow> (Ret (Some \<lparr>tp_Id = Some i, tp_Document = Some d\<rparr>), w))),
      r53_CreateTrafficPolicy = (\<lambda>d n w. (Ret (Some \<lparr>tp_Id = Some (policy_id (length (sw_policies w))), tp_Document = Some d\<rparr>),
        w\<lparr>sw_policies := sw_policies w @ [(n, d)]\<rparr>)),
      r53_DeleteTrafficPolicy = (\<lambda>i v w. (Ret (), w\<lparr>sw_policies :=
        map (\<lambda>(j, n, d). if Some j = i then ([], []) else (n, d)) (policy_rows w)\<rparr>)),
      r53_ListTrafficPolicyInstancesByPolicy = (\<lambda>i v w.
        (Ret (filter (\<lambda>x. tpi_TrafficPolicyId x = i) (sw_instances w)), w)),
      r53_ListTrafficPolicyInstancesByHostedZone = (\<lambda>z w.
        (Ret (filter (\<lambda>x. tpi_HostedZoneId x = Some z) (sw_instances w)), w)),
      r53_GetTrafficPolicyInstance = (\<lambda>i w.
        (Ret (List.find (\<lambda>x. tpi_Id x = i) (sw_instances w)), w)),
      r53_CreateTrafficPolicyInstance = (\<lambda>input w.
        (let x = \<lparr>tpi_Id = Some (fresh_id w), tpi_HostedZoneId = Some (ctpi_HostedZoneId input),
                  tpi_Name = Some (ctpi_Name input @ ''.''), tpi_TTL = Some (ctpi_TTL input),
                  tpi_TrafficPolicyId = Some (ctpi_TrafficPolicyId input)\<rparr> in
         (Ret (Some x), w\<lparr>sw_instances := sw_instances w @ [x], sw_next := Suc (sw_next w)\<rparr>))),
      r53_DeleteTrafficPolicyInstance = (\<lambda>i w.
        (Ret (), w\<lparr>sw_instances := filter (\<lambda>x. tpi_Id x \<noteq> i) (sw_instances w)\<rparr>)),
      r53_GetHostedZone = (\<lambda>z w. (Ret (Some z), w))\<rparr>"

text \<open>An Azure with one public IP, on which every name is available.\<close>

definition sample_public_ip :: PublicIPAddress where
  "sample_public_ip = \<lparr>pip_ID = Some ''id'', pip_Name = Some ''ip'', pip_Location = Some ''westeurope'',
     pip_Properties = Some \<lparr>pipp_IPAddress = Some ''10.0.0.1'', pipp_DNSSettings = None\<rparr>\<rparr>"

definition sample_azure :: "sample_world azure_api" where
  "sample_azure =
     \<lparr>az_DeleteProfile = (\<lambda>_ _ w. (Ret (), w)),
      az_CheckRelativeDNSName = (\<lambda>_ w. (Ret (Some True), w)),
      az_CreateOrUpdateProfile = (\<lambda>_ n _ w. (Ret \<lparr>tpr_Properties = Some \<lparr>ppr_DNSConfig =
        Some \<lparr>dcr_Fqdn = Some (n @ ''.trafficmanager.net'')\<rparr>\<rparr>\<rparr>, w)),
      az_ListComplete = (\<lambda>_ w. (Ret ([sample_public_ip], None), w)),
      az_CheckDNSName = (\<lambda>_ _ w. (Ret (Some True), w)),
      az_CreateOrUpdatePublicIP = (\<lambda>_ _ _ w. (Ret (), w)),
      az_DeleteRecordSet = (\<lambda>_ _ _ _ w. (Ret (), w)),
      az_CreateOrUpdateRecordSet = (\<lambda>_ _ _ _ _ w. (Ret (), w))\<rparr>"

text \<open>A Google Cloud in which nothing exists yet but the addresses that were inserted.\<close>

definition google_not_found :: error where
  "google_not_found = GoogleErr 404 ''not found''"

definition sample_google :: "sample_world google_api" where
  "sample_google =
     \<lparr>g_GetFirewall = (\<lambda>_ _ w. (Fail google_not_found, w)),
      g_InsertFirewall = (\<lambda>_ fw w. (Ret \<lparr>op_TargetLink = fw_Name fw\<rparr>, w)),
      g_UpdateFirewall = (\<lambda>_ n fw w. (Ret \<lparr>op_TargetLink = n\<rparr>, w)),
      g_GetHealthCheck = (\<lambda>_ _ w. (Fail google_not_found, w)),
      g_InsertHealthCheck = (\<lambda>_ hc w. (Ret \<lparr>op_TargetLink = chc_Name hc\<rparr>, w)),
      g_UpdateHealthCheck = (\<lambda>_ n hc w. (Ret \<lparr>op_TargetLink = n\<rparr>, w)),
      g_DeleteHealthCheck = (\<lambda>_ n w. (Fail google_not_found, w)),
      g_GetNEG = (\<lambda>_ _ _ w. (Fail google_not_found, w)),
      g_InsertNEG = (\<lambda>_ _ neg w. (Ret \<lparr>op_TargetLink = neg_Name neg\<rparr>, w)),
      g_DeleteNEG = (\<lambda>_ z _ w. (Fail (GoogleErr (if z = ''a'' then 500 else 404) z), w)),
      g_ListNetworkEndpoints = (\<lambda>_ _ _ w. (Ret ([], None), w)),
      g_DetachNetworkEndpoints = (\<lambda>_ _ n _ w. (Ret \<lparr>op_TargetLink = n\<rparr>, w)),
      g_AttachNetworkEndpoints = (\<lambda>_ _ n _ w. (Ret \<lparr>op_TargetLink = n\<rparr>, w)),
      g_GetBackendService = (\<lambda>_ _ w. (Fail google_not_found, w)),
      g_InsertBackendService = (\<lambda>_ bs w. (Ret \<lparr>op_TargetLink = bs_Name bs\<rparr>, w)),
      g_UpdateBackendService = (\<lambda>_ n bs w. (Ret \<lparr>op_TargetLink = n\<rparr>, w)),
      g_DeleteBackendService = (\<lambda>_ n w. (Fail google_not_found, w)),
      g_GetTargetTcpProxy = (\<lambda>_ _ w. (Fail google_not_found, w)),
      g_InsertTargetTcpProxy = (\<lambda>_ p w. (Ret \<lparr>op_TargetLink = ttp_Name p\<rparr>, w)),
      g_SetBackendService = (\<lambda>_ n _ w. (Ret \<lparr>op_TargetLink = n\<rparr>, w)),
      g_DeleteTargetTcpProxy = (\<lambda>_ n w. (Fail google_not_found, w)),
      g_GetAddress = (\<lambda>_ n w. (if n \<in> set (sw_addresses w)
        then Ret \<lparr>adr_IpVersion = ''IPV4'', adr_Name = n, adr_Address = ''34.0.0.1''\<rparr> else Fail google_not_found, w)),
      g_InsertAddress = (\<lambda>_ a w. (Ret \<lparr>op_TargetLink = adr_Name a\<rparr>, w\<lparr>sw_addresses := adr_Name a # sw_addresses w\<rparr>)),
      g_DeleteAddress = (\<lambda>_ n w. (Fail google_not_found, w)),
      g_GetForwardingRule = (\<lambda>_ _ w. (Fail google_not_found, w)),
      g_InsertForwardingRule = (\<lambda>_ fr w. (Ret \<lparr>op_TargetLink = fr_Name fr\<rparr>, w)),
      g_DeleteForwardingRule = (\<lambda>_ n w. (Fail google_not_found, w)),
      g_GetRecordSet = (\<lambda>_ _ _ _ w. (Fail google_not_found, w)),
      g_CreateRecordSet = (\<lambda>_ _ r w. (Ret r, w)),
      g_PatchRecordSet = (\<lambda>_ _ _ _ r w. (Ret r, w)),
      g_DeleteRecordSet = (\<lambda>_ _ _ _ w. (Fail google_not_found, w))\<rparr>"

text \<open>A record replaces the one of its namespace and name. A DNSEndpoint is stored under its name.\<close>

definition store_record :: "GlobalDNSRecord \<Rightarrow> GlobalDNSRecord list \<Rightarrow> GlobalDNSRecord list" where
  "store_record r records = filter (\<lambda>x. om_Name (rec_Meta x) \<noteq> om_Name (rec_Meta r) \<or> om_Namespace (rec_Meta x) \<noteq> om_Namespace (rec_Meta r))
     records @ [r]"

definition dns_endpoint_name :: "DNSEndpoint \<Rightarrow> NamespacedName" where
  "dns_endpoint_name d = \<lparr>nn_Name = de_Name d, nn_Namespace = de_Namespace d\<rparr>"

definition named_endpoint :: "NamespacedName \<Rightarrow> DNSEndpoint \<Rightarrow> DNSEndpoint" where
  "named_endpoint n d = d\<lparr>de_Name := nn_Name n, de_Namespace := nn_Namespace n\<rparr>"

definition store_dns_endpoint :: "DNSEndpoint \<Rightarrow> sample_world \<Rightarrow> sample_world" where
  "store_dns_endpoint d w = w\<lparr>sw_dns_endpoints := (sw_dns_endpoints w)(dns_endpoint_name d \<mapsto> d)\<rparr>"

definition sample_k8s :: "sample_world k8s_api" where
  "sample_k8s =
     \<lparr>k_GetGlobalDNSRecord = (\<lambda>_ w. (case sw_record w of None \<Rightarrow> Fail not_found | Some r \<Rightarrow> Ret r, w)),
      k_GetGlobalDNSZone = (\<lambda>_ w. (case sw_zone w of None \<Rightarrow> Fail not_found | Some z \<Rightarrow> Ret z, w)),
      k_UpdateGlobalDNSRecord = (\<lambda>r w. (Ret r, w\<lparr>sw_record := Some r\<rparr>)),
      k_UpdateGlobalDNSRecordStatus = (\<lambda>r w. (Ret r, w\<lparr>sw_record := Some r\<rparr>)),
      k_ListGlobalDNSRecords = (\<lambda>w. (Ret (sw_records w), w)),
      k_GetSecret = (\<lambda>_ w. (Ret \<lparr>sec_Data = [''kubeconfig'' \<mapsto> ''config'', ''aws_access_key_id'' \<mapsto> ''id'',
        ''aws_secret_access_key'' \<mapsto> ''key'', ''azure_client_id'' \<mapsto> ''id'', ''azure_client_secret'' \<mapsto> ''key'',
        ''azure_tenant_id'' \<mapsto> ''tenant'', ''azure_subscription_id'' \<mapsto> ''sub'',
        ''service_account.json'' \<mapsto> ''json''], sec_String = ''secret''\<rparr>, w)),
      k_GetCredentialsRequest = (\<lambda>_ w. (Fail not_found, w)),
      k_CreateCredentialsRequest = (\<lambda>c w. (Ret c, w)),
      k_UpdateCredentialsRequest = (\<lambda>c w. (Ret c, w)),
      k_GetDNSEndpoint = (\<lambda>n w. (case sw_dns_endpoints w n of None \<Rightarrow> Fail not_found | Some d \<Rightarrow> Ret (named_endpoint n d), w)),
      k_CreateDNSEndpoint = (\<lambda>d w. (Ret (), store_dns_endpoint d w)),
      k_UpdateDNSEndpoint = (\<lambda>d w. (Ret (), store_dns_endpoint d w)),
      k_SetControllerReference = (\<lambda>m d. Ret (d\<lparr>de_OwnerName := Some (om_Name m)\<rparr>)),
      k_ManageZoneError = (\<lambda>_ e w. (Fail e, w)),
      k_ManageZoneSuccess = (\<lambda>_ w. (Ret (), w)),
      k_GetGlobalRouteDiscovery = (\<lambda>_ w. (case sw_discovery w of None \<Rightarrow> Fail not_found | Some g \<Rightarrow> Ret g, w)),
      k_UpdateGlobalRouteDiscovery = (\<lambda>g w. (Ret g, w\<lparr>sw_discovery := Some g\<rparr>)),
      k_UpdateGlobalRouteDiscoveryStatus = (\<lambda>g w. (Ret g, w\<lparr>sw_discovery := Some g\<rparr>)),
      k_ListGlobalRouteDiscoveries = (\<lambda>w. (Ret (case sw_discovery w of None \<Rightarrow> [] | Some g \<Rightarrow> [g]), w)),
      k_CreateOrUpdateRecord = (\<lambda>_ _ r w. (Ret (), w\<lparr>sw_records := store_record r (sw_records w)\<rparr>)),
      k_SetDiscoveryVar = (\<lambda>_ w. w),
      k_NotifyDiscovery = (\<lambda>w. w),
      k_RecordEvent = (\<lambda>_ _ _ w. w),
      k_SetRecordVar = (\<lambda>_ w. w),
      k_Notify = (\<lambda>w. w)\<rparr>"

definition sample_service :: Service where
  "sample_service = \<lparr>svc_Name = ''router'', svc_Namespace = ''ingress'', svc_Type = ''LoadBalancer'',
     svc_Selector = None, svc_Ports = [\<lparr>sp_Name = ''http'', sp_NodePort = 30080\<rparr>, \<lparr>sp_Name = ''https'', sp_NodePort = 30443\<rparr>],
     svc_Ingress = [\<lparr>ing_IP = ''10.0.0.1'', ing_Hostname = ''lb.example''\<rparr>]\<rparr>"

definition sample_infrastructure :: Infrastructure where
  "sample_infrastructure = \<lparr>inf_InfrastructureName = ''cluster'',
     inf_PlatformStatus = Some \<lparr>pl_Type = AWSPlatformType, pl_AWS_Region = Some ''eu'',
       pl_Azure_NetworkResourceGroupName = None, pl_GCP_Region = None\<rparr>\<rparr>"

definition sample_remote :: "sample_world remote_api" where
  "sample_remote =
     \<lparr>m_RESTConfigFromKubeConfig = (\<lambda>c. Ret c),
      m_NewDiscoveryRESTMapper = (\<lambda>_ w. (Ret (), w)),
      m_AddToScheme = Ret (),
      m_NewClient = (\<lambda>c w. (Ret c, w)),
      m_GetService = (\<lambda>_ n w. (Ret (sample_service\<lparr>svc_Name := nn_Name n, svc_Namespace := nn_Namespace n\<rparr>), w)),
      m_GetInfrastructure = (\<lambda>_ _ w. (Ret sample_infrastructure, w)),
      m_NewStoppableManager = (\<lambda>_ w. (Ret (), w)),
      m_NewController = (\<lambda>_ w. (Ret (), w)),
      m_Watch = (\<lambda>_ w. (Ret (), w)),
      m_WatchKind = (\<lambda>_ w. (Ret (), w)),
      m_GetRoute = (\<lambda>_ n w. (case List.find (\<lambda>r. om_Name (rt_Meta r) = nn_Name n) (sw_routes w) of
        None \<Rightarrow> Fail not_found | Some r \<Rightarrow> Ret r, w)),
      m_ListRoutes = (\<lambda>_ _ w. (Ret (sw_routes w), w)),
      m_ListPods = (\<lambda>_ _ _ w. (Ret [\<lparr>pod_NodeSelector = None, pod_Containers = [\<lparr>cnt_Name = ''app'', cnt_ReadinessProbe = None\<rparr>]\<rparr>], w)),
      m_ListNodes = (\<lambda>_ _ w. (Ret (sw_nodes w), w)),
      m_GetIngressController = (\<lambda>_ n w. (Ret (nn_Name n), w)),
      m_Enqueue = (\<lambda>_ w. w),
      m_Start = (\<lambda>_ w. w),
      m_Stop = (\<lambda>_ w. w)\<rparr>"

definition sample_util :: util_pkg where
  "sample_util =
     \<lparr>u_HasFinalizer = (\<lambda>m f. f \<in> set (om_Finalizers m)),
      u_AddFinalizer = (\<lambda>m f. m\<lparr>om_Finalizers := List.insert f (om_Finalizers m)\<rparr>),
      u_RemoveFinalizer = (\<lambda>m f. m\<lparr>om_Finalizers := removeAll f (om_Finalizers m)\<rparr>),
      u_IsBeingDeleted = (\<lambda>m. om_DeletionTimestamp m \<noteq> None),
      u_AddOrReplaceCondition = (\<lambda>c cs. filter (\<lambda>d. cond_Type d \<noteq> cond_Type c) cs @ [c]),
      u_GetLastCondition = (\<lambda>cs. if cs = [] then None else Some (last cs)),
      u_GetKeyShort = (\<lambda>m. om_Namespace m @ ''/'' @ om_Name m),
      u_ReconcileError = ''ReconcileError'',
      u_ReconcileErrorReason = ''LastReconcileCycleFailed'',
      u_ReconcileSuccess = ''ReconcileSuccess'',
      u_ReconcileSuccessReason = ''LastReconcileCycleSucceded''\<rparr>"

definition sample_strset :: strset_pkg where
  "sample_strset = \<lparr>ss_New = New, ss_List = List_items, ss_IsEqual = IsEqual,
     ss_Difference = (\<lambda>s t. Difference s [t]), ss_Add = (\<lambda>s x. Add s [x])\<rparr>"

text \<open>A JSON package that knows one document.\<close>

definition sample_json :: "Route53TrafficPolicyDocument \<Rightarrow> json_pkg" where
  "sample_json d = \<lparr>j_Marshal = (\<lambda>_. Ret ''document''), j_Unmarshal = (\<lambda>_. Ret d),
     j_UnmarshalProbe = (\<lambda>_. Fail (OtherErr ''no probe''))\<rparr>"

definition sample_labels :: label_pkg where
  "sample_labels = \<lparr>l_LabelSelectorAsSelector = (\<lambda>s. Ret s), l_SetAsLabelSelector = (\<lambda>_. ''selector''),
     l_SelectorFromSet = (\<lambda>_. ''selector''), l_Matches = (\<lambda>_ _. True)\<rparr>"

definition sample_auth :: cloud_auth where
  "sample_auth = \<lparr>ca_NewSession = Ret (), ca_NewOAuthConfig = (\<lambda>t. Ret t),
     ca_NewServicePrincipalToken = (\<lambda>a b c. Ret a), ca_NewBearerAuthorizer = (\<lambda>t. t),
     ca_CredentialsFromJSON = (\<lambda>j. Ret (j, j)), ca_NewComputeService = (\<lambda>c. Ret c),
     ca_NewDNSService = (\<lambda>c. Ret c)\<rparr>"

fun flat_error :: "error option \<Rightarrow> error list" where
  "flat_error None = []"
| "flat_error (Some (MultiErr e es)) = e # es"
| "flat_error (Some e) = [e]"

definition sample_multierror :: "error option list \<Rightarrow> error option" where
  "sample_multierror results = (case concat (map flat_error results) of [] \<Rightarrow> None | e # es \<Rightarrow> Some (MultiErr e es))"

definition sample_env :: "Route53TrafficPolicyDocument \<Rightarrow> sample_world env" where
  "sample_env d =
     \<lparr>e_auth = sample_auth, e_k8s = sample_k8s, e_remote = sample_remote,
      e_route53 = (\<lambda>_ _. sample_route53), e_azure = (\<lambda>_ _. sample_azure), e_google = (\<lambda>_ _. sample_google), e_labels = sample_labels, e_util = sample_util, e_strset = sample_strset,
      e_json = sample_json d, e_lookup_host = (\<lambda>h w. (Ret [''1.2.3.4''], w)),
      e_now = (\<lambda>_. 0), e_uuid = (\<lambda>w. (replicate 36 (CHR ''u''), w)), e_rand_Intn = (\<lambda>_ w. (0, w)),
      e_multierror = sample_multierror, e_multierror_text = concat, e_operator_namespace = ''operator''\<rparr>"

definition no_document :: Route53TrafficPolicyDocument where
  "no_document = \<lparr>tpd_AWSPolicyFormatVersion = [], tpd_RecordType = [], tpd_StartEndpoint = [],
     tpd_StartRule = [], tpd_Endpoints = None, tpd_Rules = Map.empty\<rparr>"

abbreviation sample_E :: "sample_world env" where "sample_E \<equiv> sample_env no_document"

lemma sample_E_simps:
  "e_k8s sample_E = sample_k8s" "e_util sample_E = sample_util" "e_strset sample_E = sample_strset" "e_now sample_E w = 0"
  "e_remote sample_E = sample_remote" "e_labels sample_E = sample_labels"
  by (simp_all add: sample_env_def)

definition empty_world :: sample_world where
  "empty_world = \<lparr>sw_policies = [], sw_instances = [], sw_checks = [], sw_record = None,
     sw_records = [], sw_zone = None, sw_dns_endpoints = Map.empty, sw_addresses = [], sw_discovery = None, sw_routes = [], sw_nodes = [], sw_next = 0\<rparr>"

text \<open>Whether a run returned: what the evaluation of a sample run decides.\<close>

fun returned :: "'a outcome \<Rightarrow> bool" where
  "returned (Ret _) = True"
| "returned _ = False"

lemma returnedE:
  assumes "returned (fst p)"
  obtains a t where "p = (Ret a, t)"
  using assms by (cases p; cases "fst p") auto

section \<open>Sample objects\<close>

definition sample_name :: "string \<Rightarrow> NamespacedName" where
  "sample_name n = \<lparr>nn_Name = n, nn_Namespace = ''ns''\<rparr>"

definition sample_endpoint :: "string \<Rightarrow> Endpoint" where
  "sample_endpoint c = \<lparr>ep_ClusterName = c, ep_CredentialsSecretRef = sample_name c,
     ep_LoadBalancerServiceRef = sample_name ''router''\<rparr>"

definition sample_status :: "string \<Rightarrow> EndpointStatus" where
  "sample_status c = \<lparr>es_endpoint = sample_endpoint c, es_client = Some c, es_service = sample_service,
     es_infrastructure = sample_infrastructure, es_err = None\<rparr>"

definition sample_meta :: ObjectMeta where
  "sample_meta = \<lparr>om_Name = ''rec'', om_Namespace = ''ns'', om_Labels = None,
     om_Annotations = None, om_Finalizers = [''GlobalDNSRecord_controller''],
     om_DeletionTimestamp = None, om_ResourceVersion = ''1''\<rparr>"

definition sample_spec :: GlobalDNSRecordSpec where
  "sample_spec = \<lparr>rs_Name = ''app.example.com'', rs_Endpoints = [sample_endpoint ''a'', sample_endpoint ''b''],
     rs_TTL = 60, rs_HealthCheck = None, rs_LoadBalancingPolicy = Multivalue,
     rs_GlobalZoneRef = ''zone''\<rparr>"

definition sample_record :: GlobalDNSRecord where
  "sample_record = \<lparr>rec_Meta = sample_meta, rec_Spec = sample_spec,
     rec_Status = \<lparr>rst_Conditions = [], rst_MonitoredServiceStatuses = Map.empty,
       rst_EndpointStatuses = Map.empty,
       rst_ProviderStatus = \<lparr>ps_Route53 = Some \<lparr>r53s_PolicyID = [], r53s_HealthCheckIDs = None,
         r53s_PolicyInstanceID = []\<rparr>, ps_TrafficManager = None\<rparr>\<rparr>\<rparr>"

definition sample_locals :: record_locals where
  "sample_locals = \<lparr>rl_instance = sample_record, rl_remoteManagersMap = []\<rparr>"

definition sample_state :: "(event, sample_world, record_locals) io" where
  "sample_state = \<lparr>trace = [], world = empty_world, local = sample_locals\<rparr>"

definition sample_ranges :: endpoint_ranges where
  "sample_ranges i = (if even i then [(''ns/router@ns/a'', sample_status ''a''), (''ns/router@ns/b'', sample_status ''b'')]
     else [(''ns/router@ns/b'', sample_status ''b''), (''ns/router@ns/a'', sample_status ''a'')])"

definition sample_zone :: GlobalDNSZone where
  "sample_zone = \<lparr>zone_Meta = sample_meta,
     zone_Spec = \<lparr>zs_Domain = ''example.com'', zs_Provider =
       \<lparr>pc_Route53 = Some \<lparr>r53c_ZoneID = ''Z1'', r53c_CredentialsSecretRef = sample_name ''aws''\<rparr>,
        pc_ExternalDNS = None, pc_TrafficManager = None, pc_GCPGLB = None\<rparr>\<rparr>,
     zone_Conditions = []\<rparr>"

lemmas sample_defs = sample_route53_def sample_azure_def sample_google_def sample_labels_def sample_public_ip_def sample_k8s_def sample_remote_def sample_util_def
  sample_strset_def sample_json_def sample_auth_def sample_env_def empty_world_def sample_name_def
  sample_endpoint_def sample_status_def sample_meta_def sample_spec_def sample_record_def
  sample_locals_def sample_state_def sample_zone_def sample_service_def sample_infrastructure_def

lemma policy_rows_snoc:
  "policy_rows (w\<lparr>sw_policies := sw_policies w @ [x]\<rparr>)
     = policy_rows w @ [(policy_id (length (sw_policies w)), x)]"
  by (simp add: policy_rows_def nth_append)

lemma policy_rows_distinct: "distinct (map fst (policy_rows w))"
proof -
  have "inj_on policy_id A" for A by (auto simp: inj_on_def policy_id_def)
  then show ?thesis by (simp add: policy_rows_def comp_def distinct_map)
qed

lemma sample_ranges_wf: "wf_ranges sample_ranges"
  by (auto simp: wf_ranges_def sample_ranges_def sample_status_def sample_endpoint_def
      sample_name_def Endpoint_GetKey_def)

lemma sample_multierror_ok: "multierror_ok (sample_env d)"
proof -
  have "flat_error r = [] \<longleftrightarrow> r = None" for r by (cases r rule: flat_error.cases) simp_all
  then have "concat (map flat_error results) = [] \<longleftrightarrow> (\<forall>r \<in> set results. r = None)" for results by auto
  then show ?thesis
    by (simp add: multierror_ok_def sample_env_def sample_multierror_def list.case_eq_if)
qed

lemma sample_strset_ok: "strset_ok (sample_env d)"
  using ref_set.go_set_axioms by (auto simp: strset_ok_def sample_env_def sample_strset_def)

end
