(* ===== verification/Route53_Properties.thy ===== *)
theory Route53_Properties
  imports Route53_Converge Sample_World
begin

text \<open>
  The properties of the Route53 provider, over the lemmas of the theories it imports: the order
  and the extent of deletions, what is published, convergence, the comparison of documents, and
  the panics the code can run into.
\<close>

section \<open>Deleting a policy\<close>

definition reference_deletions :: "Route53EndpointRuleReference list \<Rightarrow> event list" where
  "reference_deletions refs = map (\<lambda>r. Aws (DeleteHealthCheck (Some (last_part (CHR ''/'') (err_HealthCheck r)))))
     (filter (\<lambda>r. err_HealthCheck r \<noteq> []) refs)"

lemma delete_reference_trace:
  "delete_reference_health_check p ref s = (Ret u, t) \<Longrightarrow> trace t = trace s @ reference_deletions [ref]"
  by (auto simp: delete_reference_health_check_def reference_deletions_def Let_def attempt_def request_def
      bnd_def prog_simps split: if_splits prod.splits outcome.splits error.splits)

lemma release_traffic_policy_trace:
  assumes "release_traffic_policy E p tp s = (Ret u, t)"
  shows "\<exists>instances w document d.
     r53_ListTrafficPolicyInstancesByPolicy (r5_route53Client p) (tp_Id tp) 1 (world s) = (Ret instances, w)
     \<and> tp_Document tp = Some document \<and> j_Unmarshal (e_json E) document = Ret d
     \<and> trace t = trace s @ [Aws (ListTrafficPolicyInstancesByPolicy (tp_Id tp) 1)]
         @ map (\<lambda>i. Aws (DeleteTrafficPolicyInstance (tpi_Id i))) instances
         @ reference_deletions (rule_references (main_rule d))"
proof -
  from assms obtain instances w document d u' v where
    list: "r53_ListTrafficPolicyInstancesByPolicy (r5_route53Client p) (tp_Id tp) 1 (world s) = (Ret instances, w)"
    and inst: "for_each (\<lambda>_ inst. request (Aws (DeleteTrafficPolicyInstance (tpi_Id inst)))
         (r53_DeleteTrafficPolicyInstance (r5_route53Client p) (tpi_Id inst))) () instances
         (s\<lparr>trace := trace s @ [Aws (ListTrafficPolicyInstancesByPolicy (tp_Id tp) 1)], world := w\<rparr>) = (Ret u', v)"
    and doc: "tp_Document tp = Some document" "j_Unmarshal (e_json E) document = Ret d"
    and refs: "for_each (\<lambda>_ ref. delete_reference_health_check p ref) () (rule_references (main_rule d)) v = (Ret u, t)"
    unfolding release_traffic_policy_def bnd_eq_Ret seq_eq_Ret request_eq_Ret deref_eq_Ret call_eq_Ret by blast
  have "trace v = trace (s\<lparr>trace := trace s @ [Aws (ListTrafficPolicyInstancesByPolicy (tp_Id tp) 1)], world := w\<rparr>)
      @ concat (map (\<lambda>i. [Aws (DeleteTrafficPolicyInstance (tpi_Id i))]) instances)"
    by (rule for_each_trace [OF inst]) (auto simp: request_eq_Ret)
  moreover have "trace t = trace v @ concat (map (\<lambda>r. reference_deletions [r]) (rule_references (main_rule d)))"
    by (rule for_each_trace [OF refs]) (rule delete_reference_trace)
  moreover have "concat (map (\<lambda>r. reference_deletions [r]) xs) = reference_deletions xs" for xs
    by (induction xs) (simp_all add: reference_deletions_def)
  moreover have "concat (map (\<lambda>i. [Aws (DeleteTrafficPolicyInstance (tpi_Id i))]) instances)
      = map (\<lambda>i. Aws (DeleteTrafficPolicyInstance (tpi_Id i))) instances"
    by (induction instances) simp_all
  ultimately show ?thesis using list doc by auto
qed

lemma deleteTrafficPolicy_cases:
  assumes "deleteTrafficPolicy E p tp s = (r, t)"
  shows "\<exists>tr. trace t = trace s @ tr \<and>
     ((\<forall>i v. Aws (DeleteTrafficPolicy i v) \<notin> set tr) \<and> (\<forall>u. r \<noteq> Ret u)
      \<or> (\<exists>u v. release_traffic_policy E p tp s = (Ret u, v) \<and>
           trace t = trace v @ [Aws (DeleteTrafficPolicy (tp_Id tp) 1)]))"
proof (cases "release_traffic_policy E p tp s")
  case (Pair x v)
  have "emits (\<lambda>ev. \<forall>i v. ev \<noteq> Aws (DeleteTrafficPolicy i v)) (release_traffic_policy E p tp)"
    by (intro frame_intros) simp_all
  from emitsD [OF this Pair] obtain tr where tr: "trace v = trace s @ tr"
    "\<forall>i v. Aws (DeleteTrafficPolicy i v) \<notin> set tr" by (auto simp: list_all_iff)
  with assms Pair show ?thesis
    by (cases x) (auto simp: deleteTrafficPolicy_def seq_def bnd_def request_def split: prod.splits)
qed

text \<open>
  C3: deleting a traffic policy. Route53 refuses to delete a policy that instances refer to and
  health checks are billed while they exist, so \<open>deleteTrafficPolicy\<close> deletes in this order: it
  lists the instances of the policy, deletes every listed instance, then every health check that
  a reference of the main rule names (by the last segment of its location), and the policy last.
  The request to delete the policy is sent only after all of these, and a successful run has
  sent exactly this sequence.
\<close>

theorem delete_traffic_policy_order:
  assumes "deleteTrafficPolicy E p tp s = (r, t)"
  shows "\<exists>tr. trace t = trace s @ tr \<and>
     ((\<exists>i v. Aws (DeleteTrafficPolicy i v) \<in> set tr) \<or> r = Ret () \<longrightarrow>
      (\<exists>instances w document d.
         r53_ListTrafficPolicyInstancesByPolicy (r5_route53Client p) (tp_Id tp) 1 (world s) = (Ret instances, w)
         \<and> tp_Document tp = Some document \<and> j_Unmarshal (e_json E) document = Ret d
         \<and> tr = [Aws (ListTrafficPolicyInstancesByPolicy (tp_Id tp) 1)]
             @ map (\<lambda>i. Aws (DeleteTrafficPolicyInstance (tpi_Id i))) instances
             @ map (\<lambda>ref. Aws (DeleteHealthCheck (Some (last_part (CHR ''/'') (err_HealthCheck ref)))))
                 (filter (\<lambda>ref. err_HealthCheck ref \<noteq> []) (rule_references (main_rule d)))
             @ [Aws (DeleteTrafficPolicy (tp_Id tp) 1)]))"
proof -
  from deleteTrafficPolicy_cases [OF assms] obtain tr where tr: "trace t = trace s @ tr"
    and cases: "(\<forall>i v. Aws (DeleteTrafficPolicy i v) \<notin> set tr) \<and> (\<forall>u. r \<noteq> Ret u)
      \<or> (\<exists>u v. release_traffic_policy E p tp s = (Ret u, v) \<and>
           trace t = trace v @ [Aws (DeleteTrafficPolicy (tp_Id tp) 1)])"
    by (elim exE conjE) (rule that)
  show ?thesis
  proof (cases "\<exists>u v. release_traffic_policy E p tp s = (Ret u, v) \<and>
           trace t = trace v @ [Aws (DeleteTrafficPolicy (tp_Id tp) 1)]")
    case True
    then obtain u v where "release_traffic_policy E p tp s = (Ret u, v)"
      and t: "trace t = trace v @ [Aws (DeleteTrafficPolicy (tp_Id tp) 1)]" by blast
    from release_traffic_policy_trace [OF this(1)] t tr show ?thesis
      by (auto simp: reference_deletions_def)
  next
    case False
    with cases tr show ?thesis by blast
  qed
qed

text \<open>A policy with one instance and a health check per reference, deleted in an in-memory Route53.\<close>

definition sample_policy_document :: Route53TrafficPolicyDocument where
  "sample_policy_document = policy_document Mapping.empty
     (zero_rule\<lparr>rule_Items := [nonExistent\<lparr>err_HealthCheck := ''h1''\<rparr>, nonExistent]\<rparr>)"

definition sample_provider :: "sample_world route53Provider" where
  "sample_provider = \<lparr>r5_globalzone = sample_zone, r5_endpointMap = sample_ranges,
     r5_route53Client = sample_route53\<rparr>"

definition sample_policy_state :: "(event, sample_world, record_locals) io" where
  "sample_policy_state = sample_state\<lparr>world := empty_world\<lparr>sw_instances :=
     [\<lparr>tpi_Id = Some ''i1'', tpi_HostedZoneId = Some ''Z1'', tpi_Name = Some ''app.example.com.'',
       tpi_TTL = Some 60, tpi_TrafficPolicyId = Some ''p1''\<rparr>]\<rparr>\<rparr>"

lemma sample_delete:
  "fst (deleteTrafficPolicy (sample_env sample_policy_document) sample_provider
      \<lparr>tp_Id = Some ''p1'', tp_Document = Some ''document''\<rparr> sample_policy_state) = Ret ()"
  by (simp add: deleteTrafficPolicy_def release_traffic_policy_def seq_def bnd_def request_def attempt_def
      delete_reference_health_check_def Let_def deref_def pure_call_def prog_simps sample_defs
      sample_provider_def sample_policy_state_def sample_policy_document_def rule_references_def
      main_rule_def policy_document_def zero_rule_def nonExistent_def)

theorem delete_traffic_policy_order_witness:
  "\<exists>tr. trace (snd (deleteTrafficPolicy (sample_env sample_policy_document) sample_provider
      \<lparr>tp_Id = Some ''p1'', tp_Document = Some ''document''\<rparr> sample_policy_state)) = tr
    \<and> last tr = Aws (DeleteTrafficPolicy (Some ''p1'') 1)
    \<and> Aws (DeleteHealthCheck (Some (last_part (CHR ''/'') ''h1''))) \<in> set tr"
proof -
  let ?tp = "\<lparr>tp_Id = Some ''p1'', tp_Document = Some ''document''\<rparr>"
  obtain t where run: "deleteTrafficPolicy (sample_env sample_policy_document) sample_provider ?tp
      sample_policy_state = (Ret (), t)"
    using sample_delete by (metis prod.collapse)
  have "trace sample_policy_state = []" by (simp add: sample_policy_state_def sample_state_def)
  with delete_traffic_policy_order [OF run] obtain instances :: "TrafficPolicyInstance list" and d where
    un: "j_Unmarshal (e_json (sample_env sample_policy_document)) ''document'' = Ret d"
    and tr: "trace t = [Aws (ListTrafficPolicyInstancesByPolicy (Some ''p1'') 1)]
             @ map (\<lambda>i. Aws (DeleteTrafficPolicyInstance (tpi_Id i))) instances
             @ map (\<lambda>ref. Aws (DeleteHealthCheck (Some (last_part (CHR ''/'') (err_HealthCheck ref)))))
                 (filter (\<lambda>ref. err_HealthCheck ref \<noteq> []) (rule_references (main_rule d)))
             @ [Aws (DeleteTrafficPolicy (Some ''p1'') 1)]"
    by auto
  from un have "d = sample_policy_document" by (simp add: sample_env_def sample_json_def)
  then have "rule_references (main_rule d) = [nonExistent\<lparr>err_HealthCheck := ''h1''\<rparr>, nonExistent]"
    by (simp add: sample_policy_document_def policy_document_def main_rule_def rule_references_def zero_rule_def)
  with tr show ?thesis using run by (simp add: nonExistent_def)
qed

section \<open>Convergence\<close>

text \<open>
  C1: reconciling the traffic policy of a record without health check converges. Once
  \<open>ensureRoute53TrafficPolicy\<close> has returned an ID, running it again, from any state that holds the
  same record and the policies Route53 had stored when the first run ended, and with whatever
  iteration orders Go chooses for the endpoint map, sends no request that changes anything, and returns the same
  ID unless a read of Route53 fails, whose error it returns: the policy in use is not deleted and created
  again. It is assumed that Route53 stores policies as documented and lists them in pages of 100, that
  they fit into one page, which is all the code reads, that the resolver's answers do not change,
  that encoding and decoding a document gives it back, and that no two endpoint addresses collide in the document.
\<close>

theorem traffic_policy_converges:
  assumes "resolves_to E hosts" and "rs_HealthCheck (spec_of (local s)) = None"
    and "wf_ranges (r5_endpointMap p)" and "wf_ranges (r5_endpointMap p')"
    and "set (r5_endpointMap p' 0) = set (r5_endpointMap p 0)"
    and "functional (set (entries hosts (rs_LoadBalancingPolicy (spec_of (local s))) (r5_endpointMap p 0)))"
    and "policy_store (r5_route53Client p) pol" and "r5_route53Client p' = r5_route53Client p"
    and "documents_roundtrip E p hosts (rs_LoadBalancingPolicy (spec_of (local s)))"
    and "documents_roundtrip E p' hosts (rs_LoadBalancingPolicy (spec_of (local s)))"
    and run: "ensureRoute53TrafficPolicy E p s = (Ret i, t)" and page: "length (pol (world t)) \<le> 100"
    and s': "frozen (local s') = frozen (local s)" "pol (world s') = pol (world t)"
      "ps_Route53 (provider_status (local s')) \<noteq> None"
  shows "\<exists>u tr. trace u = trace s' @ tr \<and> (\<forall>ev \<in> set tr. \<not> mutating ev)
     \<and> (ensureRoute53TrafficPolicy E p' s' = (Ret i, u)
       \<or> (\<exists>e. ensureRoute53TrafficPolicy E p' s' = (Fail e, u) \<and> read_error (r5_route53Client p') e))"
proof -
  have "entries hosts q (r5_endpointMap p' 0) = concat (map (\<lambda>(_, es). endpoint_entries hosts q es) (r5_endpointMap p' 0))" for q
    by (simp add: entries_def)
  then have "set (entries hosts q (r5_endpointMap p' 0)) = set (entries hosts q (r5_endpointMap p 0))" for q
    using assms(5) by (simp add: entries_def)
  with assms have "calm E hosts pol (spec_of (local s)) p" "calm E hosts pol (spec_of (local s)) p'"
    by (simp_all add: calm_def)
  from ensureRoute53TrafficPolicy_idempotent [OF this assms(5) run page s'] show ?thesis
    unfolding settles_def reads_rel_def emits_rel_def list_all_iff by blast
qed

definition steady_provider :: "nat \<Rightarrow> sample_world route53Provider" where
  "steady_provider i = sample_provider\<lparr>r5_endpointMap := (\<lambda>_. sample_ranges i)\<rparr>"

definition sample_hosts :: "string \<Rightarrow> string list" where
  "sample_hosts h = [''1.2.3.4'']"

definition steady_document :: Route53TrafficPolicyDocument where
  "steady_document = document_spec sample_hosts None Multivalue (sample_ranges 0) (sample_ranges 0)"

text \<open>The documents of two iteration orders differ in the order of their items; this JSON package tells
  them by the first item.\<close>

definition order_document :: "nat \<Rightarrow> Route53TrafficPolicyDocument" where
  "order_document i = document_spec sample_hosts None Multivalue (sample_ranges i) (sample_ranges i)"

definition order_json :: json_pkg where
  "order_json = \<lparr>j_Marshal = (\<lambda>d. Ret (case rule_Items (main_rule d) of [] \<Rightarrow> [] | r # _ \<Rightarrow> err_EndpointReference r)),
     j_Unmarshal = (\<lambda>j. Ret (order_document (if j = ''ns/router@ns/a1.2.3.4'' then 0 else 1))),
     j_UnmarshalProbe = (\<lambda>_. Fail (OtherErr ''no probe''))\<rparr>"

definition order_env :: "sample_world env" where
  "order_env = (sample_env steady_document)\<lparr>e_json := order_json\<rparr>"

lemma order_items:
  "map err_EndpointReference (rule_Items (main_rule (order_document 0))) = [''ns/router@ns/a1.2.3.4'', ''ns/router@ns/b1.2.3.4'']"
  "map err_EndpointReference (rule_Items (main_rule (order_document 1))) = [''ns/router@ns/b1.2.3.4'', ''ns/router@ns/a1.2.3.4'']"
  by code_simp+

lemma steady_run: "fst (ensureRoute53TrafficPolicy order_env (steady_provider 0) sample_state) = Ret ''p''"
  by code_simp

lemma sample_resolves: "resolves_to (sample_env d) sample_hosts"
  by (simp add: resolves_to_def sample_env_def sample_hosts_def)

lemma order_resolves: "resolves_to order_env sample_hosts"
  by (simp add: resolves_to_def order_env_def sample_env_def sample_hosts_def)

lemma steady_wf: "wf_ranges (r5_endpointMap (steady_provider i))"
  by (auto simp: wf_ranges_def steady_provider_def sample_ranges_def sample_status_def sample_endpoint_def
      sample_name_def Endpoint_GetKey_def)

lemma sample_entries_functional:
  "functional (set (entries sample_hosts Multivalue (sample_ranges i)))"
  by (auto simp: functional_def entries_def endpoint_entries_def endpoint_ips_def sample_hosts_def
      sample_ranges_def sample_defs)

lemma sample_policy_store: "policy_store sample_route53 policy_rows"
proof -
  have "map_of (policy_rows w) i = Some (n, d)" if "(i, n, d) \<in> set (policy_rows w)" for w i n d
    using that policy_rows_distinct by (simp add: map_of_eq_Some_iff)
  then show ?thesis
    by (auto simp: policy_store_def sample_route53_def summary_of_def policy_of_def policy_rows_snoc)
qed

lemma steady_roundtrip:
  assumes "i = 0 \<or> i = 1"
  shows "documents_roundtrip order_env (steady_provider i) sample_hosts Multivalue"
proof -
  have "j_Unmarshal order_json j = Ret (order_document i)" if "j_Marshal order_json (order_document i) = Ret j" for j
    using that assms order_items by (auto simp: order_json_def map_eq_Cons_conv)
  moreover have "\<exists>j. j_Marshal order_json d = Ret j" for d by (simp add: order_json_def)
  ultimately have "\<exists>j. j_Marshal order_json (order_document i) = Ret j \<and> j_Unmarshal order_json j = Ret (order_document i)" by blast
  then show ?thesis
    by (simp add: documents_roundtrip_def json_roundtrip_def order_env_def steady_provider_def order_document_def)
qed

text \<open>The second run meets the endpoints in the other order, in which the items of its document are
  the other way round.\<close>

theorem traffic_policy_converges_witness:
  "\<exists>t u tr. ensureRoute53TrafficPolicy order_env (steady_provider 0) sample_state = (Ret ''p'', t)
     \<and> snd (ensureRoute53TrafficPolicy order_env (steady_provider 1) t) = u
     \<and> rule_Items (main_rule (order_document 0)) \<noteq> rule_Items (main_rule (order_document 1))
     \<and> trace u = trace t @ tr \<and> (\<forall>ev \<in> set tr. \<not> mutating ev)"
proof -
  let ?E = order_env and ?p = "steady_provider 0" and ?p' = "steady_provider 1"
  obtain t where run: "ensureRoute53TrafficPolicy ?E ?p sample_state = (Ret ''p'', t)"
    using steady_run by (metis prod.collapse)
  have spec: "rs_HealthCheck (spec_of (local sample_state)) = None"
    "rs_LoadBalancingPolicy (spec_of (local sample_state)) = Multivalue"
    by (simp_all add: sample_defs)
  have frozen: "frozen (local t) = frozen (local sample_state)"
    by (rule keepsD [OF ensureRoute53TrafficPolicy_frame(2) run])
  have "ps_Route53 (provider_status (local (snd (ensureRoute53TrafficPolicy ?E ?p sample_state)))) \<noteq> None"
    "length (policy_rows (world (snd (ensureRoute53TrafficPolicy ?E ?p sample_state)))) \<le> 100"
    by code_simp+
  then have st: "ps_Route53 (provider_status (local t)) \<noteq> None" and page: "length (policy_rows (world t)) \<le> 100"
    by (simp_all add: run)
  have client: "r5_route53Client ?p = sample_route53" and same: "r5_route53Client ?p' = r5_route53Client ?p"
    by (simp_all add: steady_provider_def sample_provider_def)
  have set: "set (r5_endpointMap ?p' 0) = set (r5_endpointMap ?p 0)" by (auto simp: steady_provider_def sample_ranges_def)
  have "functional (set (entries sample_hosts Multivalue (r5_endpointMap ?p 0)))"
    using sample_entries_functional [of 0] by (simp add: steady_provider_def)
  from traffic_policy_converges [OF order_resolves spec(1) steady_wf steady_wf set _ _ same, unfolded spec(2),
      OF this sample_policy_store [folded client] steady_roundtrip [OF disjI1 [OF refl]] steady_roundtrip [OF disjI2 [OF refl]]
        run page frozen refl st]
  obtain u tr where "trace u = trace t @ tr" "\<forall>ev \<in> set tr. \<not> mutating ev" "snd (ensureRoute53TrafficPolicy ?E ?p' t) = u"
    by (elim exE conjE disjE) auto
  moreover have "rule_Items (main_rule (order_document 0)) \<noteq> rule_Items (main_rule (order_document 1))"
    using order_items by auto
  ultimately show ?thesis using run by blast
qed

section \<open>Documents\<close>

text \<open>
  C6: the comparison of traffic policy documents. \<open>IsSameTrafficPolicyDocument\<close> decodes both
  texts and answers whether they mean the same: version, start rule and endpoint, record type and
  endpoints are equal, and the rules named main agree in type, primary and secondary and, as
  sets, in their four lists of references, so that neither order nor repetition matters. When a
  text does not decode the error is returned.
\<close>

theorem same_traffic_policy_document:
  "IsSameTrafficPolicyDocument E left right s =
     (case j_Unmarshal (e_json E) left of
        Fail e \<Rightarrow> (Fail e, s) | Panic q \<Rightarrow> (Panic q, s)
      | Ret d \<Rightarrow> (case j_Unmarshal (e_json E) right of
          Fail e \<Rightarrow> (Fail e, s) | Panic q \<Rightarrow> (Panic q, s)
        | Ret d' \<Rightarrow> (Ret (tpd_AWSPolicyFormatVersion d = tpd_AWSPolicyFormatVersion d'
            \<and> tpd_StartEndpoint d = tpd_StartEndpoint d' \<and> tpd_StartRule d = tpd_StartRule d'
            \<and> tpd_RecordType d = tpd_RecordType d' \<and> tpd_Endpoints d = tpd_Endpoints d'
            \<and> (let r = main_rule d; r' = main_rule d' in
                rule_RuleType r = rule_RuleType r' \<and> rule_Primary r = rule_Primary r'
                \<and> rule_Secondary r = rule_Secondary r'
                \<and> set (rule_Locations r) = set (rule_Locations r')
                \<and> set (rule_GeoproximityLocations r) = set (rule_GeoproximityLocations r')
                \<and> set (rule_Regions r) = set (rule_Regions r')
                \<and> set (rule_Items r) = set (rule_Items r'))), s)))"
  by (simp add: IsSameTrafficPolicyDocument_def pure_call_def bnd_def prog_simps same_document_view
      document_view_def rule_view_def Let_def conj_ac split: outcome.split)

text \<open>
  C2: the document does not depend on the iteration order of the endpoint map. Go ranges over a
  map in an order that changes from run to run. Two documents that \<open>getAWSTrafficPolicyDocument\<close>
  builds for the same specification and the same endpoints, in different orders, compare as the
  same, for each of the three load balancing policies, without health checks and also with them
  once the health checks of the IPs exist. It is assumed that the resolver's answers are stable
  and that the names of the document's endpoints determine their values.
\<close>

theorem document_order_independent:
  assumes "resolves_to E hosts" and "wf_ranges (r5_endpointMap p)"
    and "functional (set (entries hosts (rs_LoadBalancingPolicy (spec_of (local s))) (r5_endpointMap p 0)))"
    and "rs_HealthCheck (spec_of (local s)) = None \<or>
      (\<exists>pr httpGet hcs. rs_HealthCheck (spec_of (local s)) = Some pr \<and> pr_HTTPGet pr = Some httpGet
         \<and> steady_checks (r5_route53Client p) hcs
         \<and> (\<forall>ip \<in> map_ips hosts (r5_endpointMap p 0). \<exists>hc. selected_check httpGet ip hcs = Some hc))"
    and "spec_of (local s') = spec_of (local s)"
    and "build_document E p k s = (Ret d, t)" and "build_document E p k' s' = (Ret d', t')"
  shows "same_document d d'"
proof -
  have "\<exists>ids. checks_to E p (spec_of (local s)) (map_ips hosts (r5_endpointMap p 0)) ids"
    using assms(4)
  proof
    assume "rs_HealthCheck (spec_of (local s)) = None"
    then have "checks_to E p (spec_of (local s)) (map_ips hosts (r5_endpointMap p 0)) None"
      by (simp add: checks_to_def)
    then show ?thesis ..
  qed (blast intro: checks_to_steady)
  then show ?thesis using build_document_order [OF assms(1) _ assms(2,5,3,6,7)] by blast
qed

definition built_items :: "Route53TrafficPolicyDocument outcome \<Rightarrow> string list" where
  "built_items r = (case r of Ret d \<Rightarrow> map err_EndpointReference (rule_Items (main_rule d)) | _ \<Rightarrow> [])"

lemma sample_builds:
  "built_items (fst (build_document (sample_env steady_document) sample_provider 0 sample_state))
     = [''ns/router@ns/b1.2.3.4'', ''ns/router@ns/a1.2.3.4'']"
  "built_items (fst (build_document (sample_env steady_document) sample_provider 1 sample_state))
     = [''ns/router@ns/a1.2.3.4'', ''ns/router@ns/b1.2.3.4'']"
  by code_simp+

lemma built_itemsE:
  assumes "built_items (fst x) = i # is"
  obtains d t where "x = (Ret d, t)" "map err_EndpointReference (rule_Items (main_rule d)) = i # is"
  using assms by (cases x; cases "fst x") (auto simp: built_items_def)

theorem document_order_independent_witness:
  "\<exists>d t d' t'. build_document (sample_env steady_document) sample_provider 0 sample_state = (Ret d, t)
     \<and> build_document (sample_env steady_document) sample_provider 1 sample_state = (Ret d', t')
     \<and> rule_Items (main_rule d) \<noteq> rule_Items (main_rule d') \<and> same_document d d'"
proof -
  let ?b = "\<lambda>k. build_document (sample_env steady_document) sample_provider k sample_state"
  obtain d t where d: "?b 0 = (Ret d, t)"
    "map err_EndpointReference (rule_Items (main_rule d)) = [''ns/router@ns/b1.2.3.4'', ''ns/router@ns/a1.2.3.4'']"
    by (rule built_itemsE [OF sample_builds(1)])
  obtain d' t' where d': "?b 1 = (Ret d', t')"
    "map err_EndpointReference (rule_Items (main_rule d')) = [''ns/router@ns/a1.2.3.4'', ''ns/router@ns/b1.2.3.4'']"
    by (rule built_itemsE [OF sample_builds(2)])
  have wf: "wf_ranges (r5_endpointMap sample_provider)"
    using sample_ranges_wf by (simp add: sample_provider_def)
  have fn: "functional (set (entries sample_hosts (rs_LoadBalancingPolicy (spec_of (local sample_state)))
      (r5_endpointMap sample_provider 0)))"
    using sample_entries_functional [of 0] by (simp add: sample_provider_def sample_state_def sample_locals_def
        sample_record_def sample_spec_def)
  have hc: "rs_HealthCheck (spec_of (local sample_state)) = None" by (simp add: sample_defs)
  have "same_document d d'"
    by (rule document_order_independent [OF sample_resolves wf fn disjI1 [OF hc] refl d(1) d'(1)])
  moreover have "rule_Items (main_rule d) \<noteq> rule_Items (main_rule d')" using d(2) d'(2) by auto
  ultimately show ?thesis using d(1) d'(1) by blast
qed

text \<open>
  Two addresses can collide in a document. The names of the endpoints of a multivalue document
  are the endpoint's key followed by the IP with nothing in between, so a cluster secret named
  \<open>c\<close> with address 11.0.0.1 and one named \<open>c1\<close> with address 1.0.0.1 get the same name, and the
  document holds one endpoint for the two load balancers.
\<close>

lemma multivalue_entries_collide:
  "let es = (\<lambda>c ip. (sample_status c)\<lparr>es_service := sample_service\<lparr>svc_Ingress := [\<lparr>ing_IP = ip, ing_Hostname = []\<rparr>]\<rparr>,
        es_infrastructure := sample_infrastructure\<lparr>inf_PlatformStatus := Some \<lparr>pl_Type = ''None'', pl_AWS_Region = None,
          pl_Azure_NetworkResourceGroupName = None, pl_GCP_Region = None\<rparr>\<rparr>\<rparr>)
   in Endpoint_GetKey (sample_endpoint ''c'') \<noteq> Endpoint_GetKey (sample_endpoint ''c1'')
    \<and> (case fst (multivalue_endpoints (sample_env steady_document)
          [(Endpoint_GetKey (sample_endpoint ''c''), es ''c'' ''11.0.0.1''),
           (Endpoint_GetKey (sample_endpoint ''c1''), es ''c1'' ''1.0.0.1'')] sample_state) of
        Ret eps \<Rightarrow> Mapping.keys eps = {''ns/router@ns/c11.0.0.1''} | _ \<Rightarrow> False)"
  by code_simp

section \<open>The DNS record\<close>

lemma createAWSTrafficPolicyInstance_result:
  assumes "createAWSTrafficPolicyInstance p policyID s = (Ret i, t)"
    and "pc_Route53 (zs_Provider (zone_Spec (r5_globalzone p))) = Some zone"
    and "input = \<lparr>ctpi_HostedZoneId = r53c_ZoneID zone, ctpi_Name = rs_Name (spec_of (local s)),
                ctpi_TTL = rs_TTL (spec_of (local s)), ctpi_TrafficPolicyId = policyID, ctpi_TrafficPolicyVersion = 1\<rparr>"
  shows "\<exists>new. r53_CreateTrafficPolicyInstance (r5_route53Client p) input (world s) = (Ret (Some new), world t)
     \<and> tpi_Id new = Some i \<and> trace t = trace s @ [Aws (CreateTrafficPolicyInstance input)]"
  using assms by (auto simp: createAWSTrafficPolicyInstance_def zone_id_def Let_def inv_Ret)

text \<open>An instance says what the record says: its zone, its name as a full domain name, its TTL and
  the policy.\<close>

definition publishes :: "'w route53Provider \<Rightarrow> GlobalDNSRecordSpec \<Rightarrow> string \<Rightarrow> TrafficPolicyInstance \<Rightarrow> bool" where
  "publishes p spec policyID inst \<longleftrightarrow> (\<exists>zone. pc_Route53 (zs_Provider (zone_Spec (r5_globalzone p))) = Some zone
     \<and> tpi_HostedZoneId inst = Some (r53c_ZoneID zone) \<and> tpi_Name inst = Some (rs_Name spec @ ''.'')
     \<and> tpi_TTL inst = Some (rs_TTL spec) \<and> tpi_TrafficPolicyId inst = Some policyID)"

lemma isSameRoute53TrafficPolicyInstance_result:
  assumes "isSameRoute53TrafficPolicyInstance p inst s = (Ret b, t)"
    and "ps_Route53 (provider_status (local s)) = Some st"
  shows "b = publishes p (spec_of (local s)) (r53s_PolicyID st) inst \<and> t = s"
  using assms
  by (auto simp: isSameRoute53TrafficPolicyInstance_def zone_id_def publishes_def inv_Ret split: if_splits)

text \<open>Instances that are asked for one after the other; the last answer counts.\<close>

primrec get_instances :: "'w route53_api \<Rightarrow> string option list \<Rightarrow> TrafficPolicyInstance option \<Rightarrow> 'w \<Rightarrow>
    TrafficPolicyInstance option \<Rightarrow> 'w \<Rightarrow> bool" where
  "get_instances api [] current w result w' \<longleftrightarrow> result = current \<and> w' = w"
| "get_instances api (i # is) current w result w' \<longleftrightarrow>
     (\<exists>answer u. r53_GetTrafficPolicyInstance api i w = (Ret answer, u) \<and> get_instances api is answer u result w')"

definition named_instances :: "string \<Rightarrow> TrafficPolicyInstance list \<Rightarrow> string option list" where
  "named_instances name instances = map tpi_Id (filter (\<lambda>x. tpi_Name x = Some (name @ ''.'')) instances)"

lemma find_traffic_policy_instance_result:
  assumes "find_traffic_policy_instance p instances s = (Ret result, t)" and "ids = named_instances (rs_Name (spec_of (local s))) instances"
  shows "get_instances (r5_route53Client p) ids None (world s) result (world t) \<and> local t = local s
     \<and> trace t = trace s @ map (\<lambda>i. Aws (GetTrafficPolicyInstance i)) ids"
proof -
  let ?f = "\<lambda>current inst. bnd (deref (tpi_Name inst)) (\<lambda>name. bnd get_local (\<lambda>l. if name = rs_Name (spec_of l) @ ''.''
       then request (Aws (GetTrafficPolicyInstance (tpi_Id inst))) (r53_GetTrafficPolicyInstance (r5_route53Client p) (tpi_Id inst))
       else ret current))"
  have "get_instances (r5_route53Client p) (named_instances (rs_Name (spec_of (local s))) xs) current (world s) result (world t) \<and> local t = local s
     \<and> trace t = trace s @ map (\<lambda>i. Aws (GetTrafficPolicyInstance i)) (named_instances (rs_Name (spec_of (local s))) xs)"
    if "for_each ?f current xs s = (Ret result, t)" for xs current
    using that
  proof (induction xs arbitrary: current s)
    case Nil
    then show ?case by (simp add: named_instances_def run_simps)
  next
    case (Cons x xs)
    then obtain answer u where x: "?f current x s = (Ret answer, u)" and u: "for_each ?f answer xs u = (Ret result, t)"
      by (auto simp: bnd_eq_Ret)
    from x have "if tpi_Name x = Some (rs_Name (spec_of (local s)) @ ''.'')
        then (\<exists>w. r53_GetTrafficPolicyInstance (r5_route53Client p) (tpi_Id x) (world s) = (Ret answer, w)
          \<and> u = s\<lparr>trace := trace s @ [Aws (GetTrafficPolicyInstance (tpi_Id x))], world := w\<rparr>)
        else answer = current \<and> u = s"
      by (auto simp: inv_Ret split: if_splits)
    with Cons.IH [OF u] show ?case by (auto simp: named_instances_def split: if_splits)
  qed
  with assms show ?thesis by (simp add: find_traffic_policy_instance_def)
qed

text \<open>
  C4: what is published. When \<open>ensureRoute53DNSRecord\<close> succeeds for the policy ID in the status, it has
  listed the instances of the hosted zone and asked for those with the record's name; the last answer is
  the current instance. Either this instance has the configured zone, the record's name and TTL and the
  policy: then its ID is returned and nothing was changed. Or the last request was the
  creation of an instance with the zone ID of the configuration, the record's name and TTL and version
  1 of the policy, and the ID is the one Route53 answered with; a current instance that
  differs was deleted just before, and nothing else was.
\<close>

theorem dns_record_published:
  assumes "ensureRoute53DNSRecord p policyID s = (Ret i, t)"
    and "ps_Route53 (provider_status (local s)) = Some st" and "r53s_PolicyID st = policyID"
  shows "\<exists>zone instances w ids current w' reads.
     pc_Route53 (zs_Provider (zone_Spec (r5_globalzone p))) = Some zone
     \<and> r53_ListTrafficPolicyInstancesByHostedZone (r5_route53Client p) (r53c_ZoneID zone) (world s) = (Ret instances, w)
     \<and> ids = map tpi_Id (filter (\<lambda>x. tpi_Name x = Some (rs_Name (spec_of (local s)) @ ''.'')) instances)
     \<and> get_instances (r5_route53Client p) ids None w current w'
     \<and> reads = Aws (ListTrafficPolicyInstancesByHostedZone (r53c_ZoneID zone)) # map (\<lambda>i. Aws (GetTrafficPolicyInstance i)) ids
     \<and> ((\<exists>inst. current = Some inst \<and> publishes p (spec_of (local s)) policyID inst \<and> tpi_Id inst = Some i
           \<and> trace t = trace s @ reads \<and> world t = w')
       \<or> (\<exists>deletions w'' input new.
           (current = None \<and> deletions = [] \<and> w'' = w'
             \<or> (\<exists>old. current = Some old \<and> \<not> publishes p (spec_of (local s)) policyID old
                 \<and> deletions = [Aws (DeleteTrafficPolicyInstance (tpi_Id old))]
                 \<and> r53_DeleteTrafficPolicyInstance (r5_route53Client p) (tpi_Id old) w' = (Ret (), w'')))
           \<and> input = \<lparr>ctpi_HostedZoneId = r53c_ZoneID zone, ctpi_Name = rs_Name (spec_of (local s)),
                ctpi_TTL = rs_TTL (spec_of (local s)), ctpi_TrafficPolicyId = policyID, ctpi_TrafficPolicyVersion = 1\<rparr>
           \<and> r53_CreateTrafficPolicyInstance (r5_route53Client p) input w'' = (Ret (Some new), world t)
           \<and> tpi_Id new = Some i
           \<and> trace t = trace s @ reads @ deletions @ [Aws (CreateTrafficPolicyInstance input)]))"
proof -
  let ?client = "r5_route53Client p" and ?spec = "spec_of (local s)"
  from assms(1) obtain zone instances w current u where
    zone: "pc_Route53 (zs_Provider (zone_Spec (r5_globalzone p))) = Some zone"
    and list: "r53_ListTrafficPolicyInstancesByHostedZone ?client (r53c_ZoneID zone) (world s) = (Ret instances, w)"
    and find: "find_traffic_policy_instance p instances
        (s\<lparr>trace := trace s @ [Aws (ListTrafficPolicyInstancesByHostedZone (r53c_ZoneID zone))], world := w\<rparr>) = (Ret current, u)"
    and rest: "(case current of
       None \<Rightarrow> createAWSTrafficPolicyInstance p policyID
     | Some inst \<Rightarrow> bnd (isSameRoute53TrafficPolicyInstance p inst) (\<lambda>same.
         if \<not> same
         then seq (request (Aws (DeleteTrafficPolicyInstance (tpi_Id inst))) (r53_DeleteTrafficPolicyInstance ?client (tpi_Id inst)))
                  (createAWSTrafficPolicyInstance p policyID)
         else deref (tpi_Id inst))) u = (Ret i, t)"
    unfolding ensureRoute53DNSRecord_def zone_id_def by (auto simp: inv_Ret)
  define ids where "ids = named_instances (rs_Name ?spec) instances"
  define reads where "reads = Aws (ListTrafficPolicyInstancesByHostedZone (r53c_ZoneID zone)) # map (\<lambda>i. Aws (GetTrafficPolicyInstance i)) ids"
  define input where "input = \<lparr>ctpi_HostedZoneId = r53c_ZoneID zone, ctpi_Name = rs_Name ?spec,
      ctpi_TTL = rs_TTL ?spec, ctpi_TrafficPolicyId = policyID, ctpi_TrafficPolicyVersion = 1\<rparr>"
  from find_traffic_policy_instance_result [OF find] have get: "get_instances ?client ids None w current (world u)"
    and u: "local u = local s" "trace u = trace s @ reads" by (auto simp: ids_def reads_def)
  note created = createAWSTrafficPolicyInstance_result [OF _ zone, of policyID _ i t input]
  have "(\<exists>inst. current = Some inst \<and> publishes p ?spec policyID inst \<and> tpi_Id inst = Some i \<and> trace t = trace s @ reads \<and> world t = world u)
     \<or> (\<exists>deletions w'' new. (current = None \<and> deletions = [] \<and> w'' = world u
         \<or> (\<exists>old. current = Some old \<and> \<not> publishes p ?spec policyID old \<and> deletions = [Aws (DeleteTrafficPolicyInstance (tpi_Id old))]
             \<and> r53_DeleteTrafficPolicyInstance ?client (tpi_Id old) (world u) = (Ret (), w'')))
       \<and> r53_CreateTrafficPolicyInstance ?client input w'' = (Ret (Some new), world t) \<and> tpi_Id new = Some i
       \<and> trace t = trace s @ reads @ deletions @ [Aws (CreateTrafficPolicyInstance input)])"
  proof (cases current)
    case None
    with rest have "createAWSTrafficPolicyInstance p policyID u = (Ret i, t)" by simp
    from created [OF this] None u show ?thesis by (auto simp: input_def)
  next
    case (Some old)
    with rest obtain same v where same: "isSameRoute53TrafficPolicyInstance p old u = (Ret same, v)"
      and act: "(if \<not> same
         then seq (request (Aws (DeleteTrafficPolicyInstance (tpi_Id old))) (r53_DeleteTrafficPolicyInstance ?client (tpi_Id old)))
                  (createAWSTrafficPolicyInstance p policyID)
         else deref (tpi_Id old)) v = (Ret i, t)" by (auto simp: bnd_eq_Ret)
    from isSameRoute53TrafficPolicyInstance_result [OF same] assms(2,3) u
    have same: "same = publishes p ?spec policyID old" and v: "v = u" by simp_all
    show ?thesis
    proof (cases same)
      case True
      with act v same Some u show ?thesis by (auto simp: deref_eq_Ret)
    next
      case False
      with act v obtain w'' where del: "r53_DeleteTrafficPolicyInstance ?client (tpi_Id old) (world u) = (Ret (), w'')"
        and new: "createAWSTrafficPolicyInstance p policyID
          (u\<lparr>trace := trace u @ [Aws (DeleteTrafficPolicyInstance (tpi_Id old))], world := w''\<rparr>) = (Ret i, t)"
        by (auto simp: inv_Ret)
      from created [OF new] del False same Some u show ?thesis by (auto simp: input_def)
    qed
  qed
  with zone list get show ?thesis unfolding input_def reads_def ids_def named_instances_def by blast
qed

lemma sample_publish:
  "fst (ensureRoute53DNSRecord sample_provider [] sample_state) = Ret ''i''"
  "map mutating (trace (snd (ensureRoute53DNSRecord sample_provider [] sample_state))) = [False, True]"
  by code_simp+

theorem dns_record_published_witness:
  "\<exists>t reads input. ensureRoute53DNSRecord sample_provider [] sample_state = (Ret ''i'', t)
     \<and> trace t = reads @ [Aws (CreateTrafficPolicyInstance input)] \<and> ctpi_Name input = ''app.example.com''
     \<and> ctpi_HostedZoneId input = ''Z1''"
proof -
  obtain t where run: "ensureRoute53DNSRecord sample_provider [] sample_state = (Ret ''i'', t)"
    using sample_publish(1) by (metis prod.collapse)
  have st: "ps_Route53 (provider_status (local sample_state))
      = Some \<lparr>r53s_PolicyID = [], r53s_HealthCheckIDs = None, r53s_PolicyInstanceID = []\<rparr>"
    and name: "rs_Name (spec_of (local sample_state)) = ''app.example.com''"
    and zone: "pc_Route53 (zs_Provider (zone_Spec (r5_globalzone sample_provider)))
      = Some \<lparr>r53c_ZoneID = ''Z1'', r53c_CredentialsSecretRef = sample_name ''aws''\<rparr>"
    and nil: "trace sample_state = []"
    by (simp_all add: sample_defs sample_provider_def)
  have "map mutating (trace t) = [False, True]" using sample_publish(2) run by simp
  then have "\<exists>ev \<in> set (trace t). mutating ev" by (auto simp: map_eq_Cons_conv)
  then show ?thesis
    using dns_record_published [OF run st] run by (auto simp: nil name zone)
qed

section \<open>Cleaning up\<close>

text \<open>The policies that a clean-up may delete: those that Route53 returns for a listed summary with
  the record's name.\<close>

definition own_policy :: "'w route53Provider \<Rightarrow> TrafficPolicySummary list \<Rightarrow> string \<Rightarrow> string option \<Rightarrow> bool" where
  "own_policy p summaries key i \<longleftrightarrow> (\<exists>summary \<in> set summaries. \<exists>ident w tp w'.
     tpsum_Name summary = Some key \<and> tpsum_Id summary = Some ident
     \<and> r53_GetTrafficPolicy (r5_route53Client p) ident 1 w = (Ret (Some tp), w') \<and> i = tp_Id tp)"

definition cleanup_event :: "'w route53Provider \<Rightarrow> TrafficPolicySummary list \<Rightarrow> string \<Rightarrow> event \<Rightarrow> bool" where
  "cleanup_event p summaries key ev = (case ev of
      Aws (DeleteTrafficPolicy i v) \<Rightarrow> own_policy p summaries key i
    | Aws (CreateTrafficPolicy _ _) \<Rightarrow> False | Aws (CreateTrafficPolicyInstance _) \<Rightarrow> False
    | Aws (CreateHealthCheck _) \<Rightarrow> False | _ \<Rightarrow> True)"

lemma deleteTrafficPolicy_own:
  "own_policy p summaries key (tp_Id tp) \<Longrightarrow> emits (cleanup_event p summaries key) (deleteTrafficPolicy E p tp)"
  unfolding deleteTrafficPolicy_def by (intro frame_intros) (simp_all add: cleanup_event_def)

lemma cleanup_traffic_policy_frame:
  "emits aws_or_lookup (cleanup_traffic_policy E p summary)" "keeps f (cleanup_traffic_policy E p summary)"
  unfolding cleanup_traffic_policy_def by (intro frame_intros; simp)+

lemma cleanup_traffic_policy_deletes:
  assumes "cleanup_traffic_policy E p summary s = (Ret u, t)" and "tpsum_Name summary = Some (record_key E (local s))"
  shows "\<exists>tp ident v v' pre. tpsum_Id summary = Some ident
     \<and> r53_GetTrafficPolicy (r5_route53Client p) ident 1 v = (Ret (Some tp), v')
     \<and> trace t = trace s @ pre @ [Aws (DeleteTrafficPolicy (tp_Id tp) 1)]"
proof -
  from assms obtain ident tp w x where "tpsum_Id summary = Some ident"
    and "r53_GetTrafficPolicy (r5_route53Client p) ident 1 (world s) = (Ret (Some tp), w)"
    and x: "x = s\<lparr>trace := trace s @ [Aws (GetTrafficPolicy ident 1)], world := w\<rparr>"
    and del: "deleteTrafficPolicy E p tp x = (Ret u, t)"
    by (auto simp: cleanup_traffic_policy_def key_short_def record_key_def inv_Ret split: if_splits)
  moreover have "\<exists>pre. trace t = trace s @ pre @ [Aws (DeleteTrafficPolicy (tp_Id tp) 1)]"
    using deleteTrafficPolicy_cases [OF del] release_traffic_policy_trace x by fastforce
  ultimately show ?thesis by blast
qed

lemma cleanup_traffic_policy_guarded:
  assumes "summary \<in> set summaries"
  shows "obeys (guarded_rel (record_key E) key (cleanup_event p summaries key)) (cleanup_traffic_policy E p summary)"
proof -
  define body :: "('a, record_locals, unit) op" where "body = bnd (deref (tpsum_Id summary)) (\<lambda>ident.
      bnd (request (Aws (GetTrafficPolicy ident 1)) (r53_GetTrafficPolicy (r5_route53Client p) ident 1)) (\<lambda>out.
      bnd (deref out) (\<lambda>tp. deleteTrafficPolicy E p tp)))"
  have own: "emits (cleanup_event p summaries key) body"
    if "tpsum_Name summary = Some key"
  proof (cases "tpsum_Id summary")
    case None
    then show ?thesis by (simp add: body_def deref_def emits_frame.obeys_pure)
  next
    case (Some ident)
    have "emits (cleanup_event p summaries key) (bnd (deref out) (\<lambda>tp. deleteTrafficPolicy E p tp))"
      if "r53_GetTrafficPolicy (r5_route53Client p) ident 1 w = (Ret out, w')" for out w w'
    proof (cases out)
      case None
      then show ?thesis by (simp add: deref_def emits_frame.obeys_pure)
    next
      case (Some tp)
      with that \<open>tpsum_Name summary = Some key\<close> \<open>tpsum_Id summary = Some ident\<close> assms
      have "own_policy p summaries key (tp_Id tp)" unfolding own_policy_def by blast
      then show ?thesis using deleteTrafficPolicy_own Some by (simp add: deref_def)
    qed
    then show ?thesis using Some by (auto intro!: request_then simp: body_def deref_def cleanup_event_def)
  qed
  have kept: "keeps (record_key E) body" unfolding body_def by (intro frame_intros)
  have eq: "cleanup_traffic_policy E p summary = bnd get_local (\<lambda>l. bnd (deref (tpsum_Name summary)) (\<lambda>name.
     if record_key E l = name then body else ret ()))"
    unfolding body_def by (simp add: cleanup_traffic_policy_def key_short_def record_key_def bnd_assoc)
  show ?thesis unfolding eq
  proof (rule guarded_get_local)
    show "keeps (record_key E) (bnd (deref (tpsum_Name summary)) (\<lambda>name.
        if record_key E l = name then body else ret ()))" for l
      by (intro frame_intros kept)
    show "obeys (guarded_rel (record_key E) key (cleanup_event p summaries key))
        (bnd (deref (tpsum_Name summary)) (\<lambda>name. if record_key E l = name then body else ret ()))"
      if "record_key E l = key" for l
      using own kept that
      by (cases "tpsum_Name summary") (auto simp: deref_def guarded_frame.obeys_pure)
  qed
qed

text \<open>
  C5: the clean-up of a record deletes what the record owns, and nothing of other records. Whatever
  the outcome of \<open>cleanUpRoute53DNSRecord\<close>, every policy it asks Route53 to delete is one that was
  fetched for a listed summary carrying the record's own key as its name, and it creates nothing;
  when it succeeds, the policy of every listed summary with that name has been deleted.
\<close>

theorem cleanup_own_policies:
  assumes "cleanUpRoute53DNSRecord E p s = (r, t)"
    and "r53_ListTrafficPolicies (r5_route53Client p) (world s) = (Ret summaries, w)"
    and "key = u_GetKeyShort (e_util E) (rec_Meta (rl_instance (local s)))"
  shows "\<exists>tr. trace t = trace s @ tr \<and> (\<forall>ev \<in> set tr. cleanup_event p summaries key ev)
     \<and> (r = Ret () \<longrightarrow> (\<forall>summary \<in> set summaries. tpsum_Name summary = Some key \<longrightarrow>
          (\<exists>tp ident v v'. tpsum_Id summary = Some ident
             \<and> r53_GetTrafficPolicy (r5_route53Client p) ident 1 v = (Ret (Some tp), v')
             \<and> Aws (DeleteTrafficPolicy (tp_Id tp) 1) \<in> set tr)))"
proof -
  let ?loop = "for_each (\<lambda>_ summary. cleanup_traffic_policy E p summary) () summaries"
  let ?rest = "bnd (request (Aws ListHealthChecks) (r53_ListHealthChecks (r5_route53Client p))) (\<lambda>healthChecks.
     bnd get_local (\<lambda>l.
     case rs_HealthCheck (spec_of l) of None \<Rightarrow> ret () | Some probe \<Rightarrow>
     (case pr_HTTPGet probe of None \<Rightarrow> ret () | Some httpGet \<Rightarrow>
      for_each (\<lambda>_ healthCheck. cleanup_health_check p (hg_Host httpGet) healthCheck) () healthChecks)))"
  define s1 where "s1 = s\<lparr>trace := trace s @ [Aws ListTrafficPolicies], world := w\<rparr>"
  have run: "seq ?loop ?rest s1 = (r, t)"
    using assms(1,2) by (simp add: cleanUpRoute53DNSRecord_def bnd_def request_def s1_def)
  have key: "record_key E (local s1) = key" by (simp add: s1_def record_key_def assms(3))
  have loop: "obeys (guarded_rel (record_key E) key (cleanup_event p summaries key)) ?loop"
    by (intro frame_intros guarded_frame.obeys_for_each cleanup_traffic_policy_guarded)
  have restev: "emits (cleanup_event p summaries key) ?rest"
    unfolding cleanup_health_check_def by (intro frame_intros) (simp_all add: cleanup_event_def)
  have "keeps (record_key E) ?rest"
    unfolding cleanup_health_check_def by (intro frame_intros)
  with restev have "obeys (guarded_rel (record_key E) key (cleanup_event p summaries key)) (seq ?loop ?rest)"
    using loop by (blast intro: guarded_frame.obeys_seq)
  from guardedD [OF this key run] obtain tr where tr: "trace t = trace s1 @ tr"
    "list_all (cleanup_event p summaries key) tr" by blast
  have fin: "\<exists>tp ident v v'. tpsum_Id summary = Some ident
       \<and> r53_GetTrafficPolicy (r5_route53Client p) ident 1 v = (Ret (Some tp), v')
       \<and> Aws (DeleteTrafficPolicy (tp_Id tp) 1) \<in> set tr"
    if "r = Ret ()" and mem: "summary \<in> set summaries" and name: "tpsum_Name summary = Some key" for summary
  proof -
    from run that(1) obtain x y where l: "?loop s1 = (Ret x, y)" and rest: "?rest y = (Ret (), t)"
      by (auto simp: seq_eq_Ret)
    from for_each_item_trace [OF l mem emits_any [OF cleanup_traffic_policy_frame(1)]
        cleanup_traffic_policy_frame(2), of "record_key E"]
    obtain s2 u2 t2 where item: "cleanup_traffic_policy E p summary s2 = (Ret u2, t2)"
      and k2: "record_key E (local s2) = key" and pre: "prefix (trace s1) (trace s2)" "prefix (trace t2) (trace y)"
      unfolding key by blast
    have "prefix (trace y) (trace t)" using emitsD [OF restev rest] by auto
    with pre tr(1) have "prefix (trace s1) (trace s2)" "prefix (trace t2) (trace s1 @ tr)"
      by (auto intro: prefix_order.trans)
    with cleanup_traffic_policy_deletes [OF item, unfolded k2, OF name] show ?thesis
      by (fastforce simp: prefix_def)
  qed
  have "trace t = trace s @ (Aws ListTrafficPolicies # tr)" using tr(1) by (simp add: s1_def)
  moreover have "cleanup_event p summaries key (Aws ListTrafficPolicies)" by (simp add: cleanup_event_def)
  ultimately show ?thesis using tr(2) fin by (fastforce simp: list_all_iff)
qed

definition cleanup_state :: "(event, sample_world, record_locals) io" where
  "cleanup_state = sample_state\<lparr>world := empty_world\<lparr>sw_policies := [(''other'', ''document''), (''ns/rec'', ''document'')]\<rparr>\<rparr>"

lemma cleanup_run:
  "fst (cleanUpRoute53DNSRecord (sample_env sample_policy_document) sample_provider cleanup_state) = Ret ()"
  by code_simp

theorem cleanup_own_policies_witness:
  "\<exists>t tp v v'. cleanUpRoute53DNSRecord (sample_env sample_policy_document) sample_provider cleanup_state = (Ret (), t)
     \<and> r53_GetTrafficPolicy (r5_route53Client sample_provider) ''px'' 1 v = (Ret (Some tp), v')
     \<and> Aws (DeleteTrafficPolicy (tp_Id tp) 1) \<in> set (trace t)"
proof -
  let ?E = "sample_env sample_policy_document" and ?sum = "\<lparr>tpsum_Id = Some ''px'', tpsum_Name = Some ''ns/rec''\<rparr>"
  obtain t where run: "cleanUpRoute53DNSRecord ?E sample_provider cleanup_state = (Ret (), t)"
    using cleanup_run by (metis prod.collapse)
  have list: "r53_ListTrafficPolicies (r5_route53Client sample_provider) (world cleanup_state)
      = (Ret [\<lparr>tpsum_Id = Some ''p'', tpsum_Name = Some ''other''\<rparr>, ?sum], world cleanup_state)"
    by (simp add: cleanup_state_def sample_provider_def sample_defs policy_rows_def policy_id_def)
  have key: "''ns/rec'' = u_GetKeyShort (e_util ?E) (rec_Meta (rl_instance (local cleanup_state)))"
    by (simp add: cleanup_state_def sample_defs)
  have nil: "trace cleanup_state = []" by (simp add: cleanup_state_def sample_state_def)
  show ?thesis
    using cleanup_own_policies [OF run list key] run by (auto simp: nil)
qed

section \<open>Health checks\<close>

text \<open>
  C8: the caller reference of a health check. A health check is created under a reference of
  exactly 64 bytes, a fresh 36 byte UUID followed by the address and the host. The reference is
  cut with a slice expression, so when the address and the host together have fewer than 26 bytes
  the expression is out of range and the operator panics, before any request is sent.
\<close>

theorem create_health_check_reference:
  assumes "pr_HTTPGet pr = Some httpGet" and "e_uuid E (world s) = (uuid, w)" and "length uuid = 36"
  shows "if length ip + length (hg_Host httpGet) < 26
     then createHealthCheck E p (Some pr) ip s = (Panic SliceOutOfRange, s\<lparr>world := w\<rparr>)
     else \<exists>input tr. trace (snd (createHealthCheck E p (Some pr) ip s))
            = trace s @ Aws (CreateHealthCheck input) # tr
          \<and> (\<exists>ref. chi_CallerReference input = Some ref \<and> length ref = 64 \<and> take 36 ref = uuid)"
proof -
  let ?text = "uuid @ ''|'' @ ip @ ''@'' @ hg_Host httpGet"
  obtain c :: HealthCheckConfig where eq: "createHealthCheck E p (Some pr) ip s = bnd (slice_to ?text 64) (\<lambda>ref.
      register_health_check p (Some pr) ip \<lparr>chi_CallerReference = Some ref, chi_HealthCheckConfig = Some c\<rparr>)
      (s\<lparr>world := w\<rparr>)"
    by (simp add: createHealthCheck_def getAWSHealthCheckConfig_def assms(1,2) deref_def new_uuid_def bnd_def
        prog_simps)
  have len: "64 \<le> length ?text \<longleftrightarrow> \<not> length ip + length (hg_Host httpGet) < 26"
    using assms(3) by auto
  have first: "\<exists>tr. trace (snd (register_health_check p probe ip input u)) = trace u @ Aws (CreateHealthCheck input) # tr"
    for probe input u
    unfolding register_health_check_def Let_def by (rule first_request) (intro frame_intros; simp)
  show ?thesis
  proof (cases "length ip + length (hg_Host httpGet) < 26")
    case True
    with len show ?thesis unfolding eq by (simp add: slice_to_def prog_simps)
  next
    case False
    have "length (take 64 ?text) = 64 \<and> take 36 (take 64 ?text) = uuid"
      using assms(3) False by simp
    moreover have "createHealthCheck E p (Some pr) ip s = register_health_check p (Some pr) ip
        \<lparr>chi_CallerReference = Some (take 64 ?text), chi_HealthCheckConfig = Some c\<rparr> (s\<lparr>world := w\<rparr>)"
      unfolding eq using len False by (simp add: slice_to_def del: length_append)
    ultimately show ?thesis using first [of "Some pr" _ "s\<lparr>world := w\<rparr>"] False by fastforce
  qed
qed

definition sample_probe :: "string \<Rightarrow> Probe" where
  "sample_probe host = \<lparr>pr_HTTPGet = Some \<lparr>hg_Path = ''/'', hg_Port = \<lparr>ios_IntVal = 80, ios_StrVal = []\<rparr>,
       hg_Host = host, hg_Scheme = ''HTTP'', hg_HTTPHeaders = []\<rparr>,
     pr_InitialDelaySeconds = 0, pr_TimeoutSeconds = 1, pr_PeriodSeconds = 10, pr_SuccessThreshold = 1,
     pr_FailureThreshold = 3\<rparr>"

theorem create_health_check_reference_witness:
  "createHealthCheck (sample_env steady_document) sample_provider (Some (sample_probe ''app.example.com'')) ''1.2.3.4''
     sample_state = (Panic SliceOutOfRange, sample_state)"
proof -
  let ?E = "sample_env steady_document"
  have uuid: "e_uuid ?E (world sample_state) = (replicate 36 (CHR ''u''), world sample_state)"
    by (simp add: sample_env_def)
  have "pr_HTTPGet (sample_probe ''app.example.com'') = Some (the (pr_HTTPGet (sample_probe ''app.example.com'')))"
    by (simp add: sample_probe_def)
  from create_health_check_reference [where ip = "''1.2.3.4''" and p = sample_provider, OF this uuid] show ?thesis
    by (simp add: sample_probe_def)
qed

text \<open>\<open>checks w\<close> are the health checks that a list request answers with. An update changes the check of
  its ID only; the request interval of a check cannot be changed after its creation, and the domain
  name and the address are the old ones or the ones the update carries.\<close>

definition check_updated :: "UpdateHealthCheckInput \<Rightarrow> HealthCheck \<Rightarrow> HealthCheck \<Rightarrow> bool" where
  "check_updated input hc hc' \<longleftrightarrow> hc_Id hc' = hc_Id hc \<and> (hc_Id hc \<noteq> uhi_HealthCheckId input \<longrightarrow> hc' = hc)
     \<and> rel_option (\<lambda>c c'. hcc_RequestInterval c' = hcc_RequestInterval c
          \<and> (hcc_FullyQualifiedDomainName c' = hcc_FullyQualifiedDomainName c
            \<or> uhi_FullyQualifiedDomainName input \<noteq> None \<and> hcc_FullyQualifiedDomainName c' = uhi_FullyQualifiedDomainName input)
          \<and> (hcc_IPAddress c' = hcc_IPAddress c \<or> uhi_IPAddress input \<noteq> None \<and> hcc_IPAddress c' = uhi_IPAddress input))
        (hc_HealthCheckConfig hc) (hc_HealthCheckConfig hc')"

definition check_store :: "'w route53_api \<Rightarrow> ('w \<Rightarrow> HealthCheck list) \<Rightarrow> bool" where
  "check_store api checks \<longleftrightarrow>
     (\<forall>w r w'. r53_ListHealthChecks api w = (r, w') \<longrightarrow> checks w' = checks w \<and> (r = Ret (checks w) \<or> (\<exists>e. r = Fail e)))
   \<and> (\<forall>input w r w'. r53_UpdateHealthCheck api input w = (r, w') \<longrightarrow>
        list_all2 (check_updated input) (checks w) (checks w') \<or> checks w' = checks w)"

text \<open>The IDs of the checks are distinct, and the check that the code selects for an address has another
  interval than the probe.\<close>

definition stale_check :: "HTTPGetAction \<Rightarrow> string \<Rightarrow> int \<Rightarrow> string option \<Rightarrow> HealthCheck list \<Rightarrow> bool" where
  "stale_check httpGet ip period ident hcs \<longleftrightarrow> distinct (map hc_Id hcs) \<and> (\<exists>hc config. selected_check httpGet ip hcs = Some hc \<and> hc_Id hc = ident
     \<and> hc_HealthCheckConfig hc = Some config \<and> hcc_RequestInterval config \<noteq> Some period)"

lemma selected_check_rel:
  assumes "list_all2 Q hcs hcs'" and "\<And>h h'. h \<in> set hcs \<Longrightarrow> Q h h' \<Longrightarrow> is_check_of httpGet ip h' = is_check_of httpGet ip h"
  shows "rel_option Q (selected_check httpGet ip hcs) (selected_check httpGet ip hcs')"
proof -
  have "rel_option Q (foldl (\<lambda>cur hc. if is_check_of httpGet ip hc then Some hc else cur) c hcs)
      (foldl (\<lambda>cur hc. if is_check_of httpGet ip hc then Some hc else cur) c' hcs')" if "rel_option Q c c'" for c c'
    using assms that by (induction arbitrary: c c' rule: list_all2_induct) auto
  then show ?thesis by (simp add: selected_check_def)
qed

lemma selected_check_mem: "selected_check httpGet ip hcs = Some hc \<Longrightarrow> hc \<in> set hcs \<and> is_check_of httpGet ip hc"
  unfolding selected_check_def by (induction hcs rule: rev_induct) (auto split: if_splits)

lemma stale_check_updated:
  assumes "list_all2 (check_updated input) hcs hcs'" and "stale_check httpGet ip period ident hcs"
    and "uhi_HealthCheckId input = ident" and "uhi_FullyQualifiedDomainName input = Some (hg_Host httpGet)" and "uhi_IPAddress input = None"
  shows "stale_check httpGet ip period ident hcs'"
proof -
  from assms(2) obtain hc config where hc: "selected_check httpGet ip hcs = Some hc" "hc_Id hc = ident"
    "hc_HealthCheckConfig hc = Some config" "hcc_RequestInterval config \<noteq> Some period"
    and ids: "distinct (map hc_Id hcs)" by (auto simp: stale_check_def)
  have ids': "map hc_Id hcs' = map hc_Id hcs" using assms(1) by (induction rule: list_all2_induct) (simp_all add: check_updated_def)
  note mem = selected_check_mem [OF hc(1)]
  have "is_check_of httpGet ip h' = is_check_of httpGet ip h" if "h \<in> set hcs" and "check_updated input h h'" for h h'
  proof (cases "hc_Id h = ident")
    case True
    with that(1) mem hc(2) ids have "h = hc" by (auto simp: distinct_map inj_on_def)
    with that(2) mem hc(3) assms(3-5) show ?thesis
      by (auto simp: check_updated_def is_check_of_def option_rel_Some1)
  next
    case False
    with that(2) assms(3) show ?thesis by (simp add: check_updated_def)
  qed
  from selected_check_rel [OF assms(1) this] hc ids ids' show ?thesis
    by (auto simp: stale_check_def check_updated_def option_rel_Some1)
qed

lemma find_health_check_state: "snd (find_health_check probe ip hcs s) = s"
proof -
  have matches: "\<exists>r. health_check_matches probe ip hc s = (r, s)" for hc
    by (auto simp: health_check_matches_def bnd_def deref_def prog_simps split: option.splits)
  have "snd (for_each (\<lambda>current hc. bnd (health_check_matches probe ip hc) (\<lambda>found.
       ret (if found then Some hc else current))) c hcs s) = s" for c
  proof (induction hcs arbitrary: c)
    case (Cons hc hcs)
    obtain r where "health_check_matches probe ip hc s = (r, s)" using matches by blast
    with Cons.IH show ?case by (cases r) (simp_all add: bnd_def ret_def)
  qed (simp add: ret_def)
  then show ?thesis by (simp add: find_health_check_def)
qed

text \<open>One run: the stale check stays stale, and a run that returns has sent an update of it.\<close>

lemma stale_check_run:
  assumes "check_store (r5_route53Client p) checks"
    and "rs_HealthCheck (spec_of (local s)) = Some pr" and "pr_HTTPGet pr = Some httpGet"
    and stale: "stale_check httpGet ip (pr_PeriodSeconds pr) ident (checks (world s))"
    and run: "ensureRoute53HealthCheck E p ip s = (r, t)"
  shows "\<exists>tr. trace t = trace s @ tr \<and> local t = local s \<and> stale_check httpGet ip (pr_PeriodSeconds pr) ident (checks (world t))
     \<and> (\<forall>i. r = Ret i \<longrightarrow> (\<exists>input. Aws (UpdateHealthCheck input) \<in> set tr \<and> uhi_HealthCheckId input = ident))"
proof -
  let ?client = "r5_route53Client p"
  obtain r1 w1 where list: "r53_ListHealthChecks ?client (world s) = (r1, w1)" by fastforce
  with assms(1) have w1: "checks w1 = checks (world s)" "r1 = Ret (checks (world s)) \<or> (\<exists>e. r1 = Fail e)"
    by (auto simp: check_store_def)
  let ?s = "s\<lparr>trace := trace s @ [Aws ListHealthChecks], world := w1\<rparr>"
  obtain r2 where find: "find_health_check (Some pr) ip (checks (world s)) ?s = (r2, ?s)"
    using find_health_check_state by (metis prod.collapse)
  show ?thesis
  proof (cases "\<exists>current. r1 = Ret (checks (world s)) \<and> r2 = Ret current")
    case False
    with run list w1 find assms(2) have "t = ?s" "\<forall>i. r \<noteq> Ret i"
      by (auto simp: ensureRoute53HealthCheck_def request_def bnd_def prog_simps Let_def split: outcome.splits)
    with stale w1 show ?thesis by simp
  next
    case True
    from stale obtain hc config where hc: "selected_check httpGet ip (checks (world s)) = Some hc" "hc_Id hc = ident"
      "hc_HealthCheckConfig hc = Some config" "hcc_RequestInterval config \<noteq> Some (pr_PeriodSeconds pr)" by (auto simp: stale_check_def)
    from True find find_health_check_result [OF _ assms(3)] hc(1) have "r2 = Ret (Some hc)" by metis
    then have refresh: "refresh_health_check p (Some pr) ip hc ?s = (r, t)"
      using run list True find assms(2)
      by (simp add: ensureRoute53HealthCheck_def request_def bnd_def prog_simps Let_def)
    obtain cfg where cfg: "getAWSHealthCheckConfig (Some pr) ip = (ret cfg :: ('a, record_locals, HealthCheckConfig) op)"
      "hcc_RequestInterval cfg = Some (pr_PeriodSeconds pr)" "hcc_FullyQualifiedDomainName cfg = Some (hg_Host httpGet)"
      using assms(3) by (simp add: getAWSHealthCheckConfig_def)
    then have ne: "Some cfg \<noteq> hc_HealthCheckConfig hc" using hc(3,4) by auto
    define input where "input = (getAWSUpdateHealthCheckInput cfg)\<lparr>uhi_HealthCheckId := hc_Id hc\<rparr>"
    then have input: "uhi_HealthCheckId input = ident" "uhi_FullyQualifiedDomainName input = Some (hg_Host httpGet)"
      "uhi_IPAddress input = None"
      and upd: "refresh_health_check p (Some pr) ip hc ?s = bnd (request (Aws (UpdateHealthCheck input)) (r53_UpdateHealthCheck ?client input))
          (\<lambda>result. bnd (deref result) (\<lambda>updated. deref (hc_Id updated))) ?s"
      using cfg ne hc(2) by (auto simp: refresh_health_check_def getAWSUpdateHealthCheckInput_def Let_def)
    obtain r3 w3 where w3: "r53_UpdateHealthCheck ?client input w1 = (r3, w3)" by fastforce
    from refresh [unfolded upd] w3 have t: "trace t = trace s @ [Aws ListHealthChecks, Aws (UpdateHealthCheck input)]" "local t = local s" "world t = w3"
      by (auto simp: bnd_def request_def deref_def prog_simps split: outcome.splits option.splits)
    from assms(1) w3 w1 have "list_all2 (check_updated input) (checks (world s)) (checks w3) \<or> checks w3 = checks (world s)"
      unfolding check_store_def by metis
    with stale_check_updated [OF _ stale input] stale
    have "stale_check httpGet ip (pr_PeriodSeconds pr) ident (checks w3)" by auto
    with t input(1) show ?thesis by (intro exI [of _ "[Aws ListHealthChecks, Aws (UpdateHealthCheck input)]"]) auto
  qed
qed

text \<open>Reconcile cycles over time: runs for one address that return, \<open>n\<close> of them, runs that fail, and in
  between anything that keeps the record's specification and the health checks of Route53.\<close>

inductive check_cycles :: "'w env \<Rightarrow> 'w route53Provider \<Rightarrow> string \<Rightarrow> ('w \<Rightarrow> HealthCheck list) \<Rightarrow>
    (event, 'w, record_locals) io \<Rightarrow> nat \<Rightarrow> (event, 'w, record_locals) io \<Rightarrow> bool"
  for E p ip checks s where
  start: "check_cycles E p ip checks s 0 s"
| cycle: "check_cycles E p ip checks s n t \<Longrightarrow> ensureRoute53HealthCheck E p ip t = (Ret i, u) \<Longrightarrow> check_cycles E p ip checks s (Suc n) u"
| failed: "check_cycles E p ip checks s n t \<Longrightarrow> ensureRoute53HealthCheck E p ip t = (Fail e, u) \<Longrightarrow> check_cycles E p ip checks s n u"
| other: "check_cycles E p ip checks s n t \<Longrightarrow> checks w = checks (world t) \<Longrightarrow> spec_of l = spec_of (local t) \<Longrightarrow>
     check_cycles E p ip checks s n (t\<lparr>world := w, local := l\<rparr>)"

text \<open>
  C9: a changed probe period is never settled. Route53 does not let the request interval of a health
  check change, but the code compares it: when the health check of an address has another interval than
  the probe, then in all later reconcile cycles every run that returns has sent one more update of
  this check, and the check still has the other interval. It is assumed that Route53 updates health checks
  as documented, and that nobody else changes the checks.
\<close>

theorem health_check_period_never_updated:
  assumes "check_store (r5_route53Client p) checks"
    and "rs_HealthCheck (spec_of (local s)) = Some pr" and "pr_HTTPGet pr = Some httpGet"
    and "stale_check httpGet ip (pr_PeriodSeconds pr) ident (checks (world s))"
    and "check_cycles E p ip checks s n t"
  shows "\<exists>tr. trace t = trace s @ tr \<and> stale_check httpGet ip (pr_PeriodSeconds pr) ident (checks (world t))
     \<and> n \<le> length (filter (\<lambda>ev. \<exists>input. ev = Aws (UpdateHealthCheck input) \<and> uhi_HealthCheckId input = ident) tr)"
proof -
  let ?upd = "\<lambda>ev. \<exists>input. ev = Aws (UpdateHealthCheck input) \<and> uhi_HealthCheckId input = ident"
  have some: "0 < length (filter ?upd tr)" if "\<exists>input. Aws (UpdateHealthCheck input) \<in> set tr \<and> uhi_HealthCheckId input = ident" for tr
    using that by (auto simp: filter_empty_conv)
  from assms(5) have "\<exists>tr. trace t = trace s @ tr \<and> spec_of (local t) = spec_of (local s)
      \<and> stale_check httpGet ip (pr_PeriodSeconds pr) ident (checks (world t)) \<and> n \<le> length (filter ?upd tr)"
  proof induction
    case start
    with assms(4) show ?case by simp
  next
    case (cycle n t i u)
    then obtain tr where tr: "trace t = trace s @ tr" "spec_of (local t) = spec_of (local s)" "n \<le> length (filter ?upd tr)"
      "stale_check httpGet ip (pr_PeriodSeconds pr) ident (checks (world t))" by blast
    from stale_check_run [OF assms(1) _ assms(3) tr(4) cycle.hyps(2)] tr(2) assms(2) obtain tr' where
      "trace u = trace t @ tr'" "local u = local t" "stale_check httpGet ip (pr_PeriodSeconds pr) ident (checks (world u))"
      "\<exists>input. Aws (UpdateHealthCheck input) \<in> set tr' \<and> uhi_HealthCheckId input = ident" by auto
    moreover from some [OF this(4)] tr(3) have "Suc n \<le> length (filter ?upd (tr @ tr'))" unfolding filter_append length_append by linarith
    ultimately show ?case using tr(1,2) by (intro exI [of _ "tr @ tr'"] conjI) simp_all
  next
    case (failed n t e u)
    then obtain tr where tr: "trace t = trace s @ tr" "spec_of (local t) = spec_of (local s)" "n \<le> length (filter ?upd tr)"
      "stale_check httpGet ip (pr_PeriodSeconds pr) ident (checks (world t))" by blast
    from stale_check_run [OF assms(1) _ assms(3) tr(4) failed.hyps(2)] tr(2) assms(2) obtain tr' where
      "trace u = trace t @ tr'" "local u = local t" "stale_check httpGet ip (pr_PeriodSeconds pr) ident (checks (world u))" by auto
    with tr show ?case by (intro exI [of _ "tr @ tr'"]) simp
  next
    case (other n t w l)
    then show ?case by simp
  qed
  then show ?thesis by blast
qed

definition sample_check :: HealthCheck where
  "sample_check = \<lparr>hc_Id = Some ''c'', hc_HealthCheckConfig = Some \<lparr>hcc_IPAddress = Some ''ip'',
     hcc_Disabled = Some False, hcc_Inverted = Some False, hcc_MeasureLatency = Some False,
     hcc_EnableSNI = Some False, hcc_FailureThreshold = Some 3, hcc_FullyQualifiedDomainName = Some ''h'',
     hcc_Port = Some 80, hcc_RequestInterval = Some 30, hcc_ResourcePath = Some ''/'',
     hcc_Type = Some ''HTTP'', hcc_Other = None\<rparr>\<rparr>"

lemma sample_check_store: "check_store sample_route53 sw_checks"
proof -
  have "check_updated input hc (update_check input hc)" for input hc
    by (cases "hc_HealthCheckConfig hc") (auto simp: check_updated_def update_check_def given_def split: option.splits)
  then have "list_all2 (check_updated input) hcs (map (update_check input) hcs)" for input hcs
    by (simp add: list_all2_map2 list_all2_same)
  then show ?thesis
    by (auto simp: check_store_def sample_route53_def)
qed

definition stale_state :: "(event, sample_world, record_locals) io" where
  "stale_state = sample_state\<lparr>world := empty_world\<lparr>sw_checks := [sample_check]\<rparr>,
     local := sample_locals\<lparr>rl_instance := sample_record\<lparr>rec_Spec := sample_spec\<lparr>rs_HealthCheck := Some (sample_probe ''h'')\<rparr>\<rparr>\<rparr>\<rparr>"

lemma stale_runs:
  "let run = ensureRoute53HealthCheck (sample_env steady_document) sample_provider ''ip'' in
     returned (fst (run stale_state)) \<and> returned (fst (run (snd (run stale_state))))"
  by code_simp

theorem health_check_period_never_updated_witness:
  "\<exists>t u i j. ensureRoute53HealthCheck (sample_env steady_document) sample_provider ''ip'' stale_state = (Ret i, t)
     \<and> ensureRoute53HealthCheck (sample_env steady_document) sample_provider ''ip'' t = (Ret j, u)
     \<and> 2 \<le> length (filter (\<lambda>ev. \<exists>input. ev = Aws (UpdateHealthCheck input) \<and> uhi_HealthCheckId input = Some ''c'') (trace u))"
proof -
  let ?run = "ensureRoute53HealthCheck (sample_env steady_document) sample_provider ''ip''"
  from stale_runs have "returned (fst (?run stale_state))" and two: "returned (fst (?run (snd (?run stale_state))))" by (simp_all add: Let_def)
  from returnedE [OF this(1)] obtain i t where t: "?run stale_state = (Ret i, t)" by metis
  with returnedE [OF two] obtain j u where u: "?run t = (Ret j, u)" by (metis snd_conv)
  have "rs_HealthCheck (spec_of (local stale_state)) = Some (sample_probe ''h'')"
    "pr_HTTPGet (sample_probe ''h'') = Some (the (pr_HTTPGet (sample_probe ''h'')))"
    "stale_check (the (pr_HTTPGet (sample_probe ''h''))) ''ip'' (pr_PeriodSeconds (sample_probe ''h'')) (Some ''c'') (sw_checks (world stale_state))"
    by (simp_all add: stale_state_def sample_probe_def stale_check_def selected_check_def is_check_of_def sample_check_def)
  moreover have "check_cycles (sample_env steady_document) sample_provider ''ip'' sw_checks stale_state (Suc (Suc 0)) u"
    by (rule check_cycles.cycle [OF check_cycles.cycle [OF check_cycles.start t] u])
  moreover have "r5_route53Client sample_provider = sample_route53" "trace stale_state = []"
    by (simp_all add: sample_provider_def stale_state_def sample_state_def)
  ultimately show ?thesis
    using health_check_period_never_updated [of sample_provider sw_checks] sample_check_store t u by fastforce
qed

section \<open>Building the provider\<close>

definition is_aws :: "EndpointStatus \<Rightarrow> bool" where
  "is_aws es \<longleftrightarrow> (\<exists>platform. inf_PlatformStatus (es_infrastructure es) = Some platform
     \<and> pl_Type platform = AWSPlatformType)"

text \<open>
  An endpoint whose lookup failed stops the operator. The controller records a failed lookup
  in an endpoint status and goes on, so that one unreachable cluster does not stop the others;
  but such a status has no platform, and \<open>createRoute53Provider\<close> dereferences it: when any lookup
  failed and the other endpoints are on AWS the provider is not built, no request is sent and the
  program panics. When the provider is built, every endpoint is on AWS.
\<close>

lemma route53_provider_platforms:
  "(createRoute53Provider E zone em s = (Ret p, t) \<longrightarrow>
      (\<forall>(k, es) \<in> set (em 0). is_aws es) \<and> r5_globalzone p = zone)
   \<and> ((\<forall>(k, es) \<in> set (em 0). is_aws es \<or> (\<exists>e ep. es = failed_status e ep))
      \<and> (\<exists>(k, es) \<in> set (em 0). \<exists>e ep. es = failed_status e ep) \<longrightarrow>
      createRoute53Provider E zone em s = (Panic NilDereference, s))"
proof -
  have "is_aws es" if "only_aws_endpoints (em 0) s = (Ret u, t')" and "(k, es) \<in> set (em 0)" for u t' k es
    using for_each_item [OF that(1) [unfolded only_aws_endpoints_def] that(2)]
    by (auto simp: inv_Ret is_aws_def split: if_splits)
  then have built: "createRoute53Provider E zone em s = (Ret p, t) \<longrightarrow>
      (\<forall>(k, es) \<in> set (em 0). is_aws es) \<and> r5_globalzone p = zone"
    by (auto simp: createRoute53Provider_def seq_eq_Ret bnd_eq_Ret run_simps)
  have "only_aws_endpoints xs s = (Panic NilDereference, s)"
    if "\<forall>(k, es) \<in> set xs. is_aws es \<or> (\<exists>e ep. es = failed_status e ep)"
      and "\<exists>(k, es) \<in> set xs. \<exists>e ep. es = failed_status e ep" for xs
    using that
  proof (induction xs)
    case (Cons x xs)
    obtain k es where x: "x = (k, es)" by (cases x)
    show ?case
    proof (cases "is_aws es")
      case True
      then have "only_aws_endpoints (x # xs) = (only_aws_endpoints xs :: ('a, 'b, unit) op)"
        by (auto simp: x only_aws_endpoints_def is_aws_def deref_def)
      moreover have "es \<noteq> failed_status e ep" for e ep
        using True by (auto simp: is_aws_def failed_status_def zero_Infrastructure_def)
      ultimately show ?thesis using Cons x by auto
    next
      case False
      with Cons.prems x obtain e ep where "es = failed_status e ep" by auto
      then show ?thesis
        by (simp add: x only_aws_endpoints_def failed_status_def zero_Infrastructure_def deref_def prog_simps)
    qed
  qed simp
  with built show ?thesis
    by (simp add: createRoute53Provider_def seq_def bnd_def)
qed

lemma route53_provider_platforms_witness:
  "createRoute53Provider (sample_env steady_document) sample_zone
     (\<lambda>_. [(''a'', sample_status ''a''), (''b'', failed_status not_found (sample_endpoint ''b''))]) sample_state
   = (Panic NilDereference, sample_state)"
  by (rule route53_provider_platforms [THEN conjunct2, THEN mp])
    (auto simp: is_aws_def sample_status_def sample_infrastructure_def)

end
