(* ===== verification/Loop_Variable.thy ===== *)
theory Loop_Variable
  imports Services
begin

text \<open>
  A loop variable whose address is sent over a channel. Go 1.16 has one variable for all iterations
  of a range loop, so a receiver that reads the variable some time after the send sees the
  value of a later iteration. Here: what a receiver can see, for the events of one run of the loop.
\<close>

section \<open>What a receiver can see\<close>

text \<open>\<open>value_of\<close> tells the assignments to the variable with their values, \<open>is_send\<close> the sends of its
  address. The result lists, for every send, the values the variable has at the send or later.\<close>

definition assigned :: "('ev \<Rightarrow> 'v option) \<Rightarrow> 'ev list \<Rightarrow> 'v set" where
  "assigned value_of evs = (\<Union>ev \<in> set evs. set_option (value_of ev))"

primrec observable :: "('ev \<Rightarrow> 'v option) \<Rightarrow> ('ev \<Rightarrow> bool) \<Rightarrow> 'v option \<Rightarrow> 'ev list \<Rightarrow> 'v set list" where
  "observable value_of is_send var [] = []"
| "observable value_of is_send var (ev # evs) =
     (if is_send ev then [set_option var \<union> assigned value_of evs] else [])
       @ observable value_of is_send (case value_of ev of None \<Rightarrow> var | Some v \<Rightarrow> Some v) evs"

text \<open>The events of a loop that assigns the variable in each iteration and then sends its address some
  number of times.\<close>

definition loop_events :: "('v \<Rightarrow> 'ev) \<Rightarrow> 'ev \<Rightarrow> ('v \<Rightarrow> nat) \<Rightarrow> 'v list \<Rightarrow> 'ev list" where
  "loop_events assign send sends xs = concat (map (\<lambda>x. assign x # replicate (sends x) send) xs)"

lemma observable_sends:
  assumes "is_send send" and "value_of send = None"
  shows "observable value_of is_send var (replicate n send @ evs)
     = replicate n (set_option var \<union> assigned value_of evs) @ observable value_of is_send var evs"
proof (induction n)
  case (Suc n)
  have "assigned value_of (replicate n send @ evs) = assigned value_of evs"
    using assms(2) by (auto simp: assigned_def)
  with Suc assms show ?case by simp
qed simp

lemma assigned_loop:
  assumes "\<And>x. value_of (assign x) = Some x" and "value_of send = None"
  shows "assigned value_of (loop_events assign send sends xs) = set xs"
  using assms by (induction xs) (auto simp: assigned_def loop_events_def)

text \<open>Each send of an iteration can be seen as the value of this iteration or of any later one.\<close>

lemma observable_loop:
  assumes "\<And>x. value_of (assign x) = Some x" and "\<And>x. \<not> is_send (assign x)"
    and "value_of send = None" and "is_send send"
  shows "observable value_of is_send var (loop_events assign send sends xs)
     = concat (map (\<lambda>i. replicate (sends (xs ! i)) (set (drop i xs))) [0..<length xs])"
proof (induction xs arbitrary: var)
  case (Cons x xs)
  have "observable value_of is_send var (loop_events assign send sends (x # xs))
      = observable value_of is_send (Some x) (replicate (sends x) send @ loop_events assign send sends xs)"
    using assms(1,2) by (simp add: loop_events_def)
  also have "\<dots> = replicate (sends x) (set (x # xs)) @ observable value_of is_send (Some x) (loop_events assign send sends xs)"
    using observable_sends [of is_send send value_of, OF assms(4,3)] assigned_loop [of value_of assign send, OF assms(1,3)] by simp
  finally show ?case
    using Cons.IH by (simp add: upt_conv_Cons map_Suc_upt [symmetric] comp_def del: upt_Suc)
qed (simp add: loop_events_def)

section \<open>The two channels\<close>

fun record_var :: "event \<Rightarrow> GlobalDNSRecord option" where
  "record_var (K8s (SetRecordVar r)) = Some r"
| "record_var _ = None"

fun discovery_var :: "event \<Rightarrow> GlobalRouteDiscovery option" where
  "discovery_var (K8s (SetDiscoveryVar d)) = Some d"
| "discovery_var _ = None"

definition records_seen :: "event list \<Rightarrow> GlobalDNSRecord set list" where
  "records_seen evs = observable record_var (\<lambda>ev. ev = K8s NotifyRecord) None evs"

definition discoveries_seen :: "event list \<Rightarrow> GlobalRouteDiscovery set list" where
  "discoveries_seen evs = observable discovery_var (\<lambda>ev. ev = K8s NotifyDiscovery) None evs"

lemma records_seen_loop:
  "records_seen (loop_events (\<lambda>r. K8s (SetRecordVar r)) (K8s NotifyRecord) sends rs)
     = concat (map (\<lambda>i. replicate (sends (rs ! i)) (set (drop i rs))) [0..<length rs])"
  unfolding records_seen_def by (rule observable_loop) simp_all

lemma discoveries_seen_loop:
  "discoveries_seen (loop_events (\<lambda>d. K8s (SetDiscoveryVar d)) (K8s NotifyDiscovery) sends ds)
     = concat (map (\<lambda>i. replicate (sends (ds ! i)) (set (drop i ds))) [0..<length ds])"
  unfolding discoveries_seen_def by (rule observable_loop) simp_all

end
