(* ===== verification/Service_Reconciler.thy ===== *)
theory Service_Reconciler
  imports Loop_Variable Sample_World
begin

text \<open>
  controllers/globaldnsrecord/service\_reconciler.go: the controller that runs inside a remote
  manager. It watches the load balancer service of one endpoint in the controlled cluster and
  tells the record controller, over a channel, which records to reconcile. Its own data is the
  remote manager it belongs to, whose status it writes.
\<close>

section \<open>The reconciler\<close>

record ServiceReconciler =
  sr_remoteManager :: RemoteManager

text \<open>The client of a manager is named by the key of the manager. The loop over the records assigns its
  variable in every iteration, and a send on the channel carries the address of this variable.\<close>

definition set_record_var :: "'w env \<Rightarrow> GlobalDNSRecord \<Rightarrow> ('w, 'l, unit) op" where
  "set_record_var E r = request (K8s (SetRecordVar r)) (\<lambda>w. (Ret (), k_SetRecordVar (e_k8s E) r w))"

definition notify_record :: "'w env \<Rightarrow> ('w, 'l, unit) op" where
  "notify_record E = request (K8s NotifyRecord) (\<lambda>w. (Ret (), k_Notify (e_k8s E) w))"

definition newServiceReconciler ::
  "'w env \<Rightarrow> RemoteManager \<Rightarrow> Endpoint \<Rightarrow> ('w, 'l, ServiceReconciler) op" where
  "newServiceReconciler E mgr endpoint =
     seq (request (Remote (NewController (Endpoint_GetKey endpoint)))
            (m_NewController (e_remote E) (Endpoint_GetKey endpoint)))
    (seq (request (Remote (WatchService (ep_LoadBalancerServiceRef endpoint)))
            (m_Watch (e_remote E) (ep_LoadBalancerServiceRef endpoint)))
         (ret \<lparr>sr_remoteManager = mgr\<rparr>))"

definition manageStatus :: "'w env \<Rightarrow> error option \<Rightarrow> ('w, ServiceReconciler, unit) op" where
  "manageStatus E err =
     bnd (now E) (\<lambda>t.
     let condition = (case err of
           None \<Rightarrow> success_condition E t
         | Some e \<Rightarrow> error_condition E t (error_text E e)) in
     seq (upd_local (\<lambda>sr. sr\<lparr>sr_remoteManager := SetStatus (sr_remoteManager sr) [condition]\<rparr>))
         (case err of None \<Rightarrow> ret () | Some e \<Rightarrow> fail e))"

text \<open>The test of the inner loop: the service is compared with the credentials reference.\<close>

definition endpoint_matches :: "RemoteManager \<Rightarrow> Service \<Rightarrow> Endpoint \<Rightarrow> bool" where
  "endpoint_matches rm service endpoint \<longleftrightarrow>
     Endpoint_GetKey endpoint = RemoteManager_GetKey rm
     \<and> (let serviceRef = ep_CredentialsSecretRef endpoint in
        nn_Namespace serviceRef = svc_Namespace service \<and> nn_Name serviceRef = svc_Name service)"

definition service_Reconcile :: "'w env \<Rightarrow> NamespacedName \<Rightarrow> ('w, ServiceReconciler, unit) op" where
  "service_Reconcile E req =
     bnd get_local (\<lambda>sr. let rm = sr_remoteManager sr in
     bnd (attempt (request (Remote (GetRemoteService (RemoteManager_GetKey rm) req))
            (m_GetService (e_remote E) (RemoteManager_GetKey rm) req))) (\<lambda>r.
     case r of
       Inl err \<Rightarrow> if IsNotFound err then ret () else fail err
     | Inr service \<Rightarrow>
         bnd (attempt (request (K8s ListGlobalDNSRecords) (k_ListGlobalDNSRecords (e_k8s E)))) (\<lambda>r.
         case r of
           Inl err \<Rightarrow> manageStatus E (Some err)
         | Inr globalDNSRecords \<Rightarrow>
             seq (for_each (\<lambda>_ globalDNSRecord.
                    seq (set_record_var E globalDNSRecord)
                   (for_each (\<lambda>_ endpoint.
                      if endpoint_matches rm service endpoint
                      then notify_record E else ret ())
                      () (rs_Endpoints (rec_Spec globalDNSRecord))))
                    () globalDNSRecords)
                 (manageStatus E None))))"

section \<open>The predicate of the watch\<close>

text \<open>\<open>matchService\<close> filters the events of the watch by the name of the object; an update is
  filtered by the new object.\<close>

definition matchService_Update :: "NamespacedName \<Rightarrow> Service \<Rightarrow> Service \<Rightarrow> bool" where
  "matchService_Update p objectOld objectNew \<longleftrightarrow>
     (if svc_Namespace objectNew = nn_Namespace p \<and> svc_Name objectNew = nn_Name p then True else False)"

definition matchService_Create :: "NamespacedName \<Rightarrow> Service \<Rightarrow> bool" where
  "matchService_Create p object \<longleftrightarrow>
     (if svc_Namespace object = nn_Namespace p \<and> svc_Name object = nn_Name p then True else False)"

definition matchService_Delete :: "NamespacedName \<Rightarrow> Service \<Rightarrow> bool" where
  "matchService_Delete p object \<longleftrightarrow>
     (if svc_Namespace object = nn_Namespace p \<and> svc_Name object = nn_Name p then True else False)"

section \<open>What a reconciliation sends and stores\<close>

text \<open>How often a record is reported: once per matching endpoint.\<close>

definition reports :: "RemoteManager \<Rightarrow> Service \<Rightarrow> GlobalDNSRecord \<Rightarrow> nat" where
  "reports rm service r = length (filter (endpoint_matches rm service) (rs_Endpoints (rec_Spec r)))"

lemma endpoint_matches_iff:
  "endpoint_matches rm service e \<longleftrightarrow> Endpoint_GetKey e = rm_key rm
     \<and> ep_CredentialsSecretRef e = \<lparr>nn_Name = svc_Name service, nn_Namespace = svc_Namespace service\<rparr>"
  by (cases "ep_CredentialsSecretRef e") (auto simp: endpoint_matches_def RemoteManager_GetKey_def Let_def)

abbreviation report_events :: "RemoteManager \<Rightarrow> Service \<Rightarrow> GlobalDNSRecord list \<Rightarrow> event list" where
  "report_events rm service records \<equiv> loop_events (\<lambda>r. K8s (SetRecordVar r)) (K8s NotifyRecord) (reports rm service) records"

lemma notify_loop:
  "\<exists>w. for_each (\<lambda>_ r. seq (set_record_var E r)
       (for_each (\<lambda>_ e. if endpoint_matches rm service e then notify_record E else ret ()) () (rs_Endpoints (rec_Spec r)))) () records s
     = (Ret (), s\<lparr>trace := trace s @ report_events rm service records, world := w\<rparr>)"
  unfolding loop_events_def
proof (rule for_each_sends)
  fix r and s :: "(event, 'a, 'b) io"
  let ?es = "rs_Endpoints (rec_Spec r)" and ?s = "s\<lparr>trace := trace s @ [K8s (SetRecordVar r)], world := k_SetRecordVar (e_k8s E) r (world s)\<rparr>"
  have "\<exists>w. for_each (\<lambda>_ e. if endpoint_matches rm service e then notify_record E else ret ()) () ?es ?s
      = (Ret (), ?s\<lparr>trace := trace ?s @ concat (map (\<lambda>e. if endpoint_matches rm service e then [K8s NotifyRecord] else []) ?es), world := w\<rparr>)"
    unfolding notify_record_def by (rule for_each_sends) (rule send_if)
  moreover have "concat (map (\<lambda>e. if endpoint_matches rm service e then [K8s NotifyRecord] else []) es)
      = replicate (length (filter (endpoint_matches rm service) es)) (K8s NotifyRecord)" for es
    by (induction es) auto
  ultimately show "\<exists>w. seq (set_record_var E r) (for_each (\<lambda>_ e. if endpoint_matches rm service e then notify_record E else ret ()) () ?es) s
      = (Ret (), s\<lparr>trace := trace s @ K8s (SetRecordVar r) # replicate (reports rm service r) (K8s NotifyRecord), world := w\<rparr>)"
    by (auto simp: seq_def bnd_def set_record_var_def request_def reports_def)
qed

text \<open>A reconciliation that finds the service and can list the records.\<close>

lemma service_Reconcile_reports:
  assumes "m_GetService (e_remote E) (rm_key (sr_remoteManager (local s))) req (world s) = (Ret service, w)"
    and "k_ListGlobalDNSRecords (e_k8s E) w = (Ret records, w')"
  shows "\<exists>t time. service_Reconcile E req s = (Ret (), t)
     \<and> sr_remoteManager (local t) = (sr_remoteManager (local s))\<lparr>rm_status := [success_condition E time]\<rparr>
     \<and> trace t = trace s @ [Remote (GetRemoteService (rm_key (sr_remoteManager (local s))) req), K8s ListGlobalDNSRecords]
         @ report_events (sr_remoteManager (local s)) service records"
proof -
  let ?rm = "sr_remoteManager (local s)"
  let ?s = "s\<lparr>trace := trace s @ [Remote (GetRemoteService (rm_key ?rm) req), K8s ListGlobalDNSRecords], world := w'\<rparr>"
  from notify_loop [of E ?rm service records ?s] assms show ?thesis
    by (auto simp: service_Reconcile_def manageStatus_def attempt_def request_def bnd_def seq_def prog_simps
        now_def Let_def SetStatus_def RemoteManager_GetKey_def)
qed

text \<open>
  C16: a reconciliation of the service controller. A service that is gone is not an error, another failure to
  read it is returned, and both leave the status of the manager as it was; a failure to list the records
  is returned and becomes the only condition of the status. Otherwise the status becomes a single success
  condition and every listed record is reported once per endpoint that has the key of the manager and
  whose credentials reference is the name of the service. A report carries the address of the loop
  variable: its receiver sees this record or, when it reads late, any record that is listed after it.
\<close>

theorem service_reconcile_outcome:
  assumes "m_GetService (e_remote E) (rm_key (sr_remoteManager (local s))) req (world s) = (found, w)"
    and "k_ListGlobalDNSRecords (e_k8s E) w = (listed, w')"
  shows "(\<forall>e. found = Fail e \<longrightarrow> service_Reconcile E req s = (if IsNotFound e then Ret () else Fail e,
         s\<lparr>trace := trace s @ [Remote (GetRemoteService (rm_key (sr_remoteManager (local s))) req)], world := w\<rparr>))
   \<and> (\<forall>service e. found = Ret service \<and> listed = Fail e \<longrightarrow> (\<exists>t. service_Reconcile E req s = (Fail e, t)
       \<and> sr_remoteManager (local t) = (sr_remoteManager (local s))\<lparr>rm_status := [error_condition E (e_now E w') (error_text E e)]\<rparr>
       \<and> trace t = trace s @ [Remote (GetRemoteService (rm_key (sr_remoteManager (local s))) req), K8s ListGlobalDNSRecords]))
   \<and> (\<forall>service records. found = Ret service \<and> listed = Ret records \<longrightarrow> (\<exists>t tr time. service_Reconcile E req s = (Ret (), t)
       \<and> sr_remoteManager (local t) = (sr_remoteManager (local s))\<lparr>rm_status := [success_condition E time]\<rparr>
       \<and> trace t = trace s @ tr
       \<and> tr = [Remote (GetRemoteService (rm_key (sr_remoteManager (local s))) req), K8s ListGlobalDNSRecords]
           @ loop_events (\<lambda>r. K8s (SetRecordVar r)) (K8s NotifyRecord)
             (\<lambda>r. length (filter (\<lambda>e. Endpoint_GetKey e = rm_key (sr_remoteManager (local s))
                \<and> ep_CredentialsSecretRef e = \<lparr>nn_Name = svc_Name service, nn_Namespace = svc_Namespace service\<rparr>)
               (rs_Endpoints (rec_Spec r)))) records
       \<and> records_seen tr = concat (map (\<lambda>i. replicate
           (length (filter (\<lambda>e. Endpoint_GetKey e = rm_key (sr_remoteManager (local s))
              \<and> ep_CredentialsSecretRef e = \<lparr>nn_Name = svc_Name service, nn_Namespace = svc_Namespace service\<rparr>)
             (rs_Endpoints (rec_Spec (records ! i)))))
           (set (drop i records))) [0..<length records])))"
proof (intro conjI allI impI)
  fix e assume "found = Fail e"
  with assms show "service_Reconcile E req s = (if IsNotFound e then Ret () else Fail e,
         s\<lparr>trace := trace s @ [Remote (GetRemoteService (rm_key (sr_remoteManager (local s))) req)], world := w\<rparr>)"
    by (auto simp: service_Reconcile_def attempt_def request_def bnd_def prog_simps Let_def RemoteManager_GetKey_def)
next
  fix service e assume "found = Ret service \<and> listed = Fail e"
  with assms show "\<exists>t. service_Reconcile E req s = (Fail e, t)
       \<and> sr_remoteManager (local t) = (sr_remoteManager (local s))\<lparr>rm_status := [error_condition E (e_now E w') (error_text E e)]\<rparr>
       \<and> trace t = trace s @ [Remote (GetRemoteService (rm_key (sr_remoteManager (local s))) req), K8s ListGlobalDNSRecords]"
    by (auto simp: service_Reconcile_def manageStatus_def attempt_def request_def bnd_def seq_def prog_simps
        now_def Let_def SetStatus_def RemoteManager_GetKey_def)
next
  fix service records assume f: "found = Ret service \<and> listed = Ret records"
  let ?rm = "sr_remoteManager (local s)"
  let ?tr = "[Remote (GetRemoteService (rm_key ?rm) req), K8s ListGlobalDNSRecords] @ report_events ?rm service records"
  from service_Reconcile_reports [of E s req service w records w'] assms f obtain t time where
    "service_Reconcile E req s = (Ret (), t)" "trace t = trace s @ ?tr"
    "sr_remoteManager (local t) = (sr_remoteManager (local s))\<lparr>rm_status := [success_condition E time]\<rparr>" by blast
  moreover have "records_seen ?tr = records_seen (report_events ?rm service records)" by (simp add: records_seen_def)
  ultimately show "\<exists>t tr time. service_Reconcile E req s = (Ret (), t)
       \<and> sr_remoteManager (local t) = (sr_remoteManager (local s))\<lparr>rm_status := [success_condition E time]\<rparr>
       \<and> trace t = trace s @ tr
       \<and> tr = [Remote (GetRemoteService (rm_key (sr_remoteManager (local s))) req), K8s ListGlobalDNSRecords]
           @ loop_events (\<lambda>r. K8s (SetRecordVar r)) (K8s NotifyRecord)
             (\<lambda>r. length (filter (\<lambda>e. Endpoint_GetKey e = rm_key (sr_remoteManager (local s))
                \<and> ep_CredentialsSecretRef e = \<lparr>nn_Name = svc_Name service, nn_Namespace = svc_Namespace service\<rparr>)
               (rs_Endpoints (rec_Spec r)))) records
       \<and> records_seen tr = concat (map (\<lambda>i. replicate
           (length (filter (\<lambda>e. Endpoint_GetKey e = rm_key (sr_remoteManager (local s))
              \<and> ep_CredentialsSecretRef e = \<lparr>nn_Name = svc_Name service, nn_Namespace = svc_Namespace service\<rparr>)
             (rs_Endpoints (rec_Spec (records ! i)))))
           (set (drop i records))) [0..<length records])"
    unfolding records_seen_loop reports_def [abs_def] endpoint_matches_iff [abs_def] by blast
qed

text \<open>
  C17: the wrong reference. The watch of an endpoint lets through exactly the events of its load
  balancer service, but the reconciliation compares the service with the credentials reference.
  When no listed record has an endpoint of this manager whose credentials secret bears the name of
  that service, a change of the service is reported for no record, those that use it included.
\<close>

theorem service_change_not_reported:
  assumes "matchService_Update (ep_LoadBalancerServiceRef endpoint) old service"
    and "req = \<lparr>nn_Name = svc_Name service, nn_Namespace = svc_Namespace service\<rparr>"
    and "m_GetService (e_remote E) (rm_key (sr_remoteManager (local s))) req (world s) = (Ret service, w)"
    and "k_ListGlobalDNSRecords (e_k8s E) w = (Ret records, w')"
    and "\<forall>r \<in> set records. \<forall>e \<in> set (rs_Endpoints (rec_Spec r)).
           ep_CredentialsSecretRef e \<noteq> ep_LoadBalancerServiceRef endpoint"
  shows "\<exists>t. service_Reconcile E req s = (Ret (), t)
     \<and> trace t = trace s @ [Remote (GetRemoteService (rm_key (sr_remoteManager (local s))) req), K8s ListGlobalDNSRecords]
         @ map (\<lambda>r. K8s (SetRecordVar r)) records"
proof -
  let ?rm = "sr_remoteManager (local s)"
  have "nn_Namespace (ep_LoadBalancerServiceRef endpoint) = svc_Namespace service
      \<and> nn_Name (ep_LoadBalancerServiceRef endpoint) = svc_Name service"
    using assms(1) by (auto simp: matchService_Update_def split: if_splits)
  then have "ep_CredentialsSecretRef e = ep_LoadBalancerServiceRef endpoint" if "endpoint_matches ?rm service e" for e
    using that by (intro NamespacedName.equality) (auto simp: endpoint_matches_def Let_def)
  with assms(5) have "\<not> endpoint_matches ?rm service e"
    if "r \<in> set records" "e \<in> set (rs_Endpoints (rec_Spec r))" for r e
    using that by blast
  then have "report_events ?rm service rs = map (\<lambda>r. K8s (SetRecordVar r)) rs" if "set rs \<subseteq> set records" for rs
    using that by (induction rs) (auto simp: loop_events_def reports_def filter_empty_conv)
  with service_Reconcile_reports [OF assms(3,4)] show ?thesis by auto
qed

text \<open>A record whose only endpoint is the one the manager watches.\<close>

definition watched_endpoint :: Endpoint where
  "watched_endpoint = (sample_endpoint ''a'')\<lparr>ep_LoadBalancerServiceRef := \<lparr>nn_Name = ''router'', nn_Namespace = ''ingress''\<rparr>\<rparr>"

definition watched_record :: GlobalDNSRecord where
  "watched_record = sample_record\<lparr>rec_Spec := sample_spec\<lparr>rs_Endpoints := [watched_endpoint]\<rparr>\<rparr>"

definition watched_state :: "(event, sample_world, ServiceReconciler) io" where
  "watched_state = \<lparr>trace = [], world = empty_world\<lparr>sw_records := [watched_record]\<rparr>,
     local = \<lparr>sr_remoteManager = \<lparr>rm_status = [], rm_key = Endpoint_GetKey watched_endpoint\<rparr>\<rparr>\<rparr>"

theorem service_change_not_reported_witness:
  "\<exists>t. service_Reconcile (sample_env no_document) (ep_LoadBalancerServiceRef watched_endpoint) watched_state = (Ret (), t)
     \<and> length (trace t) = 3 \<and> K8s NotifyRecord \<notin> set (trace t)"
proof -
  have "\<exists>t. service_Reconcile (sample_env no_document) (ep_LoadBalancerServiceRef watched_endpoint) watched_state = (Ret (), t)
     \<and> trace t = trace watched_state @ [Remote (GetRemoteService (rm_key (sr_remoteManager (local watched_state)))
         (ep_LoadBalancerServiceRef watched_endpoint)), K8s ListGlobalDNSRecords] @ map (\<lambda>r. K8s (SetRecordVar r)) [watched_record]"
    by (rule service_change_not_reported [where service = sample_service and endpoint = watched_endpoint and old = sample_service
          and records = "[watched_record]" and w = "world watched_state" and w' = "world watched_state"])
      (simp_all add: watched_state_def watched_record_def watched_endpoint_def matchService_Update_def sample_defs)
  then show ?thesis by (auto simp: watched_state_def)
qed

text \<open>Two records with an endpoint whose secret has the name of the service: the first report may be
  seen as either of them.\<close>

definition secret_endpoint :: Endpoint where
  "secret_endpoint = watched_endpoint\<lparr>ep_CredentialsSecretRef := \<lparr>nn_Name = ''router'', nn_Namespace = ''ingress''\<rparr>\<rparr>"

definition secret_record :: "int \<Rightarrow> GlobalDNSRecord" where
  "secret_record ttl = sample_record\<lparr>rec_Spec := sample_spec\<lparr>rs_TTL := ttl, rs_Endpoints := [secret_endpoint]\<rparr>\<rparr>"

definition secret_state :: "(event, sample_world, ServiceReconciler) io" where
  "secret_state = \<lparr>trace = [], world = empty_world\<lparr>sw_records := [secret_record 1, secret_record 2]\<rparr>,
     local = \<lparr>sr_remoteManager = \<lparr>rm_status = [], rm_key = Endpoint_GetKey secret_endpoint\<rparr>\<rparr>\<rparr>"

theorem service_reconcile_outcome_witness:
  "\<exists>t. service_Reconcile sample_E (ep_LoadBalancerServiceRef watched_endpoint) secret_state = (Ret (), t)
     \<and> records_seen (trace t) = [{secret_record 1, secret_record 2}, {secret_record 2}]"
proof -
  let ?req = "ep_LoadBalancerServiceRef watched_endpoint"
  have "m_GetService (e_remote sample_E) (rm_key (sr_remoteManager (local secret_state))) ?req (world secret_state)
      = (Ret sample_service, world secret_state)"
    by (simp add: sample_defs watched_endpoint_def)
  moreover have "k_ListGlobalDNSRecords (e_k8s sample_E) (world secret_state)
      = (Ret [secret_record 1, secret_record 2], world secret_state)"
    by (simp add: sample_defs secret_state_def)
  ultimately show ?thesis
    using service_reconcile_outcome [of sample_E secret_state ?req "Ret sample_service" _ "Ret [secret_record 1, secret_record 2]"]
    by (auto simp: secret_state_def secret_record_def secret_endpoint_def sample_service_def)
qed

end
