(* ===== verification/Manager_Pool.thy ===== *)
theory Manager_Pool
  imports Sample_World
begin

text \<open>
  The record controller and the route discovery controller both keep a map of remote managers and
  bring it in line with the clusters their resources name, in the same way: stop the managers that
  are not needed any more, create and start the missing ones, and delete the stopped ones from the
  map when the function ends. The shared code is stated here once, over the place where a
  controller keeps its map and over how it creates a manager.

  The locale \<open>manager_pool\<close> is the contract between the two: creating a manager neither starts nor
  stops one and leaves the controller's data alone. Its lemmas show that on every outcome the managers that have been
  started and not stopped are exactly those in the map, so none is leaked and none runs twice.
\<close>

section \<open>Synchronising the managers\<close>

type_synonym manager_map = "(string \<times> RemoteManager) list"

text \<open>\<open>defer\<close>: the update of the operator's data is made when the function ends, on every outcome.\<close>

definition deferred :: "('l \<Rightarrow> 'l) \<Rightarrow> ('ev, 'w, 'l, 'a) prog \<Rightarrow> ('ev, 'w, 'l, 'a) prog" where
  "deferred d m = (\<lambda>s. case m s of (r, t) \<Rightarrow> (r, t\<lparr>local := d (local t)\<rparr>))"

definition stop_manager :: "'w env \<Rightarrow> ('l \<Rightarrow> manager_map) \<Rightarrow> string \<Rightarrow> ('w, 'l, unit) op" where
  "stop_manager E get key =
     bnd get_local (\<lambda>l.
     case map_of (get l) key of
       None \<Rightarrow> ret ()
     | Some remoteManager \<Rightarrow> manager_Stop E (RemoteManager_GetKey remoteManager))"

definition add_manager ::
  "'w env \<Rightarrow> ((manager_map \<Rightarrow> manager_map) \<Rightarrow> 'l \<Rightarrow> 'l) \<Rightarrow> (string \<Rightarrow> ('w, 'l, RemoteManager) op) \<Rightarrow> string \<Rightarrow>
     ('w, 'l, unit) op" where
  "add_manager E upd create key =
     bnd (create key) (\<lambda>remoteManager.
     seq (upd_local (upd (AList.update key remoteManager)))
         (manager_Start E (RemoteManager_GetKey remoteManager)))"

definition sync_managers ::
  "'w env \<Rightarrow> ('l \<Rightarrow> manager_map) \<Rightarrow> ((manager_map \<Rightarrow> manager_map) \<Rightarrow> 'l \<Rightarrow> 'l) \<Rightarrow>
     (string \<Rightarrow> ('w, 'l, RemoteManager) op) \<Rightarrow> string list \<Rightarrow> ('w, 'l, unit) op" where
  "sync_managers E get upd create neededKeys =
     bnd get_local (\<lambda>l.
     let S = e_strset E;
         neededSet = foldl (ss_Add S) (ss_New S []) neededKeys;
         currentSet = foldl (ss_Add S) (ss_New S []) (map fst (get l));
         toBeAdded = ss_Difference S neededSet currentSet;
         toBeRemoved = ss_Difference S currentSet neededSet in
     deferred (upd (\<lambda>m. foldl (\<lambda>m k. AList.delete k m) m (ss_List S toBeRemoved)))
      (seq (for_each (\<lambda>_. stop_manager E get) () (ss_List S toBeRemoved))
           (for_each (\<lambda>_. add_manager E upd create) () (ss_List S toBeAdded))))"

text \<open>The event for a manager whose last condition is an error.\<close>

definition report_manager :: "'w env \<Rightarrow> Conditions \<Rightarrow> ('w, 'l, unit) op" where
  "report_manager E conditions =
     (case u_GetLastCondition (e_util E) conditions of
        Some condition \<Rightarrow>
          if cond_Type condition = u_ReconcileError (e_util E) \<and> cond_Status condition = ''True''
          then record_event E (cond_Message condition) else ret ()
      | None \<Rightarrow> ret ())"

lemma report_manager_frame [frame_intros]:
  "(\<And>t r m. P (K8s (RecordEvent t r m))) \<Longrightarrow> emits P (report_manager E cs)" "keeps f (report_manager E cs)"
  unfolding report_manager_def record_event_def by (intro frame_intros; simp)+

section \<open>Starts and stops\<close>

text \<open>How often a manager has been started more than stopped.\<close>

definition live :: "event list \<Rightarrow> string \<Rightarrow> int" where
  "live tr k = int (count_list tr (Remote (ManagerStart k))) - int (count_list tr (Remote (ManagerStop k)))"

text \<open>The map holds a key once, and the running managers are those in the map.\<close>

definition balanced :: "event list \<Rightarrow> manager_map \<Rightarrow> bool" where
  "balanced tr m \<longleftrightarrow> distinct (map fst m)
     \<and> (\<forall>k. live tr k = int (count_list (map (rm_key \<circ> snd) m) k))"

fun quiet :: "event \<Rightarrow> bool" where
  "quiet (Remote (ManagerStart _)) = False"
| "quiet (Remote (ManagerStop _)) = False"
| "quiet _ = True"

text \<open>The starts and stops among the requests.\<close>

definition control :: "event list \<Rightarrow> event list" where
  "control tr = filter (\<lambda>ev. \<not> quiet ev) tr"

lemma control_append [simp]: "control (xs @ ys) = control xs @ control ys"
  by (simp add: control_def)

lemma control_simps [simp]:
  "control [] = []" "control (Remote (ManagerStart k) # tr) = Remote (ManagerStart k) # control tr"
  "control (Remote (ManagerStop k) # tr) = Remote (ManagerStop k) # control tr"
  by (simp_all add: control_def)

lemma control_quiet: "list_all quiet tr \<Longrightarrow> control tr = []"
  by (auto simp: control_def list_all_iff)

lemma live_append: "live (tr @ tr') k = live tr k + live tr' k"
  by (simp add: live_def)

lemma live_control: "live (control tr) k = live tr k"
proof (induction tr)
  case (Cons ev tr)
  then show ?case by (cases ev rule: quiet.cases) (simp_all add: control_def live_def)
qed simp

lemma live_starts: "live (map (Remote \<circ> ManagerStart) ks) k = int (count_list ks k)"
  by (induction ks) (auto simp: live_def)

lemma live_stops: "live (map (Remote \<circ> ManagerStop) ks) k = - int (count_list ks k)"
  by (induction ks) (auto simp: live_def)

lemma balanced_quiet: "balanced tr m \<Longrightarrow> list_all quiet tr' \<Longrightarrow> balanced (tr @ tr') m"
  using live_control [of tr'] by (auto simp: balanced_def live_append control_quiet) (simp add: live_def)

lemma balanced_status:
  "balanced tr m \<Longrightarrow> balanced tr (map (\<lambda>(k, rm). (k, if k = key then SetStatus rm c else rm)) m)"
proof -
  have "map fst (map (\<lambda>(k, rm). (k, if k = key then SetStatus rm c else rm)) m) = map fst m"
    "map (rm_key \<circ> snd) (map (\<lambda>(k, rm). (k, if k = key then SetStatus rm c else rm)) m) = map (rm_key \<circ> snd) m"
    by (auto simp: SetStatus_def)
  then show "balanced tr m \<Longrightarrow> ?thesis" by (simp only: balanced_def simp_thms)
qed

text \<open>A program that keeps the balance of starts and stops.\<close>

definition pool_rel :: "('l \<Rightarrow> manager_map) \<Rightarrow> (event, 'w, 'l) io \<Rightarrow> (event, 'w, 'l) io \<Rightarrow> bool" where
  "pool_rel get s t \<longleftrightarrow> (balanced (trace s) (get (local s)) \<longrightarrow> balanced (trace t) (get (local t)))"

interpretation pool_frame: frame "pool_rel get" for get
  by unfold_locales (auto simp: pool_rel_def)

lemma pool_quiet:
  assumes "emits quiet m" and "keeps get m"
  shows "obeys (pool_rel get) m"
proof -
  have "pool_rel get s (snd (m s))" for s
  proof (cases "m s")
    case (Pair r t)
    from emitsD [OF assms(1) Pair] obtain tr where "trace t = trace s @ tr" "list_all quiet tr" by blast
    with keepsD [OF assms(2) Pair] Pair show ?thesis by (simp add: pool_rel_def balanced_quiet)
  qed
  then show ?thesis by (simp add: obeys_def)
qed

lemma alist_update_new: "k \<notin> fst ` set m \<Longrightarrow> AList.update k v m = m @ [(k, v)]"
  by (induction m) auto

lemma alist_delete_all: "foldl (\<lambda>m k. AList.delete k m) m ks = filter (\<lambda>(k, _). k \<notin> set ks) m"
proof (induction ks arbitrary: m)
  case (Cons k ks)
  have "foldl (\<lambda>m k. AList.delete k m) m (k # ks) = filter (\<lambda>(k, _). k \<notin> set ks) (AList.delete k m)"
    by (simp add: Cons.IH)
  also have "\<dots> = filter (\<lambda>(j, _). j \<notin> set (k # ks)) m"
    unfolding AList.delete_eq filter_filter by (rule filter_cong) auto
  finally show ?case .
qed simp

lemma map_of_filter_key: "map_of (filter (\<lambda>(k, _). k \<notin> A) m) k = (if k \<in> A then None else map_of m k)"
  by (induction m) auto

lemma deferred_keeps: "keeps f m \<Longrightarrow> (\<And>l. f (d l) = f l) \<Longrightarrow> keeps f (deferred d m)"
  by (auto simp: obeys_def keeps_rel_def deferred_def split: prod.split)
    (metis snd_conv)

lemma deferred_emits: "emits P m \<Longrightarrow> emits P (deferred d m)"
  by (auto simp: obeys_def emits_rel_def deferred_def split: prod.split) (metis snd_conv)

lemma keeps_of_all: "keeps (\<lambda>l. l) m \<Longrightarrow> keeps f m"
  by (simp add: obeys_def keeps_rel_def)

text \<open>Taking the managers of some keys out of the map, in the order of the keys.\<close>

definition taken :: "manager_map \<Rightarrow> string list \<Rightarrow> string list" where
  "taken m ks = map (\<lambda>k. rm_key (the (map_of m k))) ks"

lemma count_map_filter:
  "count_list (map f xs) k = count_list (map f (filter P xs)) k + count_list (map f (filter (\<lambda>x. \<not> P x) xs)) k"
  by (induction xs) auto

lemma mset_taken:
  assumes "distinct (map fst m)" and "distinct ks" and "set ks \<subseteq> fst ` set m"
  shows "mset (taken m ks) = mset (map (rm_key \<circ> snd) (filter (\<lambda>(k, _). k \<in> set ks) m))"
proof -
  have d: "distinct (map fst (filter (\<lambda>(k, _). k \<in> set ks) m))"
    using assms(1) by (simp add: distinct_map_filter)
  have "set ks = set (map fst (filter (\<lambda>(k, _). k \<in> set ks) m))" using assms(3) by force
  with assms(2) d have ks: "mset ks = mset (map fst (filter (\<lambda>(k, _). k \<in> set ks) m))"
    by (metis set_eq_iff_mset_eq_distinct)
  have "mset (taken m ks) = image_mset (\<lambda>k. rm_key (the (map_of m k))) (mset ks)"
    by (simp add: taken_def)
  also have "\<dots> = mset (map (\<lambda>x. rm_key (the (map_of m (fst x)))) (filter (\<lambda>(k, _). k \<in> set ks) m))"
    unfolding ks by (simp add: image_mset.compositionality comp_def)
  also have "map (\<lambda>x. rm_key (the (map_of m (fst x)))) (filter (\<lambda>(k, _). k \<in> set ks) m)
      = map (rm_key \<circ> snd) (filter (\<lambda>(k, _). k \<in> set ks) m)"
    using assms(1) by (intro map_cong) auto
  finally show ?thesis .
qed

lemma count_list_mset: "count_list xs k = count (mset xs) k"
  by (induction xs) auto

section \<open>The contract and what follows from it\<close>

locale manager_pool =
  fixes get :: "'l \<Rightarrow> manager_map"
    and upd :: "(manager_map \<Rightarrow> manager_map) \<Rightarrow> 'l \<Rightarrow> 'l"
    and create :: "string \<Rightarrow> ('w, 'l, RemoteManager) op"
  assumes get_upd: "get (upd f l) = f (get l)"
    and create_quiet: "emits quiet (create k)"
    and create_keeps: "keeps (\<lambda>l. l) (create k)"
begin

lemma stop_loop:
  assumes "distinct (map fst (get (local s)))" and "set ks \<subseteq> fst ` set (get (local s))"
  shows "\<exists>w. for_each (\<lambda>_. stop_manager E get) () ks s
     = (Ret (), s\<lparr>trace := trace s @ map (Remote \<circ> ManagerStop) (taken (get (local s)) ks), world := w\<rparr>)"
  using assms
proof (induction ks arbitrary: s)
  case Nil
  show ?case by (auto simp: ret_def taken_def intro: exI [of _ "world s"])
next
  case (Cons k ks)
  from Cons.prems obtain rm where rm: "map_of (get (local s)) k = Some rm" by (auto simp: weak_map_of_SomeI)
  let ?s = "s\<lparr>trace := trace s @ [Remote (ManagerStop (rm_key rm))], world := m_Stop (e_remote E) (rm_key rm) (world s)\<rparr>"
  have "stop_manager E get k s = (Ret (), ?s)"
    using rm by (simp add: stop_manager_def manager_Stop_def request_def bnd_def prog_simps RemoteManager_GetKey_def)
  moreover from Cons.IH [of ?s] Cons.prems obtain w where "for_each (\<lambda>_. stop_manager E get) () ks ?s
      = (Ret (), ?s\<lparr>trace := trace ?s @ map (Remote \<circ> ManagerStop) (taken (get (local s)) ks), world := w\<rparr>)"
    by (auto simp: comp_def)
  ultimately show ?case using rm by (auto simp: bnd_def comp_def taken_def)
qed

lemma add_manager_cases:
  assumes run: "add_manager E upd create k s = (r, t)"
  obtains (added) rm w tr where "r = Ret ()" "\<exists>u. create k s = (Ret rm, u)"
      "control tr = [Remote (ManagerStart (rm_key rm))]"
      "t = \<lparr>trace = trace s @ tr, world = w, local = upd (AList.update k rm) (local s)\<rparr>"
  | (failed) w tr where "r \<noteq> Ret ()" "control tr = []" "t = \<lparr>trace = trace s @ tr, world = w, local = local s\<rparr>"
proof -
  obtain r' u where c: "create k s = (r', u)" by fastforce
  from emitsD [OF create_quiet c] obtain tr where tr: "trace u = trace s @ tr" "list_all quiet tr" by blast
  have loc: "local u = local s" using keepsD [OF create_keeps c] .
  show thesis
  proof (cases r')
    case (Ret rm)
    have "r = Ret () \<and> t = \<lparr>trace = trace s @ tr @ [Remote (ManagerStart (rm_key rm))],
        world = m_Start (e_remote E) (rm_key rm) (world u), local = upd (AList.update k rm) (local s)\<rparr>"
      using run c Ret tr(1) loc
      by (cases u) (simp add: add_manager_def bnd_def seq_def prog_simps manager_Start_def request_def RemoteManager_GetKey_def)
    moreover have "control (tr @ [Remote (ManagerStart (rm_key rm))]) = [Remote (ManagerStart (rm_key rm))]"
      using control_quiet [OF tr(2)] by simp
    ultimately show thesis using c Ret added by blast
  next
    case (Fail x2)
    then show thesis using run c tr loc failed [of tr "world u"]
      by (auto simp: add_manager_def bnd_def control_quiet)
  next
    case (Panic x3)
    then show thesis using run c tr loc failed [of tr "world u"]
      by (auto simp: add_manager_def bnd_def control_quiet)
  qed
qed

lemma add_loop:
  assumes "for_each (\<lambda>_. add_manager E upd create) () ks s = (r, t)"
    and "distinct ks" and "set ks \<inter> fst ` set (get (local s)) = {}"
  shows "\<exists>news rest tr. ks = map fst news @ rest \<and> (r = Ret () \<longrightarrow> rest = [])
     \<and> (\<forall>(k, rm) \<in> set news. \<exists>v u. create k v = (Ret rm, u))
     \<and> get (local t) = get (local s) @ news
     \<and> trace t = trace s @ tr \<and> control tr = map (Remote \<circ> ManagerStart) (map (rm_key \<circ> snd) news)"
  using assms
proof (induction ks arbitrary: s)
  case Nil
  then show ?case by (auto simp: ret_def intro!: exI [of _ "[]"])
next
  case (Cons k ks)
  obtain r' u where k: "add_manager E upd create k s = (r', u)" by fastforce
  from k show ?case
  proof (cases rule: add_manager_cases)
    case (added rm w tr)
    have u: "get (local u) = get (local s) @ [(k, rm)]"
      using Cons.prems(3) by (simp add: added(4) alist_update_new get_upd)
    have "\<exists>news rest tr. ks = map fst news @ rest \<and> (r = Ret () \<longrightarrow> rest = [])
       \<and> (\<forall>(k, rm) \<in> set news. \<exists>v u. create k v = (Ret rm, u))
       \<and> get (local t) = get (local u) @ news
       \<and> trace t = trace u @ tr \<and> control tr = map (Remote \<circ> ManagerStart) (map (rm_key \<circ> snd) news)"
      by (rule Cons.IH) (use Cons.prems k added(1) u in \<open>auto simp: bnd_def\<close>)
    then obtain news rest tr' where n: "ks = map fst news @ rest" "r = Ret () \<longrightarrow> rest = []"
      "\<forall>(k, rm) \<in> set news. \<exists>v u. create k v = (Ret rm, u)" "get (local t) = get (local u) @ news"
      "trace t = trace u @ tr'" "control tr' = map (Remote \<circ> ManagerStart) (map (rm_key \<circ> snd) news)" by blast
    with added u show ?thesis by (intro exI [of _ "(k, rm) # news"] exI [of _ rest] exI [of _ "tr @ tr'"]) auto
  next
    case (failed w tr)
    with Cons.prems(1) k have "r = r'" "t = u" by (auto simp: bnd_def split: outcome.splits)
    with failed show ?thesis by (intro exI [of _ "[]"] exI [of _ "k # ks"] exI [of _ tr]) auto
  qed
qed

text \<open>Every outcome of the synchronisation: the managers of keys that are not needed are stopped
  and taken out; of the missing keys a first part, and on success all, get a manager that is
  created, filed and started.\<close>

lemma sync_cases:
  assumes ok: "strset_ok E" and d: "distinct (map fst (get (local s)))"
    and run: "sync_managers E get upd create needed s = (r, t)"
  obtains removed news rest tr where
    "distinct removed" "set removed = fst ` set (get (local s)) - set needed"
    "distinct (map fst news @ rest)" "set (map fst news @ rest) = set needed - fst ` set (get (local s))"
    "r = Ret () \<longrightarrow> rest = []" "\<forall>(k, rm) \<in> set news. \<exists>v u. create k v = (Ret rm, u)"
    "get (local t) = filter (\<lambda>(k, _). k \<notin> set removed) (get (local s)) @ news"
    "trace t = trace s @ tr"
    "control tr = map (Remote \<circ> ManagerStop) (taken (get (local s)) removed)
       @ map (Remote \<circ> ManagerStart) (map (rm_key \<circ> snd) news)"
proof -
  let ?S = "e_strset E" and ?cur = "map fst (get (local s))"
  define toAdd where "toAdd = ss_List ?S (ss_Difference ?S (foldl (ss_Add ?S) (ss_New ?S []) needed)
      (foldl (ss_Add ?S) (ss_New ?S []) ?cur))"
  define toRemove where "toRemove = ss_List ?S (ss_Difference ?S (foldl (ss_Add ?S) (ss_New ?S []) ?cur)
      (foldl (ss_Add ?S) (ss_New ?S []) needed))"
  have sets: "distinct toAdd" "set toAdd = set needed - set ?cur" "distinct toRemove" "set toRemove = set ?cur - set needed"
    unfolding toAdd_def toRemove_def using strset_collected [OF ok] by blast+
  obtain w where stop: "for_each (\<lambda>_. stop_manager E get) () toRemove s
      = (Ret (), s\<lparr>trace := trace s @ map (Remote \<circ> ManagerStop) (taken (get (local s)) toRemove), world := w\<rparr>)"
    using stop_loop [OF d, of toRemove E] sets(4) by fastforce
  let ?s = "s\<lparr>trace := trace s @ map (Remote \<circ> ManagerStop) (taken (get (local s)) toRemove), world := w\<rparr>"
  obtain r' u where add: "for_each (\<lambda>_. add_manager E upd create) () toAdd ?s = (r', u)" by fastforce
  have run': "sync_managers E get upd create needed s
      = (r', u\<lparr>local := upd (\<lambda>m. foldl (\<lambda>m k. AList.delete k m) m toRemove) (local u)\<rparr>)"
    using stop add
    by (simp add: sync_managers_def deferred_def bnd_def seq_def prog_simps Let_def flip: toAdd_def toRemove_def)
  from add_loop [OF add sets(1)] sets(2) obtain news rest tr where n: "toAdd = map fst news @ rest"
    "r' = Ret () \<longrightarrow> rest = []" "\<forall>(k, rm) \<in> set news. \<exists>v u. create k v = (Ret rm, u)"
    "get (local u) = get (local s) @ news" "trace u = trace ?s @ tr"
    "control tr = map (Remote \<circ> ManagerStart) (map (rm_key \<circ> snd) news)" by auto
  have "fst ` set news \<subseteq> set toAdd" unfolding n(1) by auto
  then have "filter (\<lambda>(k, _). k \<notin> set toRemove) news = news"
    using sets(2,4) by (intro filter_True) auto
  moreover have "control (map (Remote \<circ> ManagerStop) ks) = map (Remote \<circ> ManagerStop) ks" for ks
    by (induction ks) auto
  ultimately show thesis
    using that [of toRemove news rest "map (Remote \<circ> ManagerStop) (taken (get (local s)) toRemove) @ tr"] sets n run run'
    by (auto simp: alist_delete_all get_upd)
qed

lemma sync_balanced:
  assumes ok: "strset_ok E" and b: "balanced (trace s) (get (local s))"
    and run: "sync_managers E get upd create needed s = (r, t)"
  shows "balanced (trace t) (get (local t))"
proof -
  let ?m = "get (local s)"
  from b have d: "distinct (map fst ?m)" by (simp add: balanced_def)
  from ok d run obtain removed news rest tr where c: "distinct removed" "set removed = fst ` set ?m - set needed"
    "distinct (map fst news @ rest)" "set (map fst news @ rest) = set needed - fst ` set ?m"
    "get (local t) = filter (\<lambda>(k, _). k \<notin> set removed) ?m @ news" "trace t = trace s @ tr"
    "control tr = map (Remote \<circ> ManagerStop) (taken ?m removed) @ map (Remote \<circ> ManagerStart) (map (rm_key \<circ> snd) news)"
    by (rule sync_cases)
  have "live tr k = int (count_list (map (rm_key \<circ> snd) news) k) - int (count_list (taken ?m removed) k)" for k
    using live_control [of tr k] unfolding c(7) by (simp add: live_append live_starts live_stops del: map_map)
  moreover have "mset (taken ?m removed) = mset (map (rm_key \<circ> snd) (filter (\<lambda>(k, _). k \<in> set removed) ?m))"
    by (rule mset_taken [OF d c(1)]) (use c(2) in auto)
  then have "count_list (map (rm_key \<circ> snd) ?m) k = count_list (taken ?m removed) k
      + count_list (map (rm_key \<circ> snd) (filter (\<lambda>(k, _). k \<notin> set removed) ?m)) k" for k
    using count_map_filter [of "rm_key \<circ> snd" ?m k "\<lambda>(k, _). k \<in> set removed"]
    by (simp add: count_list_mset case_prod_unfold)
  moreover have "fst ` set news \<inter> fst ` set ?m = {}" using c(4) by auto
  then have "distinct (map fst (filter (\<lambda>(k, _). k \<notin> set removed) ?m @ news))"
    using d c(3) by (auto simp: distinct_map_filter)
  ultimately show ?thesis using b unfolding balanced_def c(5,6) by (simp add: live_append)
qed

text \<open>After a success the map holds exactly the needed keys, with the managers that were already there.\<close>

lemma sync_success:
  assumes ok: "strset_ok E" and d: "distinct (map fst (get (local s)))"
    and run: "sync_managers E get upd create needed s = (Ret (), t)"
  shows "fst ` set (get (local t)) = set needed"
    and "k \<in> set needed \<Longrightarrow> map_of (get (local s)) k = Some rm \<Longrightarrow> map_of (get (local t)) k = Some rm"
    and "map_of (get (local s)) k = None \<Longrightarrow> map_of (get (local t)) k = Some rm \<Longrightarrow> \<exists>v u. create k v = (Ret rm, u)"
proof -
  let ?m = "get (local s)"
  from ok d run obtain removed news rest tr where c: "set removed = fst ` set ?m - set needed"
    "set (map fst news @ rest) = set needed - fst ` set ?m" "Ret () = Ret () \<longrightarrow> rest = []"
    "\<forall>(k, rm) \<in> set news. \<exists>v u. create k v = (Ret rm, u)"
    "get (local t) = filter (\<lambda>(k, _). k \<notin> set removed) ?m @ news"
    by (rule sync_cases)
  then have news: "fst ` set news = set needed - fst ` set ?m" by simp
  have "fst ` set (filter (\<lambda>(k, _). k \<notin> set removed) ?m) = fst ` set ?m - set removed" by force
  then have "fst ` set (get (local t)) = (fst ` set ?m - set removed) \<union> fst ` set news"
    unfolding c(5) by (simp add: image_Un)
  moreover have "A - (A - B) \<union> (B - A) = B" for A B :: "string set" by blast
  ultimately show "fst ` set (get (local t)) = set needed" by (simp only: news c(1))
  show "map_of (get (local t)) k = Some rm" if "k \<in> set needed" "map_of ?m k = Some rm"
  proof -
    have "map_of news k = None" using news map_of_SomeD [OF that(2)] by (force simp: map_of_eq_None_iff)
    moreover have "k \<notin> set removed" using c(1) that(1) by blast
    ultimately show ?thesis unfolding c(5) using that(2) by (simp add: map_of_filter_key map_add_def)
  qed
  show "\<exists>v u. create k v = (Ret rm, u)" if "map_of ?m k = None" "map_of (get (local t)) k = Some rm"
    using that c(4) unfolding c(5) by (auto simp: map_of_filter_key map_add_def split: option.splits if_splits dest!: map_of_SomeD)
qed

text \<open>When every manager can be created the synchronisation succeeds.\<close>

lemma add_loop_returns:
  assumes "\<And>k s. \<exists>rm u. create k s = (Ret rm, u)"
  shows "\<exists>t. for_each (\<lambda>_. add_manager E upd create) () ks s = (Ret (), t)"
proof (induction ks arbitrary: s)
  case (Cons k ks)
  from assms obtain rm u where "create k s = (Ret rm, u)" by blast
  then obtain u where "add_manager E upd create k s = (Ret (), u)"
    by (simp add: add_manager_def bnd_def seq_def prog_simps manager_Start_def request_def)
  with Cons.IH [of u] show ?case by (simp add: bnd_def)
qed (simp add: ret_def)

lemma sync_returns:
  assumes "strset_ok E" and "distinct (map fst (get (local s)))" and create: "\<And>k s. \<exists>rm u. create k s = (Ret rm, u)"
  shows "\<exists>t. sync_managers E get upd create needed s = (Ret (), t)"
proof -
  let ?S = "e_strset E" and ?cur = "map fst (get (local s))"
  let ?remove = "ss_List ?S (ss_Difference ?S (foldl (ss_Add ?S) (ss_New ?S []) ?cur)
      (foldl (ss_Add ?S) (ss_New ?S []) needed))"
  have "set ?remove \<subseteq> fst ` set (get (local s))" using strset_collected(1) [OF assms(1), of ?cur needed] by auto
  from stop_loop [OF assms(2) this, of E] obtain u where stop: "for_each (\<lambda>_. stop_manager E get) () ?remove s = (Ret (), u)"
    by blast
  obtain t where "for_each (\<lambda>_. add_manager E upd create) () (ss_List ?S (ss_Difference ?S
      (foldl (ss_Add ?S) (ss_New ?S []) needed) (foldl (ss_Add ?S) (ss_New ?S []) ?cur))) u = (Ret (), t)"
    using add_loop_returns [OF create] by blast
  with stop show ?thesis by (simp add: sync_managers_def deferred_def bnd_def seq_def prog_simps Let_def)
qed

lemma sync_keeps:
  assumes "\<And>f l. h (upd f l) = h l"
  shows "keeps h (sync_managers E get upd create needed)"
  unfolding sync_managers_def stop_manager_def add_manager_def manager_Start_def manager_Stop_def Let_def
  by (intro frame_intros assms deferred_keeps keeps_of_all [OF create_keeps])

end

lemma sync_emits:
  assumes "\<And>k. emits P (create k)" and "\<And>k. P (Remote (ManagerStart k))" and "\<And>k. P (Remote (ManagerStop k))"
  shows "emits P (sync_managers E get upd create needed)"
  unfolding sync_managers_def stop_manager_def add_manager_def manager_Start_def manager_Stop_def Let_def
  by (intro frame_intros assms deferred_emits)

end
