(* ===== verification/Goroutines.thy ===== *)
theory Goroutines
  imports Services
begin

text \<open>
  Goroutines. The Google provider starts one goroutine per endpoint, which starts one goroutine per
  zone, and collects their results over unbuffered channels. A goroutine is a resumption: it is
  about to send its result, or it makes one atomic step, a request or an access to a shared
  variable, and goes on. The state of the steps is a pair of the variables the goroutines share and
  the state of the program that started them.

  \<open>weave\<close> runs goroutines concurrently. The schedule, a list of indices, says which goroutine moves
  next; when it is used up the remaining goroutines finish one after the other, so that every
  interleaving of the steps is the one of some schedule, and every schedule gives a run that ends.
  The results are in the order in which they arrive. A panic in a goroutine ends the program.
\<close>

section \<open>Threads\<close>

datatype ('s, 'a) thread = Done "'a outcome" | Step "'s \<Rightarrow> 's" "'s \<Rightarrow> ('s, 'a) thread"

primrec run :: "('s, 'a) thread \<Rightarrow> 's \<Rightarrow> 'a outcome \<times> 's" where
  "run (Done r) s = (r, s)"
| "run (Step n k) s = run (k s) (n s)"

primrec tbnd :: "('s, 'a) thread \<Rightarrow> ('a \<Rightarrow> ('s, 'b) thread) \<Rightarrow> ('s, 'b) thread" where
  "tbnd (Done r) f = (case r of Ret a \<Rightarrow> f a | Fail e \<Rightarrow> Done (Fail e) | Panic p \<Rightarrow> Done (Panic p))"
| "tbnd (Step n k) f = Step n (\<lambda>s. tbnd (k s) f)"

text \<open>\<open>tattempt\<close> hands an error to the goroutine itself, as \<open>x, err := m()\<close> does.\<close>

primrec tattempt :: "('s, 'a) thread \<Rightarrow> ('s, error + 'a) thread" where
  "tattempt (Done r) = Done (case r of Ret a \<Rightarrow> Ret (Inr a) | Fail e \<Rightarrow> Ret (Inl e) | Panic p \<Rightarrow> Panic p)"
| "tattempt (Step n k) = Step n (\<lambda>s. tattempt (k s))"

type_synonym ('v, 'w, 'l) shared_state = "'v \<times> (event, 'w, 'l) io"

text \<open>One atomic step: a program that sends at most one request, or an access to the shared variables.\<close>

definition act :: "('w, 'l, 'a) op \<Rightarrow> (('v, 'w, 'l) shared_state, 'a) thread" where
  "act m = Step (\<lambda>(v, s). (v, snd (m s))) (\<lambda>(v, s). Done (fst (m s)))"

definition access :: "('v \<Rightarrow> 'a \<times> 'v) \<Rightarrow> (('v, 'w, 'l) shared_state, 'a) thread" where
  "access f = Step (\<lambda>(v, s). (snd (f v), s)) (\<lambda>(v, s). Done (Ret (fst (f v))))"

text \<open>The body of a goroutine ends by sending an error, or nil, on the channel.\<close>

primrec sends :: "('s, unit) thread \<Rightarrow> ('s, error option) thread" where
  "sends (Done r) = Done (case r of Ret _ \<Rightarrow> Ret None | Fail e \<Rightarrow> Ret (Some e) | Panic p \<Rightarrow> Panic p)"
| "sends (Step n k) = Step n (\<lambda>s. sends (k s))"

section \<open>Running goroutines concurrently\<close>

primrec finish_all :: "('s, 'a) thread list \<Rightarrow> 'a list \<Rightarrow> ('s, 'a list) thread" where
  "finish_all [] acc = Done (Ret acc)"
| "finish_all (t # ts) acc = tbnd t (\<lambda>a. finish_all ts (acc @ [a]))"

text \<open>A step that ends in a panic ends the program at once; a goroutine that is done sends its result.\<close>

fun weave :: "nat list \<Rightarrow> ('s, 'a) thread list \<Rightarrow> 'a list \<Rightarrow> ('s, 'a list) thread" where
  "weave [] ts acc = finish_all ts acc"
| "weave (i # sched) ts acc =
     (if i < length ts then
        (case ts ! i of
           Done (Ret a) \<Rightarrow> weave sched (take i ts @ drop (Suc i) ts) (acc @ [a])
         | Done (Fail e) \<Rightarrow> Done (Fail e)
         | Done (Panic p) \<Rightarrow> Done (Panic p)
         | Step n k \<Rightarrow> Step n (\<lambda>s. (case k s of
               Done (Panic p) \<Rightarrow> Done (Panic p)
             | t \<Rightarrow> weave sched (ts[i := t]) acc)))
      else weave sched ts acc)"

text \<open>A goroutine program is run from the program that starts it with initial values of the shared
  variables and returns their final values too.\<close>

definition run_goroutines :: "'v \<Rightarrow> (('v, 'w, 'l) shared_state, 'a) thread \<Rightarrow> ('w, 'l, 'a \<times> 'v) op" where
  "run_goroutines v t = (\<lambda>s. case run t (v, s) of
      (Ret a, (v', s')) \<Rightarrow> (Ret (a, v'), s')
    | (Fail e, (v', s')) \<Rightarrow> (Fail e, s')
    | (Panic p, (v', s')) \<Rightarrow> (Panic p, s'))"

text \<open>How the runtime interleaves the goroutines of the endpoints of a record, and the goroutines of the
  zones of one endpoint.\<close>

record schedule =
  sch_endpoints :: "nat list"
  sch_zones :: "string \<Rightarrow> nat list"

section \<open>What threads may do\<close>

text \<open>Every step is allowed by \<open>R\<close>; the state in which a step is made is arbitrary, since the other
  goroutines may have moved.\<close>

primrec tobeys :: "('s \<Rightarrow> 's \<Rightarrow> bool) \<Rightarrow> ('s, 'a) thread \<Rightarrow> bool" where
  "tobeys R (Done r) = True"
| "tobeys R (Step n k) = (\<forall>s. R s (n s) \<and> tobeys R (k s))"

lemma tobeys_tbnd: "tobeys R t \<Longrightarrow> (\<And>a. tobeys R (f a)) \<Longrightarrow> tobeys R (tbnd t f)"
  by (induction t) (auto split: outcome.split)

lemma tobeys_tattempt: "tobeys R t \<Longrightarrow> tobeys R (tattempt t)"
  by (induction t) auto

lemma tobeys_sends: "tobeys R t \<Longrightarrow> tobeys R (sends t)"
  by (induction t) auto

lemma tobeys_finish_all: "list_all (tobeys R) ts \<Longrightarrow> tobeys R (finish_all ts acc)"
  by (induction ts arbitrary: acc) (auto intro: tobeys_tbnd)

lemma tobeys_weave: "list_all (tobeys R) ts \<Longrightarrow> tobeys R (weave sched ts acc)"
proof (induction sched arbitrary: ts acc)
  case Nil
  then show ?case by (simp add: tobeys_finish_all)
next
  case (Cons i sched)
  show ?case
  proof (cases "i < length ts")
    case True
    with Cons.prems have ti: "tobeys R (ts ! i)" by (simp add: list_all_length)
    show ?thesis
    proof (cases "ts ! i")
      case (Done r)
      have "list_all (tobeys R) (take i ts @ drop (Suc i) ts)"
        using Cons.prems by (auto simp: list_all_iff dest: in_set_takeD in_set_dropD)
      with Cons.IH True Done show ?thesis by (simp split: outcome.split)
    next
      case (Step n k)
      have upd: "tobeys R (weave sched (ts[i := t]) acc)" if "tobeys R t" for t
        using Cons.prems that set_update_subset_insert [of ts i t] by (intro Cons.IH) (auto simp: list_all_iff)
      from ti Step have nk: "R s (n s)" "tobeys R (k s)" for s by auto
      have "tobeys R (case k s of Done (Panic p) \<Rightarrow> Done (Panic p) | t \<Rightarrow> weave sched (ts[i := t]) acc)" for s
        using upd [OF nk(2) [of s]] by (cases "k s") (auto split: outcome.split)
      with True Step nk show ?thesis by (simp split: thread.split outcome.split)
    qed
  next
    case False
    with Cons show ?thesis by simp
  qed
qed

text \<open>The relation on the part of the state that the goroutines share with the program around them.\<close>

definition inner :: "((event, 'w, 'l) io \<Rightarrow> (event, 'w, 'l) io \<Rightarrow> bool) \<Rightarrow>
    ('v, 'w, 'l) shared_state \<Rightarrow> ('v, 'w, 'l) shared_state \<Rightarrow> bool" where
  "inner R x y \<longleftrightarrow> R (snd x) (snd y)"

named_theorems thread_intros \<open>rules for tobeys over the constructors of threads\<close>

lemmas [thread_intros] = tobeys_tbnd tobeys_tattempt tobeys_sends tobeys_weave

lemma tobeys_Done [thread_intros]: "tobeys R (Done r)"
  by simp

lemma tobeys_if [thread_intros]: "(c \<Longrightarrow> tobeys R t) \<Longrightarrow> (\<not> c \<Longrightarrow> tobeys R u) \<Longrightarrow> tobeys R (if c then t else u)"
  by simp

lemma tobeys_case [thread_intros]:
  "(\<And>e. tobeys R (f e)) \<Longrightarrow> (\<And>a. tobeys R (g a)) \<Longrightarrow> tobeys R (case x of Inl e \<Rightarrow> f e | Inr a \<Rightarrow> g a)"
  "tobeys R t \<Longrightarrow> (\<And>a. tobeys R (h a)) \<Longrightarrow> tobeys R (case y of None \<Rightarrow> t | Some a \<Rightarrow> h a)"
  "(\<And>a b. tobeys R (k a b)) \<Longrightarrow> tobeys R (case z of (a, b) \<Rightarrow> k a b)"
  by (auto split: sum.split option.split prod.split)

lemma tobeys_act [thread_intros]: "obeys R m \<Longrightarrow> tobeys (inner R) (act m)"
  by (auto simp: act_def inner_def obeys_def)

lemma tobeys_access [thread_intros]: "(\<And>s. R s s) \<Longrightarrow> tobeys (inner R) (access f)"
  by (auto simp: access_def inner_def)

lemma run_obeys:
  assumes "frame R" and "tobeys (inner R) t"
  shows "R (snd s) (snd (snd (run t s)))"
  using assms(2)
proof (induction t arbitrary: s)
  case (Step n k)
  then have step: "inner R s (n s)" "tobeys (inner R) (k s)" by (cases s; simp)+
  from Step.IH [OF rangeI this(2)] have "R (snd (n s)) (snd (snd (run (k s) (n s))))" .
  with step(1) [unfolded inner_def] frame.R_trans [OF assms(1)] show ?case by simp
qed (simp add: frame.R_refl [OF assms(1)])

lemma goroutines_obey:
  assumes "frame R" and "tobeys (inner R) t"
  shows "obeys R (run_goroutines v t)"
proof -
  have "R s (snd (run_goroutines v t s))" for s
    using run_obeys [OF assms, of "(v, s)"] by (auto simp: run_goroutines_def split: prod.split outcome.split)
  then show ?thesis by (simp add: obeys_def)
qed

lemmas goroutine_frames = goroutines_obey [OF emits_frame.frame_axioms] goroutines_obey [OF keeps_frame.frame_axioms]

section \<open>What a goroutine achieves among others\<close>

text \<open>
  \<open>tspec R Q t s\<close>: run from \<open>s\<close>, between whose steps the other goroutines make any moves that \<open>R\<close>
  allows, the goroutine ends with a result and in a state that satisfy \<open>Q\<close>.
\<close>

primrec tspec :: "('s \<Rightarrow> 's \<Rightarrow> bool) \<Rightarrow> ('a outcome \<Rightarrow> 's \<Rightarrow> bool) \<Rightarrow> ('s, 'a) thread \<Rightarrow> 's \<Rightarrow> bool" where
  "tspec R Q (Done r) = (\<lambda>s. Q r s)"
| "tspec R Q (Step n k) = (\<lambda>s. \<forall>s'. R s s' \<longrightarrow> tspec R Q (k s') (n s'))"

definition stable :: "('s \<Rightarrow> 's \<Rightarrow> bool) \<Rightarrow> ('a outcome \<Rightarrow> 's \<Rightarrow> bool) \<Rightarrow> bool" where
  "stable R Q \<longleftrightarrow> (\<forall>r s t. Q r s \<longrightarrow> R s t \<longrightarrow> Q r t)"

lemma run_tbnd:
  "run (tbnd t f) s = (case run t s of (Ret a, s') \<Rightarrow> run (f a) s' | (Fail e, s') \<Rightarrow> (Fail e, s') | (Panic p, s') \<Rightarrow> (Panic p, s'))"
  by (induction t arbitrary: s) (auto split: outcome.split)

lemma tspec_tbnd:
  "tspec R (\<lambda>r s. case r of Ret a \<Rightarrow> tspec R Q (f a) s | Fail e \<Rightarrow> Q (Fail e) s | Panic p \<Rightarrow> Q (Panic p) s) t s \<Longrightarrow>
     tspec R Q (tbnd t f) s"
  by (induction t arbitrary: s) (auto split: outcome.splits)

lemma tspec_tattempt:
  "tspec R (\<lambda>r s. case r of Ret a \<Rightarrow> Q (Ret (Inr a)) s | Fail e \<Rightarrow> Q (Ret (Inl e)) s | Panic p \<Rightarrow> Q (Panic p) s) t s \<Longrightarrow>
     tspec R Q (tattempt t) s"
  by (induction t arbitrary: s) (auto split: outcome.splits)

lemma tspec_sends:
  "tspec R (\<lambda>r s. case r of Ret _ \<Rightarrow> Q (Ret None) s | Fail e \<Rightarrow> Q (Ret (Some e)) s | Panic p \<Rightarrow> Q (Panic p) s) t s \<Longrightarrow>
     tspec R Q (sends t) s"
  by (induction t arbitrary: s) (auto split: outcome.splits)

lemma tspec_act: "(\<And>v' s'. R (v, s) (v', s') \<Longrightarrow> Q (fst (m s')) (v', snd (m s'))) \<Longrightarrow> tspec R Q (act m) (v, s)"
  by (auto simp: act_def)

lemma tspec_access: "(\<And>v' s'. R (v, s) (v', s') \<Longrightarrow> Q (Ret (fst (f v'))) (snd (f v'), s')) \<Longrightarrow> tspec R Q (access f) (v, s)"
  by (auto simp: access_def)

lemma tspec_mono: "tspec R Q t s \<Longrightarrow> (\<And>r s. Q r s \<Longrightarrow> Q' r s) \<Longrightarrow> tspec R Q' t s"
  by (induction t arbitrary: s) auto

locale interference =
  fixes R :: "'s \<Rightarrow> 's \<Rightarrow> bool"
  assumes refl: "R s s" and trans: "R s t \<Longrightarrow> R t u \<Longrightarrow> R s u"
begin

lemma tspec_later:
  assumes "stable R Q" and "tspec R Q t s" and "R s s'"
  shows "tspec R Q t s'"
  using assms(2,3) by (cases t) (auto simp: assms(1) [unfolded stable_def] intro: trans)

lemma tspec_run: "tspec R Q t s \<Longrightarrow> tobeys R t \<Longrightarrow> Q (fst (run t s)) (snd (run t s)) \<and> R s (snd (run t s))"
proof (induction t arbitrary: s)
  case (Step n k)
  then have "tspec R Q (k s) (n s)" "tobeys R (k s)" "R s (n s)" using refl by auto
  with Step.IH [of "k s" "n s"] show ?case by (auto intro: trans)
qed (simp add: refl)

lemma tspec_any:
  assumes "tobeys R t" and "\<And>r s'. R s s' \<Longrightarrow> Q r s'"
  shows "tspec R Q t s"
  using assms
proof (induction t arbitrary: s)
  case (Step n k)
  have "tspec R Q (k s') (n s')" if "R s s'" for s'
  proof (rule Step.IH)
    show "k s' \<in> range k" "tobeys R (k s')" using Step.prems(1) by simp_all
    show "Q r u" if "R (n s') u" for r u
      using Step.prems(1) \<open>R s s'\<close> that by (intro Step.prems(2)) (auto intro: trans)
  qed
  then show ?case by simp
qed (simp add: refl)

lemma tspec_moved:
  assumes "tobeys R t" and "tspec R Q t s"
  shows "tspec R (\<lambda>r s'. Q r s' \<and> R s s') t s"
proof -
  have "tspec R (\<lambda>r s'. Q r s' \<and> R u s') t s" if "R u s" for u
    using assms that
  proof (induction t arbitrary: s)
    case (Step n k)
    have "tspec R (\<lambda>r s'. Q r s' \<and> R u s') (k s') (n s')" if "R s s'" for s'
      using Step.prems that by (intro Step.IH) (auto intro: trans)
    then show ?case by simp
  qed simp
  then show ?thesis using refl by blast
qed

text \<open>What all goroutines achieve, and that the results that have arrived are theirs.\<close>

definition all_achieved :: "('a outcome \<Rightarrow> 's \<Rightarrow> bool) list \<Rightarrow> 'a list \<Rightarrow> 's \<Rightarrow> 'a list outcome \<Rightarrow> 's \<Rightarrow> bool" where
  "all_achieved Qs acc s r s' \<longleftrightarrow> R s s'
     \<and> (\<forall>as. r = Ret as \<longrightarrow> (\<exists>bs. mset as = mset acc + mset bs \<and> list_all2 (\<lambda>Q b. Q (Ret b) s') Qs bs))"

lemma achieved_stop:
  "R s s' \<Longrightarrow> all_achieved Qs acc s (Fail e) s'" "R s s' \<Longrightarrow> all_achieved Qs acc s (Panic p) s'"
  by (simp_all add: all_achieved_def)

lemma achieved_Cons:
  assumes "stable R Q" and "Q (Ret a) u" and "R s u" and "all_achieved Qs (acc @ [a]) u r s'"
  shows "all_achieved (Q # Qs) acc s r s'"
proof -
  have "R u s'" using assms(4) by (simp add: all_achieved_def)
  moreover have "Q (Ret a) s'" using assms(1,2) calculation unfolding stable_def by blast
  moreover have "\<exists>bs. mset as = mset acc + mset bs \<and> list_all2 (\<lambda>Q b. Q (Ret b) s') (Q # Qs) bs" if "r = Ret as" for as
  proof -
    from assms(4) that obtain bs where "mset as = mset (acc @ [a]) + mset bs" "list_all2 (\<lambda>Q b. Q (Ret b) s') Qs bs"
      by (auto simp: all_achieved_def)
    with \<open>Q (Ret a) s'\<close> show ?thesis by (intro exI [of _ "a # bs"]) auto
  qed
  ultimately show ?thesis using assms(3) by (auto simp: all_achieved_def intro: trans)
qed

lemma achieved_perm:
  assumes "all_achieved (Qs ! i # take i Qs @ drop (Suc i) Qs) acc s r s'" and "i < length Qs"
  shows "all_achieved Qs acc s r s'"
proof -
  have "\<exists>bs. mset as = mset acc + mset bs \<and> list_all2 (\<lambda>Q b. Q (Ret b) s') Qs bs" if "r = Ret as" for as
  proof -
    from assms(1) that obtain bs where bs: "mset as = mset acc + mset bs"
      "list_all2 (\<lambda>Q b. Q (Ret b) s') (Qs ! i # take i Qs @ drop (Suc i) Qs) bs"
      by (auto simp: all_achieved_def)
    then obtain a us vs where uv: "bs = a # us @ vs" "(Qs ! i) (Ret a) s'" "list_all2 (\<lambda>Q b. Q (Ret b) s') (take i Qs) us"
      "list_all2 (\<lambda>Q b. Q (Ret b) s') (drop (Suc i) Qs) vs" by (auto simp: list_all2_Cons1 list_all2_append1)
    then have "list_all2 (\<lambda>Q b. Q (Ret b) s') (take i Qs @ Qs ! i # drop (Suc i) Qs) (us @ a # vs)"
      by (intro list_all2_appendI) auto
    then have "list_all2 (\<lambda>Q b. Q (Ret b) s') Qs (us @ a # vs)" using assms(2) by (simp add: id_take_nth_drop [symmetric])
    with bs(1) uv(1) show ?thesis by (intro exI [of _ "us @ a # vs"]) auto
  qed
  with assms(1) show ?thesis by (auto simp: all_achieved_def)
qed

lemma finish_all_tspec:
  assumes "list_all2 (\<lambda>Q t. stable R Q \<and> tspec R Q t s) Qs ts" and "list_all (tobeys R) ts"
  shows "tspec R (all_achieved Qs acc s) (finish_all ts acc) s"
  using assms
proof (induction ts arbitrary: Qs acc s rule: list.induct)
  case Nil
  then show ?case by (auto simp: all_achieved_def refl)
next
  case (Cons t ts)
  then obtain Q Qs' where Qs: "Qs = Q # Qs'" and Q: "stable R Q" "tspec R Q t s"
    and rest: "list_all2 (\<lambda>Q t. stable R Q \<and> tspec R Q t s) Qs' ts" by (auto simp: list_all2_Cons2)
  have later: "tspec R (all_achieved Qs acc s) (finish_all ts (acc @ [a])) u" if "Q (Ret a) u" "R s u" for a u
  proof -
    have "list_all2 (\<lambda>Q t. stable R Q \<and> tspec R Q t u) Qs' ts"
      using rest by (rule list_all2_mono) (auto intro: tspec_later that(2))
    from Cons.IH [OF this] Cons.prems(2) have "tspec R (all_achieved Qs' (acc @ [a]) u) (finish_all ts (acc @ [a])) u" by simp
    then show ?thesis unfolding Qs by (rule tspec_mono) (rule achieved_Cons [OF Q(1) that])
  qed
  have "tobeys R t" using Cons.prems(2) by simp
  from tspec_moved [OF this Q(2)]
  have "tspec R (\<lambda>r u. case r of Ret a \<Rightarrow> tspec R (all_achieved Qs acc s) (finish_all ts (acc @ [a])) u
      | Fail e \<Rightarrow> all_achieved Qs acc s (Fail e) u | Panic p \<Rightarrow> all_achieved Qs acc s (Panic p) u) t s"
  proof (rule tspec_mono)
    fix r u
    assume "Q r u \<and> R s u"
    then show "case r of Ret a \<Rightarrow> tspec R (all_achieved Qs acc s) (finish_all ts (acc @ [a])) u
      | Fail e \<Rightarrow> all_achieved Qs acc s (Fail e) u | Panic p \<Rightarrow> all_achieved Qs acc s (Panic p) u"
      by (cases r) (simp_all add: later achieved_stop)
  qed
  then show ?case unfolding finish_all.simps by (rule tspec_tbnd)
qed

text \<open>Whatever the schedule: when all goroutines have sent their results, every one of them has achieved
  what it achieves among others.\<close>

lemma weave_tspec:
  assumes "list_all2 (\<lambda>Q t. stable R Q \<and> tspec R Q t s) Qs ts" and "list_all (tobeys R) ts"
  shows "tspec R (all_achieved Qs acc s) (weave sched ts acc) s"
  using assms
proof (induction sched arbitrary: ts Qs acc s rule: list.induct)
  case Nil
  then show ?case by (simp add: finish_all_tspec)
next
  case (Cons i sched)
  show ?case
  proof (cases "i < length ts")
    case True
    have len: "length Qs = length ts" using Cons.prems(1) by (rule list_all2_lengthD)
    from Cons.prems(1) True len have qi: "stable R (Qs ! i)" "tspec R (Qs ! i) (ts ! i) s" by (auto dest: list_all2_nthD2)
    from Cons.prems(2) True have ti: "tobeys R (ts ! i)" by (simp add: list_all_length)
    show ?thesis
    proof (cases "ts ! i")
      case (Done r)
      have "list_all2 (\<lambda>Q t. stable R Q \<and> tspec R Q t s) (take i Qs @ drop (Suc i) Qs) (take i ts @ drop (Suc i) ts)"
        using Cons.prems(1) by (intro list_all2_appendI) auto
      moreover have "list_all (tobeys R) (take i ts @ drop (Suc i) ts)"
        using Cons.prems(2) by (auto simp: list_all_iff dest: in_set_takeD in_set_dropD)
      ultimately have rest: "tspec R (all_achieved (take i Qs @ drop (Suc i) Qs) (acc @ [a]) s)
          (weave sched (take i ts @ drop (Suc i) ts) (acc @ [a])) s" for a
        by (rule Cons.IH)
      have "tspec R (all_achieved Qs acc s) (weave sched (take i ts @ drop (Suc i) ts) (acc @ [a])) s" if "r = Ret a" for a
        using rest
      proof (rule tspec_mono)
        fix r' s'
        assume "all_achieved (take i Qs @ drop (Suc i) Qs) (acc @ [a]) s r' s'"
        moreover have "(Qs ! i) (Ret a) s" using qi(2) Done that by simp
        ultimately have "all_achieved (Qs ! i # take i Qs @ drop (Suc i) Qs) acc s r' s'"
          using achieved_Cons [OF qi(1) _ refl] by blast
        then show "all_achieved Qs acc s r' s'" by (rule achieved_perm) (simp add: True len)
      qed
      then show ?thesis using True Done by (cases r) (simp_all add: achieved_stop refl)
    next
      case (Step n k)
      have "tspec R (all_achieved Qs acc s) (case k u of Done (Panic p) \<Rightarrow> Done (Panic p) | t \<Rightarrow> weave sched (ts[i := t]) acc) (n u)"
        if "R s u" for u
      proof -
        from qi(2) ti Step that have later: "tspec R (Qs ! i) (k u) (n u)" "R u (n u)" "tobeys R (k u)" by auto
        have su: "R s (n u)" using that later(2) by (rule trans)
        have "stable R (Qs ! j) \<and> tspec R (Qs ! j) (ts[i := k u] ! j) (n u)" if "j < length ts" for j
          using list_all2_nthD2 [OF Cons.prems(1) that] later qi(1) that su by (cases "i = j") (auto intro: tspec_later)
        then have "list_all2 (\<lambda>Q t. stable R Q \<and> tspec R Q t (n u)) Qs (ts[i := k u])"
          using len by (simp add: list_all2_conv_all_nth)
        moreover have "list_all (tobeys R) (ts[i := k u])"
          using Cons.prems(2) later(3) set_update_subset_insert [of ts i "k u"] by (auto simp: list_all_iff)
        ultimately have "tspec R (all_achieved Qs acc (n u)) (weave sched (ts[i := k u]) acc) (n u)" by (rule Cons.IH)
        then have "tspec R (all_achieved Qs acc s) (weave sched (ts[i := k u]) acc) (n u)"
          by (rule tspec_mono) (use su in \<open>auto simp: all_achieved_def intro: trans\<close>)
        with achieved_stop [OF su] show ?thesis by (auto split: thread.split outcome.split)
      qed
      with True Step show ?thesis by simp
    qed
  next
    case False
    with Cons show ?thesis by simp
  qed
qed

end

section \<open>Requests that stay sent\<close>

text \<open>All that one goroutine relies on about the others: the requests that were sent stay sent.\<close>

definition grows :: "(event, 'w, 'l) io \<Rightarrow> (event, 'w, 'l) io \<Rightarrow> bool" where
  "grows s t \<longleftrightarrow> prefix (trace s) (trace t)"

interpretation sending: interference "inner grows"
  by unfold_locales (auto simp: inner_def grows_def intro: prefix_order.trans)

lemma grows_refl: "grows s s"
  by (simp add: grows_def)

lemma grows_trans: "grows s t \<Longrightarrow> grows t u \<Longrightarrow> grows s u"
  unfolding grows_def by (rule prefix_order.trans)

text \<open>The request was sent after the requests \<open>base\<close>.\<close>

definition sent :: "event list \<Rightarrow> (event, 'w, 'l) io \<Rightarrow> event \<Rightarrow> bool" where
  "sent base s ev \<longleftrightarrow> (\<exists>tr. trace s = base @ tr \<and> ev \<in> set tr)"

lemma sent_grows: "sent base s ev \<Longrightarrow> grows s t \<Longrightarrow> sent base t ev"
  by (auto simp: sent_def grows_def prefix_def)

lemma base_grows: "prefix base (trace s) \<Longrightarrow> grows s t \<Longrightarrow> prefix base (trace t)"
  unfolding grows_def by (rule prefix_order.trans)

text \<open>What a goroutine has achieved when it ends without error, among others that only send.\<close>

definition achieves :: "('a \<Rightarrow> (event, 'w, 'l) io \<Rightarrow> bool) \<Rightarrow> (('v, 'w, 'l) shared_state, 'a) thread \<Rightarrow> ('v, 'w, 'l) shared_state \<Rightarrow> bool" where
  "achieves P t = tspec (inner grows) (\<lambda>r x. \<forall>a. r = Ret a \<longrightarrow> P a (snd x)) t"

lemma achieves_Done [simp]:
  "achieves P (Done (Fail e)) x" "achieves P (Done (Panic p)) x" "achieves P (Done (Ret a)) x = P a (snd x)"
  by (simp_all add: achieves_def)

lemma achieves_mono: "achieves P t x \<Longrightarrow> (\<And>a s. P a s \<Longrightarrow> Q a s) \<Longrightarrow> achieves Q t x"
  unfolding achieves_def by (erule tspec_mono) blast

lemma achieves_tbnd:
  assumes "achieves M t x" and "\<And>a v s. M a s \<Longrightarrow> achieves P (f a) (v, s)"
  shows "achieves P (tbnd t f) x"
  unfolding achieves_def
proof (rule tspec_tbnd, rule tspec_mono [OF assms(1) [unfolded achieves_def]], goal_cases)
  case (1 r y)
  with assms(2) show ?case by (cases r; cases y) (auto simp: achieves_def)
qed

lemma achieves_request:
  assumes "prefix base (trace s)"
    and "\<And>a s' w w'. grows s s' \<Longrightarrow> sent base s' ev \<Longrightarrow> f w = (Ret a, w') \<Longrightarrow> P a s'"
  shows "achieves P (act (request ev f)) (v, s)"
  unfolding achieves_def
proof (rule tspec_act)
  fix v' s'
  assume "inner grows (v, s) (v', s')"
  then have s': "grows s s'" by (simp add: inner_def)
  obtain r w' where f: "f (world s') = (r, w')" by fastforce
  let ?t = "s'\<lparr>trace := trace s' @ [ev], world := w'\<rparr>"
  have "grows s ?t" using s' by (auto simp: grows_def prefix_def)
  moreover have "sent base ?t ev" using base_grows [OF assms(1) s'] by (auto simp: sent_def prefix_def)
  ultimately have "\<forall>a. r = Ret a \<longrightarrow> P a ?t" using assms(2) f by blast
  then show "\<forall>a. fst (request ev f s') = Ret a \<longrightarrow> P a (snd (v', snd (request ev f s')))" by (simp add: request_def f)
qed

lemma achieves_any:
  assumes "tobeys (inner grows) t" and "\<And>a s'. grows s s' \<Longrightarrow> P a s'"
  shows "achieves P t (v, s)"
  unfolding achieves_def by (rule sending.tspec_any [OF assms(1)]) (use assms(2) in \<open>auto simp: inner_def\<close>)

lemma achieves_sends:
  assumes "achieves P t x"
  shows "achieves (\<lambda>err s. err = None \<longrightarrow> P () s) (sends t) x"
  unfolding achieves_def
proof (rule tspec_sends, rule tspec_mono [OF assms [unfolded achieves_def]], goal_cases)
  case (1 r y)
  then show ?case by (cases r) auto
qed

text \<open>Goroutines that are run together each achieve what they achieve among others.\<close>

lemma achieves_weave:
  fixes v :: 'v and s :: "(event, 'w, 'l) io"
  assumes "\<And>c. c \<in> set cs \<Longrightarrow> achieves (P c) (t c) (v, s)" and "\<And>c. c \<in> set cs \<Longrightarrow> tobeys (inner grows) (t c)"
    and "\<And>c a s s'. P c a s \<Longrightarrow> grows s s' \<Longrightarrow> P c a s'"
  shows "achieves (\<lambda>as s'. grows s s' \<and> (\<forall>c \<in> set cs. \<exists>a \<in> set as. P c a s')) (weave sched (map t cs) []) (v, s)"
proof -
  let ?Q = "\<lambda>c r (x :: ('v, 'w, 'l) shared_state). \<forall>a. r = Ret a \<longrightarrow> P c a (snd x)"
  have "list_all2 (\<lambda>Q t. stable (inner grows) Q \<and> tspec (inner grows) Q t (v, s)) (map ?Q cs) (map t cs)"
    using assms(1,3) by (auto simp: list_all2_conv_all_nth stable_def inner_def achieves_def)
  moreover have "list_all (tobeys (inner grows)) (map t cs)" using assms(2) by (simp add: list_all_iff)
  ultimately have "tspec (inner grows) (sending.all_achieved (map ?Q cs) [] (v, s)) (weave sched (map t cs) []) (v, s)"
    by (rule sending.weave_tspec)
  then show ?thesis
    unfolding achieves_def
  proof (rule tspec_mono, goal_cases)
    case (1 r x)
    have "grows s (snd x)" using 1 by (simp add: sending.all_achieved_def inner_def)
    moreover have "\<exists>a \<in> set as. P c a (snd x)" if "r = Ret as" and "c \<in> set cs" for as c
    proof -
      from 1 that(1) obtain bs where bs: "mset as = mset bs" "list_all2 (\<lambda>Q b. Q (Ret b) x) (map ?Q cs) bs"
        by (auto simp: sending.all_achieved_def)
      from that(2) obtain i where i: "i < length cs" "cs ! i = c" by (auto simp: in_set_conv_nth)
      with bs(2) have "P c (bs ! i) (snd x)" "bs ! i \<in> set bs" by (auto simp: list_all2_conv_all_nth)
      with mset_eq_setD [OF bs(1)] show ?thesis by auto
    qed
    ultimately show ?case by blast
  qed
qed

text \<open>A goroutine program that returns has achieved it.\<close>

lemma run_achieves:
  assumes "achieves P t (v, s)" and "tobeys (inner grows) t" and "run_goroutines v t s = (Ret (a, v'), s')"
  shows "P a s'"
proof -
  from assms(3) have "run t (v, s) = (Ret a, (v', s'))" by (auto simp: run_goroutines_def split: prod.splits outcome.splits)
  with sending.tspec_run [OF assms(1) [unfolded achieves_def] assms(2)] show ?thesis by simp
qed

end
