(* ===== verification/Remote_Managers.thy ===== *)
theory Remote_Managers
  imports Service_Reconciler Provider_Interface Manager_Pool Goroutines
begin

text \<open>
  The part of controllers/globaldnsrecord/globaldnsrecord\_controller.go that keeps one remote
  manager per endpoint of the records: \<open>createRemoteManager\<close>, \<open>ensureRemoteManagers\<close> and
  \<open>getMonitoredServiceStatuses\<close>. The map of managers is the only data the controller keeps between
  reconciliations.
\<close>

section \<open>What the runtime chooses\<close>

text \<open>Where the controller or one of its providers ranges over a Go map. The orders the runtime
  chooses, and the interleaving of the goroutines, are a parameter of the programs.\<close>

datatype range_site = InExternalDNS | InRoute53 | InTrafficManager | InGCPGLB | InStatus

record iteration_orders =
  io_endpoints :: "range_site \<Rightarrow> nat \<Rightarrow> endpoint_map \<Rightarrow> endpoint_map"
  io_managers :: "manager_map \<Rightarrow> manager_map"
  io_schedule :: schedule

definition orders_ok :: "iteration_orders \<Rightarrow> bool" where
  "orders_ok ord \<longleftrightarrow> (\<forall>site i m. mset (io_endpoints ord site i m) = mset m)
     \<and> (\<forall>m. mset (io_managers ord m) = mset m)"

section \<open>The operations\<close>

definition createRemoteManager :: "'w env \<Rightarrow> Endpoint \<Rightarrow> ('w, 'l, RemoteManager) op" where
  "createRemoteManager E endpoint =
     bnd (record_getRestConfig E endpoint) (\<lambda>restConfig.
     bnd (NewRemoteManager E restConfig (Endpoint_GetKey endpoint)) (\<lambda>remoteManager.
     seq (newServiceReconciler E remoteManager endpoint) (ret remoteManager)))"

text \<open>The endpoints of the records that are not being deleted, and the map from their keys; reading
  a missing key of a Go map gives the zero value.\<close>

definition needed_endpoints :: "'w env \<Rightarrow> GlobalDNSRecord list \<Rightarrow> Endpoint list" where
  "needed_endpoints E instances = foldl (\<lambda>needed i.
     if \<not> u_IsBeingDeleted (e_util E) (rec_Meta i) then needed @ rs_Endpoints (rec_Spec i) else needed) [] instances"

definition zero_Endpoint :: Endpoint where
  "zero_Endpoint = \<lparr>ep_ClusterName = [], ep_CredentialsSecretRef = \<lparr>nn_Name = [], nn_Namespace = []\<rparr>,
     ep_LoadBalancerServiceRef = \<lparr>nn_Name = [], nn_Namespace = []\<rparr>\<rparr>"

definition needed_endpoint :: "Endpoint list \<Rightarrow> string \<Rightarrow> Endpoint" where
  "needed_endpoint needed key =
     (case foldl (\<lambda>m e. m(Endpoint_GetKey e \<mapsto> e)) Map.empty needed key of None \<Rightarrow> zero_Endpoint | Some e \<Rightarrow> e)"

definition ensureRemoteManagers :: "'w env \<Rightarrow> ('w, record_locals, unit) op" where
  "ensureRemoteManagers E =
     bnd (request (K8s ListGlobalDNSRecords) (k_ListGlobalDNSRecords (e_k8s E))) (\<lambda>instances.
     let needed = needed_endpoints E instances in
     sync_managers E rl_remoteManagersMap rl_remoteManagersMap_update
       (\<lambda>key. createRemoteManager E (needed_endpoint needed key)) (map Endpoint_GetKey needed))"

definition endpoint_manager_map :: "record_locals \<Rightarrow> manager_map" where
  "endpoint_manager_map l = foldl (\<lambda>m e.
     case map_of (rl_remoteManagersMap l) (Endpoint_GetKey e) of
       Some remoteManager \<Rightarrow> AList.update (Endpoint_GetKey e) remoteManager m
     | None \<Rightarrow> m) [] (rs_Endpoints (spec_of l))"

definition getMonitoredServiceStatuses ::
  "'w env \<Rightarrow> iteration_orders \<Rightarrow> ('w, record_locals, string \<rightharpoonup> Conditions) op" where
  "getMonitoredServiceStatuses E ord =
     bnd get_local (\<lambda>l.
     for_each (\<lambda>conditions (_, endpointManager).
       let key = RemoteManager_GetKey endpointManager;
           conditions' = conditions(key \<mapsto> GetStatus endpointManager) in
       seq (report_manager E (map_lookup conditions' key)) (ret conditions'))
       Map.empty (io_managers ord (endpoint_manager_map l)))"

section \<open>Lemmas\<close>

lemma createRemoteManager_frame [frame_intros]:
  "emits quiet (createRemoteManager E e)" "keeps f (createRemoteManager E e)"
  unfolding createRemoteManager_def record_getRestConfig_def getRestConfig_def NewRemoteManager_def newServiceReconciler_def
  by (intro frame_intros; simp)+

lemma createRemoteManager_key: "createRemoteManager E e s = (Ret rm, t) \<Longrightarrow> rm_key rm = Endpoint_GetKey e"
  by (auto simp: createRemoteManager_def NewRemoteManager_def inv_Ret)

interpretation record_managers: manager_pool rl_remoteManagersMap rl_remoteManagersMap_update
  "\<lambda>key. createRemoteManager E (needed_endpoint needed key)" for E needed
  by unfold_locales (auto intro: createRemoteManager_frame)

lemma getMonitoredServiceStatuses_frame [frame_intros]:
  "(\<And>t r m. P (K8s (RecordEvent t r m))) \<Longrightarrow> emits P (getMonitoredServiceStatuses E ord)"
  "keeps f (getMonitoredServiceStatuses E ord)"
  unfolding getMonitoredServiceStatuses_def by (intro frame_intros; simp)+

lemma needed_endpoints_eq:
  "needed_endpoints E is = concat (map (\<lambda>i. rs_Endpoints (rec_Spec i)) (filter (\<lambda>i. \<not> u_IsBeingDeleted (e_util E) (rec_Meta i)) is))"
proof -
  have "foldl (\<lambda>needed i. if \<not> u_IsBeingDeleted (e_util E) (rec_Meta i) then needed @ rs_Endpoints (rec_Spec i) else needed) acc is
    = acc @ concat (map (\<lambda>i. rs_Endpoints (rec_Spec i)) (filter (\<lambda>i. \<not> u_IsBeingDeleted (e_util E) (rec_Meta i)) is))" for acc
    by (induction "is" arbitrary: acc) auto
  then show ?thesis by (simp add: needed_endpoints_def)
qed

lemma needed_endpoint_key:
  assumes "key \<in> Endpoint_GetKey ` set needed"
  shows "Endpoint_GetKey (needed_endpoint needed key) = key \<and> needed_endpoint needed key \<in> set needed"
proof -
  have "\<exists>e. foldl (\<lambda>m e. m(Endpoint_GetKey e \<mapsto> e)) Map.empty needed key = Some e \<and> Endpoint_GetKey e = key \<and> e \<in> set needed"
    using assms
  proof (induction needed rule: rev_induct)
    case (snoc e es)
    then show ?case by (cases "Endpoint_GetKey e = key") auto
  qed simp
  then show ?thesis by (auto simp: needed_endpoint_def)
qed

lemma ensureRemoteManagers_keeps [frame_intros]:
  "(\<And>f l. h (rl_remoteManagersMap_update f l) = h l) \<Longrightarrow> keeps h (ensureRemoteManagers E)"
  unfolding ensureRemoteManagers_def Let_def by (intro frame_intros record_managers.sync_keeps)

text \<open>Whatever happens, the running managers are those in the map.\<close>

lemma ensureRemoteManagers_balanced:
  assumes "strset_ok E" and "balanced (trace s) (rl_remoteManagersMap (local s))"
    and "ensureRemoteManagers E s = (r, t)"
  shows "balanced (trace t) (rl_remoteManagersMap (local t))"
proof (cases "k_ListGlobalDNSRecords (e_k8s E) (world s)")
  case (Pair x w)
  let ?s = "s\<lparr>trace := trace s @ [K8s ListGlobalDNSRecords], world := w\<rparr>"
  have b: "balanced (trace ?s) (rl_remoteManagersMap (local ?s))"
    using balanced_quiet [OF assms(2)] by simp
  show ?thesis
  proof (cases x)
    case (Ret instances)
    with assms(3) Pair have "sync_managers E rl_remoteManagersMap rl_remoteManagersMap_update
        (\<lambda>key. createRemoteManager E (needed_endpoint (needed_endpoints E instances) key))
        (map Endpoint_GetKey (needed_endpoints E instances)) ?s = (r, t)"
      by (simp add: ensureRemoteManagers_def request_def bnd_def Let_def)
    from record_managers.sync_balanced [OF assms(1) b this] show ?thesis .
  qed (use assms(3) Pair b in \<open>auto simp: ensureRemoteManagers_def request_def bnd_def\<close>)
qed

text \<open>The state in which a reconciliation of managers starts: every key once, each manager under its
  own key. The keys the records ask for.\<close>

definition filed :: "manager_map \<Rightarrow> bool" where
  "filed m \<longleftrightarrow> distinct (map fst m) \<and> (\<forall>(k, rm) \<in> set m. rm_key rm = k)"

definition wanted_keys :: "'w env \<Rightarrow> GlobalDNSRecord list \<Rightarrow> string set" where
  "wanted_keys E instances = {k. \<exists>i \<in> set instances. \<not> u_IsBeingDeleted (e_util E) (rec_Meta i)
     \<and> k \<in> Endpoint_GetKey ` set (rs_Endpoints (rec_Spec i))}"

lemma needed_endpoints_keys: "Endpoint_GetKey ` set (needed_endpoints E instances) = wanted_keys E instances"
  by (auto simp: needed_endpoints_eq wanted_keys_def)

lemma taken_filed:
  assumes "filed m" and "set ks \<subseteq> fst ` set m"
  shows "taken m ks = ks"
  unfolding taken_def
proof (rule map_idI)
  fix k
  assume "k \<in> set ks"
  then obtain rm where "(k, rm) \<in> set m" using assms(2) by auto
  with assms(1) show "rm_key (the (map_of m k)) = k" by (auto simp: filed_def)
qed

lemma ensureRemoteManagers_sync:
  assumes "k_ListGlobalDNSRecords (e_k8s E) (world s) = (Ret instances, w)"
  shows "ensureRemoteManagers E s = sync_managers E rl_remoteManagersMap rl_remoteManagersMap_update
     (\<lambda>key. createRemoteManager E (needed_endpoint (needed_endpoints E instances) key))
     (map Endpoint_GetKey (needed_endpoints E instances)) (s\<lparr>trace := trace s @ [K8s ListGlobalDNSRecords], world := w\<rparr>)"
  using assms by (simp add: ensureRemoteManagers_def request_def bnd_def Let_def)

lemma ensureRemoteManagers_cases:
  fixes E :: "'w env"
  assumes ok: "strset_ok E" and f: "filed (rl_remoteManagersMap (local s))"
    and l: "k_ListGlobalDNSRecords (e_k8s E) (world s) = (Ret instances, w)"
    and run: "ensureRemoteManagers E s = (r, t)"
  obtains stopped news rest tr where "distinct stopped"
    "set stopped = fst ` set (rl_remoteManagersMap (local s)) - wanted_keys E instances"
    "distinct (map fst news @ rest)" "set (map fst news @ rest) = wanted_keys E instances - fst ` set (rl_remoteManagersMap (local s))"
    "r = Ret () \<longrightarrow> rest = []" "\<forall>(k, rm) \<in> set news. rm_key rm = k"
    "rl_remoteManagersMap (local t) = filter (\<lambda>(k, _). k \<notin> set stopped) (rl_remoteManagersMap (local s)) @ news"
    "trace t = trace s @ tr"
    "control tr = map (Remote \<circ> ManagerStop) stopped @ map (Remote \<circ> ManagerStart) (map fst news)"
proof -
  let ?s = "s\<lparr>trace := trace s @ [K8s ListGlobalDNSRecords], world := w\<rparr>"
  let ?needed = "needed_endpoints E instances"
  have d: "distinct (map fst (rl_remoteManagersMap (local ?s)))" using f by (simp add: filed_def)
  obtain stopped news rest tr where c: "distinct stopped"
    "set stopped = fst ` set (rl_remoteManagersMap (local ?s)) - set (map Endpoint_GetKey ?needed)"
    "distinct (map fst news @ rest)"
    "set (map fst news @ rest) = set (map Endpoint_GetKey ?needed) - fst ` set (rl_remoteManagersMap (local ?s))"
    "r = Ret () \<longrightarrow> rest = []" "\<forall>(k, rm) \<in> set news. \<exists>(v :: (event, 'w, record_locals) io) u. createRemoteManager E (needed_endpoint ?needed k) v = (Ret rm, u)"
    "rl_remoteManagersMap (local t) = filter (\<lambda>(k, _). k \<notin> set stopped) (rl_remoteManagersMap (local ?s)) @ news"
    "trace t = trace ?s @ tr"
    "control tr = map (Remote \<circ> ManagerStop) (taken (rl_remoteManagersMap (local ?s)) stopped)
       @ map (Remote \<circ> ManagerStart) (map (rm_key \<circ> snd) news)"
    by (rule record_managers.sync_cases [OF ok d run [unfolded ensureRemoteManagers_sync [OF l]]])
  have key: "rm_key rm = k" if "(k, rm) \<in> set news" for k rm
  proof -
    have "k \<in> set (map fst news @ rest)" using that by force
    then have "k \<in> Endpoint_GetKey ` set ?needed" unfolding c(4) by auto
    then have "Endpoint_GetKey (needed_endpoint ?needed k) = k" using needed_endpoint_key by blast
    moreover from c(6) that obtain v u where
      "createRemoteManager E (needed_endpoint ?needed k) (v :: (event, 'w, record_locals) io) = (Ret rm, u)" by auto
    from createRemoteManager_key [OF this] have "rm_key rm = Endpoint_GetKey (needed_endpoint ?needed k)" .
    ultimately show ?thesis by simp
  qed
  then have key: "\<forall>(k, rm) \<in> set news. rm_key rm = k" by auto
  then have "map (rm_key \<circ> snd) news = map fst news" by auto
  moreover have "taken (rl_remoteManagersMap (local s)) stopped = stopped" using c(2) by (intro taken_filed [OF f]) auto
  ultimately show thesis
    using that [of stopped news rest "K8s ListGlobalDNSRecords # tr"] c key by (simp add: needed_endpoints_keys control_def)
qed

text \<open>
  C10: one manager per endpoint. When \<open>ensureRemoteManagers\<close> succeeds, the map holds a manager under
  exactly the keys of the endpoints of the records that are not being deleted, each under its own
  key. A manager that was already there is kept, with its status. Among the requests, the stops
  come first and are those of the managers that left the map, once each; then every new manager is
  started, once.
\<close>

theorem remote_managers_match_records:
  assumes "strset_ok E" and "filed (rl_remoteManagersMap (local s))"
    and "k_ListGlobalDNSRecords (e_k8s E) (world s) = (Ret instances, w)"
    and "ensureRemoteManagers E s = (Ret (), t)"
  shows "fst ` set (rl_remoteManagersMap (local t)) = wanted_keys E instances \<and> filed (rl_remoteManagersMap (local t))
     \<and> (\<forall>k rm. (k, rm) \<in> set (rl_remoteManagersMap (local s)) \<longrightarrow> k \<in> wanted_keys E instances
          \<longrightarrow> (k, rm) \<in> set (rl_remoteManagersMap (local t)))
     \<and> (\<exists>stopped started tr. trace t = trace s @ tr \<and> distinct stopped \<and> distinct started
          \<and> control tr = map (Remote \<circ> ManagerStop) stopped @ map (Remote \<circ> ManagerStart) started
          \<and> set stopped = fst ` set (rl_remoteManagersMap (local s)) - wanted_keys E instances
          \<and> set started = wanted_keys E instances - fst ` set (rl_remoteManagersMap (local s)))"
proof -
  let ?m = "rl_remoteManagersMap (local s)"
  obtain stopped news rest tr where c: "distinct stopped" "set stopped = fst ` set ?m - wanted_keys E instances"
    "distinct (map fst news @ rest)" "set (map fst news @ rest) = wanted_keys E instances - fst ` set ?m"
    "Ret () = Ret () \<longrightarrow> rest = []" "\<forall>(k, rm) \<in> set news. rm_key rm = k"
    "rl_remoteManagersMap (local t) = filter (\<lambda>(k, _). k \<notin> set stopped) ?m @ news"
    "trace t = trace s @ tr"
    "control tr = map (Remote \<circ> ManagerStop) stopped @ map (Remote \<circ> ManagerStart) (map fst news)"
    by (rule ensureRemoteManagers_cases [OF assms])
  have new: "distinct (map fst news)" "set (map fst news) = wanted_keys E instances - fst ` set ?m" using c(3-5) by auto
  have "fst ` set (filter (\<lambda>(k, _). k \<notin> set stopped) ?m) = fst ` set ?m - set stopped" by force
  then have "fst ` set (rl_remoteManagersMap (local t)) = fst ` set ?m - set stopped \<union> set (map fst news)"
    unfolding c(7) by (simp add: image_Un)
  moreover have "A - (A - B) \<union> (B - A) = B" for A B :: "string set" by blast
  ultimately have keys: "fst ` set (rl_remoteManagersMap (local t)) = wanted_keys E instances" by (simp only: new c(2))
  have "fst ` set news \<inter> fst ` set ?m = {}" using new(2) by auto
  with assms(2) c(6) new(1) have "filed (rl_remoteManagersMap (local t))"
    unfolding filed_def c(7) by (auto simp: distinct_map_filter)
  moreover have "(k, rm) \<in> set (rl_remoteManagersMap (local t))" if "(k, rm) \<in> set ?m" "k \<in> wanted_keys E instances" for k rm
    using that c(2) unfolding c(7) by auto
  ultimately show ?thesis using keys c(1,2,8,9) new by blast
qed

text \<open>A first reconciliation of a record with two endpoints starts two managers.\<close>

definition managers_state :: "(event, sample_world, record_locals) io" where
  "managers_state = sample_state\<lparr>world := empty_world\<lparr>sw_records := [sample_record]\<rparr>\<rparr>"

theorem remote_managers_match_records_witness:
  "\<exists>t. ensureRemoteManagers (sample_env no_document) managers_state = (Ret (), t)
     \<and> fst ` set (rl_remoteManagersMap (local t)) = {''ns/router@ns/a'', ''ns/router@ns/b''}
     \<and> filed (rl_remoteManagersMap (local t))"
proof -
  have l: "k_ListGlobalDNSRecords (e_k8s (sample_env no_document)) (world managers_state) = (Ret [sample_record], world managers_state)"
    by (simp add: managers_state_def sample_env_def sample_k8s_def)
  have create: "\<exists>rm u. createRemoteManager (sample_env no_document) e s = (Ret rm, u)"
    for e and s :: "(event, sample_world, record_locals) io"
    by (simp add: createRemoteManager_def record_getRestConfig_def getRestConfig_def NewRemoteManager_def
        newServiceReconciler_def bnd_def seq_def request_def pure_call_def prog_simps sample_env_def sample_k8s_def sample_remote_def)
  have "\<exists>t. ensureRemoteManagers (sample_env no_document) managers_state = (Ret (), t)"
    unfolding ensureRemoteManagers_sync [OF l]
    by (rule record_managers.sync_returns [OF sample_strset_ok _ create])
      (simp add: managers_state_def sample_state_def sample_locals_def)
  then obtain t where t: "ensureRemoteManagers (sample_env no_document) managers_state = (Ret (), t)" by blast
  have "wanted_keys (sample_env no_document) [sample_record] = {''ns/router@ns/a'', ''ns/router@ns/b''}"
    by (auto simp: wanted_keys_def sample_defs Endpoint_GetKey_def)
  with remote_managers_match_records [OF sample_strset_ok _ l t] t show ?thesis
    by (simp add: filed_def managers_state_def sample_state_def sample_locals_def)
qed

end
