(* ===== verification/External_DNS_Provider.thy ===== *)
theory External_DNS_Provider
  imports Provider_Interface Sample_World
begin

text \<open>
  controllers/globaldnsrecord/externalDNSProvider.go: the provider that delegates to the
  external-dns operator. It keeps one DNSEndpoint object per record, owned by the record, whose
  targets are the IPs of the endpoints whose lookup succeeded. The loops and guards are those of
  the source; the string set package is the parameter \<open>e_strset\<close>.
\<close>

section \<open>The provider\<close>

record externalDNSProvider =
  ed_globalzone :: GlobalDNSZone
  ed_endpointMap :: endpoint_ranges

definition createExternalDNSProvider ::
  "GlobalDNSZone \<Rightarrow> endpoint_ranges \<Rightarrow> ('w, 'l, externalDNSProvider) op" where
  "createExternalDNSProvider globalzone endpointMap =
     ret \<lparr>ed_globalzone = globalzone, ed_endpointMap = endpointMap\<rparr>"

definition external_deleteDNSRecord :: "externalDNSProvider \<Rightarrow> ('w, record_locals, unit) op" where
  "external_deleteDNSRecord p = ret ()"

text \<open>The loop that collects the IPs of the endpoints without error.\<close>

definition record_ips :: "'w env \<Rightarrow> endpoint_map \<Rightarrow> ('w, 'l, string list) op" where
  "record_ips E em =
     for_each (\<lambda>IPs (_, endpointStatus).
       if es_err endpointStatus \<noteq> None then ret IPs
       else bnd (getIPs E endpointStatus) (\<lambda>recordIPs. ret (IPs @ recordIPs))) [] em"

definition new_dns_endpoint ::
  "'w env \<Rightarrow> GlobalDNSRecord \<Rightarrow> ExternalDNSProviderConfig \<Rightarrow> string list \<Rightarrow> DNSEndpoint" where
  "new_dns_endpoint E inst config IPs =
     \<lparr>de_Name = om_Name (rec_Meta inst), de_Namespace = om_Namespace (rec_Meta inst),
      de_Labels = om_Labels (rec_Meta inst), de_Annotations = edc_Annotations config,
      de_OwnerName = None,
      de_Endpoints = [\<lparr>dt_DNSName = rs_Name (rec_Spec inst), dt_RecordTTL = rs_TTL (rec_Spec inst),
                       dt_RecordType = ''A'',
                       dt_Targets = ss_List (e_strset E) (ss_New (e_strset E) IPs), dt_Other = None\<rparr>]\<rparr>"

definition create_dns_endpoint :: "'w env \<Rightarrow> DNSEndpoint \<Rightarrow> ('w, record_locals, unit) op" where
  "create_dns_endpoint E new =
     bnd get_local (\<lambda>l.
     bnd (pure_call (k_SetControllerReference (e_k8s E) (rec_Meta (rl_instance l)) new)) (\<lambda>owned.
     request (K8s (CreateDNSEndpoint owned)) (k_CreateDNSEndpoint (e_k8s E) owned)))"

definition update_dns_endpoint ::
  "'w env \<Rightarrow> DNSEndpoint \<Rightarrow> DNSEndpoint \<Rightarrow> ('w, 'l, unit) op" where
  "update_dns_endpoint E new current =
     bnd (index (de_Endpoints new) 0) (\<lambda>newEndpoint.
     bnd (index (de_Endpoints current) 0) (\<lambda>currentEndpoint.
     let newIPSet = ss_New (e_strset E) (dt_Targets newEndpoint);
         currentIPSet = ss_New (e_strset E) (dt_Targets currentEndpoint) in
     if \<not> ss_IsEqual (e_strset E) currentIPSet newIPSet
        \<or> currentEndpoint\<lparr>dt_Targets := []\<rparr> \<noteq> newEndpoint\<lparr>dt_Targets := []\<rparr>
        \<or> de_Annotations current \<noteq> de_Annotations new \<or> de_Labels current \<noteq> de_Labels new
     then (let updated = current\<lparr>de_Endpoints := de_Endpoints new, de_Labels := de_Labels new,
                                 de_Annotations := de_Annotations new\<rparr> in
           request (K8s (UpdateDNSEndpoint updated)) (k_UpdateDNSEndpoint (e_k8s E) updated))
     else ret ()))"

definition createExternalDNSRecord ::
  "'w env \<Rightarrow> externalDNSProvider \<Rightarrow> ('w, record_locals, unit) op" where
  "createExternalDNSRecord E p =
     bnd (record_ips E (ed_endpointMap p 0)) (\<lambda>IPs.
     bnd get_local (\<lambda>l.
     bnd (deref (pc_ExternalDNS (zs_Provider (zone_Spec (ed_globalzone p))))) (\<lambda>config.
     let new = new_dns_endpoint E (rl_instance l) config IPs;
         name = \<lparr>nn_Name = de_Name new, nn_Namespace = de_Namespace new\<rparr> in
     bnd (attempt (request (K8s (GetDNSEndpoint name)) (k_GetDNSEndpoint (e_k8s E) name))) (\<lambda>r.
     case r of
       Inl err \<Rightarrow> if IsNotFound err then create_dns_endpoint E new else fail err
     | Inr current \<Rightarrow> update_dns_endpoint E new current))))"

definition external_ensureDNSRecord ::
  "'w env \<Rightarrow> externalDNSProvider \<Rightarrow> ('w, record_locals, unit) op" where
  "external_ensureDNSRecord E p = createExternalDNSRecord E p"

section \<open>What the provider may send and change\<close>

fun dns_endpoint_event :: "event \<Rightarrow> bool" where
  "dns_endpoint_event (K8s e) = (case e of
      GetDNSEndpoint _ \<Rightarrow> True | CreateDNSEndpoint _ \<Rightarrow> True | UpdateDNSEndpoint _ \<Rightarrow> True | _ \<Rightarrow> False)"
| "dns_endpoint_event (LookupHost _) = True"
| "dns_endpoint_event _ = False"

lemma createExternalDNSRecord_frame:
  "emits dns_endpoint_event (createExternalDNSRecord E p)" "keeps f (createExternalDNSRecord E p)"
  unfolding createExternalDNSRecord_def record_ips_def create_dns_endpoint_def update_dns_endpoint_def Let_def
  by (intro frame_intros; simp)+

lemma dns_endpoint_provider: "dns_endpoint_event ev \<Longrightarrow> provider_event ev"
proof (cases ev)
  case (K8s e)
  then show "dns_endpoint_event ev \<Longrightarrow> provider_event ev" by (cases e) simp_all
qed simp_all

interpretation external_dns: dns_provider "external_ensureDNSRecord E p" "external_deleteDNSRecord p"
  for E and p
proof unfold_locales
  show "emits provider_event (external_ensureDNSRecord E p)"
    unfolding external_ensureDNSRecord_def
    by (rule emits_mono [OF createExternalDNSRecord_frame(1)]) (rule dns_endpoint_provider)
qed (unfold external_ensureDNSRecord_def external_deleteDNSRecord_def,
     (rule createExternalDNSRecord_frame frame_intros)+)

section \<open>The published addresses\<close>

definition healthy_ips :: "(string \<Rightarrow> string list) \<Rightarrow> endpoint_map \<Rightarrow> string list" where
  "healthy_ips hosts em = concat (map (\<lambda>(_, es). if es_err es \<noteq> None then [] else endpoint_ips hosts es) em)"


lemma record_ips_result:
  assumes "resolves_to E hosts" and "record_ips E em s = (Ret IPs, t)"
  shows "IPs = healthy_ips hosts em \<and> local t = local s"
proof -
  let ?g = "\<lambda>IPs (k, es). IPs @ (if es_err es \<noteq> None then [] else endpoint_ips hosts es)"
  have "IPs = foldl ?g [] em \<and> local t = local s"
  proof (rule for_each_result [OF assms(2) [unfolded record_ips_def], where I = "\<lambda>u. local u = local s"], goal_cases)
    case (2 acc x s' r t')
    obtain k es where x: "x = (k, es)" by (cases x)
    from 2 show ?case
      by (cases "es_err es") (auto simp: x inv_Ret dest!: getIPs_ips [OF assms(1)])
  qed simp
  then show ?thesis
    using foldl_append [of "\<lambda>(_, es). if es_err es \<noteq> None then [] else endpoint_ips hosts es" "[]" em]
    by (simp add: healthy_ips_def case_prod_unfold)
qed

lemma record_ips_returns:
  assumes "resolves_to E hosts"
    and "\<forall>(_, es) \<in> set em. es_err es = None \<longrightarrow> inf_PlatformStatus (es_infrastructure es) \<noteq> None"
  shows "returns (reads_rel f g) (record_ips E em) s (healthy_ips hosts em)"
proof -
  let ?g = "\<lambda>IPs (k, es). IPs @ (if es_err es \<noteq> None then [] else endpoint_ips hosts es)"
  have "returns (reads_rel f g) (record_ips E em) s (foldl ?g [] em)"
    unfolding record_ips_def
  proof (rule reads.returns_for_each)
    fix acc :: "string list" and x :: "string \<times> EndpointStatus" and t
    assume x: "x \<in> set em"
    obtain k es where xe: "x = (k, es)" by (cases x)
    show "returns (reads_rel f g) (case x of (_, es) \<Rightarrow> if es_err es \<noteq> None then ret acc
        else bnd (getIPs E es) (\<lambda>ips. ret (acc @ ips))) t (?g acc x)"
    proof (cases "es_err es")
      case None
      with assms(2) x xe have "inf_PlatformStatus (es_infrastructure es) \<noteq> None" by auto
      then have "returns (reads_rel f g) (bnd (getIPs E es) (\<lambda>ips. ret (acc @ ips))) t (acc @ endpoint_ips hosts es)"
        by (intro reads.returns_bnd [OF getIPs_returns [OF assms(1)]] reads.returns_ret)
      with None show ?thesis by (simp add: xe)
    qed (simp add: xe reads.returns_ret)
  qed
  then show ?thesis
    using foldl_append [of "\<lambda>(_, es). if es_err es \<noteq> None then [] else endpoint_ips hosts es" "[]" em]
    by (simp add: healthy_ips_def case_prod_unfold)
qed

lemma record_ips_platforms:
  assumes "record_ips E em s = (Ret IPs, t)"
  shows "\<forall>(_, es) \<in> set em. es_err es = None \<longrightarrow> inf_PlatformStatus (es_infrastructure es) \<noteq> None"
proof -
  have "inf_PlatformStatus (es_infrastructure es) \<noteq> None" if "(k, es) \<in> set em" and "es_err es = None" for k es
    using for_each_item [OF assms [unfolded record_ips_def] that(1)] that(2)
    by (auto simp: getIPs_def inv_Ret)
  then show ?thesis by auto
qed

text \<open>An object that says what the record says: same name, TTL, labels and annotations, and the
  same set of addresses.\<close>

definition dns_endpoint_matches :: "DNSEndpoint \<Rightarrow> DNSEndpoint \<Rightarrow> bool" where
  "dns_endpoint_matches current new \<longleftrightarrow> (\<exists>c n. de_Endpoints current \<noteq> [] \<and> de_Endpoints new \<noteq> []
     \<and> c = hd (de_Endpoints current) \<and> n = hd (de_Endpoints new)
     \<and> set (dt_Targets c) = set (dt_Targets n) \<and> c\<lparr>dt_Targets := []\<rparr> = n\<lparr>dt_Targets := []\<rparr>
     \<and> de_Annotations current = de_Annotations new \<and> de_Labels current = de_Labels new)"

lemma update_dns_endpoint_cases:
  assumes "strset_ok E" and "de_Endpoints new \<noteq> []" and "de_Endpoints current \<noteq> []"
  shows "update_dns_endpoint E new current = (if dns_endpoint_matches current new then ret () else
     let updated = current\<lparr>de_Endpoints := de_Endpoints new, de_Labels := de_Labels new,
                           de_Annotations := de_Annotations new\<rparr> in
     request (K8s (UpdateDNSEndpoint updated)) (k_UpdateDNSEndpoint (e_k8s E) updated))"
  using assms(2,3)
  by (auto simp: update_dns_endpoint_def index_def Let_def dns_endpoint_matches_def hd_conv_nth
      strset_facts(5) [OF assms(1)])

text \<open>A successful run split into its steps.\<close>

lemma createExternalDNSRecord_steps:
  assumes "resolves_to E hosts" and "createExternalDNSRecord E p s = (Ret (), t)"
  obtains config new name u r v where
    "record_ips E (ed_endpointMap p 0) s = (Ret (healthy_ips hosts (ed_endpointMap p 0)), u)" "local u = local s"
    "pc_ExternalDNS (zs_Provider (zone_Spec (ed_globalzone p))) = Some config"
    "new = new_dns_endpoint E (rl_instance (local s)) config (healthy_ips hosts (ed_endpointMap p 0))"
    "name = \<lparr>nn_Name = de_Name new, nn_Namespace = de_Namespace new\<rparr>"
    "attempt (request (K8s (GetDNSEndpoint name)) (k_GetDNSEndpoint (e_k8s E) name)) u = (Ret r, v)"
    "(case r of Inl err \<Rightarrow> if IsNotFound err then create_dns_endpoint E new else fail err
       | Inr current \<Rightarrow> update_dns_endpoint E new current) v = (Ret (), t)"
proof -
  from assms(2) obtain IPs u where ips: "record_ips E (ed_endpointMap p 0) s = (Ret IPs, u)"
    and rest: "bnd get_local (\<lambda>l.
     bnd (deref (pc_ExternalDNS (zs_Provider (zone_Spec (ed_globalzone p))))) (\<lambda>config.
     let new = new_dns_endpoint E (rl_instance l) config IPs;
         name = \<lparr>nn_Name = de_Name new, nn_Namespace = de_Namespace new\<rparr> in
     bnd (attempt (request (K8s (GetDNSEndpoint name)) (k_GetDNSEndpoint (e_k8s E) name))) (\<lambda>r.
     case r of
       Inl err \<Rightarrow> if IsNotFound err then create_dns_endpoint E new else fail err
     | Inr current \<Rightarrow> update_dns_endpoint E new current))) u = (Ret (), t)"
    unfolding createExternalDNSRecord_def bnd_eq_Ret [of "record_ips _ _"] by blast
  from record_ips_result [OF assms(1) ips] have IPs: "IPs = healthy_ips hosts (ed_endpointMap p 0)"
    and u: "local u = local s" by simp_all
  from rest [unfolded bnd_eq_Ret [of get_local] bnd_eq_Ret [of "deref _"] get_local_apply deref_eq_Ret Let_def u IPs]
  show ?thesis using that ips [unfolded IPs] u by (auto simp: bnd_eq_Ret)
qed

lemma create_dns_endpoint_result:
  "create_dns_endpoint E new s = (Ret u, t) \<longleftrightarrow> (\<exists>owned w.
     k_SetControllerReference (e_k8s E) (rec_Meta (rl_instance (local s))) new = Ret owned
     \<and> k_CreateDNSEndpoint (e_k8s E) owned (world s) = (Ret u, w)
     \<and> t = s\<lparr>trace := trace s @ [K8s (CreateDNSEndpoint owned)], world := w\<rparr>)"
  by (auto simp: create_dns_endpoint_def bnd_eq_Ret run_simps)

lemma new_dns_endpoint_targets:
  assumes "strset_ok E"
  shows "dt_Targets (hd (de_Endpoints (new_dns_endpoint E inst config IPs))) = ips \<Longrightarrow> set ips = set IPs \<and> distinct ips"
  using strset_facts(3,4) [OF assms] by (auto simp: new_dns_endpoint_def)

lemma update_dns_endpoint_Ret:
  assumes "strset_ok E" and "de_Endpoints new \<noteq> []" and "update_dns_endpoint E new current s = (Ret (), t)"
  obtains (same) "dns_endpoint_matches current new" "t = s"
  | (updated) updated w where "\<not> dns_endpoint_matches current new"
      "updated = current\<lparr>de_Endpoints := de_Endpoints new, de_Labels := de_Labels new, de_Annotations := de_Annotations new\<rparr>"
      "k_UpdateDNSEndpoint (e_k8s E) updated (world s) = (Ret (), w)"
      "t = s\<lparr>trace := trace s @ [K8s (UpdateDNSEndpoint updated)], world := w\<rparr>"
proof -
  from assms(3) have "de_Endpoints current \<noteq> []" by (auto simp: update_dns_endpoint_def bnd_eq_Ret run_simps)
  from assms(3) [unfolded update_dns_endpoint_cases [OF assms(1,2) this]] same updated show thesis
    by (cases "dns_endpoint_matches current new") (auto simp: run_simps Let_def)
qed

text \<open>
  C11: what external-dns is told. When \<open>createExternalDNSRecord\<close> succeeds, the wanted DNSEndpoint
  carries the record's name and TTL and, each once, exactly the addresses of the endpoints whose
  lookup succeeded. After looking up addresses the object of the record's name was read, and what
  follows depends on the answer: when there is none, that object, owned by the record, was created; when the
  object that was read says the same, whatever the order of its addresses, nothing was sent; and
  otherwise the object that was read was updated to it.
\<close>

theorem external_dns_published:
  assumes "strset_ok E" and "resolves_to E hosts" and "createExternalDNSRecord E p s = (Ret (), t)"
    and "name = \<lparr>nn_Name = om_Name (rec_Meta (rl_instance (local s))), nn_Namespace = om_Namespace (rec_Meta (rl_instance (local s)))\<rparr>"
  shows "\<exists>config new ips lookups w r. pc_ExternalDNS (zs_Provider (zone_Spec (ed_globalzone p))) = Some config
     \<and> new = \<lparr>de_Name = nn_Name name, de_Namespace = nn_Namespace name, de_Labels = om_Labels (rec_Meta (rl_instance (local s))),
         de_Annotations = edc_Annotations config, de_OwnerName = None,
         de_Endpoints = [\<lparr>dt_DNSName = rs_Name (spec_of (local s)), dt_RecordTTL = rs_TTL (spec_of (local s)),
           dt_RecordType = ''A'', dt_Targets = ips, dt_Other = None\<rparr>]\<rparr>
     \<and> distinct ips
     \<and> set ips = (\<Union>(_, es) \<in> set (ed_endpointMap p 0). if es_err es = None then set (endpoint_ips hosts es) else {})
     \<and> (\<forall>ev \<in> set lookups. \<exists>host. ev = LookupHost host)
     \<and> k_GetDNSEndpoint (e_k8s E) name (world s) = (r, w)
     \<and> ((\<exists>err owned. r = Fail err \<and> IsNotFound err
           \<and> k_SetControllerReference (e_k8s E) (rec_Meta (rl_instance (local s))) new = Ret owned
           \<and> k_CreateDNSEndpoint (e_k8s E) owned w = (Ret (), world t)
           \<and> trace t = trace s @ lookups @ [K8s (GetDNSEndpoint name), K8s (CreateDNSEndpoint owned)])
        \<or> (\<exists>current. r = Ret current \<and> dns_endpoint_matches current new \<and> world t = w
           \<and> trace t = trace s @ lookups @ [K8s (GetDNSEndpoint name)])
        \<or> (\<exists>current updated. r = Ret current \<and> \<not> dns_endpoint_matches current new
           \<and> updated = current\<lparr>de_Endpoints := de_Endpoints new, de_Labels := de_Labels new, de_Annotations := de_Annotations new\<rparr>
           \<and> k_UpdateDNSEndpoint (e_k8s E) updated w = (Ret (), world t)
           \<and> trace t = trace s @ lookups @ [K8s (GetDNSEndpoint name), K8s (UpdateDNSEndpoint updated)]))"
proof -
  obtain config new name' u r v where
    ips: "record_ips E (ed_endpointMap p 0) s = (Ret (healthy_ips hosts (ed_endpointMap p 0)), u)" and u: "local u = local s"
    and config: "pc_ExternalDNS (zs_Provider (zone_Spec (ed_globalzone p))) = Some config"
    and new: "new = new_dns_endpoint E (rl_instance (local s)) config (healthy_ips hosts (ed_endpointMap p 0))"
    and name': "name' = \<lparr>nn_Name = de_Name new, nn_Namespace = de_Namespace new\<rparr>"
    and get': "attempt (request (K8s (GetDNSEndpoint name')) (k_GetDNSEndpoint (e_k8s E) name')) u = (Ret r, v)"
    and act: "(case r of Inl err \<Rightarrow> if IsNotFound err then create_dns_endpoint E new else fail err
       | Inr current \<Rightarrow> update_dns_endpoint E new current) v = (Ret (), t)"
    by (rule createExternalDNSRecord_steps [OF assms(2,3)])
  have "name' = name" by (simp add: name' new new_dns_endpoint_def assms(4))
  note get = get' [unfolded this]
  have "emits (\<lambda>ev. \<exists>host. ev = LookupHost host) (record_ips E (ed_endpointMap p 0))"
    unfolding record_ips_def by (intro frame_intros) simp_all
  from emitsD [OF this ips] obtain lookups where tr: "trace u = trace s @ lookups" "\<forall>ev \<in> set lookups. \<exists>host. ev = LookupHost host"
    by (auto simp: list_all_iff)
  have world: "world u = world s"
    using returnsD [OF record_ips_returns [OF assms(2) record_ips_platforms [OF ips], where f = "\<lambda>l. l" and g = "\<lambda>w. w"] ips]
    by (simp add: reads_rel_def)
  obtain q w where q: "k_GetDNSEndpoint (e_k8s E) name (world s) = (q, w)" by fastforce
  from get q have v: "v = u\<lparr>trace := trace s @ lookups @ [K8s (GetDNSEndpoint name)], world := w\<rparr>"
    and r: "q = (case r of Inl err \<Rightarrow> Fail err | Inr current \<Rightarrow> Ret current)"
    by (auto simp: attempt_def request_def world tr split: outcome.splits)
  define ips where "ips = dt_Targets (hd (de_Endpoints new))"
  have t1: "set ips = set (healthy_ips hosts (ed_endpointMap p 0)) \<and> distinct ips"
    using new_dns_endpoint_targets [OF assms(1)] unfolding ips_def new by blast
  have t2: "new = \<lparr>de_Name = nn_Name name, de_Namespace = nn_Namespace name, de_Labels = om_Labels (rec_Meta (rl_instance (local s))),
         de_Annotations = edc_Annotations config, de_OwnerName = None,
         de_Endpoints = [\<lparr>dt_DNSName = rs_Name (spec_of (local s)), dt_RecordTTL = rs_TTL (spec_of (local s)),
           dt_RecordType = ''A'', dt_Targets = ips, dt_Other = None\<rparr>]\<rparr>"
    by (simp add: ips_def new new_dns_endpoint_def assms(4))
  have "(\<exists>err owned. q = Fail err \<and> IsNotFound err
           \<and> k_SetControllerReference (e_k8s E) (rec_Meta (rl_instance (local s))) new = Ret owned
           \<and> k_CreateDNSEndpoint (e_k8s E) owned w = (Ret (), world t)
           \<and> trace t = trace s @ lookups @ [K8s (GetDNSEndpoint name), K8s (CreateDNSEndpoint owned)])
        \<or> (\<exists>current. q = Ret current \<and> dns_endpoint_matches current new \<and> world t = w
           \<and> trace t = trace s @ lookups @ [K8s (GetDNSEndpoint name)])
        \<or> (\<exists>current updated. q = Ret current \<and> \<not> dns_endpoint_matches current new
           \<and> updated = current\<lparr>de_Endpoints := de_Endpoints new, de_Labels := de_Labels new, de_Annotations := de_Annotations new\<rparr>
           \<and> k_UpdateDNSEndpoint (e_k8s E) updated w = (Ret (), world t)
           \<and> trace t = trace s @ lookups @ [K8s (GetDNSEndpoint name), K8s (UpdateDNSEndpoint updated)])"
  proof (cases r)
    case (Inl err)
    with act r show ?thesis by (auto simp: create_dns_endpoint_result run_simps v u split: if_splits)
  next
    case (Inr current)
    with act have up: "update_dns_endpoint E new current v = (Ret (), t)" by simp
    have ne: "de_Endpoints new \<noteq> []" by (simp add: t2)
    have q: "q = Ret current" using Inr r by simp
    show ?thesis by (rule disjI2, rule update_dns_endpoint_Ret [OF assms(1) ne up]) (auto simp: v q)
  qed
  moreover have "set (healthy_ips hosts (ed_endpointMap p 0)) = (\<Union>(_, es) \<in> set (ed_endpointMap p 0).
      if es_err es = None then set (endpoint_ips hosts es) else {})"
    by (fastforce simp: healthy_ips_def split: if_splits)
  ultimately show ?thesis using t1 t2 q tr(2) config
    by (intro exI [of _ config] exI [of _ new] exI [of _ ips] exI [of _ lookups] exI [of _ w] exI [of _ q] conjI) simp_all
qed

definition external_zone :: GlobalDNSZone where
  "external_zone = sample_zone\<lparr>zone_Spec := \<lparr>zs_Domain = ''example.com'', zs_Provider =
     \<lparr>pc_Route53 = None, pc_ExternalDNS = Some \<lparr>edc_Annotations = None\<rparr>, pc_TrafficManager = None,
      pc_GCPGLB = None\<rparr>\<rparr>\<rparr>"

definition sample_external :: externalDNSProvider where
  "sample_external = \<lparr>ed_globalzone = external_zone, ed_endpointMap = sample_ranges\<rparr>"

lemma sample_external_run:
  "fst (createExternalDNSRecord (sample_env no_document) sample_external sample_state) = Ret ()"
  "map mutating (trace (snd (createExternalDNSRecord (sample_env no_document) sample_external sample_state)))
     = [False, False, False, True]"
  by code_simp+

lemma sample_addresses: "resolves_to (sample_env d) (\<lambda>_. [''1.2.3.4''])"
  by (simp add: resolves_to_def sample_env_def)

theorem external_dns_published_witness:
  "\<exists>t lookups owned. createExternalDNSRecord (sample_env no_document) sample_external sample_state = (Ret (), t)
     \<and> trace t = lookups @ [K8s (GetDNSEndpoint (sample_name ''rec'')), K8s (CreateDNSEndpoint owned)]
     \<and> dt_DNSName (hd (de_Endpoints owned)) = ''app.example.com'' \<and> set (dt_Targets (hd (de_Endpoints owned))) = {''1.2.3.4''}"
proof -
  let ?E = "sample_env no_document" and ?l = "local sample_state"
  obtain t where run: "createExternalDNSRecord ?E sample_external sample_state = (Ret (), t)"
    using sample_external_run(1) by (metis prod.collapse)
  have name: "sample_name ''rec'' = \<lparr>nn_Name = om_Name (rec_Meta (rl_instance ?l)), nn_Namespace = om_Namespace (rec_Meta (rl_instance ?l))\<rparr>"
    by (simp add: sample_defs)
  have get: "k_GetDNSEndpoint (e_k8s ?E) (sample_name ''rec'') (world sample_state) = (Fail not_found, world sample_state)"
    and own: "k_SetControllerReference (e_k8s ?E) m d = Ret (d\<lparr>de_OwnerName := Some (om_Name m)\<rparr>)" for m d
    by (simp_all add: sample_defs)
  have nil: "trace sample_state = []" by (simp add: sample_state_def)
  from external_dns_published [OF sample_strset_ok sample_addresses run name, unfolded get own] obtain ips lookups owned where
    tr: "trace t = trace sample_state @ lookups @ [K8s (GetDNSEndpoint (sample_name ''rec'')), K8s (CreateDNSEndpoint owned)]"
    and ips: "set ips = (\<Union>(_, es) \<in> set (ed_endpointMap sample_external 0). if es_err es = None
        then set (endpoint_ips (\<lambda>_. [''1.2.3.4'']) es) else {})"
    and owned: "de_Endpoints owned = [\<lparr>dt_DNSName = rs_Name (spec_of ?l), dt_RecordTTL = rs_TTL (spec_of ?l),
           dt_RecordType = ''A'', dt_Targets = ips, dt_Other = None\<rparr>]" by force
  have "set ips = {''1.2.3.4''}"
    by (simp add: ips sample_external_def sample_ranges_def sample_defs endpoint_ips_def)
  moreover have "rs_Name (spec_of ?l) = ''app.example.com''" by (simp add: sample_defs)
  ultimately show ?thesis using run tr nil owned by simp
qed

section \<open>Convergence\<close>







end
