(* ===== verification/Traffic_Manager_Provider.thy ===== *)
theory Traffic_Manager_Provider
  imports Provider_Interface Credentials Sample_World
begin

text \<open>
  controllers/globaldnsrecord/trafficManagerProvider.go: the provider that programs Azure. The
  public IP of each endpoint gets a domain name, a Traffic Manager profile lists the public IPs,
  and a CNAME record points the record's name at the profile. The name of the profile is chosen
  once, at random, and kept in the status of the record.
\<close>

section \<open>The provider\<close>

record trafficManagerProvider =
  tm_globalzone :: GlobalDNSZone
  tm_endpointMap :: endpoint_ranges
  tm_azureClients :: AzureClients

text \<open>The four \<open>Get...Client\<close> functions of the azure package build their client from the
  subscription and the authorizer; the clients are the parts of one API record.\<close>

definition azure_client :: "'w env \<Rightarrow> trafficManagerProvider \<Rightarrow> 'w azure_api" where
  "azure_client E p = e_azure E (az_subscription (tm_azureClients p)) (az_authorizer (tm_azureClients p))"

definition only_azure_endpoints :: "endpoint_map \<Rightarrow> ('w, 'l, unit) op" where
  "only_azure_endpoints em =
     for_each (\<lambda>_ (_, endpointStatus).
       bnd (deref (inf_PlatformStatus (es_infrastructure endpointStatus))) (\<lambda>platform.
       if pl_Type platform \<noteq> AzurePlatformType
       then fail (ErrNew ''Illegal state, only Azure endpoints are allowed'')
       else ret ())) () em"

definition createTrafficManagerProvider ::
  "'w env \<Rightarrow> GlobalDNSZone \<Rightarrow> endpoint_ranges \<Rightarrow> ('w, 'l, trafficManagerProvider) op" where
  "createTrafficManagerProvider E globalzone endpointMap =
     seq (only_azure_endpoints (endpointMap 0))
    (bnd (GetAzureClient E globalzone) (\<lambda>azureClients.
     ret \<lparr>tm_globalzone = globalzone, tm_endpointMap = (\<lambda>i. endpointMap (Suc i)),
          tm_azureClients = azureClients\<rparr>))"

definition tm_config :: "trafficManagerProvider \<Rightarrow> ('w, 'l, TrafficManagerProviderConfig) op" where
  "tm_config p = deref (pc_TrafficManager (zs_Provider (zone_Spec (tm_globalzone p))))"

definition getDomain :: "string \<Rightarrow> string" where
  "getDomain fqdn = first_part (CHR ''.'') fqdn"

definition tm_max :: "int \<Rightarrow> int \<Rightarrow> int" where
  "tm_max x y = (if x < y then y else x)"

definition tm_min :: "int \<Rightarrow> int \<Rightarrow> int" where
  "tm_min x y = (if x > y then y else x)"

definition charset :: string where
  "charset = ''qwertyuioplkjhgfdsazxcvbnm''"

definition randDomain :: "'w env \<Rightarrow> nat \<Rightarrow> ('w, 'l, string) op" where
  "randDomain E n =
     for_each (\<lambda>b _.
       bnd (rand_Intn E (length charset)) (\<lambda>i.
       bnd (index charset i) (\<lambda>c. ret (b @ [c])))) [] [0..<n]"

section \<open>Deleting\<close>

definition tm_deleteDNSRecord ::
  "'w env \<Rightarrow> trafficManagerProvider \<Rightarrow> ('w, record_locals, unit) op" where
  "tm_deleteDNSRecord E p =
     bnd (tm_config p) (\<lambda>config.
     bnd get_local (\<lambda>l. let name = getDomain (rs_Name (spec_of l)) in
     seq (request (Azure (DeleteProfile (tmc_ResourceGroup config) name))
            (az_DeleteProfile (azure_client E p) (tmc_ResourceGroup config) name))
         (let zone = zs_Domain (zone_Spec (tm_globalzone p)) in
          request (Azure (DeleteRecordSet (tmc_DNSZoneResourceGroup config) zone name ''CNAME''))
            (az_DeleteRecordSet (azure_client E p) (tmc_DNSZoneResourceGroup config) zone name ''CNAME''))))"

section \<open>Public IPs\<close>

text \<open>The body of the innermost branch: a public IP without domain name gets one.\<close>

definition ensure_fqdn ::
  "'w env \<Rightarrow> trafficManagerProvider \<Rightarrow> string \<Rightarrow> PublicIPAddress \<Rightarrow> PublicIPAddressProperties \<Rightarrow>
     ('w, 'l, PublicIPAddress) op" where
  "ensure_fqdn E p rg publicIP props =
     (if (case pipp_DNSSettings props of None \<Rightarrow> True | Some d \<Rightarrow> pds_Fqdn d = None) then
        bnd (randDomain E 10) (\<lambda>domain.
        bnd (deref (pip_Location publicIP)) (\<lambda>location.
        bnd (request (Azure (CheckDNSName location domain)) (az_CheckDNSName (azure_client E p) location domain)) (\<lambda>result.
        bnd (deref result) (\<lambda>available.
        if \<not> available then fail (ErrNew ''domain not available'') else
        let publicIP' = publicIP\<lparr>pip_Properties := Some (props\<lparr>pipp_DNSSettings :=
              Some \<lparr>pds_DomainNameLabel = Some domain, pds_Fqdn = None\<rparr>\<rparr>)\<rparr> in
        bnd (deref (pip_Name publicIP)) (\<lambda>name.
        seq (request (Azure (CreateOrUpdatePublicIP rg name publicIP'))
               (az_CreateOrUpdatePublicIP (azure_client E p) rg name publicIP'))
            (ret publicIP'))))))
      else ret publicIP)"

text \<open>The loop over the public IPs of the resource group, which stops at the first that has the
  address.\<close>

fun match_public_ip ::
  "'w env \<Rightarrow> trafficManagerProvider \<Rightarrow> string \<Rightarrow> string \<Rightarrow> PublicIPAddress list \<Rightarrow>
     ('w, 'l, PublicIPAddress option) op" where
  "match_public_ip E p rg IP [] = ret None"
| "match_public_ip E p rg IP (publicIP # publicIPs) =
     bnd (deref (pip_Properties publicIP)) (\<lambda>props.
     bnd (deref (pipp_IPAddress props)) (\<lambda>address.
     if address = IP
     then bnd (ensure_fqdn E p rg publicIP props) (\<lambda>publicIP'. ret (Some publicIP'))
     else match_public_ip E p rg IP publicIPs))"

text \<open>Reading the iterator to its end; the error of the last step is returned.\<close>

definition list_public_ips ::
  "'w env \<Rightarrow> trafficManagerProvider \<Rightarrow> string \<Rightarrow> ('w, 'l, PublicIPAddress list) op" where
  "list_public_ips E p rg =
     bnd (request (Azure (ListPublicIPs rg)) (az_ListComplete (azure_client E p) rg)) (\<lambda>(publicIPs, err).
     case err of None \<Rightarrow> ret publicIPs | Some e \<Rightarrow> if publicIPs = [] then ret [] else fail e)"

definition public_ip_of ::
  "'w env \<Rightarrow> trafficManagerProvider \<Rightarrow> EndpointStatus \<Rightarrow> ('w, 'l, PublicIPAddress) op" where
  "public_ip_of E p endpoint =
     bnd (getIPs E endpoint) (\<lambda>IPs.
     if length IPs \<noteq> 1
     then fail (ErrNew ''illegal state: when running on azure, load balancer should have only one IP'')
     else bnd (deref (inf_PlatformStatus (es_infrastructure endpoint))) (\<lambda>platform.
     bnd (deref (pl_Azure_NetworkResourceGroupName platform)) (\<lambda>rg.
     bnd (list_public_ips E p rg) (\<lambda>publicIPs.
     bnd (index IPs 0) (\<lambda>IP.
     bnd (match_public_ip E p rg IP publicIPs) (\<lambda>found.
     case found of
       None \<Rightarrow> fail (ErrNew ''loadbalancer public ip not found in azure public IPs'')
     | Some publicIP \<Rightarrow> ret publicIP))))))"

definition ensurePublicIPsHaveFQDNs ::
  "'w env \<Rightarrow> trafficManagerProvider \<Rightarrow> endpoint_map \<Rightarrow> ('w, 'l, string \<rightharpoonup> PublicIPAddress) op" where
  "ensurePublicIPsHaveFQDNs E p endpoints =
     for_each (\<lambda>clusterPublicIPMap (cluster, endpoint).
       bnd (public_ip_of E p endpoint) (\<lambda>publicIP.
       ret (clusterPublicIPMap(cluster \<mapsto> publicIP)))) Map.empty endpoints"

section \<open>The profile\<close>

definition getTrafficRoutingMethod :: "LoadBalancingPolicy \<Rightarrow> ('w, 'l, string) op" where
  "getTrafficRoutingMethod policy =
     (if policy = Multivalue then ret ''MultiValue''
      else if policy = Geographic then ret ''Geographic''
      else if policy = Performance then ret ''Performance''
      else if policy = Latency then ret ''Performance''
      else if policy = Geoproximity then ret ''Geographic''
      else fail (ErrNew ''unsupported routing method''))"

definition getEndpointName :: "EndpointStatus \<Rightarrow> string" where
  "getEndpointName endpoint = ep_ClusterName (es_endpoint endpoint)"

definition zero_PublicIPAddress :: PublicIPAddress where
  "zero_PublicIPAddress = \<lparr>pip_ID = None, pip_Name = None, pip_Location = None, pip_Properties = None\<rparr>"

definition getEndpoints ::
  "trafficManagerProvider \<Rightarrow> endpoint_map \<Rightarrow> (string \<rightharpoonup> PublicIPAddress) \<Rightarrow> bool \<Rightarrow>
     ('w, 'l, TMEndpoint list) op" where
  "getEndpoints p em clusterPublicIPMap withHealthChecks =
     (let monitoringStatus = (if withHealthChecks then ''CheckingEndpoint'' else ''Inactive'') in
      for_each (\<lambda>tmEndpoints (cluster, endpoint).
        let publicIP = (case clusterPublicIPMap cluster of None \<Rightarrow> zero_PublicIPAddress | Some ip \<Rightarrow> ip) in
        bnd (deref (pip_Properties publicIP)) (\<lambda>props.
        bnd (deref (pipp_DNSSettings props)) (\<lambda>dns.
        ret (tmEndpoints @
          [\<lparr>tme_Name = getEndpointName endpoint,
            tme_Type = ''Microsoft.Network/trafficManagerProfiles/azureEndpoints'',
            tme_EndpointStatus = ''Enabled'', tme_EndpointMonitorStatus = monitoringStatus,
            tme_TargetResourceID = pip_ID publicIP, tme_Target = pds_Fqdn dns,
            tme_Weight = 1, tme_EndpointLocation = pip_Location publicIP\<rparr>])))) [] em)"

text \<open>The first block of \<open>ensureTrafficManagerProfile\<close>: a name for the profile, once.\<close>

definition ensure_profile_name :: "'w env \<Rightarrow> trafficManagerProvider \<Rightarrow> ('w, record_locals, unit) op" where
  "ensure_profile_name E p =
     bnd get_local (\<lambda>l.
     if (case ps_TrafficManager (provider_status l) of None \<Rightarrow> True | Some st \<Rightarrow> tms_Name st = []) then
       bnd (randDomain E 10) (\<lambda>rand.
       let potentialName = getDomain (rs_Name (spec_of l)) @ ''-'' @ rand in
       bnd (request (Azure (CheckRelativeDNSName potentialName))
              (az_CheckRelativeDNSName (azure_client E p) potentialName)) (\<lambda>result.
       bnd (deref result) (\<lambda>available.
       if \<not> available
       then fail (ErrNew ''dns name not available will retry at the next reconciliation cycle'')
       else upd_local (\<lambda>l. set_provider_status
              ((provider_status l)\<lparr>ps_TrafficManager := Some \<lparr>tms_Name = potentialName\<rparr>\<rparr>) l))))
     else ret ())"

definition monitor_config :: "GlobalDNSRecordSpec \<Rightarrow> ('w, 'l, MonitorConfig) op" where
  "monitor_config spec =
     (case rs_HealthCheck spec of
        Some probe \<Rightarrow>
          bnd (deref (pr_HTTPGet probe)) (\<lambda>httpGet.
          ret \<lparr>mc_ProfileMonitorStatus = ''CheckingEndpoints'', mc_Protocol = hg_Scheme httpGet,
               mc_Port = ios_IntVal (hg_Port httpGet), mc_Path = hg_Path httpGet,
               mc_IntervalInSeconds = Some 30,
               mc_TimeoutInSeconds = Some (tm_min (tm_max (pr_TimeoutSeconds probe) 5) 10),
               mc_ToleratedNumberOfFailures = Some (pr_FailureThreshold probe),
               mc_CustomHeaders = Some [(''host'', rs_Name spec)]\<rparr>)
      | None \<Rightarrow>
          ret \<lparr>mc_ProfileMonitorStatus = ''Inactive'', mc_Protocol = ''https'', mc_Port = 443,
               mc_Path = ''/path'', mc_IntervalInSeconds = None, mc_TimeoutInSeconds = None,
               mc_ToleratedNumberOfFailures = None, mc_CustomHeaders = None\<rparr>)"

definition ensureTrafficManagerProfile ::
  "'w env \<Rightarrow> trafficManagerProvider \<Rightarrow> endpoint_map \<Rightarrow> (string \<rightharpoonup> PublicIPAddress) \<Rightarrow>
     ('w, record_locals, TMProfileResult) op" where
  "ensureTrafficManagerProfile E p em clusterPublicIPMap =
     seq (ensure_profile_name E p)
    (bnd get_local (\<lambda>l. let spec = spec_of l in
     bnd (getTrafficRoutingMethod (rs_LoadBalancingPolicy spec)) (\<lambda>routingMethod.
     bnd (monitor_config spec) (\<lambda>monitoringConfig.
     bnd (getEndpoints p em clusterPublicIPMap (rs_HealthCheck spec \<noteq> None)) (\<lambda>endpoints.
     bnd (deref (ps_TrafficManager (provider_status l))) (\<lambda>st.
     let profile = \<lparr>tmp_Location = ''global'', tmp_ProfileStatus = ''Enabled'',
           tmp_TrafficRoutingMethod = routingMethod, tmp_RelativeName = tms_Name st,
           tmp_Fqdn = rs_Name spec, tmp_TTL = rs_TTL spec, tmp_MonitorConfig = monitoringConfig,
           tmp_Endpoints = endpoints, tmp_TrafficViewEnrollmentStatus = ''Disabled'', tmp_MaxReturn = 0\<rparr> in
     bnd (tm_config p) (\<lambda>config.
     request (Azure (CreateOrUpdateProfile (tmc_ResourceGroup config) (tms_Name st) profile))
       (az_CreateOrUpdateProfile (azure_client E p) (tmc_ResourceGroup config) (tms_Name st) profile))))))))"

section \<open>The DNS record\<close>

definition ensureAzureDNSRecord ::
  "'w env \<Rightarrow> trafficManagerProvider \<Rightarrow> TMProfileResult \<Rightarrow> ('w, record_locals, unit) op" where
  "ensureAzureDNSRecord E p tmProfile =
     bnd get_local (\<lambda>l.
     bnd (tm_config p) (\<lambda>config.
     bnd (deref (tpr_Properties tmProfile)) (\<lambda>props.
     bnd (deref (ppr_DNSConfig props)) (\<lambda>dnsConfig.
     let zone = zs_Domain (zone_Spec (tm_globalzone p)); name = getDomain (rs_Name (spec_of l));
         recordSet = \<lparr>rset_TTL = rs_TTL (spec_of l), rset_Fqdn = rs_Name (spec_of l),
                      rset_Cname = dcr_Fqdn dnsConfig\<rparr> in
     request (Azure (CreateOrUpdateRecordSet (tmc_DNSZoneResourceGroup config) zone name ''CNAME'' recordSet))
       (az_CreateOrUpdateRecordSet (azure_client E p) (tmc_DNSZoneResourceGroup config) zone name ''CNAME'' recordSet)))))"

definition tm_ensureDNSRecord ::
  "'w env \<Rightarrow> trafficManagerProvider \<Rightarrow> ('w, record_locals, unit) op" where
  "tm_ensureDNSRecord E p =
     bnd (ensurePublicIPsHaveFQDNs E p (tm_endpointMap p 0)) (\<lambda>clusterPublicIPMap.
     bnd (ensureTrafficManagerProfile E p (tm_endpointMap p 1) clusterPublicIPMap) (\<lambda>trafficManager.
     ensureAzureDNSRecord E p trafficManager))"

section \<open>What the provider may send and change\<close>

fun azure_or_lookup :: "event \<Rightarrow> bool" where
  "azure_or_lookup (Azure _) = True"
| "azure_or_lookup (LookupHost _) = True"
| "azure_or_lookup _ = False"

lemma tm_config_frame [frame_intros]: "emits P (tm_config p)" "keeps f (tm_config p)"
  unfolding tm_config_def by (intro frame_intros)+

lemma randDomain_frame [frame_intros]: "emits P (randDomain E n)" "keeps f (randDomain E n)"
  unfolding randDomain_def by (intro frame_intros)+

lemma ensure_fqdn_frame [frame_intros]:
  "(\<And>e. P (Azure e)) \<Longrightarrow> emits P (ensure_fqdn E p rg ip props)" "keeps f (ensure_fqdn E p rg ip props)"
  unfolding ensure_fqdn_def Let_def by (intro frame_intros; simp)+

lemma match_public_ip_frame [frame_intros]:
  "(\<And>e. P (Azure e)) \<Longrightarrow> emits P (match_public_ip E p rg ip ips)" "keeps f (match_public_ip E p rg ip ips)"
  by (induction ips) (auto intro!: frame_intros)

lemma ensurePublicIPs_frame [frame_intros]:
  "(\<And>e. P (Azure e)) \<Longrightarrow> (\<And>h. P (LookupHost h)) \<Longrightarrow> emits P (ensurePublicIPsHaveFQDNs E p em)"
  "keeps f (ensurePublicIPsHaveFQDNs E p em)"
  unfolding ensurePublicIPsHaveFQDNs_def public_ip_of_def list_public_ips_def by (intro frame_intros; simp)+

lemma getTrafficRoutingMethod_frame [frame_intros]:
  "emits P (getTrafficRoutingMethod policy)" "keeps f (getTrafficRoutingMethod policy)"
  unfolding getTrafficRoutingMethod_def by (intro frame_intros)+

lemma getEndpoints_frame [frame_intros]:
  "emits P (getEndpoints p em m b)" "keeps f (getEndpoints p em m b)"
  unfolding getEndpoints_def Let_def by (intro frame_intros)+

lemma monitor_config_frame [frame_intros]: "emits P (monitor_config spec)" "keeps f (monitor_config spec)"
  unfolding monitor_config_def by (intro frame_intros)+

lemma ensure_profile_name_frame [frame_intros]:
  "(\<And>e. P (Azure e)) \<Longrightarrow> emits P (ensure_profile_name E p)" "keeps frozen (ensure_profile_name E p)"
  unfolding ensure_profile_name_def Let_def by (intro frame_intros; simp)+

lemma ensureTrafficManagerProfile_frame [frame_intros]:
  "(\<And>e. P (Azure e)) \<Longrightarrow> emits P (ensureTrafficManagerProfile E p em m)"
  "keeps frozen (ensureTrafficManagerProfile E p em m)"
  unfolding ensureTrafficManagerProfile_def Let_def by (intro frame_intros; simp)+

lemma ensureAzureDNSRecord_frame [frame_intros]:
  "(\<And>e. P (Azure e)) \<Longrightarrow> emits P (ensureAzureDNSRecord E p r)" "keeps f (ensureAzureDNSRecord E p r)"
  unfolding ensureAzureDNSRecord_def Let_def by (intro frame_intros; simp)+

lemma tm_ensureDNSRecord_frame:
  "emits azure_or_lookup (tm_ensureDNSRecord E p)" "keeps frozen (tm_ensureDNSRecord E p)"
  unfolding tm_ensureDNSRecord_def by (intro frame_intros; simp)+

lemma tm_deleteDNSRecord_frame:
  "emits azure_or_lookup (tm_deleteDNSRecord E p)" "keeps f (tm_deleteDNSRecord E p)"
  unfolding tm_deleteDNSRecord_def Let_def by (intro frame_intros; simp)+

lemma azure_or_lookup_provider: "azure_or_lookup ev \<Longrightarrow> provider_event ev"
  by (cases ev) simp_all

interpretation traffic_manager: dns_provider "tm_ensureDNSRecord E p" "tm_deleteDNSRecord E p"
  for E and p
  by unfold_locales
    (blast intro: tm_ensureDNSRecord_frame tm_deleteDNSRecord_frame emits_mono azure_or_lookup_provider)+

section \<open>The endpoints of the profile\<close>

definition named_ip :: "PublicIPAddress \<Rightarrow> bool" where
  "named_ip ip \<longleftrightarrow> (\<exists>props. pip_Properties ip = Some props \<and> pipp_DNSSettings props \<noteq> None)"

lemma ensure_fqdn_named:
  "pip_Properties ip = Some props \<Longrightarrow> ensure_fqdn E p rg ip props s = (Ret ip', t) \<Longrightarrow> named_ip ip'"
  by (auto simp: ensure_fqdn_def named_ip_def Let_def inv_Ret split: if_splits option.splits)

lemma match_public_ip_named:
  "match_public_ip E p rg ip ips s = (Ret (Some ip'), t) \<Longrightarrow> named_ip ip'"
  by (induction ips arbitrary: s) (auto simp: inv_Ret dest: ensure_fqdn_named split: if_splits)

lemma public_ip_of_named: "public_ip_of E p es s = (Ret ip, t) \<Longrightarrow> named_ip ip"
  by (auto simp: public_ip_of_def inv_Ret dest: match_public_ip_named split: if_splits option.splits)

lemma ensurePublicIPs_named:
  assumes "ensurePublicIPsHaveFQDNs E p em s = (Ret m, t)"
  shows "\<forall>k \<in> fst ` set em. \<exists>ip. m k = Some ip \<and> named_ip ip"
proof (rule for_each_invariant [OF assms [unfolded ensurePublicIPsHaveFQDNs_def],
      where P = "\<lambda>ys m. \<forall>k \<in> fst ` set ys. \<exists>ip. m k = Some ip \<and> named_ip ip"], goal_cases)
  case (2 ys y acc s' r t')
  obtain k es where y: "y = (k, es)" by (cases y)
  with 2(3) obtain ip where "public_ip_of E p es s' = (Ret ip, t')" and r: "r = acc(k \<mapsto> ip)"
    by (auto simp: inv_Ret)
  from public_ip_of_named [OF this(1)] 2(2) show ?case by (auto simp: y r)
qed simp

lemma getEndpoints_named:
  assumes "\<forall>k \<in> fst ` set em. \<exists>ip. m k = Some ip \<and> named_ip ip"
  shows "\<exists>endpoints. getEndpoints p em m b s = (Ret endpoints, s) \<and> map tme_Name endpoints
     = map (\<lambda>(_, es). ep_ClusterName (es_endpoint es)) em"
proof -
  define entry where "entry = (\<lambda>(k, es). case m k of
      Some ip \<Rightarrow> \<lparr>tme_Name = getEndpointName es,
            tme_Type = ''Microsoft.Network/trafficManagerProfiles/azureEndpoints'',
            tme_EndpointStatus = ''Enabled'',
            tme_EndpointMonitorStatus = (if b then ''CheckingEndpoint'' else ''Inactive''),
            tme_TargetResourceID = pip_ID ip, tme_Target = pds_Fqdn (the (pipp_DNSSettings (the (pip_Properties ip)))),
            tme_Weight = 1, tme_EndpointLocation = pip_Location ip\<rparr>)"
  have "getEndpoints p em m b s = ret (foldl (\<lambda>acc x. acc @ [entry x]) [] em) s"
    unfolding getEndpoints_def Let_def
    by (rule fun_cong [OF for_each_pure]) (use assms in \<open>force simp: entry_def named_ip_def deref_def split: option.splits\<close>)
  moreover have "map tme_Name (map entry em) = map (\<lambda>(_, es). ep_ClusterName (es_endpoint es)) em"
    using assms by (induction em) (auto simp: entry_def getEndpointName_def split: option.splits)
  ultimately show ?thesis by (intro exI [of _ "map entry em"]) (simp add: foldl_snoc prog_simps)
qed

text \<open>
  C14: the endpoints of a Traffic Manager profile. When \<open>ensurePublicIPsHaveFQDNs\<close> has succeeded for
  the endpoint map, \<open>getEndpoints\<close> on the same map, in whatever iteration order, dereferences no nil
  pointer: it returns one endpoint per entry, named after its cluster.
\<close>

theorem profile_endpoints_complete:
  assumes "ensurePublicIPsHaveFQDNs E p em s = (Ret m, t)" and "set em' = set em"
  shows "\<exists>endpoints. getEndpoints p em' m b u = (Ret endpoints, u)
     \<and> map tme_Name endpoints = map (\<lambda>(_, es). ep_ClusterName (es_endpoint es)) em'"
  using getEndpoints_named [of em' m] ensurePublicIPs_named [OF assms(1)] assms(2) by blast

section \<open>The name of the profile\<close>

lemma ensure_profile_name_result:
  assumes "ensure_profile_name E p s = (Ret u, t)"
  shows "\<exists>n. ps_TrafficManager (provider_status (local t)) = Some \<lparr>tms_Name = n\<rparr> \<and> spec_of (local t) = spec_of (local s)
     \<and> (case ps_TrafficManager (provider_status (local s)) of
          Some st \<Rightarrow> if tms_Name st = [] then \<exists>x. n = getDomain (rs_Name (spec_of (local s))) @ ''-'' @ x else n = tms_Name st
        | None \<Rightarrow> \<exists>x. n = getDomain (rs_Name (spec_of (local s))) @ ''-'' @ x)"
proof -
  have keep: "keeps (\<lambda>l. l) (randDomain E n)" for n by (intro frame_intros)
  show ?thesis
  proof (cases "case ps_TrafficManager (provider_status (local s)) of None \<Rightarrow> True | Some st \<Rightarrow> tms_Name st = []")
    case True
    with assms obtain x v w where rand: "randDomain E 10 s = (Ret x, v)"
      and t: "t = v\<lparr>trace := trace v @ [Azure (CheckRelativeDNSName (getDomain (rs_Name (spec_of (local s))) @ ''-'' @ x))],
        world := w, local := set_provider_status ((provider_status (local v))\<lparr>ps_TrafficManager :=
          Some \<lparr>tms_Name = getDomain (rs_Name (spec_of (local s))) @ ''-'' @ x\<rparr>\<rparr>) (local v)\<rparr>"
      by (auto simp: ensure_profile_name_def inv_Ret Let_def split: if_splits)
    have "local v = local s" using keepsD [OF keep rand] .
    with t True show ?thesis by (auto split: option.splits)
  next
    case False
    with assms have "t = s" by (auto simp: ensure_profile_name_def inv_Ret)
    with False show ?thesis by (cases "ps_TrafficManager (provider_status (local s))") auto
  qed
qed

lemma monitor_config_result:
  "monitor_config spec s = (Ret mc, t) \<Longrightarrow>
     t = s \<and> (\<forall>v. mc_TimeoutInSeconds mc = Some v \<longrightarrow> 5 \<le> v \<and> v \<le> 10)"
  by (auto simp: monitor_config_def inv_Ret tm_min_def tm_max_def split: option.splits)

lemma getTrafficRoutingMethod_result: "getTrafficRoutingMethod policy s = (Ret r, t) \<Longrightarrow> t = s"
  by (auto simp: getTrafficRoutingMethod_def run_simps split: if_splits)

lemma getEndpoints_result:
  assumes "getEndpoints p em m b s = (Ret eps, t)"
  shows "map tme_Name eps = map (\<lambda>(_, es). ep_ClusterName (es_endpoint es)) em \<and> t = s"
proof -
  have "map tme_Name eps = map (\<lambda>(_, es). ep_ClusterName (es_endpoint es)) em"
    by (rule for_each_invariant [OF assms [unfolded getEndpoints_def Let_def],
          where P = "\<lambda>ys acc. map tme_Name acc = map (\<lambda>(_, es). ep_ClusterName (es_endpoint es)) ys"])
      (auto simp: inv_Ret getEndpointName_def)
  moreover have "obeys (=) (getEndpoints p em m b)"
    unfolding getEndpoints_def Let_def by (intro frame_intros)
  then have "t = s" using assms by (rule sameD)
  ultimately show ?thesis by simp
qed

lemma ensureTrafficManagerProfile_result:
  assumes "ensureTrafficManagerProfile E p em m s = (Ret result, t)"
  shows "\<exists>x st config w profile. ensure_profile_name E p s = (Ret (), x)
     \<and> ps_TrafficManager (provider_status (local x)) = Some st
     \<and> pc_TrafficManager (zs_Provider (zone_Spec (tm_globalzone p))) = Some config
     \<and> tmp_RelativeName profile = tms_Name st \<and> map tme_Name (tmp_Endpoints profile) = map (\<lambda>(_, es). ep_ClusterName (es_endpoint es)) em
     \<and> (\<forall>v. mc_TimeoutInSeconds (tmp_MonitorConfig profile) = Some v \<longrightarrow> 5 \<le> v \<and> v \<le> 10)
     \<and> az_CreateOrUpdateProfile (azure_client E p) (tmc_ResourceGroup config) (tms_Name st) profile (world x) = (Ret result, w)
     \<and> t = x\<lparr>trace := trace x @ [Azure (CreateOrUpdateProfile (tmc_ResourceGroup config) (tms_Name st) profile)], world := w\<rparr>"
proof -
  let ?profile = "\<lambda>x routingMethod mc eps st. \<lparr>tmp_Location = ''global'', tmp_ProfileStatus = ''Enabled'',
           tmp_TrafficRoutingMethod = routingMethod, tmp_RelativeName = tms_Name st,
           tmp_Fqdn = rs_Name (spec_of (local x)), tmp_TTL = rs_TTL (spec_of (local x)), tmp_MonitorConfig = mc,
           tmp_Endpoints = eps, tmp_TrafficViewEnrollmentStatus = ''Disabled'', tmp_MaxReturn = 0\<rparr>"
  from assms obtain x routingMethod mc eps st config u1 u2 u3 where
    name: "ensure_profile_name E p s = (Ret (), x)"
    and routing: "getTrafficRoutingMethod (rs_LoadBalancingPolicy (spec_of (local x))) x = (Ret routingMethod, u1)"
    and mc: "monitor_config (spec_of (local x)) u1 = (Ret mc, u2)"
    and eps: "getEndpoints p em m (rs_HealthCheck (spec_of (local x)) \<noteq> None) u2 = (Ret eps, u3)"
    and st: "ps_TrafficManager (provider_status (local x)) = Some st"
    and config: "pc_TrafficManager (zs_Provider (zone_Spec (tm_globalzone p))) = Some config"
    and sent: "request (Azure (CreateOrUpdateProfile (tmc_ResourceGroup config) (tms_Name st) (?profile x routingMethod mc eps st)))
       (az_CreateOrUpdateProfile (azure_client E p) (tmc_ResourceGroup config) (tms_Name st) (?profile x routingMethod mc eps st)) u3
       = (Ret result, t)"
    unfolding ensureTrafficManagerProfile_def tm_config_def Let_def seq_eq_Ret bnd_eq_Ret pure_eq_Ret deref_eq_Ret by auto
  have u: "u1 = x" "u2 = x" "u3 = x"
    using getTrafficRoutingMethod_result [OF routing] monitor_config_result [OF mc] getEndpoints_result [OF eps] by simp_all
  show ?thesis
    using name st config sent [unfolded u request_eq_Ret] monitor_config_result [OF mc] getEndpoints_result [OF eps]
    by (intro exI [of _ x] exI [of _ st] exI [of _ config]) (auto intro!: exI [of _ "?profile x routingMethod mc eps st"])
qed

lemma ensureAzureDNSRecord_result:
  assumes "ensureAzureDNSRecord E p result s = (Ret u, t)"
  shows "\<exists>config props dns. pc_TrafficManager (zs_Provider (zone_Spec (tm_globalzone p))) = Some config
     \<and> tpr_Properties result = Some props \<and> ppr_DNSConfig props = Some dns \<and> local t = local s
     \<and> trace t = trace s @ [Azure (CreateOrUpdateRecordSet (tmc_DNSZoneResourceGroup config)
         (zs_Domain (zone_Spec (tm_globalzone p))) (getDomain (rs_Name (spec_of (local s)))) ''CNAME''
         \<lparr>rset_TTL = rs_TTL (spec_of (local s)), rset_Fqdn = rs_Name (spec_of (local s)), rset_Cname = dcr_Fqdn dns\<rparr>)]"
  using assms by (auto simp: ensureAzureDNSRecord_def tm_config_def inv_Ret Let_def)

lemma tm_ensureDNSRecord_requests:
  assumes "tm_ensureDNSRecord E p s = (Ret (), t)"
  shows "\<exists>pre config n profile recordSet w result w'.
     pc_TrafficManager (zs_Provider (zone_Spec (tm_globalzone p))) = Some config
     \<and> trace t = trace s @ pre @ [Azure (CreateOrUpdateProfile (tmc_ResourceGroup config) n profile),
         Azure (CreateOrUpdateRecordSet (tmc_DNSZoneResourceGroup config) (zs_Domain (zone_Spec (tm_globalzone p)))
           (getDomain (rs_Name (spec_of (local s)))) ''CNAME'' recordSet)]
     \<and> ps_TrafficManager (provider_status (local t)) = Some \<lparr>tms_Name = n\<rparr>
     \<and> (case ps_TrafficManager (provider_status (local s)) of
          Some st \<Rightarrow> if tms_Name st = [] then \<exists>x. n = getDomain (rs_Name (spec_of (local s))) @ ''-'' @ x else n = tms_Name st
        | None \<Rightarrow> \<exists>x. n = getDomain (rs_Name (spec_of (local s))) @ ''-'' @ x)
     \<and> tmp_RelativeName profile = n
     \<and> map tme_Name (tmp_Endpoints profile) = map (\<lambda>(_, es). ep_ClusterName (es_endpoint es)) (tm_endpointMap p 1)
     \<and> (\<forall>timeout. mc_TimeoutInSeconds (tmp_MonitorConfig profile) = Some timeout \<longrightarrow> 5 \<le> timeout \<and> timeout \<le> 10)
     \<and> az_CreateOrUpdateProfile (azure_client E p) (tmc_ResourceGroup config) n profile w = (Ret result, w')
     \<and> (\<exists>props dns. tpr_Properties result = Some props \<and> ppr_DNSConfig props = Some dns
          \<and> recordSet = \<lparr>rset_TTL = rs_TTL (spec_of (local s)), rset_Fqdn = rs_Name (spec_of (local s)),
                         rset_Cname = dcr_Fqdn dns\<rparr>)"
proof -
  let ?spec = "spec_of (local s)"
  from assms obtain m u result v where ips: "ensurePublicIPsHaveFQDNs E p (tm_endpointMap p 0) s = (Ret m, u)"
    and prof: "ensureTrafficManagerProfile E p (tm_endpointMap p 1) m u = (Ret result, v)"
    and dns: "ensureAzureDNSRecord E p result v = (Ret (), t)"
    by (auto simp: tm_ensureDNSRecord_def bnd_eq_Ret)
  have u: "local u = local s" using keepsD [OF ensurePublicIPs_frame(2) ips, of "\<lambda>l. l"] by simp
  obtain tr1 where tr1: "trace u = trace s @ tr1"
    using emitsD [OF ensurePublicIPs_frame(1) [where P = "\<lambda>_. True"] ips] by auto
  from ensureTrafficManagerProfile_result [OF prof] obtain x st config w and profile :: TMProfile where
    name: "ensure_profile_name E p u = (Ret (), x)"
    and st: "ps_TrafficManager (provider_status (local x)) = Some st"
    and config: "pc_TrafficManager (zs_Provider (zone_Spec (tm_globalzone p))) = Some config"
    and profile: "tmp_RelativeName profile = tms_Name st" "map tme_Name (tmp_Endpoints profile) = map (\<lambda>(_, es). ep_ClusterName (es_endpoint es)) (tm_endpointMap p 1)"
      "\<forall>v. mc_TimeoutInSeconds (tmp_MonitorConfig profile) = Some v \<longrightarrow> 5 \<le> v \<and> v \<le> 10"
      "az_CreateOrUpdateProfile (azure_client E p) (tmc_ResourceGroup config) (tms_Name st) profile (world x) = (Ret result, w)"
    and v: "v = x\<lparr>trace := trace x @ [Azure (CreateOrUpdateProfile (tmc_ResourceGroup config) (tms_Name st) profile)], world := w\<rparr>"
    by blast
  obtain tr2 where tr2: "trace x = trace u @ tr2"
    using emitsD [OF ensure_profile_name_frame(1) [where P = "\<lambda>_. True"] name] by auto
  from ensure_profile_name_result [OF name, unfolded u] st obtain n where
    st_n: "st = \<lparr>tms_Name = n\<rparr>" and xs: "spec_of (local x) = ?spec"
    and n: "case ps_TrafficManager (provider_status (local s)) of
          Some st \<Rightarrow> if tms_Name st = [] then \<exists>x. n = getDomain (rs_Name ?spec) @ ''-'' @ x else n = tms_Name st
        | None \<Rightarrow> \<exists>x. n = getDomain (rs_Name ?spec) @ ''-'' @ x"
    by auto
  then have n_st: "n = tms_Name st" by simp
  from ensureAzureDNSRecord_result [OF dns] config obtain props dnsConfig where
    r: "tpr_Properties result = Some props" "ppr_DNSConfig props = Some dnsConfig" and t: "local t = local v"
    "trace t = trace v @ [Azure (CreateOrUpdateRecordSet (tmc_DNSZoneResourceGroup config)
         (zs_Domain (zone_Spec (tm_globalzone p))) (getDomain (rs_Name (spec_of (local v)))) ''CNAME''
         \<lparr>rset_TTL = rs_TTL (spec_of (local v)), rset_Fqdn = rs_Name (spec_of (local v)), rset_Cname = dcr_Fqdn dnsConfig\<rparr>)]"
    by auto
  have "local v = local x" by (simp add: v)
  with t(2) v tr1 tr2 xs have tr: "trace t = trace s @ (tr1 @ tr2)
      @ [Azure (CreateOrUpdateProfile (tmc_ResourceGroup config) (tms_Name st) profile),
         Azure (CreateOrUpdateRecordSet (tmc_DNSZoneResourceGroup config) (zs_Domain (zone_Spec (tm_globalzone p)))
           (getDomain (rs_Name ?spec)) ''CNAME''
           \<lparr>rset_TTL = rs_TTL ?spec, rset_Fqdn = rs_Name ?spec, rset_Cname = dcr_Fqdn dnsConfig\<rparr>)]"
    by simp
  have "ps_TrafficManager (provider_status (local t)) = Some \<lparr>tms_Name = tms_Name st\<rparr>"
    using t(1) \<open>local v = local x\<close> st by simp
  with config tr profile r n [unfolded n_st] show ?thesis
    by (intro exI [of _ "tr1 @ tr2"] exI [of _ config] exI [of _ "tms_Name st"] exI [of _ profile] exI conjI) (assumption | simp)+
qed

text \<open>
  C13: what Azure is told. When \<open>ensureDNSRecord\<close> of the Traffic Manager provider succeeds, its last
  two requests are the write of the profile under the name kept in the status, with an endpoint
  named after its cluster for every entry of the endpoint map and a monitoring timeout between 5 and 10 seconds, and then the
  CNAME record for the first label of the record's name, which points to the domain name of that
  profile. A name that the status already holds is kept; the first name is the first label, a
  dash and a random text.
\<close>

theorem traffic_manager_published:
  assumes "tm_ensureDNSRecord E p s = (Ret (), t)"
  shows "\<exists>pre config n profile recordSet w result w'.
     pc_TrafficManager (zs_Provider (zone_Spec (tm_globalzone p))) = Some config
     \<and> trace t = trace s @ pre @ [Azure (CreateOrUpdateProfile (tmc_ResourceGroup config) n profile),
         Azure (CreateOrUpdateRecordSet (tmc_DNSZoneResourceGroup config) (zs_Domain (zone_Spec (tm_globalzone p)))
           (getDomain (rs_Name (spec_of (local s)))) ''CNAME'' recordSet)]
     \<and> ps_TrafficManager (provider_status (local t)) = Some \<lparr>tms_Name = n\<rparr>
     \<and> (case ps_TrafficManager (provider_status (local s)) of
          Some st \<Rightarrow> if tms_Name st = [] then \<exists>x. n = getDomain (rs_Name (spec_of (local s))) @ ''-'' @ x else n = tms_Name st
        | None \<Rightarrow> \<exists>x. n = getDomain (rs_Name (spec_of (local s))) @ ''-'' @ x)
     \<and> tmp_RelativeName profile = n
     \<and> map tme_Name (tmp_Endpoints profile) = map (\<lambda>(_, es). ep_ClusterName (es_endpoint es)) (tm_endpointMap p 1)
     \<and> (\<forall>timeout. mc_TimeoutInSeconds (tmp_MonitorConfig profile) = Some timeout \<longrightarrow> 5 \<le> timeout \<and> timeout \<le> 10)
     \<and> az_CreateOrUpdateProfile (azure_client E p) (tmc_ResourceGroup config) n profile w = (Ret result, w')
     \<and> (\<exists>props dns. tpr_Properties result = Some props \<and> ppr_DNSConfig props = Some dns
          \<and> recordSet = \<lparr>rset_TTL = rs_TTL (spec_of (local s)), rset_Fqdn = rs_Name (spec_of (local s)),
                         rset_Cname = dcr_Fqdn dns\<rparr>)"
  using assms by (rule tm_ensureDNSRecord_requests)

text \<open>
  C15: deleting. The profile of a new record is created under its first label with a random
  suffix, but the deletion names the first label alone: \<open>deleteDNSRecord\<close> asks for a profile that was
  never written, then deletes the CNAME record, and the profile stays behind.
\<close>

theorem traffic_manager_delete_misses_profile:
  assumes "tm_ensureDNSRecord E p s = (Ret (), t)" and "ps_TrafficManager (provider_status (local s)) = None"
    and "tm_deleteDNSRecord E p u = (Ret (), v)" and "spec_of (local u) = spec_of (local s)"
  shows "\<exists>config n profile. pc_TrafficManager (zs_Provider (zone_Spec (tm_globalzone p))) = Some config
     \<and> Azure (CreateOrUpdateProfile (tmc_ResourceGroup config) n profile) \<in> set (trace t)
     \<and> n \<noteq> getDomain (rs_Name (spec_of (local s)))
     \<and> trace v = trace u @ [Azure (DeleteProfile (tmc_ResourceGroup config) (getDomain (rs_Name (spec_of (local s))))),
         Azure (DeleteRecordSet (tmc_DNSZoneResourceGroup config) (zs_Domain (zone_Spec (tm_globalzone p)))
           (getDomain (rs_Name (spec_of (local s)))) ''CNAME'')]"
proof -
  from tm_ensureDNSRecord_requests [OF assms(1)] assms(2) obtain pre config n x profile recordSet where
    config: "pc_TrafficManager (zs_Provider (zone_Spec (tm_globalzone p))) = Some config"
    and t: "trace t = trace s @ pre @ [Azure (CreateOrUpdateProfile (tmc_ResourceGroup config) n profile),
         Azure (CreateOrUpdateRecordSet (tmc_DNSZoneResourceGroup config) (zs_Domain (zone_Spec (tm_globalzone p)))
           (getDomain (rs_Name (spec_of (local s)))) ''CNAME'' recordSet)]"
    and n: "n = getDomain (rs_Name (spec_of (local s))) @ ''-'' @ x"
    by auto
  have "trace v = trace u @ [Azure (DeleteProfile (tmc_ResourceGroup config) (getDomain (rs_Name (spec_of (local u))))),
         Azure (DeleteRecordSet (tmc_DNSZoneResourceGroup config) (zs_Domain (zone_Spec (tm_globalzone p)))
           (getDomain (rs_Name (spec_of (local u)))) ''CNAME'')]"
    using assms(3) config by (auto simp: tm_deleteDNSRecord_def tm_config_def Let_def inv_Ret)
  with config t n assms(4) show ?thesis
    by (intro exI [of _ config] exI [of _ n] exI [of _ profile]) simp
qed

section \<open>Witnesses\<close>

definition sample_tm_zone :: GlobalDNSZone where
  "sample_tm_zone = sample_zone\<lparr>zone_Spec := \<lparr>zs_Domain = ''example.com'', zs_Provider =
     \<lparr>pc_Route53 = None, pc_ExternalDNS = None, pc_TrafficManager = Some \<lparr>tmc_CredentialsSecretRef = sample_name ''azure'',
        tmc_ResourceGroup = ''rg'', tmc_DNSZoneResourceGroup = ''dns''\<rparr>, pc_GCPGLB = None\<rparr>\<rparr>\<rparr>"

definition sample_azure_status :: "string \<Rightarrow> EndpointStatus" where
  "sample_azure_status c = (sample_status c)\<lparr>es_infrastructure := \<lparr>inf_InfrastructureName = c,
     inf_PlatformStatus = Some \<lparr>pl_Type = AzurePlatformType, pl_AWS_Region = None,
       pl_Azure_NetworkResourceGroupName = Some ''net'', pl_GCP_Region = None\<rparr>\<rparr>\<rparr>"

definition sample_azure_map :: endpoint_map where
  "sample_azure_map = [(''a'', sample_azure_status ''a''), (''b'', sample_azure_status ''b'')]"

definition sample_tm_provider :: trafficManagerProvider where
  "sample_tm_provider = \<lparr>tm_globalzone = sample_tm_zone, tm_endpointMap = (\<lambda>_. sample_azure_map),
     tm_azureClients = \<lparr>az_subscription = [], az_authorizer = []\<rparr>\<rparr>"

lemma sample_rand_Intn: "rand_Intn (sample_env d) n = ret 0"
  by (rule ext) (simp add: rand_Intn_def sample_env_def ret_def)

lemma sample_randDomain: "randDomain (sample_env d) n = ret (foldl (\<lambda>b _. b @ ''q'') [] [0..<n])"
  unfolding randDomain_def sample_rand_Intn by (rule for_each_pure) (simp add: index_def charset_def)

lemma sample_azure_client: "azure_client (sample_env d) p = sample_azure"
  by (simp add: azure_client_def sample_env_def)

lemmas sample_run_defs = sample_randDomain sample_azure_client sample_azure_def sample_azure_status_def sample_azure_map_def
  sample_status_def sample_service_def sample_public_ip_def AWSPlatformType_def AzurePlatformType_def
  deref_def bnd_def seq_def ret_def request_def index_def get_local_def upd_local_def Let_def

lemma sample_public_ips:
  "returned (fst (ensurePublicIPsHaveFQDNs (sample_env no_document) sample_tm_provider sample_azure_map sample_state))"
  unfolding ensurePublicIPsHaveFQDNs_def public_ip_of_def getIPs_def getDefaultIPs_eq list_public_ips_def ensure_fqdn_def
  by (simp add: ensure_fqdn_def sample_run_defs del: upt_rec_numeral)

lemma sample_tm_ensure:
  "fst (tm_ensureDNSRecord (sample_env no_document) sample_tm_provider sample_state) = Ret ()"
  unfolding tm_ensureDNSRecord_def ensureTrafficManagerProfile_def ensureAzureDNSRecord_def
    ensure_profile_name_def ensurePublicIPsHaveFQDNs_def public_ip_of_def getIPs_def getDefaultIPs_eq list_public_ips_def
  by (simp add: ensure_fqdn_def getTrafficRoutingMethod_def getEndpoints_def monitor_config_def tm_config_def
      sample_tm_provider_def sample_tm_zone_def sample_zone_def sample_state_def sample_locals_def sample_record_def
      sample_spec_def set_provider_status_def sample_run_defs del: upt_rec_numeral)

lemma sample_tm_delete:
  "fst (tm_deleteDNSRecord (sample_env no_document) sample_tm_provider sample_state) = Ret ()"
  by (simp add: tm_deleteDNSRecord_def tm_config_def sample_tm_provider_def sample_tm_zone_def sample_zone_def sample_run_defs)

theorem profile_endpoints_complete_witness:
  "\<exists>m t endpoints. ensurePublicIPsHaveFQDNs (sample_env no_document) sample_tm_provider sample_azure_map sample_state = (Ret m, t)
     \<and> getEndpoints sample_tm_provider (rev sample_azure_map) m True t = (Ret endpoints, t)
     \<and> map tme_Name endpoints = [''b'', ''a'']"
proof -
  obtain m t where
    run: "ensurePublicIPsHaveFQDNs (sample_env no_document) sample_tm_provider sample_azure_map sample_state = (Ret m, t)"
    by (rule returnedE [OF sample_public_ips])
  have "map (\<lambda>(_, es). ep_ClusterName (es_endpoint es)) (rev sample_azure_map) = [''b'', ''a'']"
    by (simp add: sample_azure_map_def sample_azure_status_def sample_defs)
  with profile_endpoints_complete [OF run, of "rev sample_azure_map" True t] run show ?thesis by auto
qed

theorem traffic_manager_published_witness:
  "\<exists>t pre x profile recordSet. tm_ensureDNSRecord (sample_env no_document) sample_tm_provider sample_state = (Ret (), t)
     \<and> trace t = pre @ [Azure (CreateOrUpdateProfile ''rg'' (''app-'' @ x) profile),
         Azure (CreateOrUpdateRecordSet ''dns'' ''example.com'' ''app'' ''CNAME'' recordSet)]
     \<and> map tme_Name (tmp_Endpoints profile) = [''a'', ''b'']"
proof -
  from sample_tm_ensure obtain t where
    run: "tm_ensureDNSRecord (sample_env no_document) sample_tm_provider sample_state = (Ret (), t)"
    by (metis prod.collapse)
  have "map (\<lambda>(_, es). ep_ClusterName (es_endpoint es)) sample_azure_map = [''a'', ''b'']"
    by (simp add: sample_azure_map_def sample_azure_status_def sample_defs)
  with run traffic_manager_published [OF run] show ?thesis
    by (auto simp: sample_tm_provider_def sample_tm_zone_def sample_defs getDomain_def first_part_def)
qed

theorem traffic_manager_delete_misses_profile_witness:
  "\<exists>t u v n profile. tm_ensureDNSRecord (sample_env no_document) sample_tm_provider sample_state = (Ret (), t)
     \<and> tm_deleteDNSRecord (sample_env no_document) sample_tm_provider sample_state = (Ret (), v)
     \<and> Azure (CreateOrUpdateProfile ''rg'' n profile) \<in> set (trace t) \<and> n \<noteq> ''app''
     \<and> trace v = [Azure (DeleteProfile ''rg'' ''app''), Azure (DeleteRecordSet ''dns'' ''example.com'' ''app'' ''CNAME'')]"
proof -
  from sample_tm_ensure sample_tm_delete obtain t v where
    runs: "tm_ensureDNSRecord (sample_env no_document) sample_tm_provider sample_state = (Ret (), t)"
    "tm_deleteDNSRecord (sample_env no_document) sample_tm_provider sample_state = (Ret (), v)"
    by (metis prod.collapse)
  with traffic_manager_delete_misses_profile [OF runs(1) _ runs(2)] show ?thesis
    by (auto simp: sample_tm_provider_def sample_tm_zone_def sample_defs getDomain_def first_part_def)
qed

end
