(* ===== verification/GCP_Provider.thy ===== *)
theory GCP_Provider
  imports Credentials Provider_Interface Goroutines Sample_World
begin

text \<open>
  controllers/globaldnsrecord/gcpglb.go: the provider that publishes a record through a global load
  balancer of Google Cloud. It makes sure that firewall rules, a health check, the network
  endpoint groups of the zones, a backend service, a target proxy, a global address, a forwarding
  rule and the DNS entry exist and are up to date, in this order, and deletes them in another.

  The network endpoint groups are handled by goroutines, whose interleaving is the schedule of the
  provider. The Google API is a parameter; the class of an error, \<open>googleapi.Error\<close> with its code or
  another one, decides what the sources do, often without looking at errors of the other classes.
\<close>

section \<open>The provider\<close>

record 'w googleGCPProvider =
  gg_globalzone :: GlobalDNSZone
  gg_endpointMap :: endpoint_ranges
  gg_client :: "'w google_api"
  gg_googleProject :: string
  gg_schedule :: schedule

definition only_gcp_endpoints :: "endpoint_map \<Rightarrow> ('w, 'l, unit) op" where
  "only_gcp_endpoints em =
     for_each (\<lambda>_ (_, endpointStatus).
       bnd (deref (inf_PlatformStatus (es_infrastructure endpointStatus))) (\<lambda>platform.
       if pl_Type platform \<noteq> GCPPlatformType
       then fail (ErrNew ''Illegal state, only gcp endpoints are allowed'')
       else ret ())) () em"

definition createGCPGLBManagerProvider ::
  "'w env \<Rightarrow> schedule \<Rightarrow> GlobalDNSZone \<Rightarrow> endpoint_ranges \<Rightarrow> ('w, record_locals, 'w googleGCPProvider) op" where
  "createGCPGLBManagerProvider E sched globalzone endpointMap =
     seq (only_gcp_endpoints (endpointMap 0))
    (bnd get_local (\<lambda>l.
     if rs_HealthCheck (spec_of l) = None
     then fail (ErrNew ''missing healthcheck definition, heathchecks are mandatory in google'')
     else
     bnd (GetGCPClients E globalzone) (\<lambda>(projectID, computeClient, dnsClient).
     ret \<lparr>gg_globalzone = globalzone, gg_endpointMap = (\<lambda>i. endpointMap (Suc i)),
          gg_client = e_google E computeClient dnsClient, gg_googleProject = projectID, gg_schedule = sched\<rparr>)))"

text \<open>The names of the objects of a record.\<close>

definition gcp_getDomain :: "GlobalDNSRecordSpec \<Rightarrow> string" where
  "gcp_getDomain spec = first_part (CHR ''.'') (rs_Name spec)"

definition getRecordSetName :: "GlobalDNSRecordSpec \<Rightarrow> string" where
  "getRecordSetName spec = rs_Name spec @ ''.''"

definition getFirewallRuleName :: "EndpointStatus \<Rightarrow> string" where
  "getFirewallRuleName endpoint = inf_InfrastructureName (es_infrastructure endpoint) @ ''-fw-allow-health-checks''"

definition getHealthCheckName :: "GlobalDNSRecordSpec \<Rightarrow> string" where
  "getHealthCheckName spec = gcp_getDomain spec @ ''-health-check''"

definition getBackendServiceName :: "GlobalDNSRecordSpec \<Rightarrow> string" where
  "getBackendServiceName spec = gcp_getDomain spec @ ''-backend-service''"

definition getGlobalIPName :: "GlobalDNSRecordSpec \<Rightarrow> string" where
  "getGlobalIPName spec = gcp_getDomain spec @ ''-global-ipv4''"

definition getTargetTCPProxyName :: "GlobalDNSRecordSpec \<Rightarrow> string" where
  "getTargetTCPProxyName spec = gcp_getDomain spec @ ''-target-tcp-proxy''"

definition getForwardingRuleName :: "GlobalDNSRecordSpec \<Rightarrow> string" where
  "getForwardingRuleName spec = gcp_getDomain spec @ ''-forwarding-rule''"

definition getZonalNetworkEndpointGroupName :: "GlobalDNSRecordSpec \<Rightarrow> string \<Rightarrow> string" where
  "getZonalNetworkEndpointGroupName spec zone = gcp_getDomain spec @ ''-'' @ zone"

definition managed_zone :: "'w googleGCPProvider \<Rightarrow> ('w, 'l, string) op" where
  "managed_zone p = bnd (deref (pc_GCPGLB (zs_Provider (zone_Spec (gg_globalzone p))))) (\<lambda>c. ret (gcpc_ManagedZoneName c))"

text \<open>The type assertion \<open>err.(*googleapi.Error)\<close> and its code.\<close>

fun google_code :: "error \<Rightarrow> int option" where
  "google_code (GoogleErr code _) = Some code"
| "google_code _ = None"

section \<open>Firewall rules\<close>

definition getDesiredFirewallRulesAllowForHealthChecks :: "'w googleGCPProvider \<Rightarrow> EndpointStatus \<Rightarrow> Firewall" where
  "getDesiredFirewallRulesAllowForHealthChecks p endpoint =
     (let infrastructure = inf_InfrastructureName (es_infrastructure endpoint) in
      \<lparr>fw_Allowed = Some [''tcp''], fw_Direction = ''INGRESS'', fw_SourceRanges = [''35.191.0.0/16'', ''130.211.0.0/22''],
       fw_TargetTags = [infrastructure @ ''-worker''],
       fw_Network = ''projects/'' @ gg_googleProject p @ ''/global/networks/'' @ infrastructure @ ''-network'',
       fw_Name = getFirewallRuleName endpoint\<rparr>)"

definition compareFirewallRules :: "Firewall \<Rightarrow> Firewall \<Rightarrow> ('w, 'l, bool) op" where
  "compareFirewallRules a b =
     (case (fw_Allowed a, fw_Allowed b) of
        (Some xs, Some ys) \<Rightarrow>
          bnd (index xs 0) (\<lambda>x. bnd (index ys 0) (\<lambda>y.
          ret (if x \<noteq> y then False
               else fw_Direction a = fw_Direction b \<and> fw_SourceRanges a = fw_SourceRanges b
                 \<and> fw_TargetTags a = fw_TargetTags b \<and> fw_Network a = fw_Network b \<and> fw_Name a = fw_Name b)))
      | _ \<Rightarrow> ret False)"

text \<open>The loop over the endpoints ends after the first rule that had to be inserted: the source
  returns there.\<close>

fun ensure_firewall_rules :: "'w googleGCPProvider \<Rightarrow> endpoint_map \<Rightarrow> ('w, 'l, unit) op" where
  "ensure_firewall_rules p [] = ret ()"
| "ensure_firewall_rules p ((_, endpoint) # em) =
     (let project = gg_googleProject p; name = getFirewallRuleName endpoint;
          desired = getDesiredFirewallRulesAllowForHealthChecks p endpoint in
      bnd (attempt (request (Google (GetFirewall project name)) (g_GetFirewall (gg_client p) project name))) (\<lambda>r.
      case r of
        Inl err \<Rightarrow> (case google_code err of
            Some code \<Rightarrow>
              if code \<noteq> 404 then fail err
              else seq (request (Google (InsertFirewall project desired)) (g_InsertFirewall (gg_client p) project desired)) (ret ())
          | None \<Rightarrow> crash NilDereference)
      | Inr current \<Rightarrow>
          bnd (compareFirewallRules desired current) (\<lambda>same.
          if \<not> same
          then seq (request (Google (UpdateFirewall project name desired)) (g_UpdateFirewall (gg_client p) project name desired))
                   (ensure_firewall_rules p em)
          else ensure_firewall_rules p em)))"

definition ensureFirewallRulesAllowForHealthChecks :: "'w googleGCPProvider \<Rightarrow> ('w, 'l, unit) op" where
  "ensureFirewallRulesAllowForHealthChecks p = ensure_firewall_rules p (gg_endpointMap p 0)"

section \<open>The health check\<close>

definition same_http_check :: "HTTPHealthCheck option \<Rightarrow> HTTPHealthCheck option \<Rightarrow> bool" where
  "same_http_check a b = (case (a, b) of
      (Some x, Some y) \<Rightarrow> hhc_Host x = hhc_Host y \<and> hhc_RequestPath x = hhc_RequestPath y
        \<and> hhc_PortSpecification x = hhc_PortSpecification y
    | _ \<Rightarrow> False)"

definition compareHealthCheck :: "ComputeHealthCheck \<Rightarrow> ComputeHealthCheck \<Rightarrow> bool" where
  "compareHealthCheck a b =
     (if same_http_check (chc_HttpHealthCheck a) (chc_HttpHealthCheck b) then False
      else if same_http_check (chc_HttpsHealthCheck a) (chc_HttpsHealthCheck b) then False
      else chc_CheckIntervalSec a = chc_CheckIntervalSec b \<and> chc_UnhealthyThreshold a = chc_UnhealthyThreshold b
        \<and> chc_TimeoutSec a = chc_TimeoutSec b \<and> chc_Type a = chc_Type b)"

definition probe_scheme :: "GlobalDNSRecordSpec \<Rightarrow> ('w, 'l, Probe \<times> HTTPGetAction) op" where
  "probe_scheme spec =
     bnd (deref (rs_HealthCheck spec)) (\<lambda>probe. bnd (deref (pr_HTTPGet probe)) (\<lambda>get. ret (probe, get)))"

definition getDesiredHealthCheck :: "GlobalDNSRecordSpec \<Rightarrow> ('w, 'l, ComputeHealthCheck) op" where
  "getDesiredHealthCheck spec =
     bnd (probe_scheme spec) (\<lambda>(probe, get).
     let http = \<lparr>hhc_Host = rs_Name spec, hhc_RequestPath = hg_Path get, hhc_PortSpecification = ''USE_SERVING_PORT''\<rparr>;
         check = \<lparr>chc_Name = getHealthCheckName spec, chc_CheckIntervalSec = pr_PeriodSeconds probe,
           chc_UnhealthyThreshold = pr_FailureThreshold probe, chc_TimeoutSec = pr_TimeoutSeconds probe,
           chc_Type = hg_Scheme get, chc_HttpHealthCheck = None, chc_HttpsHealthCheck = None, chc_SelfLink = []\<rparr> in
     if hg_Scheme get = ''HTTPS'' then ret (check\<lparr>chc_HttpsHealthCheck := Some http\<rparr>)
     else if hg_Scheme get = ''HTTP'' then ret (check\<lparr>chc_HttpHealthCheck := Some http\<rparr>)
     else fail (ErrNew ''unsupported healthcheck scheme''))"

definition ensureHealthCheck :: "'w googleGCPProvider \<Rightarrow> GlobalDNSRecordSpec \<Rightarrow> ('w, 'l, string) op" where
  "ensureHealthCheck p spec =
     bnd (getDesiredHealthCheck spec) (\<lambda>desired.
     let project = gg_googleProject p; name = getHealthCheckName spec in
     bnd (attempt (request (Google (GetComputeHealthCheck project name)) (g_GetHealthCheck (gg_client p) project name))) (\<lambda>r.
     case r of
       Inl err \<Rightarrow> (case google_code err of
           Some code \<Rightarrow>
             if code \<noteq> 404 then fail err
             else bnd (request (Google (InsertComputeHealthCheck project desired)) (g_InsertHealthCheck (gg_client p) project desired)) (\<lambda>op.
                  ret (op_TargetLink op))
         | None \<Rightarrow> crash NilDereference)
     | Inr current \<Rightarrow>
         if \<not> compareHealthCheck current desired
         then bnd (request (Google (UpdateComputeHealthCheck project name desired)) (g_UpdateHealthCheck (gg_client p) project name desired)) (\<lambda>op.
              ret (op_TargetLink op))
         else ret (chc_SelfLink current)))"

section \<open>Network endpoint groups\<close>

text \<open>\<open>strings.Contains\<close>\<close>

definition strings_Contains :: "string \<Rightarrow> string \<Rightarrow> bool" where
  "strings_Contains s sub = list_ex (\<lambda>i. take (length sub) (drop i s) = sub) [0..<Suc (length s)]"

definition tderef :: "'a option \<Rightarrow> ('s, 'a) thread" where
  "tderef x = (case x of None \<Rightarrow> Done (Panic NilDereference) | Some a \<Rightarrow> Done (Ret a))"

text \<open>The ports of the service: the last port of a name wins.\<close>

definition node_port :: "string \<Rightarrow> Service \<Rightarrow> int" where
  "node_port name service = foldl (\<lambda>acc port. if sp_Name port = name then sp_NodePort port else acc) 0 (svc_Ports service)"

definition node_zone :: "Node \<Rightarrow> string" where
  "node_zone node = (case node_Labels node ''topology.kubernetes.io/zone'' of None \<Rightarrow> [] | Some z \<Rightarrow> z)"

definition zone_append :: "string \<Rightarrow> 'a \<Rightarrow> (string \<times> 'a list) list \<Rightarrow> (string \<times> 'a list) list" where
  "zone_append z x m = AList.update z ((case map_of m z of None \<Rightarrow> [] | Some xs \<Rightarrow> xs) @ [x]) m"

text \<open>The loop over the nodes; the probe is looked at once per node.\<close>

fun neps_by_zone :: "GlobalDNSRecordSpec \<Rightarrow> int \<Rightarrow> int \<Rightarrow> (string \<times> NetworkEndpoint list) list \<Rightarrow> Node list \<Rightarrow>
    ('s, (string \<times> NetworkEndpoint list) list) thread" where
  "neps_by_zone spec httpPort httpsPort acc [] = Done (Ret acc)"
| "neps_by_zone spec httpPort httpsPort acc (node # nodes) =
     (let instanceName = last_part (CHR ''/'') (node_ProviderID node);
          add = (\<lambda>port. zone_append (node_zone node) \<lparr>ne_Instance = instanceName, ne_Port = port\<rparr> acc) in
      tbnd (tderef (rs_HealthCheck spec)) (\<lambda>probe.
      tbnd (tderef (pr_HTTPGet probe)) (\<lambda>get.
      neps_by_zone spec httpPort httpsPort
        (if hg_Scheme get = ''HTTPS'' then add httpsPort else if hg_Scheme get = ''HTTP'' then add httpPort else acc) nodes)))"

definition getDesiredNepsByZone ::
  "'w env \<Rightarrow> GlobalDNSRecordSpec \<Rightarrow> EndpointStatus \<Rightarrow> (('v, 'w, 'l) shared_state, (string \<times> NetworkEndpoint list) list) thread" where
  "getDesiredNepsByZone E spec endpoint =
     (let ref = ep_LoadBalancerServiceRef (es_endpoint endpoint) in
      tbnd (tderef (es_client endpoint)) (\<lambda>client.
      tbnd (act (request (Remote (GetRemoteService client ref)) (m_GetService (e_remote E) client ref))) (\<lambda>service.
      let httpPort = node_port ''http'' service; httpsPort = node_port ''https'' service in
      if httpsPort = 0 \<or> httpPort = 0 then Done (Fail (ErrNew ''unable to retrieve ports from service''))
      else
      let selector = l_SelectorFromSet (e_labels E) (svc_Selector service) in
      tbnd (act (request (Remote (ListPods client selector (nn_Namespace ref))) (m_ListPods (e_remote E) client selector (nn_Namespace ref)))) (\<lambda>pods.
      case pods of
        [] \<Rightarrow> Done (Panic IndexOutOfRange)
      | pod # _ \<Rightarrow>
          let nodeSelector = l_SelectorFromSet (e_labels E) (pod_NodeSelector pod) in
          tbnd (act (request (Remote (ListNodes client nodeSelector)) (m_ListNodes (e_remote E) client nodeSelector))) (\<lambda>nodes.
          neps_by_zone spec httpPort httpsPort [] nodes)))))"

definition getNepOuterJoin ::
  "'w env \<Rightarrow> NetworkEndpoint list \<Rightarrow> NetworkEndpoint list \<Rightarrow> NetworkEndpoint option list \<times> NetworkEndpoint option list" where
  "getNepOuterJoin E left right =
     (let leftMap = foldl (\<lambda>m ne. m(ne_Instance ne \<mapsto> ne)) Map.empty left;
          rightMap = foldl (\<lambda>m ne. m(ne_Instance ne \<mapsto> ne)) Map.empty right;
          leftKeys = map ne_Instance left; rightKeys = map ne_Instance right; S = e_strset E in
      (map leftMap (ss_List S (ss_Difference S (ss_New S leftKeys) (ss_New S rightKeys))),
       map rightMap (ss_List S (ss_Difference S (ss_New S rightKeys) (ss_New S leftKeys)))))"

definition wrong_group :: "NetworkEndpointGroup \<Rightarrow> string \<Rightarrow> string \<Rightarrow> string \<Rightarrow> bool" where
  "wrong_group znepg network subnetwork zone \<longleftrightarrow>
     \<not> strings_Contains (neg_Network znepg) network \<or> \<not> strings_Contains (neg_Subnetwork znepg) subnetwork
     \<or> \<not> strings_Contains (neg_Zone znepg) zone \<or> neg_NetworkEndpointType znepg \<noteq> ''GCE_VM_IP_PORT''"

text \<open>The first part of the goroutine of a zone: the group exists afterwards, and its ID is known.\<close>

definition ensure_group ::
  "'w googleGCPProvider \<Rightarrow> string \<Rightarrow> string \<Rightarrow> string \<Rightarrow> string \<Rightarrow> (('v, 'w, 'l) shared_state, string) thread" where
  "ensure_group p network subnetwork zone name =
     (let project = gg_googleProject p;
          new = \<lparr>neg_Zone = zone, neg_Network = network, neg_Subnetwork = subnetwork, neg_DefaultPort = 443,
                 neg_Name = name, neg_NetworkEndpointType = ''GCE_VM_IP_PORT'', neg_SelfLink = []\<rparr>;
          insert = tbnd (act (request (Google (InsertNEG project zone new)) (g_InsertNEG (gg_client p) project zone new))) (\<lambda>op.
                   Done (Ret (op_TargetLink op))) in
      tbnd (tattempt (act (request (Google (GetNEG project zone name)) (g_GetNEG (gg_client p) project zone name)))) (\<lambda>r.
      case r of
        Inl err \<Rightarrow> (case google_code err of
            Some code \<Rightarrow> if code \<noteq> 404 then Done (Fail err) else insert
          | None \<Rightarrow> Done (Panic NilDereference))
      | Inr znepg \<Rightarrow>
          if wrong_group znepg network subnetwork zone
          then tbnd (act (request (Google (DeleteNEG project zone name)) (g_DeleteNEG (gg_client p) project zone name))) (\<lambda>_. insert)
          else Done (Ret (neg_SelfLink znepg))))"

text \<open>The items of the pages are dereferenced as they come; the error of a page comes after them.\<close>

fun page_items :: "NetworkEndpoint option list \<Rightarrow> NetworkEndpoint list option" where
  "page_items [] = Some []"
| "page_items (None # _) = None"
| "page_items (Some ne # rest) = (case page_items rest of None \<Rightarrow> None | Some nes \<Rightarrow> Some (ne # nes))"

text \<open>Detaching or attaching endpoints, when there are any.\<close>

definition change_endpoints ::
  "(NetworkEndpoint option list \<Rightarrow> google_event) \<Rightarrow> (NetworkEndpoint option list \<Rightarrow> ('w, Operation) answer) \<Rightarrow>
     NetworkEndpoint option list \<Rightarrow> (('v, 'w, 'l) shared_state, unit) thread" where
  "change_endpoints ev f neps =
     (if neps \<noteq> [] then tbnd (act (request (Google (ev neps)) (f neps))) (\<lambda>_. Done (Ret ())) else Done (Ret ()))"

definition ensure_endpoints ::
  "'w env \<Rightarrow> 'w googleGCPProvider \<Rightarrow> string \<Rightarrow> string \<Rightarrow> NetworkEndpoint list \<Rightarrow> (('v, 'w, 'l) shared_state, unit) thread" where
  "ensure_endpoints E p zone name desiredNeps =
     (let project = gg_googleProject p in
      tbnd (act (request (Google (ListNetworkEndpoints project zone name)) (g_ListNetworkEndpoints (gg_client p) project zone name))) (\<lambda>(found, err).
      tbnd (tderef (page_items found)) (\<lambda>actualNeps.
      case err of
        Some e \<Rightarrow> Done (Fail e)
      | None \<Rightarrow>
          let (toBeDeleted, toBeCreated) = getNepOuterJoin E actualNeps desiredNeps in
          tbnd (change_endpoints (DetachNetworkEndpoints project zone name) (g_DetachNetworkEndpoints (gg_client p) project zone name) toBeDeleted) (\<lambda>_.
          change_endpoints (AttachNetworkEndpoints project zone name) (g_AttachNetworkEndpoints (gg_client p) project zone name) toBeCreated))))"

text \<open>\<open>backends = append(backends, ...)\<close> on a variable that all goroutines share, without a lock: a
  read and a write.\<close>

definition append_backend :: "string \<Rightarrow> ((Backend list, 'w, 'l) shared_state, unit) thread" where
  "append_backend znepgID =
     tbnd (access (\<lambda>backends. (backends, backends))) (\<lambda>backends.
     access (\<lambda>_. ((), backends @ [\<lparr>be_BalancingMode = ''CONNECTION'', be_MaxConnectionsPerEndpoint = 100, be_Group = znepgID\<rparr>])))"

definition zone_goroutine ::
  "'w env \<Rightarrow> 'w googleGCPProvider \<Rightarrow> GlobalDNSRecordSpec \<Rightarrow> string \<Rightarrow> string \<Rightarrow> string \<Rightarrow> NetworkEndpoint list \<Rightarrow>
     ((Backend list, 'w, 'l) shared_state, unit) thread" where
  "zone_goroutine E p spec network subnetwork zone desiredNeps =
     (let name = getZonalNetworkEndpointGroupName spec zone in
      tbnd (ensure_group p network subnetwork zone name) (\<lambda>znepgID.
      tbnd (ensure_endpoints E p zone name desiredNeps) (\<lambda>_.
      append_backend znepgID)))"

text \<open>Starting goroutines and receiving their results, which the multierror package gathers.\<close>

definition collect :: "'w env \<Rightarrow> nat list \<Rightarrow> ('s, error option) thread list \<Rightarrow> ('s, unit) thread" where
  "collect E sched goroutines =
     tbnd (weave sched goroutines []) (\<lambda>results.
     Done (case e_multierror E results of None \<Rightarrow> Ret () | Some e \<Rightarrow> Fail e))"

definition endpoint_goroutine ::
  "'w env \<Rightarrow> 'w googleGCPProvider \<Rightarrow> GlobalDNSRecordSpec \<Rightarrow> string \<Rightarrow> EndpointStatus \<Rightarrow>
     ((Backend list, 'w, 'l) shared_state, unit) thread" where
  "endpoint_goroutine E p spec name endpoint =
     (let infrastructure = inf_InfrastructureName (es_infrastructure endpoint);
          network = ''projects/'' @ gg_googleProject p @ ''/global/networks/'' @ infrastructure @ ''-network'' in
      tbnd (tderef (inf_PlatformStatus (es_infrastructure endpoint))) (\<lambda>platform.
      tbnd (tderef (pl_GCP_Region platform)) (\<lambda>region.
      let subnetwork = ''projects/'' @ gg_googleProject p @ ''/regions/'' @ region @ ''/subnetworks/'' @ infrastructure @ ''-worker-subnet'' in
      tbnd (getDesiredNepsByZone E spec endpoint) (\<lambda>desiredNepsByZone.
      collect E (sch_zones (gg_schedule p) name)
        (map (\<lambda>(zone, desiredNeps). sends (zone_goroutine E p spec network subnetwork zone desiredNeps)) desiredNepsByZone)))))"

definition ensureZonalNetworkEndpointGroups ::
  "'w env \<Rightarrow> 'w googleGCPProvider \<Rightarrow> GlobalDNSRecordSpec \<Rightarrow> ('w, 'l, Backend list) op" where
  "ensureZonalNetworkEndpointGroups E p spec =
     bnd (run_goroutines [] (collect E (sch_endpoints (gg_schedule p))
       (map (\<lambda>(name, endpoint). sends (endpoint_goroutine E p spec name endpoint)) (gg_endpointMap p 1)))) (\<lambda>(_, backends).
     ret backends)"

section \<open>Backend service, proxy, address, forwarding rule and DNS entry\<close>

definition compareBackendServices :: "'w env \<Rightarrow> BackendService \<Rightarrow> BackendService \<Rightarrow> ('w, 'l, bool) op" where
  "compareBackendServices E a b =
     (case (bs_HealthChecks a, bs_HealthChecks b) of
        (Some xs, Some ys) \<Rightarrow>
          bnd (index xs 0) (\<lambda>x. bnd (index ys 0) (\<lambda>y.
          ret (if x \<noteq> y then False
               else if \<not> ss_IsEqual (e_strset E) (ss_New (e_strset E) (map be_Group (bs_Backends a)))
                          (ss_New (e_strset E) (map be_Group (bs_Backends b))) then False
               else bs_Protocol a = bs_Protocol b \<and> bs_LoadBalancingScheme a = bs_LoadBalancingScheme b
                 \<and> bs_LocalityLbPolicy a = bs_LocalityLbPolicy b \<and> bs_SessionAffinity a = bs_SessionAffinity b)))
      | _ \<Rightarrow> ret False)"

definition getDesiredBackendService :: "GlobalDNSRecordSpec \<Rightarrow> string \<Rightarrow> Backend list \<Rightarrow> BackendService" where
  "getDesiredBackendService spec healthCheckID znegs =
     \<lparr>bs_Protocol = ''TCP'', bs_LoadBalancingScheme = ''EXTERNAL'', bs_LocalityLbPolicy = [], bs_SessionAffinity = ''CLIENT_IP'',
      bs_HealthChecks = Some [healthCheckID], bs_Backends = znegs, bs_Name = getBackendServiceName spec,
      bs_Fingerprint = [], bs_SelfLink = []\<rparr>"

definition ensureBackendService ::
  "'w env \<Rightarrow> 'w googleGCPProvider \<Rightarrow> GlobalDNSRecordSpec \<Rightarrow> string \<Rightarrow> Backend list \<Rightarrow> ('w, 'l, string) op" where
  "ensureBackendService E p spec healthCheckID znegs =
     (let project = gg_googleProject p; name = getBackendServiceName spec;
          desired = getDesiredBackendService spec healthCheckID znegs in
      bnd (attempt (request (Google (GetBackendService project name)) (g_GetBackendService (gg_client p) project name))) (\<lambda>r.
      case r of
        Inl err \<Rightarrow> (case google_code err of
            Some code \<Rightarrow>
              if code \<noteq> 404 then fail err
              else bnd (request (Google (InsertBackendService project desired)) (g_InsertBackendService (gg_client p) project desired)) (\<lambda>op.
                   ret (op_TargetLink op))
          | None \<Rightarrow> crash NilDereference)
      | Inr backendService \<Rightarrow>
          bnd (compareBackendServices E backendService desired) (\<lambda>same.
          if \<not> same
          then (let updated = desired\<lparr>bs_Fingerprint := bs_Fingerprint backendService\<rparr> in
                bnd (request (Google (UpdateBackendService project name updated)) (g_UpdateBackendService (gg_client p) project name updated)) (\<lambda>op.
                ret (op_TargetLink op)))
          else ret (bs_SelfLink backendService))))"

definition compareTargetTCPProxy :: "TargetTcpProxy \<Rightarrow> TargetTcpProxy \<Rightarrow> bool" where
  "compareTargetTCPProxy a b \<longleftrightarrow> ttp_Service a = ttp_Service b"

definition getDesiredTargetTCPProxy :: "GlobalDNSRecordSpec \<Rightarrow> string \<Rightarrow> TargetTcpProxy" where
  "getDesiredTargetTCPProxy spec backendID =
     \<lparr>ttp_Name = getTargetTCPProxyName spec, ttp_Service = backendID, ttp_SelfLink = []\<rparr>"

definition ensureTargetTCPProxy :: "'w googleGCPProvider \<Rightarrow> GlobalDNSRecordSpec \<Rightarrow> string \<Rightarrow> ('w, 'l, string) op" where
  "ensureTargetTCPProxy p spec backendID =
     (let project = gg_googleProject p; name = getTargetTCPProxyName spec; desired = getDesiredTargetTCPProxy spec backendID in
      bnd (attempt (request (Google (GetTargetTcpProxy project name)) (g_GetTargetTcpProxy (gg_client p) project name))) (\<lambda>r.
      case r of
        Inl err \<Rightarrow> (case google_code err of
            Some code \<Rightarrow>
              if code \<noteq> 404 then fail err
              else bnd (request (Google (InsertTargetTcpProxy project desired)) (g_InsertTargetTcpProxy (gg_client p) project desired)) (\<lambda>op.
                   ret (op_TargetLink op))
          | None \<Rightarrow> ret [])
      | Inr targetTCPProxy \<Rightarrow>
          if \<not> compareTargetTCPProxy targetTCPProxy desired
          then seq (request (Google (SetBackendService project name backendID)) (g_SetBackendService (gg_client p) project name backendID))
                   (ret (ttp_SelfLink targetTCPProxy))
          else ret (ttp_SelfLink targetTCPProxy)))"

definition ensureGlobalIP :: "'w googleGCPProvider \<Rightarrow> GlobalDNSRecordSpec \<Rightarrow> ('w, 'l, string) op" where
  "ensureGlobalIP p spec =
     (let project = gg_googleProject p; name = getGlobalIPName spec;
          get = request (Google (GetAddress project name)) (g_GetAddress (gg_client p) project name);
          new = \<lparr>adr_IpVersion = ''IPV4'', adr_Name = name, adr_Address = []\<rparr> in
      bnd (attempt get) (\<lambda>r.
      case r of
        Inl err \<Rightarrow> (case google_code err of
            Some code \<Rightarrow>
              if code \<noteq> 404 then fail err
              else seq (request (Google (InsertAddress project new)) (g_InsertAddress (gg_client p) project new))
                  (bnd get (\<lambda>address. ret (adr_Address address)))
          | None \<Rightarrow> ret [])
      | Inr address \<Rightarrow> ret (adr_Address address)))"

definition compareForwardingRule :: "ForwardingRule \<Rightarrow> ForwardingRule \<Rightarrow> bool" where
  "compareForwardingRule a b \<longleftrightarrow> fr_IPProtocol a = fr_IPProtocol b \<and> fr_IPAddress a = fr_IPAddress b
     \<and> fr_LoadBalancingScheme a = fr_LoadBalancingScheme b \<and> fr_Target a = fr_Target b \<and> fr_PortRange a = fr_PortRange b"

definition getDesiredForwardingRule :: "GlobalDNSRecordSpec \<Rightarrow> string \<Rightarrow> string \<Rightarrow> ('w, 'l, ForwardingRule) op" where
  "getDesiredForwardingRule spec targetTCPProxyID globalIP =
     bnd (probe_scheme spec) (\<lambda>(_, get).
     let rule = (\<lambda>port. \<lparr>fr_IPProtocol = ''TCP'', fr_IPAddress = globalIP, fr_LoadBalancingScheme = ''EXTERNAL'',
           fr_PortRange = port @ ''-'' @ port, fr_Target = targetTCPProxyID, fr_Name = getForwardingRuleName spec\<rparr>) in
     if hg_Scheme get = ''HTTPS'' then ret (rule ''443'')
     else if hg_Scheme get = ''HTTP'' then ret (rule ''80'')
     else fail (ErrNew ''unsupported healthcheck scheme''))"

definition ensureForwardingRule :: "'w googleGCPProvider \<Rightarrow> GlobalDNSRecordSpec \<Rightarrow> string \<Rightarrow> string \<Rightarrow> ('w, 'l, unit) op" where
  "ensureForwardingRule p spec targetTCPProxyID globalIP =
     bnd (getDesiredForwardingRule spec targetTCPProxyID globalIP) (\<lambda>desired.
     let project = gg_googleProject p; name = getForwardingRuleName spec;
         insert = seq (request (Google (InsertForwardingRule project desired)) (g_InsertForwardingRule (gg_client p) project desired)) (ret ()) in
     bnd (attempt (request (Google (GetForwardingRule project name)) (g_GetForwardingRule (gg_client p) project name))) (\<lambda>r.
     case r of
       Inl err \<Rightarrow> (case google_code err of
           Some code \<Rightarrow> if code \<noteq> 404 then fail err else insert
         | None \<Rightarrow> ret ())
     | Inr forwardingRule \<Rightarrow>
         if \<not> compareForwardingRule forwardingRule desired
         then seq (request (Google (DeleteForwardingRule project name)) (g_DeleteForwardingRule (gg_client p) project name)) insert
         else ret ()))"

definition compareRecordSet :: "ResourceRecordSet \<Rightarrow> ResourceRecordSet \<Rightarrow> ('w, 'l, bool) op" where
  "compareRecordSet a b =
     (case (rrs_Rrdatas a, rrs_Rrdatas b) of
        (Some xs, Some ys) \<Rightarrow>
          bnd (index xs 0) (\<lambda>x. bnd (index ys 0) (\<lambda>y.
          ret (if x \<noteq> y then False else rrs_Type a = rrs_Type b \<and> rrs_Ttl a = rrs_Ttl b)))
      | _ \<Rightarrow> ret False)"

definition getDesiredRecordSet :: "GlobalDNSRecordSpec \<Rightarrow> string \<Rightarrow> ResourceRecordSet" where
  "getDesiredRecordSet spec globalIP =
     \<lparr>rrs_Name = getRecordSetName spec, rrs_Type = ''A'', rrs_Ttl = rs_TTL spec, rrs_Rrdatas = Some [globalIP]\<rparr>"

definition ensureDNSEntry :: "'w googleGCPProvider \<Rightarrow> GlobalDNSRecordSpec \<Rightarrow> string \<Rightarrow> ('w, 'l, unit) op" where
  "ensureDNSEntry p spec globalIP =
     bnd (managed_zone p) (\<lambda>zone.
     let project = gg_googleProject p; name = getRecordSetName spec; desired = getDesiredRecordSet spec globalIP in
     bnd (attempt (request (Google (GetRecordSet project zone name ''A'')) (g_GetRecordSet (gg_client p) project zone name ''A''))) (\<lambda>r.
     case r of
       Inl err \<Rightarrow> (case google_code err of
           Some code \<Rightarrow>
             if code \<noteq> 404 then fail err
             else seq (request (Google (CreateRecordSet project zone desired)) (g_CreateRecordSet (gg_client p) project zone desired)) (ret ())
         | None \<Rightarrow> ret ())
     | Inr rrs \<Rightarrow>
         bnd (compareRecordSet rrs desired) (\<lambda>same.
         if \<not> same
         then seq (request (Google (PatchRecordSet project zone name ''A'' desired)) (g_PatchRecordSet (gg_client p) project zone name ''A'' desired)) (ret ())
         else ret ())))"

definition gcp_ensureDNSRecord :: "'w env \<Rightarrow> 'w googleGCPProvider \<Rightarrow> ('w, record_locals, unit) op" where
  "gcp_ensureDNSRecord E p =
     bnd get_local (\<lambda>l. let spec = spec_of l in
     seq (ensureFirewallRulesAllowForHealthChecks p)
    (bnd (ensureHealthCheck p spec) (\<lambda>healthCheckID.
     bnd (ensureZonalNetworkEndpointGroups E p spec) (\<lambda>zneg.
     bnd (ensureBackendService E p spec healthCheckID zneg) (\<lambda>backendServiceID.
     bnd (ensureTargetTCPProxy p spec backendServiceID) (\<lambda>targetTCPProxyID.
     bnd (ensureGlobalIP p spec) (\<lambda>globalIP.
     seq (ensureForwardingRule p spec targetTCPProxyID globalIP)
         (ensureDNSEntry p spec globalIP))))))))"

section \<open>Deletion\<close>

text \<open>A deletion in Google's API: an error with another code than 404 ends the function; other errors
  are not looked at.\<close>

definition google_delete :: "google_event \<Rightarrow> ('w \<Rightarrow> 'a outcome \<times> 'w) \<Rightarrow> ('w, 'l, unit) op" where
  "google_delete ev f =
     bnd (attempt (request (Google ev) f)) (\<lambda>r.
     case r of
       Inl err \<Rightarrow> (case google_code err of Some code \<Rightarrow> if code \<noteq> 404 then fail err else ret () | None \<Rightarrow> ret ())
     | Inr _ \<Rightarrow> ret ())"

text \<open>The goroutines of the zones of one endpoint share the variable \<open>err\<close> of the goroutine of the
  endpoint: each assigns it and reads it again for the test, the type assertion and the send.\<close>

definition delete_zone_goroutine ::
  "'w googleGCPProvider \<Rightarrow> GlobalDNSRecordSpec \<Rightarrow> string \<Rightarrow> string \<Rightarrow>
     ((string \<Rightarrow> error option, 'w, 'l) shared_state, error option) thread" where
  "delete_zone_goroutine p spec endpoint zone =
     (let project = gg_googleProject p; name = getZonalNetworkEndpointGroupName spec zone;
          read = access (\<lambda>errs. (errs endpoint, errs)) in
      tbnd (tattempt (act (request (Google (DeleteNEG project zone name)) (g_DeleteNEG (gg_client p) project zone name)))) (\<lambda>r.
      tbnd (access (\<lambda>errs. ((), errs(endpoint := (case r of Inl e \<Rightarrow> Some e | Inr _ \<Rightarrow> None))))) (\<lambda>_.
      tbnd read (\<lambda>err.
      if err = None then Done (Ret None)
      else tbnd read (\<lambda>err.
      case err of
        Some e \<Rightarrow> (case google_code e of
            Some code \<Rightarrow> if code \<noteq> 404 then read else Done (Ret None)
          | None \<Rightarrow> Done (Ret None))
      | None \<Rightarrow> Done (Ret None))))))"

definition delete_endpoint_goroutine ::
  "'w env \<Rightarrow> 'w googleGCPProvider \<Rightarrow> GlobalDNSRecordSpec \<Rightarrow> string \<Rightarrow> EndpointStatus \<Rightarrow>
     ((string \<Rightarrow> error option, 'w, 'l) shared_state, unit) thread" where
  "delete_endpoint_goroutine E p spec name endpoint =
     tbnd (getDesiredNepsByZone E spec endpoint) (\<lambda>desiredNepsByZone.
     collect E (sch_zones (gg_schedule p) name)
       (map (\<lambda>(zone, _). delete_zone_goroutine p spec name zone) desiredNepsByZone))"

definition delete_groups :: "'w env \<Rightarrow> 'w googleGCPProvider \<Rightarrow> GlobalDNSRecordSpec \<Rightarrow> ('w, 'l, unit) op" where
  "delete_groups E p spec =
     bnd (run_goroutines (\<lambda>_. None) (collect E (sch_endpoints (gg_schedule p))
       (map (\<lambda>(name, endpoint). sends (delete_endpoint_goroutine E p spec name endpoint)) (gg_endpointMap p 0)))) (\<lambda>_.
     ret ())"

definition gcp_deleteDNSRecord :: "'w env \<Rightarrow> 'w googleGCPProvider \<Rightarrow> ('w, record_locals, unit) op" where
  "gcp_deleteDNSRecord E p =
     bnd get_local (\<lambda>l. let spec = spec_of l; project = gg_googleProject p; api = gg_client p in
     bnd (managed_zone p) (\<lambda>zone.
     seq (google_delete (DeleteGoogleRecordSet project zone (getRecordSetName spec) ''A'')
            (g_DeleteRecordSet api project zone (getRecordSetName spec) ''A''))
    (seq (google_delete (DeleteForwardingRule project (getForwardingRuleName spec)) (g_DeleteForwardingRule api project (getForwardingRuleName spec)))
    (seq (google_delete (DeleteAddress project (getGlobalIPName spec)) (g_DeleteAddress api project (getGlobalIPName spec)))
    (seq (google_delete (DeleteTargetTcpProxy project (getTargetTCPProxyName spec)) (g_DeleteTargetTcpProxy api project (getTargetTCPProxyName spec)))
    (seq (google_delete (DeleteBackendService project (getBackendServiceName spec)) (g_DeleteBackendService api project (getBackendServiceName spec)))
    (seq (google_delete (DeleteComputeHealthCheck project (getHealthCheckName spec)) (g_DeleteHealthCheck api project (getHealthCheckName spec)))
         (delete_groups E p spec))))))))"

section \<open>What the provider may send and change\<close>

fun gcp_event :: "event \<Rightarrow> bool" where
  "gcp_event (Google _) = True"
| "gcp_event (Remote (GetRemoteService _ _)) = True"
| "gcp_event (Remote (ListPods _ _ _)) = True"
| "gcp_event (Remote (ListNodes _ _)) = True"
| "gcp_event _ = False"

lemma gcp_provider_event: "gcp_event ev \<Longrightarrow> provider_event ev"
  by (cases ev rule: gcp_event.cases) simp_all

lemma case_google_frame [frame_intros]:
  "(\<And>code. obeys R (f code)) \<Longrightarrow> obeys R m \<Longrightarrow> obeys R (case google_code e of None \<Rightarrow> m | Some code \<Rightarrow> f code)"
  by (auto split: option.split)

lemma only_gcp_endpoints_frame [frame_intros]: "emits P (only_gcp_endpoints em)" "keeps f (only_gcp_endpoints em)"
  unfolding only_gcp_endpoints_def by (intro frame_intros)+

lemma compare_frame [frame_intros]:
  "emits P (compareFirewallRules a b)" "keeps f (compareFirewallRules a b)"
  "emits P (compareBackendServices E c d)" "keeps f (compareBackendServices E c d)"
  "emits P (compareRecordSet e g)" "keeps f (compareRecordSet e g)"
  unfolding compareFirewallRules_def compareBackendServices_def compareRecordSet_def
  by (auto split: option.split intro!: frame_intros)

lemma ensure_firewall_rules_frame [frame_intros]:
  "emits gcp_event (ensure_firewall_rules p em)" "keeps f (ensure_firewall_rules p em)"
  by (induction p em rule: ensure_firewall_rules.induct) (simp_all add: Let_def, (intro frame_intros; simp)+)

lemma desired_frame [frame_intros]:
  "emits P (getDesiredHealthCheck spec)" "keeps f (getDesiredHealthCheck spec)"
  "emits P (getDesiredForwardingRule spec i a)" "keeps f (getDesiredForwardingRule spec i a)"
  "emits P (managed_zone p)" "keeps f (managed_zone p)"
  unfolding getDesiredHealthCheck_def getDesiredForwardingRule_def probe_scheme_def managed_zone_def Let_def
  by (intro frame_intros)+

lemma ensure_objects_frame [frame_intros]:
  "emits gcp_event (ensureHealthCheck p spec)" "keeps f (ensureHealthCheck p spec)"
  "emits gcp_event (ensureBackendService E p spec h zs)" "keeps f (ensureBackendService E p spec h zs)"
  "emits gcp_event (ensureTargetTCPProxy p spec b)" "keeps f (ensureTargetTCPProxy p spec b)"
  "emits gcp_event (ensureGlobalIP p spec)" "keeps f (ensureGlobalIP p spec)"
  "emits gcp_event (ensureForwardingRule p spec t ip)" "keeps f (ensureForwardingRule p spec t ip)"
  "emits gcp_event (ensureDNSEntry p spec ip)" "keeps f (ensureDNSEntry p spec ip)"
  unfolding ensureHealthCheck_def ensureBackendService_def ensureTargetTCPProxy_def ensureGlobalIP_def ensureForwardingRule_def
    ensureDNSEntry_def Let_def
  by (intro frame_intros; simp)+

text \<open>Which object of the load balancer a request is about, in the order in which they are made.\<close>

fun gcp_phase :: "event \<Rightarrow> nat" where
  "gcp_phase (Google ev) = (case ev of
      GetFirewall _ _ \<Rightarrow> 0 | InsertFirewall _ _ \<Rightarrow> 0 | UpdateFirewall _ _ _ \<Rightarrow> 0
    | GetComputeHealthCheck _ _ \<Rightarrow> 1 | InsertComputeHealthCheck _ _ \<Rightarrow> 1 | UpdateComputeHealthCheck _ _ _ \<Rightarrow> 1
    | DeleteComputeHealthCheck _ _ \<Rightarrow> 1
    | GetBackendService _ _ \<Rightarrow> 3 | InsertBackendService _ _ \<Rightarrow> 3 | UpdateBackendService _ _ _ \<Rightarrow> 3 | DeleteBackendService _ _ \<Rightarrow> 3
    | GetTargetTcpProxy _ _ \<Rightarrow> 4 | InsertTargetTcpProxy _ _ \<Rightarrow> 4 | SetBackendService _ _ _ \<Rightarrow> 4 | DeleteTargetTcpProxy _ _ \<Rightarrow> 4
    | GetAddress _ _ \<Rightarrow> 5 | InsertAddress _ _ \<Rightarrow> 5 | DeleteAddress _ _ \<Rightarrow> 5
    | GetForwardingRule _ _ \<Rightarrow> 6 | InsertForwardingRule _ _ \<Rightarrow> 6 | DeleteForwardingRule _ _ \<Rightarrow> 6
    | GetRecordSet _ _ _ _ \<Rightarrow> 7 | CreateRecordSet _ _ _ \<Rightarrow> 7 | PatchRecordSet _ _ _ _ _ \<Rightarrow> 7 | DeleteGoogleRecordSet _ _ _ _ \<Rightarrow> 7
    | _ \<Rightarrow> 2)"
| "gcp_phase _ = 2"

text \<open>What the goroutines send, and what those of a deletion send.\<close>

definition neg_event :: "event \<Rightarrow> bool" where
  "neg_event ev \<longleftrightarrow> gcp_event ev \<and> gcp_phase ev = 2"

fun group_event :: "event \<Rightarrow> bool" where
  "group_event (Google (DeleteNEG _ _ _)) = True"
| "group_event (Google _) = False"
| "group_event ev = gcp_event ev"

lemma neg_gcp_event: "neg_event ev \<Longrightarrow> gcp_event ev"
  by (simp add: neg_event_def)

lemma group_neg_event: "group_event ev \<Longrightarrow> neg_event ev"
  by (cases ev rule: group_event.cases) (simp_all add: neg_event_def)

text \<open>The goroutines: a relation that every request of the provider obeys is obeyed by all of them.\<close>

definition admits :: "(event \<Rightarrow> bool) \<Rightarrow> ((event, 'w, 'l) io \<Rightarrow> (event, 'w, 'l) io \<Rightarrow> bool) \<Rightarrow> bool" where
  "admits P R \<longleftrightarrow> (\<forall>s. R s s) \<and> (\<forall>ev w s. P ev \<longrightarrow> R s (s\<lparr>trace := trace s @ [ev], world := w\<rparr>))"

lemma admits_request:
  assumes "admits P R" and "P ev"
  shows "tobeys (inner R) (act (request ev g))"
proof (rule tobeys_act)
  have "snd (request ev g s) = s\<lparr>trace := trace s @ [ev], world := snd (g (world s))\<rparr>" for s :: "(event, 'a, 'b) io"
    by (simp add: request_def split: prod.split)
  with assms show "obeys R (request ev g)" unfolding admits_def obeys_def by auto
qed

lemma admits_group: "admits neg_event R \<Longrightarrow> admits group_event R"
  by (simp add: admits_def group_neg_event)

lemma tobeys_tderef [thread_intros]: "tobeys R (tderef x)"
  by (simp add: tderef_def split: option.split)

lemma tobeys_neps [thread_intros]: "tobeys R (neps_by_zone spec a b acc nodes)"
  by (induction nodes arbitrary: acc) (simp_all add: Let_def tobeys_tbnd tobeys_tderef)

lemma tobeys_collect [thread_intros]: "list_all (tobeys R) ts \<Longrightarrow> tobeys R (collect E sched ts)"
  unfolding collect_def by (intro thread_intros)

lemma tobeys_getDesiredNepsByZone:
  assumes "admits group_event R"
  shows "tobeys (inner R) (getDesiredNepsByZone E spec es)"
  unfolding getDesiredNepsByZone_def Let_def
  by (intro thread_intros admits_request [OF assms]; (simp split: list.split)?;
      intro conjI allI impI thread_intros admits_request [OF assms]; simp)

lemma tobeys_zone_goroutine:
  assumes "admits neg_event R"
  shows "tobeys (inner R) (zone_goroutine E p spec network subnetwork zone neps)"
proof -
  have refl: "\<And>s. R s s" using assms by (simp add: admits_def)
  show ?thesis
    unfolding zone_goroutine_def ensure_group_def ensure_endpoints_def change_endpoints_def append_backend_def Let_def
    by (intro thread_intros admits_request [OF assms] refl; simp add: neg_event_def)
qed

lemma tobeys_endpoint_goroutine:
  assumes "admits neg_event R"
  shows "tobeys (inner R) (endpoint_goroutine E p spec name es)"
  unfolding endpoint_goroutine_def Let_def
  by (intro thread_intros tobeys_getDesiredNepsByZone admits_group [OF assms]) (auto simp: list_all_iff intro!: tobeys_sends tobeys_zone_goroutine assms)

lemma tobeys_delete_endpoint_goroutine:
  assumes "admits group_event R"
  shows "tobeys (inner R) (delete_endpoint_goroutine E p spec name es)"
proof -
  have refl: "\<And>s. R s s" using assms by (simp add: admits_def)
  have "tobeys (inner R) (delete_zone_goroutine p spec name zone)" for zone
    unfolding delete_zone_goroutine_def Let_def by (intro thread_intros admits_request [OF assms] refl; simp)
  then show ?thesis
    unfolding delete_endpoint_goroutine_def by (intro thread_intros tobeys_getDesiredNepsByZone assms) (auto simp: list_all_iff)
qed

lemma admits_frames: "admits P (emits_rel P)" "admits P (keeps_rel f)"
  by (auto simp: admits_def emits_rel_def keeps_rel_def)

lemma goroutine_programs_emit:
  "emits neg_event (ensureZonalNetworkEndpointGroups E p spec)" "emits group_event (delete_groups E p spec)"
  unfolding ensureZonalNetworkEndpointGroups_def delete_groups_def
  by (intro frame_intros goroutine_frames tobeys_collect;
      auto simp: list_all_iff intro!: tobeys_sends tobeys_endpoint_goroutine tobeys_delete_endpoint_goroutine admits_frames)+

lemma goroutine_programs_frame [frame_intros]:
  "emits gcp_event (ensureZonalNetworkEndpointGroups E p spec)" "emits gcp_event (delete_groups E p spec)"
  by (rule emits_mono [OF goroutine_programs_emit(1)], erule neg_gcp_event)
     (rule emits_mono [OF goroutine_programs_emit(2)], erule neg_gcp_event [OF group_neg_event])

lemma goroutine_programs_keep [frame_intros]:
  "keeps f (ensureZonalNetworkEndpointGroups E p spec)" "keeps f (delete_groups E p spec)"
  unfolding ensureZonalNetworkEndpointGroups_def delete_groups_def
  by (intro frame_intros goroutine_frames tobeys_collect;
      auto simp: list_all_iff intro!: tobeys_sends tobeys_endpoint_goroutine tobeys_delete_endpoint_goroutine admits_frames)+

lemma google_delete_frame [frame_intros]: "emits gcp_event (google_delete ev g)" "keeps f (google_delete ev g)"
  unfolding google_delete_def by (intro frame_intros; simp)+

lemma gcp_ensureDNSRecord_frame: "emits gcp_event (gcp_ensureDNSRecord E p)" "keeps f (gcp_ensureDNSRecord E p)"
  unfolding gcp_ensureDNSRecord_def ensureFirewallRulesAllowForHealthChecks_def Let_def by (intro frame_intros)+

lemma gcp_deleteDNSRecord_frame: "emits gcp_event (gcp_deleteDNSRecord E p)" "keeps f (gcp_deleteDNSRecord E p)"
  unfolding gcp_deleteDNSRecord_def Let_def by (intro frame_intros)+

interpretation gcp: dns_provider "gcp_ensureDNSRecord E p" "gcp_deleteDNSRecord E p" for E and p
  by unfold_locales (rule gcp_ensureDNSRecord_frame gcp_deleteDNSRecord_frame
    emits_mono [OF gcp_ensureDNSRecord_frame(1)] emits_mono [OF gcp_deleteDNSRecord_frame(1)]; erule gcp_provider_event)+

end
