(* ===== verification/Record_Controller.thy ===== *)
theory Record_Controller
  imports Remote_Managers Route53_Provider External_DNS_Provider Traffic_Manager_Provider GCP_Provider
begin

text \<open>
  controllers/globaldnsrecord/globaldnsrecord\_controller.go: the reconciliation of a GlobalDNSRecord.
  The controller reads the record and its zone, sets defaults and the finalizer, runs the clean-up
  of a record that is being deleted, looks up the endpoints in their clusters, picks a provider and
  lets it publish the record, and writes the outcome to the status.

  The shared data is \<open>record_locals\<close>: the record, which controller and provider share through a
  pointer, and the map of remote managers. What the language leaves open, the order in which maps are
  ranged over and the interleaving of goroutines, is an argument of the reconciliation.
\<close>

section \<open>Providers\<close>

text \<open>A value of the Go interface \<open>globalDNSProvider\<close> is its two methods.\<close>

record 'w globalDNSProvider =
  gp_ensureDNSRecord :: "('w, record_locals, unit) op"
  gp_deleteDNSRecord :: "('w, record_locals, unit) op"

type_synonym 'w provider_constructor =
  "GlobalDNSZone \<Rightarrow> endpoint_ranges \<Rightarrow> ('w, record_locals, 'w globalDNSProvider) op"

definition external_provider :: "'w env \<Rightarrow> 'w provider_constructor" where
  "external_provider E zone ranges =
     bnd (createExternalDNSProvider zone ranges) (\<lambda>p.
     ret \<lparr>gp_ensureDNSRecord = external_ensureDNSRecord E p, gp_deleteDNSRecord = external_deleteDNSRecord p\<rparr>)"

definition route53_provider :: "'w env \<Rightarrow> 'w provider_constructor" where
  "route53_provider E zone ranges =
     bnd (createRoute53Provider E zone ranges) (\<lambda>p.
     ret \<lparr>gp_ensureDNSRecord = route53_ensureDNSRecord E p, gp_deleteDNSRecord = route53_deleteDNSRecord E p\<rparr>)"

definition traffic_manager_provider :: "'w env \<Rightarrow> 'w provider_constructor" where
  "traffic_manager_provider E zone ranges =
     bnd (createTrafficManagerProvider E zone ranges) (\<lambda>p.
     ret \<lparr>gp_ensureDNSRecord = tm_ensureDNSRecord E p, gp_deleteDNSRecord = tm_deleteDNSRecord E p\<rparr>)"

definition gcp_provider :: "'w env \<Rightarrow> schedule \<Rightarrow> 'w provider_constructor" where
  "gcp_provider E sched zone ranges =
     bnd (createGCPGLBManagerProvider E sched zone ranges) (\<lambda>p.
     ret \<lparr>gp_ensureDNSRecord = gcp_ensureDNSRecord E p, gp_deleteDNSRecord = gcp_deleteDNSRecord E p\<rparr>)"

text \<open>One of the four blocks: when the zone has the section, the variable gets a new provider.\<close>

definition use_provider ::
  "bool \<Rightarrow> ('w, record_locals, 'w globalDNSProvider) op \<Rightarrow> 'w globalDNSProvider option \<Rightarrow>
     ('w, record_locals, 'w globalDNSProvider option) op" where
  "use_provider defined create current =
     (if defined then bnd create (\<lambda>p. ret (Some p)) else ret current)"

text \<open>The blocks of \<open>Reconcile\<close> and \<open>manageCleanUpLogic\<close>, which are the same: later sections win.\<close>

definition choose_provider ::
  "'w env \<Rightarrow> iteration_orders \<Rightarrow> GlobalDNSZone \<Rightarrow> endpoint_map \<Rightarrow>
     ('w, record_locals, 'w globalDNSProvider) op" where
  "choose_provider E ord globalZone em =
     (let config = zs_Provider (zone_Spec globalZone); range = (\<lambda>site i. io_endpoints ord site i em) in
      bnd (use_provider (pc_ExternalDNS config \<noteq> None) (external_provider E globalZone (range InExternalDNS)) None) (\<lambda>p.
      bnd (use_provider (pc_Route53 config \<noteq> None) (route53_provider E globalZone (range InRoute53)) p) (\<lambda>p.
      bnd (use_provider (pc_TrafficManager config \<noteq> None) (traffic_manager_provider E globalZone (range InTrafficManager)) p) (\<lambda>p.
      bnd (use_provider (pc_GCPGLB config \<noteq> None) (gcp_provider E (io_schedule ord) globalZone (range InGCPGLB)) p) (\<lambda>p.
      case p of
        None \<Rightarrow> fail (ErrNew ''illegal state: GlobalDNSProvider could be found'')
      | Some globalDNSProvider \<Rightarrow> ret globalDNSProvider)))))"

section \<open>Defaults and the finalizer\<close>

definition controllerName :: string where
  "controllerName = ''GlobalDNSRecord_controller''"

text \<open>The value of \<open>isInitialized\<close> and the record, as \<open>IsInitialized\<close> changes them block by block.\<close>

definition init_probe :: "bool \<times> Probe \<Rightarrow> bool \<times> Probe" where
  "init_probe x =
     (let (ok, probe) = x;
          (ok, probe) = (if pr_FailureThreshold probe = 0 then (False, probe\<lparr>pr_FailureThreshold := 3\<rparr>) else (ok, probe));
          (ok, probe) = (if pr_PeriodSeconds probe = 0 then (False, probe\<lparr>pr_PeriodSeconds := 10\<rparr>) else (ok, probe));
          (ok, probe) = (if pr_SuccessThreshold probe = 0 then (False, probe\<lparr>pr_SuccessThreshold := 1\<rparr>) else (ok, probe))
      in if pr_TimeoutSeconds probe = 0 then (False, probe\<lparr>pr_SuccessThreshold := 1\<rparr>) else (ok, probe))"

definition IsInitialized :: "'w env \<Rightarrow> GlobalDNSRecord \<Rightarrow> bool \<times> GlobalDNSRecord" where
  "IsInitialized E r =
     (let (ok, r) = (if \<not> u_HasFinalizer (e_util E) (rec_Meta r) controllerName
            then (False, r\<lparr>rec_Meta := u_AddFinalizer (e_util E) (rec_Meta r) controllerName\<rparr>) else (True, r));
          (ok, r) = (if rs_TTL (rec_Spec r) = 0
            then (False, r\<lparr>rec_Spec := (rec_Spec r)\<lparr>rs_TTL := 60\<rparr>\<rparr>) else (ok, r))
      in case rs_HealthCheck (rec_Spec r) of
           None \<Rightarrow> (ok, r)
         | Some probe \<Rightarrow> (case init_probe (ok, probe) of
             (ok, probe) \<Rightarrow> (ok, r\<lparr>rec_Spec := (rec_Spec r)\<lparr>rs_HealthCheck := Some probe\<rparr>\<rparr>)))"

section \<open>Writing the status\<close>

definition set_instance :: "GlobalDNSRecord \<Rightarrow> ('w, record_locals, unit) op" where
  "set_instance r = upd_local (\<lambda>l. l\<lparr>rl_instance := r\<rparr>)"

definition upd_status :: "(GlobalDNSRecordStatus \<Rightarrow> GlobalDNSRecordStatus) \<Rightarrow> ('w, record_locals, unit) op" where
  "upd_status f = upd_local (\<lambda>l. l\<lparr>rl_instance := (rl_instance l)\<lparr>rec_Status := f (rec_Status (rl_instance l))\<rparr>\<rparr>)"

text \<open>The update calls send the record and take over the answer.\<close>

definition update_instance :: "'w env \<Rightarrow> ('w, record_locals, unit) op" where
  "update_instance E =
     bnd get_local (\<lambda>l.
     bnd (request (K8s (UpdateGlobalDNSRecord (rl_instance l))) (k_UpdateGlobalDNSRecord (e_k8s E) (rl_instance l)))
       set_instance)"

definition update_status :: "'w env \<Rightarrow> ('w, record_locals, unit) op" where
  "update_status E =
     bnd get_local (\<lambda>l.
     bnd (request (K8s (UpdateGlobalDNSRecordStatus (rl_instance l))) (k_UpdateGlobalDNSRecordStatus (e_k8s E) (rl_instance l)))
       set_instance)"

text \<open>What \<open>ManageError\<close> and \<open>ManageSuccess\<close> share after the condition is built.\<close>

definition write_status :: "'w env \<Rightarrow> iteration_orders \<Rightarrow> endpoint_map \<Rightarrow> Condition \<Rightarrow> ('w, record_locals, unit) op" where
  "write_status E ord em condition =
     seq (upd_status (\<lambda>st. st\<lparr>rst_Conditions := u_AddOrReplaceCondition (e_util E) condition (rst_Conditions st)\<rparr>))
    (bnd (getMonitoredServiceStatuses E ord) (\<lambda>statuses.
     seq (upd_status (\<lambda>st. st\<lparr>rst_MonitoredServiceStatuses := statuses\<rparr>))
    (bnd (getEndpointStatuses E (io_endpoints ord InStatus 0 em)) (\<lambda>statuses.
     seq (upd_status (\<lambda>st. st\<lparr>rst_EndpointStatuses := statuses\<rparr>))
         (update_status E)))))"

definition ManageError ::
  "'w env \<Rightarrow> iteration_orders \<Rightarrow> endpoint_map \<Rightarrow> error \<Rightarrow> ('w, record_locals, unit) op" where
  "ManageError E ord em issue =
     seq (record_event E (error_text E issue))
    (bnd (now E) (\<lambda>t.
     seq (write_status E ord em (error_condition E t (error_text E issue)))
         (fail issue)))"

definition ManageSuccess :: "'w env \<Rightarrow> iteration_orders \<Rightarrow> endpoint_map \<Rightarrow> ('w, record_locals, unit) op" where
  "ManageSuccess E ord em =
     bnd (now E) (\<lambda>t. write_status E ord em (success_condition E t))"

section \<open>The reconciliation\<close>

text \<open>The loop over the endpoints of the record: a failed lookup becomes a status with the error.\<close>

definition endpoint_status_map :: "'w env \<Rightarrow> ('w, record_locals, endpoint_map) op" where
  "endpoint_status_map E =
     bnd get_local (\<lambda>l.
     for_each (\<lambda>em endpoint.
       bnd (attempt (getEndPointStatus E endpoint)) (\<lambda>r.
       ret (AList.update (Endpoint_GetKey endpoint)
              (case r of Inl err \<Rightarrow> failed_status err endpoint | Inr endpointStatus \<Rightarrow> endpointStatus) em)))
       [] (rs_Endpoints (spec_of l)))"

definition manageCleanUpLogic ::
  "'w env \<Rightarrow> iteration_orders \<Rightarrow> GlobalDNSZone \<Rightarrow> ('w, record_locals, unit) op" where
  "manageCleanUpLogic E ord globalZone =
     seq (ensureRemoteManagers E)
    (bnd (endpoint_status_map E) (\<lambda>em.
     bnd (choose_provider E ord globalZone em) (\<lambda>globalDNSProvider.
     gp_deleteDNSRecord globalDNSProvider)))"

text \<open>A step of \<open>Reconcile\<close> whose error is handed to \<open>ManageError\<close> with the endpoint statuses so far.\<close>

definition managed ::
  "'w env \<Rightarrow> iteration_orders \<Rightarrow> endpoint_map \<Rightarrow> ('w, record_locals, 'a) op \<Rightarrow> ('a \<Rightarrow> ('w, record_locals, unit) op) \<Rightarrow>
     ('w, record_locals, unit) op" where
  "managed E ord em m k =
     bnd (attempt m) (\<lambda>r. case r of Inl err \<Rightarrow> ManageError E ord em err | Inr a \<Rightarrow> k a)"

definition delete_record ::
  "'w env \<Rightarrow> iteration_orders \<Rightarrow> GlobalDNSZone \<Rightarrow> ('w, record_locals, unit) op" where
  "delete_record E ord globalZone =
     bnd get_local (\<lambda>l.
     if \<not> u_HasFinalizer (e_util E) (rec_Meta (rl_instance l)) controllerName then ret ()
     else managed E ord [] (manageCleanUpLogic E ord globalZone) (\<lambda>_.
     seq (upd_local (\<lambda>l. l\<lparr>rl_instance := (rl_instance l)\<lparr>rec_Meta :=
            u_RemoveFinalizer (e_util E) (rec_Meta (rl_instance l)) controllerName\<rparr>\<rparr>))
    (managed E ord [] (update_instance E) (\<lambda>_. ret ()))))"

definition publish_record ::
  "'w env \<Rightarrow> iteration_orders \<Rightarrow> GlobalDNSZone \<Rightarrow> ('w, record_locals, unit) op" where
  "publish_record E ord globalZone =
     bnd get_local (\<lambda>l.
     if \<not> has_suffix (rs_Name (spec_of l)) (zs_Domain (zone_Spec globalZone))
     then ManageError E ord [] (ErrNew ''global record does not belogn to domain'')
     else managed E ord [] (ensureRemoteManagers E) (\<lambda>_.
     bnd (endpoint_status_map E) (\<lambda>em.
     managed E ord em (choose_provider E ord globalZone em) (\<lambda>globalDNSProvider.
     managed E ord em (gp_ensureDNSRecord globalDNSProvider) (\<lambda>_.
     ManageSuccess E ord em)))))"

definition record_Reconcile ::
  "'w env \<Rightarrow> iteration_orders \<Rightarrow> NamespacedName \<Rightarrow> ('w, record_locals, unit) op" where
  "record_Reconcile E ord req =
     bnd (attempt (request (K8s (GetGlobalDNSRecord req)) (k_GetGlobalDNSRecord (e_k8s E) req))) (\<lambda>r.
     case r of
       Inl err \<Rightarrow> if IsNotFound err then ret () else fail err
     | Inr inst \<Rightarrow>
         seq (set_instance inst)
        (let zone = rs_GlobalZoneRef (rec_Spec inst) in
         managed E ord [] (request (K8s (GetGlobalDNSZone zone)) (k_GetGlobalDNSZone (e_k8s E) zone)) (\<lambda>globalZone.
         case IsInitialized E inst of
           (ok, inst') \<Rightarrow>
             seq (set_instance inst')
            (if \<not> ok then managed E ord [] (update_instance E) (\<lambda>_. ret ())
             else if u_IsBeingDeleted (e_util E) (rec_Meta inst') then delete_record E ord globalZone
             else publish_record E ord globalZone))))"

text \<open>\<open>SetupWithManager\<close> gives the controller an empty map of managers; registering the watches is
  the library's.\<close>

definition record_setup :: manager_map where
  "record_setup = []"

section \<open>What the controller relies on in a provider\<close>

text \<open>Building a provider reads credentials and changes none of the shared data, and what is built
  honours the provider interface.\<close>

locale provider_source =
  fixes create :: "'w provider_constructor"
  assumes create_events: "emits provider_event (create zone ranges)"
    and create_keeps: "keeps (\<lambda>l. l) (create zone ranges)"
    and create_provider: "create zone ranges s = (Ret p, t) \<Longrightarrow>
      dns_provider (gp_ensureDNSRecord p) (gp_deleteDNSRecord p)"

lemma credential_provider_event: "credential_event ev \<Longrightarrow> provider_event ev"
  by (cases ev rule: credential_event.cases) (auto split: k8s_event.splits)

lemma platform_check_frame [frame_intros]:
  "emits P (only_aws_endpoints em)" "keeps f (only_aws_endpoints em)"
  "emits P (only_azure_endpoints em)" "keeps f (only_azure_endpoints em)"
  unfolding only_aws_endpoints_def only_azure_endpoints_def by (intro frame_intros)+

interpretation external_source: provider_source "external_provider E" for E
  by unfold_locales
    (auto simp: external_provider_def createExternalDNSProvider_def run_simps
      intro: frame_intros external_dns.ensure_frozen external_dns.delete_frozen external_dns.ensure_events external_dns.delete_events)

interpretation route53_source: provider_source "route53_provider E" for E
proof unfold_locales
  show "emits provider_event (route53_provider E zone ranges)" for zone ranges
    unfolding route53_provider_def createRoute53Provider_def
    by (intro frame_intros emits_mono [OF GetRoute53Client_frame(1) credential_provider_event])
qed (auto simp: route53_provider_def createRoute53Provider_def inv_Ret intro!: frame_intros route53.ensure_frozen route53.delete_frozen route53.ensure_events route53.delete_events)

interpretation traffic_manager_source: provider_source "traffic_manager_provider E" for E
proof unfold_locales
  show "emits provider_event (traffic_manager_provider E zone ranges)" for zone ranges
    unfolding traffic_manager_provider_def createTrafficManagerProvider_def
    by (intro frame_intros emits_mono [OF GetAzureClient_frame(1) credential_provider_event])
qed (auto simp: traffic_manager_provider_def createTrafficManagerProvider_def inv_Ret
    intro!: frame_intros traffic_manager.ensure_frozen traffic_manager.delete_frozen traffic_manager.ensure_events traffic_manager.delete_events)

interpretation gcp_source: provider_source "gcp_provider E sched" for E sched
proof unfold_locales
  show "emits provider_event (gcp_provider E sched zone ranges)" for zone ranges
    unfolding gcp_provider_def createGCPGLBManagerProvider_def
    by (intro frame_intros emits_mono [OF GetGCPClients_frame(1) credential_provider_event])
qed (auto simp: gcp_provider_def createGCPGLBManagerProvider_def inv_Ret
    intro!: frame_intros gcp.ensure_frozen gcp.delete_frozen gcp.ensure_events gcp.delete_events)

section \<open>Frames of the controller\<close>

fun status_event :: "event \<Rightarrow> bool" where
  "status_event (K8s (RecordEvent _ _ _)) = True"
| "status_event (K8s (UpdateGlobalDNSRecordStatus _)) = True"
| "status_event _ = False"

lemma set_instance_frame [frame_intros]:
  "emits P (set_instance r)" "keeps rl_remoteManagersMap (set_instance r)"
  unfolding set_instance_def by (intro frame_intros; simp)+

lemma upd_status_frame [frame_intros]:
  "emits P (upd_status f)" "keeps rl_remoteManagersMap (upd_status f)"
  unfolding upd_status_def by (intro frame_intros; simp)+

lemma update_frame [frame_intros]:
  "emits (\<lambda>ev. \<exists>r. ev = K8s (UpdateGlobalDNSRecord r)) (update_instance E)" "keeps rl_remoteManagersMap (update_instance E)"
  "emits status_event (update_status E)" "keeps rl_remoteManagersMap (update_status E)"
  unfolding update_instance_def update_status_def by (intro frame_intros; simp)+

lemma write_status_frame [frame_intros]:
  "emits status_event (write_status E ord em c)" "keeps rl_remoteManagersMap (write_status E ord em c)"
  unfolding write_status_def by (intro frame_intros; simp)+

lemma manage_frame [frame_intros]:
  "emits status_event (ManageError E ord em e)" "keeps rl_remoteManagersMap (ManageError E ord em e)"
  "emits status_event (ManageSuccess E ord em)" "keeps rl_remoteManagersMap (ManageSuccess E ord em)"
  unfolding ManageError_def ManageSuccess_def record_event_def by (intro frame_intros; simp)+

text \<open>Looking up an endpoint sends only reads.\<close>

lemma getEndPointStatus_reads [frame_intros]: "emits (\<lambda>ev. \<not> mutating ev) (getEndPointStatus E ep)"
  unfolding getEndPointStatus_def getClient_def record_getRestConfig_def getRestConfig_def
  by (intro frame_intros; simp)

lemma endpoint_status_map_frame [frame_intros]:
  "emits (\<lambda>ev. \<not> mutating ev) (endpoint_status_map E)" "keeps f (endpoint_status_map E)"
  unfolding endpoint_status_map_def by (intro frame_intros)+

lemma quiet_events:
  "status_event ev \<Longrightarrow> quiet ev" "\<not> mutating ev \<Longrightarrow> quiet ev" "provider_event ev \<Longrightarrow> quiet ev"
  "\<exists>r. ev = K8s (UpdateGlobalDNSRecord r) \<Longrightarrow> quiet ev"
  by (cases ev rule: quiet.cases; auto)+

lemma frozen_managers: "keeps frozen m \<Longrightarrow> keeps rl_remoteManagersMap m"
  by (simp add: obeys_def keeps_rel_def frozen_def)

lemma use_provider_eq_Ret:
  "use_provider d create current s = (Ret q, t) \<longleftrightarrow>
     (if d then \<exists>p. create s = (Ret p, t) \<and> q = Some p else q = current \<and> t = s)"
  by (auto simp: use_provider_def inv_Ret)

lemma use_provider_frame [frame_intros]:
  "emits P create \<Longrightarrow> emits P (use_provider d create q)" "keeps f create \<Longrightarrow> keeps f (use_provider d create q)"
  unfolding use_provider_def by (intro frame_intros; assumption)+

lemma managed_frame:
  assumes "frame R" and "obeys R m" and "\<And>e. obeys R (ManageError E ord em e)" and "\<And>a s t. m s = (Ret a, t) \<Longrightarrow> obeys R (k a)"
  shows "obeys R (managed E ord em m k)"
  unfolding managed_def
proof (rule frame.obeys_bnd_result [OF assms(1)])
  show "obeys R (attempt m)" by (rule frame.obeys_attempt [OF assms(1,2)])
qed (auto simp: attempt_eq_Ret intro: assms(3,4))

lemmas frame_locales = emits_frame.frame_axioms keeps_frame.frame_axioms pool_frame.frame_axioms

lemma choose_provider_frame:
  "emits provider_event (choose_provider E ord zone em)" "keeps f (choose_provider E ord zone em)"
  unfolding choose_provider_def Let_def
  by (intro frame_intros external_source.create_events route53_source.create_events traffic_manager_source.create_events
      gcp_source.create_events keeps_of_all [OF external_source.create_keeps] keeps_of_all [OF route53_source.create_keeps]
      keeps_of_all [OF traffic_manager_source.create_keeps] keeps_of_all [OF gcp_source.create_keeps])+

lemma use_provider_ok:
  assumes "use_provider d c q s = (Ret q', t)" and "q' = Some p"
    and "\<And>p s t. c s = (Ret p, t) \<Longrightarrow> dns_provider (gp_ensureDNSRecord p) (gp_deleteDNSRecord p)"
    and "\<And>p. q = Some p \<Longrightarrow> dns_provider (gp_ensureDNSRecord p) (gp_deleteDNSRecord p)"
  shows "dns_provider (gp_ensureDNSRecord p) (gp_deleteDNSRecord p)"
  using assms unfolding use_provider_eq_Ret by (cases d) auto

lemma choose_provider_ok:
  assumes "choose_provider E ord zone em s = (Ret p, t)"
  shows "dns_provider (gp_ensureDNSRecord p) (gp_deleteDNSRecord p)"
proof -
  let ?c = "zs_Provider (zone_Spec zone)" and ?range = "\<lambda>site i. io_endpoints ord site i em"
  from assms obtain q1 q2 q3 q4 s1 s2 s3 s4 where
    q1: "use_provider (pc_ExternalDNS ?c \<noteq> None) (external_provider E zone (?range InExternalDNS)) None s = (Ret q1, s1)"
    and q2: "use_provider (pc_Route53 ?c \<noteq> None) (route53_provider E zone (?range InRoute53)) q1 s1 = (Ret q2, s2)"
    and q3: "use_provider (pc_TrafficManager ?c \<noteq> None) (traffic_manager_provider E zone (?range InTrafficManager)) q2 s2 = (Ret q3, s3)"
    and q4: "use_provider (pc_GCPGLB ?c \<noteq> None) (gcp_provider E (io_schedule ord) zone (?range InGCPGLB)) q3 s3 = (Ret q4, s4)"
    and p: "(case q4 of None \<Rightarrow> fail (ErrNew ''illegal state: GlobalDNSProvider could be found'')
        | Some globalDNSProvider \<Rightarrow> ret globalDNSProvider) s4 = (Ret p, t)"
    unfolding choose_provider_def Let_def bnd_eq_Ret by blast
  from p have "q4 = Some p" by (cases q4) (simp_all add: run_simps)
  note steps = use_provider_ok [OF q4 this gcp_source.create_provider] use_provider_ok [OF q3 _ traffic_manager_source.create_provider]
    use_provider_ok [OF q2 _ route53_source.create_provider] use_provider_ok [OF q1 _ external_source.create_provider]
  show ?thesis by (rule steps(1), assumption, rule steps(2), assumption, assumption, rule steps(3), assumption, assumption,
    rule steps(4), assumption, assumption, simp)
qed

lemma provider_pool:
  assumes "choose_provider E ord zone em s = (Ret p, t)"
  shows "obeys (pool_rel rl_remoteManagersMap) (gp_ensureDNSRecord p)" "obeys (pool_rel rl_remoteManagersMap) (gp_deleteDNSRecord p)"
  using choose_provider_ok [OF assms]
  by (auto simp: dns_provider_def intro!: pool_quiet intro: frozen_managers emits_mono quiet_events(3))

lemma quiet_pool:
  "obeys (pool_rel rl_remoteManagersMap) (ManageError E ord em e)"
  "obeys (pool_rel rl_remoteManagersMap) (ManageSuccess E ord em)"
  "obeys (pool_rel rl_remoteManagersMap) (update_instance E)"
  "obeys (pool_rel rl_remoteManagersMap) (endpoint_status_map E)"
  "obeys (pool_rel rl_remoteManagersMap) (choose_provider E ord zone em)"
  "obeys (pool_rel rl_remoteManagersMap) (set_instance r)"
  by (intro pool_quiet frame_intros choose_provider_frame emits_mono [OF manage_frame(1) quiet_events(1)]
      emits_mono [OF manage_frame(3) quiet_events(1)] emits_mono [OF update_frame(1) quiet_events(4)]
      emits_mono [OF endpoint_status_map_frame(1) quiet_events(2)] emits_mono [OF choose_provider_frame(1) quiet_events(3)]; assumption)+

lemma ensureRemoteManagers_pool: "strset_ok E \<Longrightarrow> obeys (pool_rel rl_remoteManagersMap) (ensureRemoteManagers E)"
  unfolding obeys_def pool_rel_def using ensureRemoteManagers_balanced by (metis prod.collapse)

lemma cleanup_pool:
  "strset_ok E \<Longrightarrow> obeys (pool_rel rl_remoteManagersMap) (manageCleanUpLogic E ord zone)"
  unfolding manageCleanUpLogic_def
  by (intro frame_intros quiet_pool ensureRemoteManagers_pool pool_frame.obeys_bnd_result [OF quiet_pool(5)] provider_pool)

lemma delete_record_pool:
  "strset_ok E \<Longrightarrow> obeys (pool_rel rl_remoteManagersMap) (delete_record E ord zone)"
  unfolding delete_record_def
  by (intro frame_intros managed_frame [OF pool_frame.frame_axioms] cleanup_pool quiet_pool pool_quiet [OF emits_upd_local keeps_upd_local])
    simp_all

lemma publish_record_pool:
  assumes "strset_ok E"
  shows "obeys (pool_rel rl_remoteManagersMap) (publish_record E ord zone)"
  unfolding publish_record_def
  by (intro frame_intros managed_frame [OF pool_frame.frame_axioms] quiet_pool ensureRemoteManagers_pool [OF assms]
      provider_pool(1))

lemma record_Reconcile_pool:
  assumes "strset_ok E"
  shows "obeys (pool_rel rl_remoteManagersMap) (record_Reconcile E ord req)"
proof -
  have read: "obeys (pool_rel rl_remoteManagersMap) (request (K8s (GetGlobalDNSRecord n)) f)"
    "obeys (pool_rel rl_remoteManagersMap) (request (K8s (GetGlobalDNSZone z)) g)" for n f z g
    by (intro pool_quiet frame_intros; simp)+
  show ?thesis
    unfolding record_Reconcile_def Let_def
    by (intro frame_intros read managed_frame [OF pool_frame.frame_axioms] quiet_pool delete_record_pool publish_record_pool assms)
qed

section \<open>The course of a reconciliation\<close>

text \<open>What \<open>IsInitialized\<close> reports: nothing was missing exactly when it changes nothing, apart from a
  probe without timeout, for which it always reports that something was missing.\<close>

definition probe_complete :: "Probe \<Rightarrow> bool" where
  "probe_complete probe \<longleftrightarrow> pr_FailureThreshold probe \<noteq> 0 \<and> pr_PeriodSeconds probe \<noteq> 0
     \<and> pr_SuccessThreshold probe \<noteq> 0 \<and> pr_TimeoutSeconds probe \<noteq> 0"

definition record_complete :: "'w env \<Rightarrow> GlobalDNSRecord \<Rightarrow> bool" where
  "record_complete E r \<longleftrightarrow> u_HasFinalizer (e_util E) (rec_Meta r) controllerName \<and> rs_TTL (rec_Spec r) \<noteq> 0
     \<and> (\<forall>probe. rs_HealthCheck (rec_Spec r) = Some probe \<longrightarrow> probe_complete probe)"

lemma IsInitialized_complete: "record_complete E r \<Longrightarrow> IsInitialized E r = (True, r)"
  by (auto simp: record_complete_def probe_complete_def IsInitialized_def init_probe_def Let_def split: option.split)

lemma IsInitialized_False: "\<not> record_complete E r \<Longrightarrow> \<not> fst (IsInitialized E r)"
  by (auto simp: record_complete_def probe_complete_def IsInitialized_def init_probe_def Let_def split: option.split)

lemma record_Reconcile_cases:
  assumes run: "record_Reconcile E ord req s = (r, t)"
  obtains (unread) w where "t = s\<lparr>trace := trace s @ [K8s (GetGlobalDNSRecord req)], world := w\<rparr>"
      "\<forall>inst w. k_GetGlobalDNSRecord (e_k8s E) req (world s) \<noteq> (Ret inst, w)"
  | (no_zone) inst w e w' where "k_GetGlobalDNSRecord (e_k8s E) req (world s) = (Ret inst, w)"
      "k_GetGlobalDNSZone (e_k8s E) (rs_GlobalZoneRef (rec_Spec inst)) w = (Fail e, w')"
      "ManageError E ord [] e (s\<lparr>local := (local s)\<lparr>rl_instance := inst\<rparr>,
        trace := trace s @ [K8s (GetGlobalDNSRecord req), K8s (GetGlobalDNSZone (rs_GlobalZoneRef (rec_Spec inst)))],
        world := w'\<rparr>) = (r, t)"
  | (crash) inst w p where "k_GetGlobalDNSRecord (e_k8s E) req (world s) = (Ret inst, w)" "r = Panic p"
      "trace t = trace s @ [K8s (GetGlobalDNSRecord req), K8s (GetGlobalDNSZone (rs_GlobalZoneRef (rec_Spec inst)))]"
  | (init) inst w zone w' where "k_GetGlobalDNSRecord (e_k8s E) req (world s) = (Ret inst, w)"
      "k_GetGlobalDNSZone (e_k8s E) (rs_GlobalZoneRef (rec_Spec inst)) w = (Ret zone, w')" "\<not> record_complete E inst"
      "managed E ord [] (update_instance E) (\<lambda>_. ret ())
        (s\<lparr>trace := trace s @ [K8s (GetGlobalDNSRecord req), K8s (GetGlobalDNSZone (rs_GlobalZoneRef (rec_Spec inst)))],
        world := w', local := (local s)\<lparr>rl_instance := snd (IsInitialized E inst)\<rparr>\<rparr>) = (r, t)"
  | (delete) inst w zone w' where "k_GetGlobalDNSRecord (e_k8s E) req (world s) = (Ret inst, w)"
      "k_GetGlobalDNSZone (e_k8s E) (rs_GlobalZoneRef (rec_Spec inst)) w = (Ret zone, w')" "record_complete E inst"
      "u_IsBeingDeleted (e_util E) (rec_Meta inst)"
      "delete_record E ord zone
        (s\<lparr>trace := trace s @ [K8s (GetGlobalDNSRecord req), K8s (GetGlobalDNSZone (rs_GlobalZoneRef (rec_Spec inst)))],
        world := w', local := (local s)\<lparr>rl_instance := inst\<rparr>\<rparr>) = (r, t)"
  | (publish) inst w zone w' where "k_GetGlobalDNSRecord (e_k8s E) req (world s) = (Ret inst, w)"
      "k_GetGlobalDNSZone (e_k8s E) (rs_GlobalZoneRef (rec_Spec inst)) w = (Ret zone, w')" "record_complete E inst"
      "\<not> u_IsBeingDeleted (e_util E) (rec_Meta inst)"
      "publish_record E ord zone
        (s\<lparr>trace := trace s @ [K8s (GetGlobalDNSRecord req), K8s (GetGlobalDNSZone (rs_GlobalZoneRef (rec_Spec inst)))],
        world := w', local := (local s)\<lparr>rl_instance := inst\<rparr>\<rparr>) = (r, t)"
proof -
  obtain got w where got: "k_GetGlobalDNSRecord (e_k8s E) req (world s) = (got, w)" by fastforce
  note step = record_Reconcile_def Let_def attempt_def request_def bnd_def seq_def set_instance_def managed_def prog_simps
  show thesis
  proof (cases got)
    case (Ret inst)
    obtain z w' where z: "k_GetGlobalDNSZone (e_k8s E) (rs_GlobalZoneRef (rec_Spec inst)) w = (z, w')" by fastforce
    show thesis
    proof (cases z)
      case (Ret zone)
      show thesis
      proof (cases "record_complete E inst")
        case True
        note ok = IsInitialized_complete [OF True]
        show thesis
        proof (cases "u_IsBeingDeleted (e_util E) (rec_Meta inst)")
          case del: True
          show thesis by (rule delete) (use run got \<open>got = _\<close> z Ret True del ok in \<open>simp_all add: step\<close>)
        next
          case pub: False
          show thesis by (rule publish) (use run got \<open>got = _\<close> z Ret True pub ok in \<open>simp_all add: step\<close>)
        qed
      next
        case False
        obtain inst' where ok: "IsInitialized E inst = (False, inst')"
          using IsInitialized_False [OF False] by (cases "IsInitialized E inst") auto
        have inst': "snd (IsInitialized E inst) = inst'" by (simp add: ok)
        show thesis
          by (rule init [of inst w zone w'], unfold inst') (use run got \<open>got = _\<close> z Ret False ok in \<open>simp_all add: step\<close>)
      qed
    next
      case (Fail e)
      show thesis by (rule no_zone) (use run got \<open>got = _\<close> z Fail in \<open>simp_all add: step\<close>)
    next
      case (Panic p)
      show thesis by (rule crash) (use run got \<open>got = _\<close> z Panic in \<open>auto simp: step\<close>)
    qed
  qed (use run got in \<open>auto simp: step intro: unread split: if_splits\<close>)
qed

end
