(* ===== verification/Record_Properties.thy ===== *)
theory Record_Properties
  imports Record_Controller
begin

text \<open>
  Properties of the reconciliation of GlobalDNSRecord objects: the remote managers over the life of
  the controller, when the finalizer is removed, what a reconciliation leaves in the status, and
  the inputs for which the code does not do what it means to.
\<close>

section \<open>The system over time\<close>

text \<open>
  The record controller in its environment: it starts with an empty map of managers; it reconciles
  any record under any iteration orders; the service reconciler of a manager sets its status; and
  everybody else may change the world. The last update of a crashed reconciliation is included.
\<close>

inductive record_system :: "'w env \<Rightarrow> (event, 'w, record_locals) io \<Rightarrow> bool"
  for E :: "'w env" where
  start: "record_system E \<lparr>trace = [], world = w, local = \<lparr>rl_instance = r, rl_remoteManagersMap = record_setup\<rparr>\<rparr>"
| reconcile: "record_system E s \<Longrightarrow> record_Reconcile E ord req s = (r, t) \<Longrightarrow> record_system E t"
| status: "record_system E s \<Longrightarrow> record_system E (s\<lparr>local := rl_remoteManagersMap_update
     (map (\<lambda>(k, rm). (k, if k = key then SetStatus rm conditions else rm))) (local s)\<rparr>)"
| other: "record_system E s \<Longrightarrow> record_system E (s\<lparr>world := w\<rparr>)"

text \<open>
  C18: no manager is leaked. In every state the system can reach, whatever the reconciliations did
  and however they ended, a remote manager has been started once more than stopped when it is in
  the map of the controller, and as often as stopped when it is not; no key is in the map twice.
\<close>

theorem managers_never_leaked:
  assumes "strset_ok E" and "record_system E s"
  shows "balanced (trace s) (rl_remoteManagersMap (local s))"
  using assms(2)
proof induction
  case (reconcile s ord req r t)
  from record_Reconcile_pool [OF assms(1)]
  have "pool_rel rl_remoteManagersMap s (snd (record_Reconcile E ord req s))" by (simp add: obeys_def)
  with reconcile show ?case by (simp add: pool_rel_def)
next
  case (start w r)
  show ?case by (simp add: record_setup_def balanced_def live_def)
qed (simp_all add: balanced_status)

section \<open>The finalizer\<close>

definition no_update :: "event \<Rightarrow> bool" where
  "no_update ev \<longleftrightarrow> (\<forall>x. ev \<noteq> K8s (UpdateGlobalDNSRecord x))"

lemma no_update_mem: "list_all no_update tr \<Longrightarrow> K8s (UpdateGlobalDNSRecord x) \<notin> set tr"
  by (auto simp: list_all_iff no_update_def)

lemma no_update_events:
  "status_event ev \<Longrightarrow> no_update ev" "\<not> mutating ev \<Longrightarrow> no_update ev" "provider_event ev \<Longrightarrow> no_update ev"
  by (auto simp: no_update_def)

lemma ensureRemoteManagers_no_update [frame_intros]: "emits no_update (ensureRemoteManagers E)"
  unfolding ensureRemoteManagers_def sync_managers_def stop_manager_def add_manager_def manager_Start_def manager_Stop_def
    createRemoteManager_def record_getRestConfig_def getRestConfig_def NewRemoteManager_def newServiceReconciler_def Let_def
  by (intro frame_intros deferred_emits; simp add: no_update_def)

lemma ManageError_no_update: "emits no_update (ManageError E ord em e)" "emits no_update (ManageSuccess E ord em)"
  by (rule emits_mono [OF manage_frame(1)] emits_mono [OF manage_frame(3)], erule no_update_events)+

lemma endpoint_status_map_no_update: "emits no_update (endpoint_status_map E)"
  by (rule emits_mono [OF endpoint_status_map_frame(1)]) (erule no_update_events)

lemma ManageError_fails: "ManageError E ord em e s \<noteq> (Ret (), t)"
  by (auto simp: ManageError_def inv_Ret run_simps)

lemma choose_provider_no_update: "emits no_update (choose_provider E ord zone em)"
  by (rule emits_mono [OF choose_provider_frame(1)]) (erule no_update_events)

lemma provider_no_update:
  assumes "choose_provider E ord zone em s = (Ret p, t)"
  shows "emits no_update (gp_ensureDNSRecord p)" "emits no_update (gp_deleteDNSRecord p)"
  using choose_provider_ok [OF assms] by (auto simp: dns_provider_def intro: emits_mono no_update_events(3))

lemma cleanup_no_update: "emits no_update (manageCleanUpLogic E ord zone)"
  unfolding manageCleanUpLogic_def
  by (intro frame_intros endpoint_status_map_no_update emits_frame.obeys_bnd_result [OF choose_provider_no_update] provider_no_update)

lemma publish_no_update: "emits no_update (publish_record E ord zone)"
  unfolding publish_record_def
  by (intro frame_intros managed_frame [OF emits_frame.frame_axioms] ManageError_no_update endpoint_status_map_no_update
      choose_provider_no_update provider_no_update)

text \<open>A deletion sends at most one update of the record, after the clean-up has succeeded.\<close>

lemma delete_record_update:
  assumes run: "delete_record E ord zone s = (r, t)"
  shows "(\<exists>tr. trace t = trace s @ tr \<and> list_all no_update tr)
     \<or> (\<exists>v x post. manageCleanUpLogic E ord zone s = (Ret (), v)
          \<and> trace t = trace v @ K8s (UpdateGlobalDNSRecord x) # post \<and> list_all no_update post)"
proof (cases "u_HasFinalizer (e_util E) (rec_Meta (rl_instance (local s))) controllerName")
  case False
  with run show ?thesis by (auto simp: delete_record_def bnd_def prog_simps)
next
  case True
  obtain r' v where c: "manageCleanUpLogic E ord zone s = (r', v)" by fastforce
  obtain tr where tr: "trace v = trace s @ tr" "list_all no_update tr"
    using emitsD [OF cleanup_no_update c] by blast
  have error: "\<exists>tr. trace t = trace u @ tr \<and> list_all no_update tr" if "ManageError E ord [] e u = (r, t)" for e u
    using emitsD [OF ManageError_no_update(1) that] .
  show ?thesis
  proof (cases r')
    case (Ret a)
    let ?x = "(rl_instance (local v))\<lparr>rec_Meta := u_RemoveFinalizer (e_util E) (rec_Meta (rl_instance (local v))) controllerName\<rparr>"
    obtain q w where q: "k_UpdateGlobalDNSRecord (e_k8s E) ?x (world v) = (q, w)" by fastforce
    have "\<exists>post. trace t = trace v @ K8s (UpdateGlobalDNSRecord ?x) # post \<and> list_all no_update post"
      using run True c Ret q
      by (cases q) (auto simp: delete_record_def managed_def update_instance_def set_instance_def attempt_def request_def bnd_def
          seq_def prog_simps dest!: error)
    with c Ret show ?thesis by auto
  next
    case (Fail e)
    with run True c have "ManageError E ord [] e v = (r, t)"
      by (simp add: delete_record_def managed_def attempt_def bnd_def prog_simps)
    from error [OF this] tr show ?thesis by auto
  next
    case (Panic p)
    with run True c tr show ?thesis by (auto simp: delete_record_def managed_def attempt_def bnd_def prog_simps)
  qed
qed

lemma IsInitialized_finalizer:
  assumes "finalizers_ok E"
  shows "controllerName \<in> set (om_Finalizers (rec_Meta (snd (IsInitialized E r))))"
  using assms by (auto simp: finalizers_ok_def IsInitialized_def init_probe_def Let_def split: option.split)

text \<open>
  C19: the finalizer goes last. If a reconciliation sends an update of the record that does not carry
  the controller's finalizer, then the record it read is being deleted, the clean-up of the
  provider has run before and has succeeded, and nothing but status writes and reads follow.
\<close>

theorem finalizer_removed_after_cleanup:
  assumes "finalizers_ok E" and "record_Reconcile E ord req s = (r, t)"
    and "trace t = trace s @ tr" and "K8s (UpdateGlobalDNSRecord x) \<in> set tr"
    and "controllerName \<notin> set (om_Finalizers (rec_Meta x))"
  shows "\<exists>inst w zone u v post. k_GetGlobalDNSRecord (e_k8s E) req (world s) = (Ret inst, w)
     \<and> u_IsBeingDeleted (e_util E) (rec_Meta inst) \<and> rl_instance (local u) = inst
     \<and> manageCleanUpLogic E ord zone u = (Ret (), v)
     \<and> trace t = trace v @ K8s (UpdateGlobalDNSRecord x) # post \<and> list_all no_update post"
  using assms(2)
proof (cases rule: record_Reconcile_cases)
  case (unread w)
  with assms(3,4) show ?thesis by auto
next
  case (no_zone inst w e w')
  from emitsD [OF ManageError_no_update(1) no_zone(3)] assms(3,4) show ?thesis by (auto simp: no_update_mem)
next
  case (crash inst w p)
  with assms(3,4) show ?thesis by auto
next
  case (init inst w zone w')
  obtain q w'' where q: "k_UpdateGlobalDNSRecord (e_k8s E) (snd (IsInitialized E inst)) w' = (q, w'')" by fastforce
  have error: "\<exists>tr. trace t = trace u @ tr \<and> list_all no_update tr" if "ManageError E ord [] e u = (r, t)" for e u
    using emitsD [OF ManageError_no_update(1) that] .
  have "x = snd (IsInitialized E inst)"
    using init(4) q assms(3,4)
    by (cases q) (auto simp: managed_def update_instance_def set_instance_def attempt_def request_def bnd_def
          seq_def prog_simps no_update_mem dest!: error)
  with assms(5) IsInitialized_finalizer [OF assms(1)] show ?thesis by blast
next
  case (delete inst w zone w')
  from delete_record_update [OF delete(5)] assms(3,4)
  obtain v y post where v: "manageCleanUpLogic E ord zone (s\<lparr>trace := trace s @ [K8s (GetGlobalDNSRecord req),
        K8s (GetGlobalDNSZone (rs_GlobalZoneRef (rec_Spec inst)))], world := w', local := (local s)\<lparr>rl_instance := inst\<rparr>\<rparr>) = (Ret (), v)"
    and t: "trace t = trace v @ K8s (UpdateGlobalDNSRecord y) # post" "list_all no_update post"
    by (auto simp: no_update_mem)
  from emitsD [OF cleanup_no_update v] t assms(3,4) have "x = y"
    by (auto simp: no_update_mem)
  with v t delete(1,4) show ?thesis
    by (intro exI [of _ inst] exI [of _ w] exI [of _ zone] exI [of _ "s\<lparr>trace := trace s @ [K8s (GetGlobalDNSRecord req),
        K8s (GetGlobalDNSZone (rs_GlobalZoneRef (rec_Spec inst)))], world := w', local := (local s)\<lparr>rl_instance := inst\<rparr>\<rparr>"]
        exI [of _ v] exI [of _ post]) simp
next
  case (publish inst w zone w')
  from emitsD [OF publish_no_update publish(5)] assms(3,4) show ?thesis
    by (auto simp: no_update_mem)
qed

section \<open>What a reconciliation leaves behind\<close>

lemma for_each_total:
  assumes "\<And>acc x s. x \<in> set xs \<Longrightarrow> \<exists>r t. f acc x s = (Ret r, t)"
  shows "\<exists>r t. for_each f acc xs s = (Ret r, t)"
  using assms
proof (induction xs arbitrary: acc s)
  case (Cons x xs)
  obtain r t where "f acc x s = (Ret r, t)" using Cons.prems by fastforce
  moreover have "\<exists>r' t'. for_each f r xs t = (Ret r', t')" by (rule Cons.IH) (rule Cons.prems, simp)
  ultimately show ?case by (auto simp: bnd_def)
qed (simp add: ret_def)

lemma statuses_total:
  "\<exists>m t. getEndpointStatuses E em s = (Ret m, t)" "\<exists>m t. getMonitoredServiceStatuses E ord s = (Ret m, t)"
proof -
  show "\<exists>m t. getEndpointStatuses E em s = (Ret m, t)"
    unfolding getEndpointStatuses_def
    by (rule for_each_total) (auto simp: record_event_def request_def bnd_def seq_def now_def prog_simps split: option.split)
  have "\<exists>m t. for_each (\<lambda>conditions (k, endpointManager).
       let key = RemoteManager_GetKey endpointManager; conditions' = conditions(key \<mapsto> GetStatus endpointManager) in
       seq (report_manager E (map_lookup conditions' key)) (ret conditions')) Map.empty ms s = (Ret m, t)" for ms
    by (rule for_each_total) (auto simp: report_manager_def record_event_def request_def bnd_def seq_def Let_def prog_simps split: option.split)
  then show "\<exists>m t. getMonitoredServiceStatuses E ord s = (Ret m, t)"
    by (simp add: getMonitoredServiceStatuses_def bnd_def prog_simps)
qed

text \<open>The status update is the last request, and it carries the condition.\<close>

lemma write_status_result:
  assumes run: "write_status E ord em c s = (r, t)"
  shows "\<exists>pre x cs w. trace t = trace s @ pre @ [K8s (UpdateGlobalDNSRecordStatus x)]
     \<and> rst_Conditions (rec_Status x) = u_AddOrReplaceCondition (e_util E) c cs
     \<and> rec_Spec x = spec_of (local s) \<and> rec_Meta x = rec_Meta (rl_instance (local s))
     \<and> r = (case fst (k_UpdateGlobalDNSRecordStatus (e_k8s E) x w) of Ret _ \<Rightarrow> Ret () | Fail e \<Rightarrow> Fail e | Panic p \<Rightarrow> Panic p)"
proof -
  let ?l = "(local s)\<lparr>rl_instance := (rl_instance (local s))\<lparr>rec_Status := (rec_Status (rl_instance (local s)))\<lparr>
      rst_Conditions := u_AddOrReplaceCondition (e_util E) c (rst_Conditions (rec_Status (rl_instance (local s))))\<rparr>\<rparr>\<rparr>"
  let ?s1 = "s\<lparr>local := ?l\<rparr>"
  obtain m u where m: "getMonitoredServiceStatuses E ord ?s1 = (Ret m, u)" using statuses_total(2) by blast
  let ?u = "u\<lparr>local := (local u)\<lparr>rl_instance := (rl_instance (local u))\<lparr>rec_Status :=
      (rec_Status (rl_instance (local u)))\<lparr>rst_MonitoredServiceStatuses := m\<rparr>\<rparr>\<rparr>\<rparr>"
  obtain m' v where m': "getEndpointStatuses E (io_endpoints ord InStatus 0 em) ?u = (Ret m', v)" using statuses_total(1) by blast
  let ?x = "(rl_instance (local v))\<lparr>rec_Status := (rec_Status (rl_instance (local v)))\<lparr>rst_EndpointStatuses := m'\<rparr>\<rparr>"
  have u: "local u = ?l" using keepsD [OF getMonitoredServiceStatuses_frame(2) [where f = "\<lambda>l. l"] m] by simp
  have v: "local v = local ?u" using keepsD [OF getEndpointStatuses_frame(2) [where f = "\<lambda>l. l"] m'] by simp
  obtain tr tr' where tr: "trace u = trace s @ tr" "trace v = trace u @ tr'"
    using emitsD [OF getMonitoredServiceStatuses_frame(1) [where P = "\<lambda>_. True"] m]
      emitsD [OF getEndpointStatuses_frame(1) [where P = "\<lambda>_. True"] m'] by auto
  obtain q w where q: "k_UpdateGlobalDNSRecordStatus (e_k8s E) ?x (world v) = (q, w)" by fastforce
  have "r = (case q of Ret _ \<Rightarrow> Ret () | Fail e \<Rightarrow> Fail e | Panic p \<Rightarrow> Panic p)
      \<and> trace t = trace v @ [K8s (UpdateGlobalDNSRecordStatus ?x)]"
    using run m m' q unfolding write_status_def update_status_def upd_status_def set_instance_def
    by (cases q) (auto simp: bnd_def seq_def prog_simps request_def)
  with tr u v q show ?thesis
    by (intro exI [of _ "tr @ tr'"] exI [of _ ?x] exI [of _ "rst_Conditions (rec_Status (rl_instance (local s)))"]
        exI [of _ "world v"]) simp
qed

lemma ManageError_result:
  assumes "ManageError E ord em e s = (r, t)"
  shows "\<exists>pre x time cs w. trace t = trace s @ pre @ [K8s (UpdateGlobalDNSRecordStatus x)]
     \<and> rst_Conditions (rec_Status x) = u_AddOrReplaceCondition (e_util E) (error_condition E time (error_text E e)) cs
     \<and> rec_Spec x = spec_of (local s)
     \<and> r = (case fst (k_UpdateGlobalDNSRecordStatus (e_k8s E) x w) of Ret _ \<Rightarrow> Fail e | Fail e' \<Rightarrow> Fail e' | Panic p \<Rightarrow> Panic p)"
proof -
  let ?ev = "K8s (RecordEvent ''Warning'' ''ProcessingError'' (error_text E e))"
  let ?s = "s\<lparr>trace := trace s @ [?ev], world := k_RecordEvent (e_k8s E) ''Warning'' ''ProcessingError'' (error_text E e) (world s)\<rparr>"
  let ?c = "error_condition E (e_now E (world ?s)) (error_text E e)"
  obtain q u where q: "write_status E ord em ?c ?s = (q, u)" by fastforce
  have r: "r = (case q of Ret _ \<Rightarrow> Fail e | Fail e' \<Rightarrow> Fail e' | Panic p \<Rightarrow> Panic p)" "t = u"
    using assms q by (cases q; auto simp: ManageError_def record_event_def request_def bnd_def seq_def now_def prog_simps)+
  from write_status_result [OF q] obtain pre x cs w where
    x: "trace u = trace ?s @ pre @ [K8s (UpdateGlobalDNSRecordStatus x)]"
    "rst_Conditions (rec_Status x) = u_AddOrReplaceCondition (e_util E) ?c cs" "rec_Spec x = spec_of (local ?s)"
    "q = (case fst (k_UpdateGlobalDNSRecordStatus (e_k8s E) x w) of Ret _ \<Rightarrow> Ret () | Fail e \<Rightarrow> Fail e | Panic p \<Rightarrow> Panic p)"
    by blast
  show ?thesis
    using x r by (intro exI [of _ "?ev # pre"] exI [of _ x] exI [of _ "e_now E (world ?s)"] exI [of _ cs] exI [of _ w])
      (simp split: outcome.split)
qed

lemma managed_Ret:
  "managed E ord em m k s = (Ret (), t) \<longleftrightarrow> (\<exists>a u. m s = (Ret a, u) \<and> k a u = (Ret (), t))"
  by (auto simp: managed_def bnd_eq_Ret attempt_eq_Ret ManageError_fails)

lemma managed_Fail:
  assumes "managed E ord em m k s = (Fail e, t)"
  obtains a u where "m s = (Ret a, u)" "k a u = (Fail e, t)"
  | e' u where "m s = (Fail e', u)" "ManageError E ord em e' u = (Fail e, t)"
proof (cases "m s")
  case (Pair r u)
  with assms that show thesis by (cases r) (auto simp: managed_def bnd_def attempt_def)
qed

section \<open>The endpoint map\<close>

lemma getEndPointStatus_endpoint: "getEndPointStatus E ep s = (Ret es, t) \<Longrightarrow> es_endpoint es = ep"
  by (auto simp: getEndPointStatus_def inv_Ret)

text \<open>The map has an entry for every endpoint of the record, under its key and once per key.\<close>

definition endpoint_map_ok :: "Endpoint list \<Rightarrow> endpoint_map \<Rightarrow> bool" where
  "endpoint_map_ok endpoints em \<longleftrightarrow> distinct (map fst em) \<and> fst ` set em = Endpoint_GetKey ` set endpoints
     \<and> (\<forall>(k, es) \<in> set em. k = Endpoint_GetKey (es_endpoint es))"

lemma set_alist_update: "set (AList.update k v m) \<subseteq> insert (k, v) (set m)"
  by (induction m) auto

lemma endpoint_status_map_result:
  assumes "endpoint_status_map E s = (Ret em, t)"
  shows "endpoint_map_ok (rs_Endpoints (spec_of (local s))) em"
proof -
  have run: "for_each (\<lambda>em endpoint. bnd (attempt (getEndPointStatus E endpoint)) (\<lambda>r.
       ret (AList.update (Endpoint_GetKey endpoint)
              (case r of Inl err \<Rightarrow> failed_status err endpoint | Inr endpointStatus \<Rightarrow> endpointStatus) em)))
       [] (rs_Endpoints (spec_of (local s))) s = (Ret em, t)"
    using assms by (simp add: endpoint_status_map_def bnd_def prog_simps)
  show ?thesis
  proof (rule for_each_invariant [OF run, where P = endpoint_map_ok], goal_cases)
    case (2 ys y acc u r v)
    then obtain es where r: "r = AList.update (Endpoint_GetKey y) es acc" and es: "es_endpoint es = y"
      by (auto simp: inv_Ret failed_status_def dest: getEndPointStatus_endpoint)
    from 2(2) have acc: "distinct (map fst acc)" "fst ` set acc = Endpoint_GetKey ` set ys"
      "\<forall>(k, es) \<in> set acc. k = Endpoint_GetKey (es_endpoint es)" by (simp_all add: endpoint_map_ok_def)
    have "\<forall>(k, es) \<in> set (AList.update (Endpoint_GetKey y) es acc). k = Endpoint_GetKey (es_endpoint es)"
      using acc(3) set_alist_update [of "Endpoint_GetKey y" es acc] by (auto simp: es)
    with acc show ?case unfolding endpoint_map_ok_def r by (auto simp: dom_update intro: distinct_update)
  qed (simp add: endpoint_map_ok_def)
qed

text \<open>
  C20: what the providers are given. The map of endpoint statuses that a reconciliation builds has an
  entry for every endpoint of the record, filed under the key of the endpoint, and no key twice;
  every iteration order in which a provider may range over it is a well-formed family of ranges.
\<close>

theorem endpoint_ranges_well_formed:
  assumes "orders_ok ord" and "endpoint_status_map E s = (Ret em, t)"
  shows "endpoint_map_ok (rs_Endpoints (spec_of (local s))) em
     \<and> wf_ranges (\<lambda>i. io_endpoints ord site i em) \<and> wf_ranges (\<lambda>i. io_endpoints ord site (Suc i) em)"
proof -
  have em: "endpoint_map_ok (rs_Endpoints (spec_of (local s))) em" by (rule endpoint_status_map_result [OF assms(2)])
  have perm: "mset (io_endpoints ord site i em) = mset em" for i using assms(1) by (simp add: orders_ok_def)
  then have "set (io_endpoints ord site i em) = set em" "distinct (map fst (io_endpoints ord site i em))" for i
    using em by (metis mset_eq_setD, metis endpoint_map_ok_def mset_eq_imp_distinct_iff mset_map)
  with em perm show ?thesis by (auto simp: wf_ranges_def endpoint_map_ok_def)
qed

section \<open>Outcomes\<close>

text \<open>The run from \<open>s\<close> to \<open>t\<close> ended with an update of the status that tells of the error \<open>e\<close>: it carries
  the error condition with the text of an error, and \<open>e\<close> is that error or the failure of the update;
  or it carries the success condition and \<open>e\<close> is the failure of the update.\<close>

definition error_reported ::
  "'w env \<Rightarrow> (event, 'w, record_locals) io \<Rightarrow> error \<Rightarrow> (event, 'w, record_locals) io \<Rightarrow> bool" where
  "error_reported E s e t \<longleftrightarrow> (\<exists>pre x time cs w. trace t = trace s @ pre @ [K8s (UpdateGlobalDNSRecordStatus x)]
     \<and> ((\<exists>issue. rst_Conditions (rec_Status x) = u_AddOrReplaceCondition (e_util E) (error_condition E time (error_text E issue)) cs
          \<and> (e = issue \<or> fst (k_UpdateGlobalDNSRecordStatus (e_k8s E) x w) = Fail e))
       \<or> rst_Conditions (rec_Status x) = u_AddOrReplaceCondition (e_util E) (success_condition E time) cs
          \<and> fst (k_UpdateGlobalDNSRecordStatus (e_k8s E) x w) = Fail e))"

lemma ManageError_reported: "ManageError E ord em i s = (Fail e, t) \<Longrightarrow> error_reported E s e t"
  using ManageError_result [of E ord em i s "Fail e" t] unfolding error_reported_def
  by (fastforce split: outcome.splits)

lemma ManageSuccess_reported:
  assumes "ManageSuccess E ord em s = (Fail e, t)"
  shows "error_reported E s e t"
proof -
  have "write_status E ord em (success_condition E (e_now E (world s))) s = (Fail e, t)"
    using assms by (simp add: ManageSuccess_def bnd_def now_def)
  from write_status_result [OF this] show ?thesis
    unfolding error_reported_def by (fastforce split: outcome.splits)
qed

lemma error_reported_extend: "trace u = trace s @ tr \<Longrightarrow> error_reported E u e t \<Longrightarrow> error_reported E s e t"
  unfolding error_reported_def by (metis append.assoc)

lemma managed_reported:
  assumes "managed E ord em m k s = (Fail e, t)" and "emits P m"
    and "\<And>a u. m s = (Ret a, u) \<Longrightarrow> k a u = (Fail e, t) \<Longrightarrow> error_reported E u e t"
  shows "error_reported E s e t"
  using assms(1)
proof (cases rule: managed_Fail)
  case (1 a u)
  with emitsD [OF assms(2) 1(1)] assms(3) show ?thesis using error_reported_extend by blast
next
  case (2 e' u)
  with emitsD [OF assms(2) 2(1)] show ?thesis using error_reported_extend ManageError_reported by blast
qed

lemma endpoint_status_map_no_Fail: "endpoint_status_map E s \<noteq> (Fail e, t)"
proof -
  have "bnd (attempt (getEndPointStatus E endpoint)) (\<lambda>r.
       ret (AList.update (Endpoint_GetKey endpoint)
              (case r of Inl err \<Rightarrow> failed_status err endpoint | Inr endpointStatus \<Rightarrow> endpointStatus) em)) u \<noteq> (Fail e, t)"
    for em endpoint e t and u :: "(event, 'a, record_locals) io"
    by (auto simp: bnd_def attempt_def prog_simps split: prod.splits outcome.splits)
  from for_each_no_Fail [OF this] show ?thesis by (simp add: endpoint_status_map_def bnd_def prog_simps)
qed

lemma publish_reported:
  assumes "publish_record E ord zone s = (Fail e, t)"
  shows "error_reported E s e t"
proof (cases "has_suffix (rs_Name (spec_of (local s))) (zs_Domain (zone_Spec zone))")
  case False
  with assms show ?thesis by (auto simp: publish_record_def bnd_def prog_simps intro: ManageError_reported)
next
  case True
  with assms have "managed E ord [] (ensureRemoteManagers E) (\<lambda>_. bnd (endpoint_status_map E) (\<lambda>em.
     managed E ord em (choose_provider E ord zone em) (\<lambda>globalDNSProvider.
     managed E ord em (gp_ensureDNSRecord globalDNSProvider) (\<lambda>_. ManageSuccess E ord em)))) s = (Fail e, t)"
    by (simp add: publish_record_def bnd_def prog_simps)
  then show ?thesis
  proof (rule managed_reported [OF _ ensureRemoteManagers_no_update])
    fix u
    assume "bnd (endpoint_status_map E) (\<lambda>em. managed E ord em (choose_provider E ord zone em) (\<lambda>globalDNSProvider.
     managed E ord em (gp_ensureDNSRecord globalDNSProvider) (\<lambda>_. ManageSuccess E ord em))) u = (Fail e, t)"
    then obtain em v where em: "endpoint_status_map E u = (Ret em, v)"
      and run: "managed E ord em (choose_provider E ord zone em) (\<lambda>globalDNSProvider.
        managed E ord em (gp_ensureDNSRecord globalDNSProvider) (\<lambda>_. ManageSuccess E ord em)) v = (Fail e, t)"
      using endpoint_status_map_no_Fail by (auto simp: bnd_def split: prod.splits outcome.splits)
    from run have "error_reported E v e t"
    proof (rule managed_reported [OF _ choose_provider_frame(1)])
      fix p x
      assume p: "choose_provider E ord zone em v = (Ret p, x)"
        and run: "managed E ord em (gp_ensureDNSRecord p) (\<lambda>_. ManageSuccess E ord em) x = (Fail e, t)"
      from run provider_no_update(1) [OF p] show "error_reported E x e t"
        by (rule managed_reported) (rule ManageSuccess_reported)
    qed
    with emitsD [OF endpoint_status_map_no_update em] show "error_reported E u e t" using error_reported_extend by blast
  qed
qed

lemma delete_reported:
  fixes E :: "'w env"
  assumes "delete_record E ord zone s = (Fail e, t)"
  shows "error_reported E s e t"
proof -
  from assms have "managed E ord [] (manageCleanUpLogic E ord zone) (\<lambda>_.
     seq (upd_local (\<lambda>l. l\<lparr>rl_instance := (rl_instance l)\<lparr>rec_Meta :=
            u_RemoveFinalizer (e_util E) (rec_Meta (rl_instance l)) controllerName\<rparr>\<rparr>))
    (managed E ord [] (update_instance E) (\<lambda>_. ret ()))) s = (Fail e, t)"
    by (auto simp: delete_record_def bnd_def prog_simps split: if_splits)
  then show ?thesis
  proof (rule managed_reported [OF _ cleanup_no_update])
    fix u :: "(event, 'w, record_locals) io"
    let ?u = "u\<lparr>local := (local u)\<lparr>rl_instance := (rl_instance (local u))\<lparr>rec_Meta :=
            u_RemoveFinalizer (e_util E) (rec_Meta (rl_instance (local u))) controllerName\<rparr>\<rparr>\<rparr>"
    assume "seq (upd_local (\<lambda>l. l\<lparr>rl_instance := (rl_instance l)\<lparr>rec_Meta :=
            u_RemoveFinalizer (e_util E) (rec_Meta (rl_instance l)) controllerName\<rparr>\<rparr>))
      (managed E ord [] (update_instance E) (\<lambda>_. ret ())) u = (Fail e, t)"
    then have "managed E ord [] (update_instance E) (\<lambda>_. ret ()) ?u = (Fail e, t)" by (simp add: seq_def bnd_def prog_simps)
    then have "error_reported E ?u e t" by (rule managed_reported [OF _ update_frame(1)]) (simp add: prog_simps)
    then show "error_reported E u e t" by (simp add: error_reported_def)
  qed
qed

text \<open>
  C21: errors reach the status. When the reconciliation of a record that could be read returns an
  error, its last request is an update of the status of the record that tells of the error.
\<close>

theorem reconcile_error_reported:
  assumes "record_Reconcile E ord req s = (Fail e, t)"
    and "k_GetGlobalDNSRecord (e_k8s E) req (world s) = (Ret inst, w)"
  shows "error_reported E s e t"
  using assms(1)
proof (cases rule: record_Reconcile_cases)
  case (unread w)
  with assms(2) show ?thesis by blast
next
  case (no_zone inst w e w')
  from error_reported_extend [OF _ ManageError_reported [OF no_zone(3)]] show ?thesis by simp
next
  case (init inst w zone w')
  from managed_reported [OF init(4) update_frame(1)] show ?thesis
    by (rule error_reported_extend [rotated]) (simp_all add: prog_simps)
next
  case (delete inst w zone w')
  from error_reported_extend [OF _ delete_reported [OF delete(5)]] show ?thesis by simp
next
  case (publish inst w zone w')
  from error_reported_extend [OF _ publish_reported [OF publish(5)]] show ?thesis by simp
qed simp

text \<open>
  C22: success means published. When the reconciliation of a complete record that is not being deleted
  returns without error, the record's name ends in the domain of the zone, a provider was chosen
  for the endpoints of the record and its \<open>ensureDNSRecord\<close> returned without error, and the last request
  writes the success condition to the status of the record, whose specification is unchanged.
\<close>

theorem reconcile_success_published:
  assumes "record_Reconcile E ord req s = (Ret (), t)"
    and "k_GetGlobalDNSRecord (e_k8s E) req (world s) = (Ret inst, w)"
    and "k_GetGlobalDNSZone (e_k8s E) (rs_GlobalZoneRef (rec_Spec inst)) w = (Ret zone, w')"
    and "record_complete E inst" and "\<not> u_IsBeingDeleted (e_util E) (rec_Meta inst)"
  shows "has_suffix (rs_Name (rec_Spec inst)) (zs_Domain (zone_Spec zone))
     \<and> (\<exists>em a p u v pre x time cs. endpoint_map_ok (rs_Endpoints (rec_Spec inst)) em
          \<and> choose_provider E ord zone em a = (Ret p, u) \<and> gp_ensureDNSRecord p u = (Ret (), v)
          \<and> trace t = trace v @ pre @ [K8s (UpdateGlobalDNSRecordStatus x)]
          \<and> rst_Conditions (rec_Status x) = u_AddOrReplaceCondition (e_util E) (success_condition E time) cs
          \<and> rec_Spec x = rec_Spec inst)"
proof -
  let ?s = "s\<lparr>trace := trace s @ [K8s (GetGlobalDNSRecord req), K8s (GetGlobalDNSZone (rs_GlobalZoneRef (rec_Spec inst)))],
        world := w', local := (local s)\<lparr>rl_instance := inst\<rparr>\<rparr>"
  from assms(1) have run: "publish_record E ord zone ?s = (Ret (), t)"
    by (cases rule: record_Reconcile_cases) (use assms(2-5) in auto)
  have dom: "has_suffix (rs_Name (rec_Spec inst)) (zs_Domain (zone_Spec zone))"
    using run by (auto simp: publish_record_def ManageError_fails bnd_def prog_simps split: if_splits)
  with run obtain b em a p u v where b: "ensureRemoteManagers E ?s = (Ret (), b)"
    and em: "endpoint_status_map E b = (Ret em, a)" and p: "choose_provider E ord zone em a = (Ret p, u)"
    and v: "gp_ensureDNSRecord p u = (Ret (), v)" and t: "ManageSuccess E ord em v = (Ret (), t)"
    by (auto simp: publish_record_def inv_Ret managed_Ret)
  have "spec_of (local b) = rec_Spec inst"
    using keepsD [OF ensureRemoteManagers_keeps [where h = spec_of] b] by simp
  moreover have "spec_of (local a) = spec_of (local b)" by (rule keepsD [OF endpoint_status_map_frame(2) em])
  moreover have "spec_of (local u) = spec_of (local a)"
    by (rule keepsD [OF choose_provider_frame(2) p])
  moreover have "spec_of (local v) = spec_of (local u)"
    using dns_provider.ensure_spec [OF choose_provider_ok [OF p] v] .
  moreover have "write_status E ord em (success_condition E (e_now E (world v))) v = (Ret (), t)"
    using t by (simp add: ManageSuccess_def bnd_def now_def)
  ultimately show ?thesis
    using dom p v endpoint_status_map_result [OF em] write_status_result by metis
qed

section \<open>Records that are never published\<close>

lemma init_probe_timeout: "pr_TimeoutSeconds (snd (init_probe (ok, probe))) = pr_TimeoutSeconds probe"
  by (simp add: init_probe_def Let_def)

lemma IsInitialized_probe:
  assumes "rs_HealthCheck (rec_Spec r) = Some probe"
  shows "\<exists>probe'. rs_HealthCheck (rec_Spec (snd (IsInitialized E r))) = Some probe'
     \<and> pr_TimeoutSeconds probe' = pr_TimeoutSeconds probe"
proof -
  have "\<exists>ok. rs_HealthCheck (rec_Spec (snd (IsInitialized E r))) = Some (snd (init_probe (ok, probe)))"
    using assms by (cases "u_HasFinalizer (e_util E) (rec_Meta r) controllerName"; cases "rs_TTL (rec_Spec r) = 0")
      (auto simp: IsInitialized_def Let_def split: prod.split, (metis snd_conv)+)
  then show ?thesis using init_probe_timeout by metis
qed

text \<open>
  C23: a probe without timeout. For a record whose health check has no timeout the controller updates
  the record, with other defaults filled in but the timeout still missing, and stops: every
  reconciliation of the record takes this branch, and nothing is ever published for it.
\<close>

theorem missing_timeout_never_published:
  assumes "k_GetGlobalDNSRecord (e_k8s E) req (world s) = (Ret inst, w)"
    and "k_GetGlobalDNSZone (e_k8s E) (rs_GlobalZoneRef (rec_Spec inst)) w = (Ret zone, w')"
    and "rs_HealthCheck (rec_Spec inst) = Some probe" and "pr_TimeoutSeconds probe = 0"
    and "x = snd (IsInitialized E inst)" and "k_UpdateGlobalDNSRecord (e_k8s E) x w' = (Ret y, w'')"
  shows "\<exists>t probe'. record_Reconcile E ord req s = (Ret (), t)
     \<and> trace t = trace s @ [K8s (GetGlobalDNSRecord req), K8s (GetGlobalDNSZone (rs_GlobalZoneRef (rec_Spec inst))),
         K8s (UpdateGlobalDNSRecord x)]
     \<and> rs_HealthCheck (rec_Spec x) = Some probe' \<and> pr_TimeoutSeconds probe' = 0 \<and> \<not> fst (IsInitialized E x)"
proof -
  have init: "IsInitialized E inst = (False, x)"
    using assms(3-5) IsInitialized_False [of E inst] by (cases "IsInitialized E inst") (auto simp: record_complete_def probe_complete_def)
  obtain probe' where p: "rs_HealthCheck (rec_Spec x) = Some probe'" "pr_TimeoutSeconds probe' = 0"
    using IsInitialized_probe [OF assms(3), of E] assms(4,5) by auto
  then have "\<not> fst (IsInitialized E x)"
    by (intro IsInitialized_False) (auto simp: record_complete_def probe_complete_def)
  with p init assms(1,2,6) show ?thesis
    by (simp add: record_Reconcile_def managed_def update_instance_def set_instance_def attempt_def request_def bnd_def seq_def
        prog_simps Let_def)
qed

text \<open>
  C24: a record without zone. While the zone of a record cannot be read every reconciliation ends in
  an error, or crashes, without an update of the record: the finalizer of a record that is being deleted is never
  removed once its zone is gone.
\<close>

theorem missing_zone_keeps_finalizer:
  assumes "k_GetGlobalDNSRecord (e_k8s E) req (world s) = (Ret inst, w)"
    and "k_GetGlobalDNSZone (e_k8s E) (rs_GlobalZoneRef (rec_Spec inst)) w = (Fail e, w')"
    and "record_Reconcile E ord req s = (r, t)"
  shows "r \<noteq> Ret () \<and> (\<exists>tr. trace t = trace s @ tr \<and> list_all no_update tr)"
  using assms(3)
proof (cases rule: record_Reconcile_cases)
  case (no_zone i v e v')
  have "r \<noteq> Ret ()" using no_zone(3) ManageError_fails by blast
  with emitsD [OF ManageError_no_update(1) no_zone(3)] show ?thesis by (auto simp: no_update_def)
qed (use assms(1,2) in \<open>auto simp: no_update_def\<close>)

section \<open>Witnesses\<close>

text \<open>A record without endpoints in a zone of external-dns: alive, being deleted, and with a probe.\<close>

definition small_record :: GlobalDNSRecord where
  "small_record = sample_record\<lparr>rec_Spec := sample_spec\<lparr>rs_Endpoints := []\<rparr>\<rparr>"

definition deleted_record :: GlobalDNSRecord where
  "deleted_record = small_record\<lparr>rec_Meta := sample_meta\<lparr>om_DeletionTimestamp := Some 1\<rparr>\<rparr>"

definition probed_record :: GlobalDNSRecord where
  "probed_record = small_record\<lparr>rec_Spec := sample_spec\<lparr>rs_HealthCheck := Some \<lparr>pr_HTTPGet = None, pr_InitialDelaySeconds = 0,
     pr_TimeoutSeconds = 0, pr_PeriodSeconds = 10, pr_SuccessThreshold = 1, pr_FailureThreshold = 3\<rparr>\<rparr>\<rparr>"

definition record_state :: "GlobalDNSRecord \<Rightarrow> GlobalDNSZone option \<Rightarrow> (event, sample_world, record_locals) io" where
  "record_state r z = sample_state\<lparr>world := empty_world\<lparr>sw_record := Some r, sw_zone := z\<rparr>\<rparr>"

definition go_order :: iteration_orders where
  "go_order = \<lparr>io_endpoints = (\<lambda>_ _ m. rev m), io_managers = (\<lambda>m. m),
     io_schedule = \<lparr>sch_endpoints = [], sch_zones = (\<lambda>_. [])\<rparr>\<rparr>"

lemma sample_finalizers: "finalizers_ok sample_E"
  by (auto simp: finalizers_ok_def sample_env_def sample_util_def)

lemma sample_no_managers:
  assumes "sw_records (world s) = []" and "rl_remoteManagersMap (local s) = []"
  shows "ensureRemoteManagers sample_E s = (Ret (), s\<lparr>trace := trace s @ [K8s ListGlobalDNSRecords]\<rparr>)"
  using assms by (simp add: ensureRemoteManagers_def sync_managers_def deferred_def needed_endpoints_def sample_env_def sample_k8s_def
      sample_strset_def New_def NewWithSize_def Add_def Difference_def Separate_def Copy_def List_items_def
      bnd_def seq_def request_def prog_simps Let_def ret_def)


text \<open>The steps of a run on a record without endpoints.\<close>

lemmas small_record_steps = record_Reconcile_def IsInitialized_def set_instance_def managed_def delete_record_def publish_record_def
  manageCleanUpLogic_def endpoint_status_map_def choose_provider_def use_provider_def update_instance_def
  external_provider_def createExternalDNSProvider_def external_deleteDNSRecord_def external_ensureDNSRecord_def
  createExternalDNSRecord_def record_ips_def new_dns_endpoint_def create_dns_endpoint_def
  controllerName_def Let_def bnd_def seq_def attempt_def request_def pure_call_def prog_simps ret_def

lemmas small_record_defs = sample_E_simps small_record_def deleted_record_def probed_record_def record_state_def external_zone_def
  go_order_def sample_k8s_def sample_util_def empty_world_def sample_name_def sample_meta_def sample_spec_def sample_record_def
  sample_locals_def sample_state_def sample_zone_def

lemma sample_delete_run:
  "\<exists>t x. record_Reconcile sample_E go_order (sample_name ''rec'') (record_state deleted_record (Some external_zone))
     = (Ret (), t) \<and> trace t = [K8s (GetGlobalDNSRecord (sample_name ''rec'')), K8s (GetGlobalDNSZone ''zone''), K8s ListGlobalDNSRecords,
         K8s (UpdateGlobalDNSRecord x)] \<and> controllerName \<notin> set (om_Finalizers (rec_Meta x))"
  by (simp add: small_record_steps small_record_defs sample_no_managers)


lemmas small_status_steps = ManageError_def ManageSuccess_def write_status_def upd_status_def update_status_def record_event_def now_def
  getMonitoredServiceStatuses_def endpoint_manager_map_def getEndpointStatuses_def

lemma sample_publish_run:
  "\<exists>t. record_Reconcile sample_E go_order (sample_name ''rec'') (record_state small_record (Some external_zone))
     = (Ret (), t)"
  by (simp add: small_record_steps small_status_steps small_record_defs sample_no_managers has_suffix_def not_found_def)

lemma sample_no_zone_run:
  "\<exists>t. record_Reconcile sample_E go_order (sample_name ''rec'') (record_state small_record None)
     = (Fail not_found, t)"
  by (simp add: small_record_steps small_status_steps small_record_defs)

theorem managers_never_leaked_witness:
  "\<exists>t. record_Reconcile sample_E go_order (sample_name ''rec'') (record_state sample_record (Some external_zone))
     = t \<and> balanced (trace (snd t)) (rl_remoteManagersMap (local (snd t)))"
proof -
  have "record_system sample_E (record_state sample_record (Some external_zone))"
    using record_system.start by (simp add: small_record_defs record_setup_def)
  from record_system.reconcile [OF this prod.collapse [symmetric]]
  show ?thesis using managers_never_leaked [OF sample_strset_ok] by blast
qed

theorem finalizer_removed_after_cleanup_witness:
  "\<exists>u v zone. rl_instance (local u) = deleted_record
     \<and> manageCleanUpLogic sample_E go_order zone u = (Ret (), v)"
proof -
  let ?s = "record_state deleted_record (Some external_zone)"
  obtain t x where run: "record_Reconcile sample_E go_order (sample_name ''rec'') ?s = (Ret (), t)"
    and t: "trace t = [K8s (GetGlobalDNSRecord (sample_name ''rec'')), K8s (GetGlobalDNSZone ''zone''), K8s ListGlobalDNSRecords,
         K8s (UpdateGlobalDNSRecord x)]" and x: "controllerName \<notin> set (om_Finalizers (rec_Meta x))"
    using sample_delete_run by blast
  have "trace t = trace ?s @ trace t" by (simp add: record_state_def sample_state_def)
  moreover have "K8s (UpdateGlobalDNSRecord x) \<in> set (trace t)" by (simp add: t)
  moreover have "k_GetGlobalDNSRecord (e_k8s sample_E) n (world ?s) = (Ret deleted_record, world ?s)" for n
    by (simp add: record_state_def sample_E_simps sample_k8s_def)
  ultimately show ?thesis
    using finalizer_removed_after_cleanup [OF sample_finalizers run _ _ x] by fastforce
qed

theorem endpoint_ranges_well_formed_witness:
  "\<exists>em t. endpoint_status_map sample_E sample_state = (Ret em, t)
     \<and> endpoint_map_ok [sample_endpoint ''a'', sample_endpoint ''b''] em \<and> wf_ranges (\<lambda>i. io_endpoints go_order InRoute53 i em)"
proof -
  have "orders_ok go_order" by (simp add: orders_ok_def go_order_def)
  moreover have "\<exists>em t. endpoint_status_map sample_E sample_state = (Ret em, t)"
    by (simp add: endpoint_status_map_def getEndPointStatus_def getClient_def record_getRestConfig_def getRestConfig_def
        bnd_def seq_def attempt_def request_def pure_call_def prog_simps sample_env_def sample_remote_def small_record_defs
        sample_endpoint_def ret_def)
  moreover have "rs_Endpoints (spec_of (local sample_state)) = [sample_endpoint ''a'', sample_endpoint ''b'']"
    by (simp add: small_record_defs)
  ultimately show ?thesis using endpoint_ranges_well_formed by metis
qed

theorem reconcile_error_reported_witness:
  "\<exists>t. error_reported sample_E (record_state small_record None) not_found t"
proof -
  obtain t where run: "record_Reconcile sample_E go_order (sample_name ''rec'')
      (record_state small_record None) = (Fail not_found, t)" using sample_no_zone_run by blast
  have "k_GetGlobalDNSRecord (e_k8s sample_E) (sample_name ''rec'') (world (record_state small_record None))
      = (Ret small_record, world (record_state small_record None))"
    by (simp add: record_state_def sample_E_simps sample_k8s_def)
  from reconcile_error_reported [OF run this] show ?thesis by blast
qed

theorem reconcile_success_published_witness:
  "has_suffix ''app.example.com'' ''example.com'' \<and> (\<exists>em a p u v. endpoint_map_ok [] em
     \<and> choose_provider sample_E go_order external_zone em a = (Ret p, u)
     \<and> gp_ensureDNSRecord p u = (Ret (), v))"
proof -
  let ?w = "world (record_state small_record (Some external_zone))"
  obtain t where run: "record_Reconcile sample_E go_order (sample_name ''rec'')
      (record_state small_record (Some external_zone)) = (Ret (), t)" using sample_publish_run by blast
  have "k_GetGlobalDNSRecord (e_k8s sample_E) (sample_name ''rec'') ?w = (Ret small_record, ?w)"
    and "k_GetGlobalDNSZone (e_k8s sample_E) (rs_GlobalZoneRef (rec_Spec small_record)) ?w = (Ret external_zone, ?w)"
    by (simp_all add: record_state_def sample_E_simps sample_k8s_def)
  moreover have "record_complete sample_E small_record" "\<not> u_IsBeingDeleted (e_util sample_E) (rec_Meta small_record)"
    by (simp_all add: record_complete_def controllerName_def small_record_defs)
  moreover have "rs_Name (rec_Spec small_record) = ''app.example.com''" "rs_Endpoints (rec_Spec small_record) = []"
    "zs_Domain (zone_Spec external_zone) = ''example.com''"
    by (simp_all add: small_record_defs)
  ultimately show ?thesis using reconcile_success_published [OF run] by metis
qed

theorem missing_timeout_never_published_witness:
  "\<exists>t. record_Reconcile sample_E go_order (sample_name ''rec'')
     (record_state probed_record (Some external_zone)) = (Ret (), t)
     \<and> \<not> fst (IsInitialized sample_E (snd (IsInitialized sample_E probed_record)))"
proof -
  let ?w = "world (record_state probed_record (Some external_zone))"
  have run: "k_GetGlobalDNSRecord (e_k8s sample_E) (sample_name ''rec'') ?w = (Ret probed_record, ?w)"
    "k_GetGlobalDNSZone (e_k8s sample_E) (rs_GlobalZoneRef (rec_Spec probed_record)) ?w = (Ret external_zone, ?w)"
    "k_UpdateGlobalDNSRecord (e_k8s sample_E) x ?w = (Ret x, ?w\<lparr>sw_record := Some x\<rparr>)" for x
    by (simp_all add: record_state_def sample_E_simps sample_k8s_def)
  obtain probe where "rs_HealthCheck (rec_Spec probed_record) = Some probe" "pr_TimeoutSeconds probe = 0"
    by (simp add: probed_record_def)
  from missing_timeout_never_published [OF run(1,2) this refl run(3), of go_order] show ?thesis by blast
qed

theorem missing_zone_keeps_finalizer_witness:
  "\<exists>r t tr. record_Reconcile sample_E go_order (sample_name ''rec'') (record_state deleted_record None)
     = (r, t) \<and> r \<noteq> Ret () \<and> trace t = trace (record_state deleted_record None) @ tr \<and> list_all no_update tr"
proof -
  let ?w = "world (record_state deleted_record None)"
  have "k_GetGlobalDNSRecord (e_k8s sample_E) (sample_name ''rec'') ?w = (Ret deleted_record, ?w)"
    "k_GetGlobalDNSZone (e_k8s sample_E) (rs_GlobalZoneRef (rec_Spec deleted_record)) ?w = (Fail not_found, ?w)"
    by (simp_all add: record_state_def sample_E_simps sample_k8s_def empty_world_def)
  moreover obtain r t where run: "record_Reconcile sample_E go_order (sample_name ''rec'')
      (record_state deleted_record None) = (r, t)" by fastforce
  ultimately show ?thesis using missing_zone_keeps_finalizer [OF _ _ run] by blast
qed

end
