(* ===== verification/Zone_Controller.thy ===== *)
theory Zone_Controller
  imports Credentials Sample_World
begin

text \<open>
  controllers/globaldnszone/globaldnszone\_controller.go: the reconciliation of a GlobalDNSZone,
  which checks that the hosted zone of Route53 controls the domain and writes the outcome to the
  status. \<open>ManageError\<close> and \<open>ManageSuccess\<close> of this controller are those of operator-utils, a
  parameter of the model. Zones are cluster-scoped: they are fetched by their name.
\<close>

section \<open>The controller\<close>

text \<open>The pair \<open>(ok, err)\<close> of the source: \<open>ok\<close> is false exactly when an error is returned with it.\<close>

definition IsValid :: "'w env \<Rightarrow> GlobalDNSZone \<Rightarrow> ('w, 'l, unit) op" where
  "IsValid E globalDNSZone =
     (case pc_Route53 (zs_Provider (zone_Spec globalDNSZone)) of
        None \<Rightarrow> ret ()
      | Some config \<Rightarrow>
          bnd (GetRoute53Client E globalDNSZone) (\<lambda>route53Client.
          bnd (request (Aws (GetHostedZone (r53c_ZoneID config))) (r53_GetHostedZone route53Client (r53c_ZoneID config))) (\<lambda>result.
          bnd (deref result) (\<lambda>name.
          if name \<noteq> zs_Domain (zone_Spec globalDNSZone) @ ''.''
          then fail (ErrNew ''route53 hosted zone name does not match global dns name'')
          else ret ()))))"

definition zone_ManageError :: "'w env \<Rightarrow> GlobalDNSZone \<Rightarrow> error \<Rightarrow> ('w, 'l, unit) op" where
  "zone_ManageError E inst issue = request (K8s (ManageZoneError inst issue)) (k_ManageZoneError (e_k8s E) inst issue)"

definition zone_ManageSuccess :: "'w env \<Rightarrow> GlobalDNSZone \<Rightarrow> ('w, 'l, unit) op" where
  "zone_ManageSuccess E inst = request (K8s (ManageZoneSuccess inst)) (k_ManageZoneSuccess (e_k8s E) inst)"

definition zone_Reconcile :: "'w env \<Rightarrow> string \<Rightarrow> ('w, 'l, unit) op" where
  "zone_Reconcile E req =
     bnd (attempt (request (K8s (GetGlobalDNSZone req)) (k_GetGlobalDNSZone (e_k8s E) req))) (\<lambda>r.
     case r of
       Inl err \<Rightarrow> if IsNotFound err then ret () else fail err
     | Inr inst \<Rightarrow>
         bnd (attempt (IsValid E inst)) (\<lambda>valid.
         case valid of
           Inl err \<Rightarrow> zone_ManageError E inst err
         | Inr _ \<Rightarrow> zone_ManageSuccess E inst))"

section \<open>Properties\<close>

text \<open>What the validation may send: requests for the credentials and the read of the hosted zone.\<close>

fun validation_event :: "event \<Rightarrow> bool" where
  "validation_event (Aws (GetHostedZone _)) = True"
| "validation_event ev = credential_event ev"

lemma credential_validation: "credential_event ev \<Longrightarrow> validation_event ev"
  by (cases ev rule: credential_event.cases) simp_all

lemma IsValid_frame: "emits validation_event (IsValid E zone)"
  unfolding IsValid_def
  by (intro frame_intros emits_mono [OF GetRoute53Client_frame(1) credential_validation]; simp)

lemma validation_no_report:
  "list_all validation_event tr \<Longrightarrow> K8s (ManageZoneSuccess z) \<notin> set tr" "list_all validation_event tr \<Longrightarrow> K8s (ManageZoneError z e) \<notin> set tr"
  by (auto simp: list_all_iff)

text \<open>The domain check, read off a validation that succeeded.\<close>

definition controls_domain :: "'w env \<Rightarrow> GlobalDNSZone \<Rightarrow> bool" where
  "controls_domain E zone \<longleftrightarrow> (\<forall>config. pc_Route53 (zs_Provider (zone_Spec zone)) = Some config \<longrightarrow>
     (\<exists>key secret w w'. r53_GetHostedZone (e_route53 E key secret) (r53c_ZoneID config) w
        = (Ret (Some (zs_Domain (zone_Spec zone) @ ''.'')), w')))"

lemma GetRoute53Client_client: "GetRoute53Client E zone s = (Ret client, t) \<Longrightarrow> \<exists>key secret. client = e_route53 E key secret"
  by (cases "ca_NewSession (e_auth E)") (auto simp: GetRoute53Client_def inv_Ret)

lemma IsValid_controls: "IsValid E zone s = (Ret (), t) \<Longrightarrow> controls_domain E zone"
  unfolding controls_domain_def
  by (auto simp: IsValid_def inv_Ret split: if_splits dest!: GetRoute53Client_client) blast

text \<open>The course of a reconciliation of a zone that could be read.\<close>

lemma zone_Reconcile_report:
  assumes run: "zone_Reconcile E req s = (r, t)" and got: "k_GetGlobalDNSZone (e_k8s E) req (world s) = (Ret inst, w)"
  obtains (success) u tr where "IsValid E inst (s\<lparr>trace := trace s @ [K8s (GetGlobalDNSZone req)], world := w\<rparr>) = (Ret (), u)"
      "trace t = trace s @ K8s (GetGlobalDNSZone req) # tr @ [K8s (ManageZoneSuccess inst)]" "list_all validation_event tr"
      "r = fst (k_ManageZoneSuccess (e_k8s E) inst (world u))"
  | (error) u tr e where "IsValid E inst (s\<lparr>trace := trace s @ [K8s (GetGlobalDNSZone req)], world := w\<rparr>) = (Fail e, u)"
      "trace t = trace s @ K8s (GetGlobalDNSZone req) # tr @ [K8s (ManageZoneError inst e)]" "list_all validation_event tr"
      "r = fst (k_ManageZoneError (e_k8s E) inst e (world u))"
  | (crash) u tr p where "IsValid E inst (s\<lparr>trace := trace s @ [K8s (GetGlobalDNSZone req)], world := w\<rparr>) = (Panic p, u)"
      "trace t = trace s @ K8s (GetGlobalDNSZone req) # tr" "list_all validation_event tr" "r = Panic p"
proof -
  let ?s = "s\<lparr>trace := trace s @ [K8s (GetGlobalDNSZone req)], world := w\<rparr>"
  obtain q u where q: "IsValid E inst ?s = (q, u)" by fastforce
  from emitsD [OF IsValid_frame q] obtain tr where tr: "trace u = trace s @ K8s (GetGlobalDNSZone req) # tr" "list_all validation_event tr"
    by auto
  note step = zone_Reconcile_def zone_ManageError_def zone_ManageSuccess_def attempt_def request_def bnd_def prog_simps
  show thesis
  proof (cases q)
    case (Ret a)
    with run got q tr show thesis by (intro success [of u tr]) (auto simp: step split: prod.splits)
  next
    case (Fail e)
    with run got q tr show thesis by (intro error [of e u tr]) (auto simp: step split: prod.splits)
  next
    case (Panic p)
    with run got q tr show thesis by (intro crash [of p u tr]) (auto simp: step)
  qed
qed

text \<open>
  C25: a zone is reported as valid only when it is. If the reconciliation of a zone reports success, the
  zone is the one that was read, the report is its last request and the only one, and when the zone is kept in
  Route53, then Route53 has answered that the hosted zone of the configured ID is named after the domain of the zone. When
  the validation fails, its error is what is reported.
\<close>

theorem zone_report_validated:
  fixes s :: "(event, 'w, 'l) io"
  assumes "zone_Reconcile E req s = (r, t)" and "k_GetGlobalDNSZone (e_k8s E) req (world s) = (Ret inst, w)" and "trace t = trace s @ tr"
  shows "(\<forall>z. K8s (ManageZoneSuccess z) \<in> set tr \<longrightarrow> z = inst \<and> controls_domain E z
          \<and> last tr = K8s (ManageZoneSuccess z) \<and> (\<forall>x e. K8s (ManageZoneError x e) \<notin> set tr))
     \<and> (\<forall>z e. K8s (ManageZoneError z e) \<in> set tr \<longrightarrow> z = inst \<and> last tr = K8s (ManageZoneError z e)
          \<and> (\<exists>u v :: (event, 'w, 'l) io. IsValid E inst u = (Fail e, v)))
     \<and> ((\<exists>p. r = Panic p) \<or> last tr = K8s (ManageZoneSuccess inst) \<or> (\<exists>e. last tr = K8s (ManageZoneError inst e)))"
  using assms(1,2)
proof (cases rule: zone_Reconcile_report)
  case (success u tr')
  with assms(3) show ?thesis by (auto simp: validation_no_report dest: IsValid_controls)
next
  case (error u tr' e)
  from error(1) have "\<exists>u v :: (event, 'w, 'l) io. IsValid E inst u = (Fail e, v)" by blast
  with error assms(3) show ?thesis by (simp add: validation_no_report)
next
  case (crash u tr' p)
  with assms(3) show ?thesis by (auto simp: validation_no_report)
qed

text \<open>A zone whose hosted zone has the right name.\<close>

definition hosted_zone :: GlobalDNSZone where
  "hosted_zone = sample_zone\<lparr>zone_Spec := \<lparr>zs_Domain = ''example.com'', zs_Provider =
     \<lparr>pc_Route53 = Some \<lparr>r53c_ZoneID = ''example.com.'', r53c_CredentialsSecretRef = sample_name ''aws''\<rparr>,
      pc_ExternalDNS = None, pc_TrafficManager = None, pc_GCPGLB = None\<rparr>\<rparr>\<rparr>"

definition zone_state :: "GlobalDNSZone \<Rightarrow> (event, sample_world, unit) io" where
  "zone_state z = \<lparr>trace = [], world = empty_world\<lparr>sw_zone := Some z\<rparr>, local = ()\<rparr>"

lemma hosted_zone_run:
  "\<exists>t tr. zone_Reconcile (sample_env no_document) ''zone'' (zone_state hosted_zone) = (Ret (), t)
     \<and> trace t = tr @ [K8s (ManageZoneSuccess hosted_zone)]"
  by (simp add: zone_Reconcile_def zone_ManageSuccess_def IsValid_def GetRoute53Client_def aws_ensureCredentialsRequestExists_def
      ensure_credentials_request_def getAWSCredentials_def getAWSCredentialSecret_def credential_secret_def secret_key_def
      hosted_zone_def zone_state_def sample_defs attempt_def request_def bnd_def seq_def prog_simps not_found_def Let_def)

theorem zone_report_validated_witness:
  "\<exists>t. zone_Reconcile (sample_env no_document) ''zone'' (zone_state hosted_zone) = (Ret (), t)
     \<and> controls_domain (sample_env no_document) hosted_zone"
proof -
  obtain t tr where t: "zone_Reconcile (sample_env no_document) ''zone'' (zone_state hosted_zone) = (Ret (), t)"
    "trace t = tr @ [K8s (ManageZoneSuccess hosted_zone)]" using hosted_zone_run by blast
  have "k_GetGlobalDNSZone (e_k8s (sample_env no_document)) ''zone'' (world (zone_state hosted_zone)) = (Ret hosted_zone, world (zone_state hosted_zone))"
    "trace t = trace (zone_state hosted_zone) @ trace t"
    by (simp_all add: zone_state_def sample_env_def sample_k8s_def)
  from zone_report_validated [OF t(1) this] t show ?thesis by auto
qed

end
