(* ===== verification/GCP_Properties.thy ===== *)
theory GCP_Properties
  imports GCP_Provider
begin

text \<open>
  Properties of the Google provider: which endpoints are attached and detached, that every zone is
  handled whatever the interleaving of the goroutines, and the updates and errors its races lose.
\<close>

section \<open>Network endpoint groups\<close>

lemma foldl_upd_Some:
  "foldl (\<lambda>m ne. m(ne_Instance ne \<mapsto> ne)) m nes k = Some x \<Longrightarrow> m k = Some x \<or> (x \<in> set nes \<and> ne_Instance x = k)"
proof (induction nes arbitrary: m)
  case (Cons ne nes)
  from Cons.IH [OF Cons.prems [unfolded foldl.simps]] show ?case by (auto split: if_splits)
qed simp

lemma foldl_upd_dom: "dom (foldl (\<lambda>m ne. m(ne_Instance ne \<mapsto> ne)) m nes) = dom m \<union> ne_Instance ` set nes"
  by (induction nes arbitrary: m) auto

lemma outer_join_side:
  assumes "strset_ok E" and "S = e_strset E"
    and "xs = map (foldl (\<lambda>m ne. m(ne_Instance ne \<mapsto> ne)) Map.empty left)
        (ss_List S (ss_Difference S (ss_New S (map ne_Instance left)) (ss_New S (map ne_Instance right))))"
  shows "\<exists>nes. xs = map Some nes \<and> distinct (map ne_Instance nes) \<and> set nes \<subseteq> set left
     \<and> ne_Instance ` set nes = ne_Instance ` set left - ne_Instance ` set right"
proof -
  define m where "m = foldl (\<lambda>m ne. m(ne_Instance ne \<mapsto> ne)) Map.empty left"
  define ks where "ks = ss_List S (ss_Difference S (ss_New S (map ne_Instance left)) (ss_New S (map ne_Instance right)))"
  have ks: "set ks = ne_Instance ` set left - ne_Instance ` set right" "distinct ks"
    unfolding ks_def assms(2) using strset_facts(1,2) [OF assms(1)] by auto
  have "\<exists>ne. m k = Some ne" if "k \<in> set ks" for k
    using that ks(1) foldl_upd_dom [of Map.empty left] unfolding m_def [symmetric] by auto
  then obtain f where f: "\<And>k. k \<in> set ks \<Longrightarrow> m k = Some (f k)" by metis
  have "f k \<in> set left \<and> ne_Instance (f k) = k" if "k \<in> set ks" for k
    using foldl_upd_Some [OF f [OF that, unfolded m_def]] by simp
  then have "map ne_Instance (map f ks) = ks" "set (map f ks) \<subseteq> set left"
    by (auto intro: map_idI)
  moreover have "xs = map Some (map f ks)" using f unfolding assms(3) m_def [symmetric] ks_def [symmetric] by simp
  ultimately show ?thesis using ks by (intro exI [of _ "map f ks"]) (metis set_map)
qed

text \<open>
  C26: which endpoints change. \<open>getNepOuterJoin\<close> returns the endpoints of the group whose instance is
  not wanted and the wanted ones whose instance is missing, and no other, each instance once and never a nil
  pointer; detaching the former and attaching the latter leaves exactly the wanted instances.
\<close>

theorem nep_outer_join:
  assumes "strset_ok E" and "getNepOuterJoin E actual desired = (toBeDeleted, toBeCreated)"
  shows "\<exists>dels news. toBeDeleted = map Some dels \<and> toBeCreated = map Some news
     \<and> distinct (map ne_Instance dels) \<and> distinct (map ne_Instance news) \<and> set dels \<subseteq> set actual \<and> set news \<subseteq> set desired
     \<and> ne_Instance ` set dels = ne_Instance ` set actual - ne_Instance ` set desired
     \<and> ne_Instance ` set news = ne_Instance ` set desired - ne_Instance ` set actual
     \<and> ne_Instance ` (set actual - {ne. ne_Instance ne \<in> ne_Instance ` set dels}) \<union> ne_Instance ` set news = ne_Instance ` set desired"
proof -
  from outer_join_side [OF assms(1) refl refl, of actual desired] assms(2)
  obtain dels where d: "toBeDeleted = map Some dels" "distinct (map ne_Instance dels)" "set dels \<subseteq> set actual"
    "ne_Instance ` set dels = ne_Instance ` set actual - ne_Instance ` set desired"
    by (auto simp: getNepOuterJoin_def Let_def)
  from outer_join_side [OF assms(1) refl refl, of desired actual] assms(2)
  obtain news where n: "toBeCreated = map Some news" "distinct (map ne_Instance news)" "set news \<subseteq> set desired"
    "ne_Instance ` set news = ne_Instance ` set desired - ne_Instance ` set actual"
    by (auto simp: getNepOuterJoin_def Let_def)
  have "ne_Instance ` (set actual - {ne. ne_Instance ne \<in> ne_Instance ` set dels}) = ne_Instance ` set actual \<inter> ne_Instance ` set desired"
    unfolding d(4) by auto
  with d n show ?thesis by (intro exI [of _ dels] exI [of _ news]) auto
qed

theorem nep_outer_join_witness:
  "\<exists>dels news. getNepOuterJoin (sample_env no_document)
       [\<lparr>ne_Instance = ''a'', ne_Port = 1\<rparr>, \<lparr>ne_Instance = ''b'', ne_Port = 1\<rparr>] [\<lparr>ne_Instance = ''b'', ne_Port = 1\<rparr>, \<lparr>ne_Instance = ''c'', ne_Port = 1\<rparr>]
       = (map Some dels, map Some news) \<and> ne_Instance ` set dels = {''a''} \<and> ne_Instance ` set news = {''c''}"
proof -
  let ?actual = "[\<lparr>ne_Instance = ''a'', ne_Port = 1\<rparr>, \<lparr>ne_Instance = ''b'', ne_Port = 1\<rparr>]"
  let ?desired = "[\<lparr>ne_Instance = ''b'', ne_Port = 1\<rparr>, \<lparr>ne_Instance = ''c'', ne_Port = 1\<rparr>]"
  obtain toBeDeleted toBeCreated where join: "getNepOuterJoin (sample_env no_document) ?actual ?desired = (toBeDeleted, toBeCreated)"
    by fastforce
  have "ne_Instance ` set ?actual - ne_Instance ` set ?desired = {''a''}" "ne_Instance ` set ?desired - ne_Instance ` set ?actual = {''c''}" by auto
  with nep_outer_join [OF sample_strset_ok join] join show ?thesis by metis
qed

section \<open>Every zone is handled\<close>

lemma admits_grows: "admits P grows"
  by (auto simp: admits_def grows_def)

text \<open>
  The endpoints of a group have been brought in line with \<open>desired\<close>: they were listed, and for the
  answer, a value of the API, the endpoints that are not wanted were detached and the missing ones
  attached.
\<close>

definition zone_handled ::
  "'w env \<Rightarrow> 'w googleGCPProvider \<Rightarrow> string \<Rightarrow> string \<Rightarrow> NetworkEndpoint list \<Rightarrow> event list \<Rightarrow> (event, 'w, 'l) io \<Rightarrow> bool" where
  "zone_handled E p zone name desired base s \<longleftrightarrow> (\<exists>w w' found actual toBeDeleted toBeCreated.
     g_ListNetworkEndpoints (gg_client p) (gg_googleProject p) zone name w = (Ret (found, None), w')
     \<and> page_items found = Some actual \<and> getNepOuterJoin E actual desired = (toBeDeleted, toBeCreated)
     \<and> sent base s (Google (ListNetworkEndpoints (gg_googleProject p) zone name))
     \<and> (toBeDeleted \<noteq> [] \<longrightarrow> sent base s (Google (DetachNetworkEndpoints (gg_googleProject p) zone name toBeDeleted)))
     \<and> (toBeCreated \<noteq> [] \<longrightarrow> sent base s (Google (AttachNetworkEndpoints (gg_googleProject p) zone name toBeCreated))))"

lemma zone_handled_grows: "zone_handled E p zone name desired base s \<Longrightarrow> grows s t \<Longrightarrow> zone_handled E p zone name desired base t"
  unfolding zone_handled_def using sent_grows [of base s _ t] by metis

lemma change_endpoints_achieves:
  assumes "prefix base (trace s)"
  shows "achieves (\<lambda>_ t. grows s t \<and> (neps \<noteq> [] \<longrightarrow> sent base t (Google (ev neps)))) (change_endpoints ev f neps) (v, s)"
proof (cases "neps = []")
  case False
  have "achieves (\<lambda>_ t. grows s t \<and> (neps \<noteq> [] \<longrightarrow> sent base t (Google (ev neps))))
     (tbnd (act (request (Google (ev neps)) (f neps))) (\<lambda>_. Done (Ret ()))) (v, s)"
    by (rule achieves_tbnd [OF achieves_request [OF assms, where P = "\<lambda>_ t. grows s t \<and> sent base t (Google (ev neps))"]]) simp_all
  with False show ?thesis by (simp add: change_endpoints_def)
qed (simp add: change_endpoints_def grows_refl)

lemma ensure_endpoints_achieves:
  assumes base: "prefix base (trace s)"
  shows "achieves (\<lambda>_. zone_handled E p zone name desired base) (ensure_endpoints E p zone name desired) (v, s)"
  unfolding ensure_endpoints_def Let_def
proof (rule achieves_tbnd [OF achieves_request [OF base, where P = "\<lambda>found t. grows s t
    \<and> sent base t (Google (ListNetworkEndpoints (gg_googleProject p) zone name))
    \<and> (\<exists>w w'. g_ListNetworkEndpoints (gg_client p) (gg_googleProject p) zone name w = (Ret found, w'))"]], goal_cases)
  case (2 answer v t)
  obtain found err where answer: "answer = (found, err)" by fastforce
  show ?case
  proof (cases "page_items found")
    case (Some actual)
    show ?thesis
    proof (cases err)
      case None
      obtain dels news where join: "getNepOuterJoin E actual desired = (dels, news)" by fastforce
      note base_t = base_grows [OF base conjunct1 [OF 2]]
      have "achieves (\<lambda>_. zone_handled E p zone name desired base)
         (tbnd (change_endpoints (DetachNetworkEndpoints (gg_googleProject p) zone name)
            (g_DetachNetworkEndpoints (gg_client p) (gg_googleProject p) zone name) dels) (\<lambda>_.
          change_endpoints (AttachNetworkEndpoints (gg_googleProject p) zone name)
            (g_AttachNetworkEndpoints (gg_client p) (gg_googleProject p) zone name) news)) (v, t)"
      proof (rule achieves_tbnd [OF change_endpoints_achieves [OF base_t]], goal_cases)
        case (1 a v' u)
        show ?case
        proof (rule achieves_mono [OF change_endpoints_achieves [OF base_grows [OF base_t conjunct1 [OF 1]]]])
          fix b x
          assume x: "grows u x \<and> (news \<noteq> [] \<longrightarrow> sent base x (Google (AttachNetworkEndpoints (gg_googleProject p) zone name news)))"
          from 1 x have "dels \<noteq> [] \<longrightarrow> sent base x (Google (DetachNetworkEndpoints (gg_googleProject p) zone name dels))"
            using sent_grows by blast
          moreover from 1 2 x have "sent base x (Google (ListNetworkEndpoints (gg_googleProject p) zone name))"
            using sent_grows grows_trans by blast
          moreover from 2 obtain w w' where
            "g_ListNetworkEndpoints (gg_client p) (gg_googleProject p) zone name w = (Ret (found, None), w')"
            unfolding answer None by blast
          ultimately show "zone_handled E p zone name desired base x"
            using x Some join unfolding zone_handled_def by blast
        qed
      qed
      with Some None join show ?thesis by (simp add: answer tderef_def)
    qed (simp add: answer Some tderef_def)
  qed (simp add: answer tderef_def)
qed blast

lemma zone_goroutine_achieves:
  assumes "prefix base (trace s)"
  shows "achieves (\<lambda>_. zone_handled E p zone (getZonalNetworkEndpointGroupName spec zone) desired base)
     (zone_goroutine E p spec network subnetwork zone desired) (v, s)"
  unfolding zone_goroutine_def Let_def
proof (rule achieves_tbnd [where M = "\<lambda>_ t. grows s t"], goal_cases)
  case 1
  show ?case
    unfolding ensure_group_def Let_def by (rule achieves_any) (intro thread_intros admits_request [OF admits_grows]; simp)+
next
  case (2 znepgID v' t)
  show ?case
  proof (rule achieves_tbnd [OF ensure_endpoints_achieves [OF base_grows [OF assms 2]]])
    fix a v'' u
    assume "zone_handled E p zone (getZonalNetworkEndpointGroupName spec zone) desired base u"
    then show "achieves (\<lambda>_. zone_handled E p zone (getZonalNetworkEndpointGroupName spec zone) desired base) (append_backend znepgID) (v'', u)"
      unfolding append_backend_def
      by (intro achieves_any) (intro thread_intros, auto simp: grows_refl intro: zone_handled_grows)
  qed
qed

text \<open>A group wants the instance of a node.\<close>

definition wants :: "(string \<times> NetworkEndpoint list) list \<Rightarrow> Node \<Rightarrow> bool" where
  "wants groups node \<longleftrightarrow> (\<exists>neps. map_of groups (node_zone node) = Some neps
     \<and> last_part (CHR ''/'') (node_ProviderID node) \<in> ne_Instance ` set neps)"

lemma wants_append: "wants m node \<Longrightarrow> wants (zone_append z x m) node"
  by (auto simp: wants_def zone_append_def update_conv')

lemma wants_appended:
  "ne_Instance x = last_part (CHR ''/'') (node_ProviderID node) \<Longrightarrow> wants (zone_append (node_zone node) x m) node"
  by (auto simp: wants_def zone_append_def update_conv')

lemma distinct_append: "distinct (map fst m) \<Longrightarrow> distinct (map fst (zone_append z x m))"
  unfolding zone_append_def by (rule distinct_update)

lemma neps_by_zone_cases:
  assumes "rs_HealthCheck spec = Some probe" and "pr_HTTPGet probe = Some get" and "hg_Scheme get \<in> {''HTTP'', ''HTTPS''}"
    and "distinct (map fst acc)" and "\<forall>node \<in> set seen. wants acc node"
  shows "\<exists>groups. neps_by_zone spec a b acc nodes = Done (Ret groups) \<and> distinct (map fst groups)
     \<and> (\<forall>node \<in> set (seen @ nodes). wants groups node)"
  using assms(4,5)
proof (induction nodes arbitrary: acc seen)
  case (Cons node nodes)
  let ?acc = "\<lambda>port. zone_append (node_zone node) \<lparr>ne_Instance = last_part (CHR ''/'') (node_ProviderID node), ne_Port = port\<rparr> acc"
  have "distinct (map fst (?acc port))" "\<forall>n \<in> set (seen @ [node]). wants (?acc port) n" for port
    using Cons.prems by (auto simp: distinct_append wants_append wants_appended)
  note Cons.IH [OF this]
  with assms(1-3) show ?case by (auto simp: Let_def tderef_def)
qed auto

text \<open>Every node that the cluster of an endpoint has answered is wanted in the group of its zone, and the
  group has been handled.\<close>

definition endpoint_handled ::
  "'w env \<Rightarrow> 'w googleGCPProvider \<Rightarrow> GlobalDNSRecordSpec \<Rightarrow> EndpointStatus \<Rightarrow> event list \<Rightarrow> (event, 'w, 'l) io \<Rightarrow> bool" where
  "endpoint_handled E p spec endpoint base s \<longleftrightarrow> (\<exists>client selector w w' nodes. es_client endpoint = Some client
     \<and> m_ListNodes (e_remote E) client selector w = (Ret nodes, w') \<and> sent base s (Remote (ListNodes client selector))
     \<and> (\<forall>node \<in> set nodes. \<exists>desired. last_part (CHR ''/'') (node_ProviderID node) \<in> ne_Instance ` set desired
          \<and> zone_handled E p (node_zone node) (getZonalNetworkEndpointGroupName spec (node_zone node)) desired base s))"

lemma endpoint_handled_grows: "endpoint_handled E p spec es base s \<Longrightarrow> grows s t \<Longrightarrow> endpoint_handled E p spec es base t"
  unfolding endpoint_handled_def using sent_grows [of base s _ t] zone_handled_grows [of E p _ _ _ base s t] by meson

lemma collect_achieves:
  assumes "\<And>c. c \<in> set cs \<Longrightarrow> achieves (\<lambda>_. H c) (t c) (v, s)" and "\<And>c. c \<in> set cs \<Longrightarrow> tobeys (inner grows) (t c)"
    and "\<And>c s s'. H c s \<Longrightarrow> grows s s' \<Longrightarrow> H c s'" and multierror: "multierror_ok E"
  shows "achieves (\<lambda>_ s'. grows s s' \<and> (\<forall>c \<in> set cs. H c s')) (collect E sched (map (\<lambda>c. sends (t c)) cs)) (v, s)"
  unfolding collect_def
proof (rule achieves_tbnd [OF achieves_weave [where P = "\<lambda>c err s. err = None \<longrightarrow> H c s"]], goal_cases)
  case (4 results v' s')
  show ?case
  proof (cases "e_multierror E results")
    case None
    with 4 have "\<forall>c \<in> set cs. H c s'" using multierror unfolding multierror_ok_def by blast
    with 4 None show ?thesis by simp
  qed simp
qed (use assms achieves_sends tobeys_sends in blast)+

definition groups_found ::
  "'w env \<Rightarrow> EndpointStatus \<Rightarrow> event list \<Rightarrow> (event, 'w, 'l) io \<Rightarrow> (string \<times> NetworkEndpoint list) list \<Rightarrow> (event, 'w, 'l) io \<Rightarrow> bool" where
  "groups_found E endpoint base s groups t \<longleftrightarrow> grows s t \<and> distinct (map fst groups)
     \<and> (\<exists>client selector w w' nodes. es_client endpoint = Some client
          \<and> m_ListNodes (e_remote E) client selector w = (Ret nodes, w') \<and> sent base t (Remote (ListNodes client selector))
          \<and> (\<forall>node \<in> set nodes. wants groups node))"

lemma list_nodes_achieves:
  fixes t :: "(event, 'w, 'l) io" and v :: 'v
  assumes "rs_HealthCheck spec = Some probe" and "pr_HTTPGet probe = Some get" and "hg_Scheme get \<in> {''HTTP'', ''HTTPS''}"
    and base: "prefix base (trace s)" and client: "es_client endpoint = Some client" and t: "grows s t"
  shows "achieves (groups_found E endpoint base s) (tbnd (act (request (Remote (ListNodes client selector)) (m_ListNodes (e_remote E) client selector)))
      (neps_by_zone spec a b [])) (v, t)"
proof (rule achieves_tbnd [OF achieves_request [OF base_grows [OF base t], where P = "\<lambda>nodes u. grows t u
    \<and> sent base u (Remote (ListNodes client selector)) \<and> (\<exists>w w'. m_ListNodes (e_remote E) client selector w = (Ret nodes, w'))"]], goal_cases)
  case (2 nodes v' u)
  obtain groups where g: "neps_by_zone spec a b [] nodes = (Done (Ret groups) :: (('v, 'w, 'l) shared_state, _) thread)"
    "distinct (map fst groups)" "\<forall>node \<in> set nodes. wants groups node"
    using neps_by_zone_cases [OF assms(1-3), of "[]" "[]" a b nodes] by auto
  with 2 client grows_trans [OF t] show ?case by (auto simp: groups_found_def)
qed blast

lemma getDesiredNepsByZone_achieves:
  assumes "rs_HealthCheck spec = Some probe" and "pr_HTTPGet probe = Some get" and "hg_Scheme get \<in> {''HTTP'', ''HTTPS''}"
    and base: "prefix base (trace s)"
  shows "achieves (groups_found E endpoint base s) (getDesiredNepsByZone E spec endpoint) (v, s)"
proof (cases "es_client endpoint")
  case (Some client)
  let ?ref = "ep_LoadBalancerServiceRef (es_endpoint endpoint)"
  note nodes = list_nodes_achieves [OF assms Some]
  show ?thesis
    unfolding getDesiredNepsByZone_def Let_def Some tderef_def option.case tbnd.simps outcome.case
  proof (rule achieves_tbnd [OF achieves_any [where P = "\<lambda>_. grows s"]], goal_cases)
    case (3 service v' t)
    show ?case
    proof (cases "node_port ''https'' service = 0 \<or> node_port ''http'' service = 0")
      case False
      show ?thesis
        unfolding if_not_P [OF False]
      proof (rule achieves_tbnd [OF achieves_any [where P = "\<lambda>_. grows t"]], goal_cases)
        case (3 pods v'' u)
        with \<open>grows s t\<close> have "grows s u" by (blast intro: grows_trans)
        from nodes [OF this] show ?case by (cases pods) simp_all
      qed (auto intro: admits_request [OF admits_grows])
    qed simp
  qed (auto intro: admits_request [OF admits_grows])
qed (simp add: getDesiredNepsByZone_def tderef_def)

lemma endpoint_goroutine_achieves:
  assumes "rs_HealthCheck spec = Some probe" and "pr_HTTPGet probe = Some get" and "hg_Scheme get \<in> {''HTTP'', ''HTTPS''}"
    and base: "prefix base (trace s)" and multierror: "multierror_ok E"
  shows "achieves (\<lambda>_. endpoint_handled E p spec endpoint base) (endpoint_goroutine E p spec name endpoint) (v, s)"
proof (cases "inf_PlatformStatus (es_infrastructure endpoint)")
  case (Some platform)
  show ?thesis
  proof (cases "pl_GCP_Region platform")
    case (Some region)
    show ?thesis
      unfolding endpoint_goroutine_def Let_def \<open>inf_PlatformStatus _ = _\<close> Some tderef_def option.case tbnd.simps outcome.case
        case_prod_unfold
    proof (rule achieves_tbnd [OF getDesiredNepsByZone_achieves [OF assms(1-4)]], goal_cases)
      case (1 groups v' t)
      let ?H = "\<lambda>c. zone_handled E p (fst c) (getZonalNetworkEndpointGroupName spec (fst c)) (snd c) base"
      from 1 have t: "grows s t" by (simp add: groups_found_def)
      show ?case
      proof (rule achieves_mono [OF collect_achieves [where H = ?H]], goal_cases)
        case (5 _ u)
        from 1 obtain client selector w w' nodes where n: "es_client endpoint = Some client"
          "m_ListNodes (e_remote E) client selector w = (Ret nodes, w')" "sent base t (Remote (ListNodes client selector))"
          "\<forall>node \<in> set nodes. wants groups node" by (auto simp: groups_found_def)
        have "\<exists>desired. last_part (CHR ''/'') (node_ProviderID node) \<in> ne_Instance ` set desired
            \<and> zone_handled E p (node_zone node) (getZonalNetworkEndpointGroupName spec (node_zone node)) desired base u"
          if node: "node \<in> set nodes" for node
        proof -
          from n(4) node obtain neps where neps: "map_of groups (node_zone node) = Some neps"
            "last_part (CHR ''/'') (node_ProviderID node) \<in> ne_Instance ` set neps" by (auto simp: wants_def)
          with 5 have "?H (node_zone node, neps) u" using map_of_SomeD by fastforce
          with neps(2) show ?thesis by auto
        qed
        with n 5 sent_grows show ?case unfolding endpoint_handled_def by blast
      qed (auto intro: zone_goroutine_achieves base_grows [OF base t] tobeys_zone_goroutine admits_grows zone_handled_grows multierror)
    qed
  qed (simp add: endpoint_goroutine_def tderef_def Some)
qed (simp add: endpoint_goroutine_def tderef_def)

text \<open>
  C27: no zone is forgotten. For every interleaving of the goroutines: when \<open>ensureZonalNetworkEndpointGroups\<close>
  succeeds, then for every endpoint the nodes of its cluster were listed, and every node of the
  answer is wanted in the group of its zone, whose endpoints were listed and brought in line.
\<close>

theorem gcp_zones_handled:
  assumes "rs_HealthCheck spec = Some probe" and "pr_HTTPGet probe = Some get" and "hg_Scheme get \<in> {''HTTP'', ''HTTPS''}"
    and "ensureZonalNetworkEndpointGroups E p spec s = (Ret backends, t)" and "multierror_ok E" and "(name, endpoint) \<in> set (gg_endpointMap p 1)"
  shows "endpoint_handled E p spec endpoint (trace s) t"
proof -
  let ?t = "\<lambda>c. endpoint_goroutine E p spec (fst c) (snd c)"
  from assms(4) obtain v where run: "run_goroutines [] (collect E (sch_endpoints (gg_schedule p)) (map (\<lambda>c. sends (?t c)) (gg_endpointMap p 1))) s
      = (Ret ((), v), t)" by (auto simp: ensureZonalNetworkEndpointGroups_def inv_Ret case_prod_unfold)
  have "achieves (\<lambda>_ s'. grows s s' \<and> (\<forall>c \<in> set (gg_endpointMap p 1). endpoint_handled E p spec (snd c) (trace s) s'))
     (collect E (sch_endpoints (gg_schedule p)) (map (\<lambda>c. sends (?t c)) (gg_endpointMap p 1))) ([], s)"
    by (rule collect_achieves) (auto intro: endpoint_goroutine_achieves [OF assms(1-3)] tobeys_endpoint_goroutine admits_grows endpoint_handled_grows assms(5))
  moreover have "tobeys (inner grows) (collect E (sch_endpoints (gg_schedule p)) (map (\<lambda>c. sends (?t c)) (gg_endpointMap p 1)))"
    by (auto simp: list_all_iff intro!: tobeys_collect tobeys_sends tobeys_endpoint_goroutine admits_grows)
  ultimately have "\<forall>c \<in> set (gg_endpointMap p 1). endpoint_handled E p spec (snd c) (trace s) t"
    using run_achieves [OF _ _ run] by blast
  with assms(6) show ?thesis by auto
qed

section \<open>Samples\<close>

text \<open>A cluster with one node in each of two zones.\<close>

definition gcp_probe :: Probe where
  "gcp_probe = \<lparr>pr_HTTPGet = Some \<lparr>hg_Path = ''/'', hg_Port = \<lparr>ios_IntVal = 443, ios_StrVal = []\<rparr>, hg_Host = ''app.example.com'',
       hg_Scheme = ''HTTPS'', hg_HTTPHeaders = []\<rparr>,
     pr_InitialDelaySeconds = 0, pr_TimeoutSeconds = 1, pr_PeriodSeconds = 10, pr_SuccessThreshold = 1, pr_FailureThreshold = 3\<rparr>"

definition gcp_spec :: GlobalDNSRecordSpec where
  "gcp_spec = sample_spec\<lparr>rs_HealthCheck := Some gcp_probe\<rparr>"

definition gcp_status :: EndpointStatus where
  "gcp_status = (sample_status ''c'')\<lparr>es_infrastructure := \<lparr>inf_InfrastructureName = ''infra'',
     inf_PlatformStatus = Some \<lparr>pl_Type = GCPPlatformType, pl_AWS_Region = None,
       pl_Azure_NetworkResourceGroupName = None, pl_GCP_Region = Some ''eu''\<rparr>\<rparr>\<rparr>"

definition gcp_zone :: GlobalDNSZone where
  "gcp_zone = sample_zone\<lparr>zone_Spec := \<lparr>zs_Domain = ''example.com'', zs_Provider =
     \<lparr>pc_Route53 = None, pc_ExternalDNS = None, pc_TrafficManager = None,
      pc_GCPGLB = Some \<lparr>gcpc_CredentialsSecretRef = sample_name ''gcp'', gcpc_ManagedZoneName = ''managed''\<rparr>\<rparr>\<rparr>\<rparr>"

definition gcp_nodes :: "Node list" where
  "gcp_nodes = [\<lparr>node_ProviderID = ''gce/n1'', node_Labels = [''topology.kubernetes.io/zone'' \<mapsto> ''a'']\<rparr>,
     \<lparr>node_ProviderID = ''gce/n2'', node_Labels = [''topology.kubernetes.io/zone'' \<mapsto> ''b'']\<rparr>]"

definition gcp_sample :: "nat list \<Rightarrow> sample_world googleGCPProvider" where
  "gcp_sample zones = \<lparr>gg_globalzone = gcp_zone, gg_endpointMap = (\<lambda>_. [(''ep'', gcp_status)]), gg_client = sample_google,
     gg_googleProject = ''proj'', gg_schedule = \<lparr>sch_endpoints = [], sch_zones = (\<lambda>_. zones)\<rparr>\<rparr>"

definition gcp_state :: "(event, sample_world, record_locals) io" where
  "gcp_state = sample_state\<lparr>world := empty_world\<lparr>sw_nodes := gcp_nodes\<rparr>, local := sample_locals\<lparr>rl_instance := sample_record\<lparr>rec_Spec := gcp_spec\<rparr>\<rparr>\<rparr>"

definition race_schedule :: "nat list" where
  "race_schedule = replicate 5 0 @ replicate 6 1"

theorem gcp_zones_handled_witness:
  "\<exists>backends t. ensureZonalNetworkEndpointGroups (sample_env no_document) (gcp_sample race_schedule) gcp_spec gcp_state = (Ret backends, t)
     \<and> endpoint_handled (sample_env no_document) (gcp_sample race_schedule) gcp_spec gcp_status (trace gcp_state) t"
proof -
  have "case fst (ensureZonalNetworkEndpointGroups (sample_env no_document) (gcp_sample race_schedule) gcp_spec gcp_state) of
      Ret _ \<Rightarrow> True | _ \<Rightarrow> False" by code_simp
  then obtain backends t where run:
    "ensureZonalNetworkEndpointGroups (sample_env no_document) (gcp_sample race_schedule) gcp_spec gcp_state = (Ret backends, t)"
    by (cases "ensureZonalNetworkEndpointGroups (sample_env no_document) (gcp_sample race_schedule) gcp_spec gcp_state")
      (auto split: outcome.splits)
  have "rs_HealthCheck gcp_spec = Some gcp_probe" by (simp add: gcp_spec_def)
  moreover obtain get where "pr_HTTPGet gcp_probe = Some get" "hg_Scheme get \<in> {''HTTP'', ''HTTPS''}" by (simp add: gcp_probe_def)
  moreover have "(''ep'', gcp_status) \<in> set (gg_endpointMap (gcp_sample race_schedule) 1)" by (simp add: gcp_sample_def)
  ultimately have "endpoint_handled (sample_env no_document) (gcp_sample race_schedule) gcp_spec gcp_status (trace gcp_state) t"
    using gcp_zones_handled [OF _ _ _ run sample_multierror_ok] by blast
  with run show ?thesis by blast
qed

section \<open>Races\<close>

text \<open>Two goroutines that append to the slice: one after the other, and both reading before either writes.\<close>

definition backend_of :: "string \<Rightarrow> Backend" where
  "backend_of znepgID = \<lparr>be_BalancingMode = ''CONNECTION'', be_MaxConnectionsPerEndpoint = 100, be_Group = znepgID\<rparr>"

lemma append_backends:
  "run (weave [] [append_backend g, append_backend h] []) (backends, s) = (Ret [(), ()], (backends @ [backend_of g, backend_of h], s))"
  "run (weave [0, 1] [append_backend g, append_backend h] []) (backends, s) = (Ret [(), ()], (backends @ [backend_of h], s))"
  by (simp_all add: append_backend_def access_def backend_of_def)

text \<open>Two goroutines that delete the groups of two zones, of which the first deletion fails.\<close>

lemma delete_zones:
  assumes "g_DeleteNEG (gg_client p) (gg_googleProject p) z1 (getZonalNetworkEndpointGroupName spec z1) (world t) = (Fail e, w1)"
    and "google_code e = Some code" and "code \<noteq> 404"
    and "g_DeleteNEG (gg_client p) (gg_googleProject p) z2 (getZonalNetworkEndpointGroupName spec z2) w1 = (r, w2)"
    and "(\<exists>op. r = Ret op) \<or> (\<exists>e'. r = Fail e' \<and> google_code e' = Some 404)"
  shows "fst (run (weave [] [delete_zone_goroutine p spec name z1, delete_zone_goroutine p spec name z2] []) (errs, t)) = Ret [Some e, None]"
    and "fst (run (weave [0, 0, 1, 1] [delete_zone_goroutine p spec name z1, delete_zone_goroutine p spec name z2] []) (errs, t)) = Ret [None, None]"
  using assms(5)
  by (auto simp: delete_zone_goroutine_def Let_def act_def access_def request_def assms(1-4) run_tbnd)

text \<open>
  C28: what the interleaving decides. The goroutines of the zones append to one slice and share one
  error variable without synchronization. Whatever the slice holds, two goroutines that run one after the other add both
  backends, and when both read the slice before either writes it the backend of the first is lost. And
  whatever an endpoint with two zones, the API and the errors before: when the deletion of the
  first zone's group fails and the second zone's succeeds or finds nothing, the goroutine of the endpoint
  returns an error if they run one after the other, and no error if both deletions are answered before the error variable is tested.
\<close>

theorem gcp_races_lose_updates:
  fixes s :: "(event, 'w, 'l) io"
  assumes "multierror_ok E"
    and "run (getDesiredNepsByZone E spec endpoint) (errs, s) = (Ret [(z1, neps1), (z2, neps2)], (errs', t))"
    and "g_DeleteNEG (gg_client p) (gg_googleProject p) z1 (getZonalNetworkEndpointGroupName spec z1) (world t) = (Fail e, w1)"
    and "google_code e = Some code" and "code \<noteq> 404"
    and "g_DeleteNEG (gg_client p) (gg_googleProject p) z2 (getZonalNetworkEndpointGroupName spec z2) w1 = (r, w2)"
    and "(\<exists>op. r = Ret op) \<or> (\<exists>e'. r = Fail e' \<and> google_code e' = Some 404)"
  shows "(\<exists>e'. fst (run (delete_endpoint_goroutine E (p\<lparr>gg_schedule := sch\<lparr>sch_zones := (\<lambda>_. [])\<rparr>\<rparr>) spec name endpoint) (errs, s)) = Fail e')
     \<and> fst (run (delete_endpoint_goroutine E (p\<lparr>gg_schedule := sch\<lparr>sch_zones := (\<lambda>_. [0, 0, 1, 1])\<rparr>\<rparr>) spec name endpoint) (errs, s)) = Ret ()
     \<and> (\<forall>backends g h. fst (snd (run (weave [] [append_backend g, append_backend h] []) (backends, s))) = backends @ [backend_of g, backend_of h]
       \<and> fst (snd (run (weave [0, 1] [append_backend g, append_backend h] []) (backends, s))) = backends @ [backend_of h])"
proof -
  let ?p = "\<lambda>sched. p\<lparr>gg_schedule := sch\<lparr>sch_zones := (\<lambda>_. sched)\<rparr>\<rparr>"
  have p: "delete_zone_goroutine (?p sched) spec name z
      = (delete_zone_goroutine p spec name z :: ((string \<Rightarrow> error option, 'w, 'l) shared_state, error option) thread)" for sched z
    by (simp add: delete_zone_goroutine_def)
  let ?ts = "[delete_zone_goroutine p spec name z1, delete_zone_goroutine p spec name z2]"
  have ep: "run (delete_endpoint_goroutine E (?p sched) spec name endpoint) (errs, s) = run (collect E sched ?ts) (errs', t)" for sched
    by (simp add: delete_endpoint_goroutine_def run_tbnd assms(2) p)
  have coll: "fst (run (collect E sched ?ts) x) = (case e_multierror E results of None \<Rightarrow> Ret () | Some e \<Rightarrow> Fail e)"
    if "fst (run (weave sched ?ts []) x) = Ret results" for sched x results
    using that by (cases "run (weave sched ?ts []) x") (simp add: collect_def run_tbnd)
  from assms(1) have "e_multierror E [Some e, None] \<noteq> None" "e_multierror E [None, None] = None"
    by (auto simp: multierror_ok_def)
  with coll [OF delete_zones(1) [OF assms(3-7)]] coll [OF delete_zones(2) [OF assms(3-7)]]
  have "\<exists>e'. fst (run (delete_endpoint_goroutine E (?p []) spec name endpoint) (errs, s)) = Fail e'"
    "fst (run (delete_endpoint_goroutine E (?p [0, 0, 1, 1]) spec name endpoint) (errs, s)) = Ret ()"
    unfolding ep by auto
  then show ?thesis by (intro conjI allI) (simp_all add: append_backends [simplified])
qed

theorem gcp_races_lose_updates_witness:
  "fst (run (delete_endpoint_goroutine (sample_env no_document) (gcp_sample [0, 0, 1, 1]) gcp_spec ''ep'' gcp_status) (\<lambda>_. None, gcp_state)) = Ret ()"
proof -
  have "case fst (run (getDesiredNepsByZone (sample_env no_document) gcp_spec gcp_status) ((\<lambda>_. None) :: string \<Rightarrow> error option, gcp_state)) of
      Ret groups \<Rightarrow> map fst groups = [''a'', ''b''] | _ \<Rightarrow> False" by code_simp
  then obtain neps1 neps2 errs' t where run: "run (getDesiredNepsByZone (sample_env no_document) gcp_spec gcp_status)
      ((\<lambda>_. None) :: string \<Rightarrow> error option, gcp_state) = (Ret [(''a'', neps1), (''b'', neps2)], (errs', t))"
    by (cases "run (getDesiredNepsByZone (sample_env no_document) gcp_spec gcp_status) ((\<lambda>_. None) :: string \<Rightarrow> error option, gcp_state)")
      (auto split: outcome.splits simp: map_eq_Cons_conv)
  let ?p = "gcp_sample [0, 0, 1, 1]"
  have del: "g_DeleteNEG (gg_client ?p) project z name w = (Fail (GoogleErr (if z = ''a'' then 500 else 404) z), w)" for project z name w
    by (simp add: gcp_sample_def sample_google_def)
  have p: "?p\<lparr>gg_schedule := (gg_schedule ?p)\<lparr>sch_zones := (\<lambda>_. [0, 0, 1, 1])\<rparr>\<rparr> = ?p" by (simp add: gcp_sample_def)
  from gcp_races_lose_updates [where p = ?p and sch = "gg_schedule ?p" and name = "''ep''", OF sample_multierror_ok run del _ _ del, unfolded p]
  show ?thesis by simp
qed

end
