(* ===== verification/GCP_Lifecycle.thy ===== *)
theory GCP_Lifecycle
  imports GCP_Properties
begin

text \<open>
  The life of a Google load balancer: the order in which its objects are made, the DNS entry that
  publishes it, the order in which they are deleted, and the comparison of health checks.
\<close>

section \<open>The order of creation\<close>

text \<open>All requests of a program are of the phase \<open>i\<close> or later, and in the order of the phases.\<close>

definition phased :: "nat \<Rightarrow> ('w, 'l, 'a) op \<Rightarrow> bool" where
  "phased i m \<longleftrightarrow> (\<forall>s. \<exists>tr. trace (snd (m s)) = trace s @ tr \<and> sorted (map gcp_phase tr) \<and> (\<forall>ev \<in> set tr. i \<le> gcp_phase ev))"

lemma phased_emits:
  assumes "emits (\<lambda>ev. gcp_phase ev = i) m"
  shows "phased i m"
  unfolding phased_def
proof
  fix s
  from emitsD [OF assms, of s "fst (m s)" "snd (m s)"] obtain tr where
    tr: "trace (snd (m s)) = trace s @ tr" "\<forall>ev \<in> set tr. gcp_phase ev = i" by (auto simp: list_all_iff)
  then have "map gcp_phase tr = replicate (length tr) i" by (intro nth_equalityI) auto
  with tr show "\<exists>tr. trace (snd (m s)) = trace s @ tr \<and> sorted (map gcp_phase tr) \<and> (\<forall>ev \<in> set tr. i \<le> gcp_phase ev)"
    by (intro exI [of _ tr]) (simp add: sorted_replicate)
qed

lemma phased_bnd:
  assumes "emits (\<lambda>ev. gcp_phase ev = i) m" and "\<And>a. phased j (k a)" and "i \<le> j"
  shows "phased i (bnd m k)"
  unfolding phased_def
proof
  fix s
  obtain r t where m: "m s = (r, t)" by fastforce
  from emitsD [OF assms(1) m] obtain tr where tr: "trace t = trace s @ tr" "\<forall>ev \<in> set tr. gcp_phase ev = i"
    by (auto simp: list_all_iff)
  then have const: "map gcp_phase tr = replicate (length tr) i" by (intro nth_equalityI) auto
  show "\<exists>tr. trace (snd (bnd m k s)) = trace s @ tr \<and> sorted (map gcp_phase tr) \<and> (\<forall>ev \<in> set tr. i \<le> gcp_phase ev)"
  proof (cases r)
    case (Ret a)
    from assms(2) [of a, unfolded phased_def] obtain tr' where tr': "trace (snd (k a t)) = trace t @ tr'"
      "sorted (map gcp_phase tr')" "\<forall>ev \<in> set tr'. j \<le> gcp_phase ev" by blast
    with m Ret tr const assms(3) show ?thesis
      by (intro exI [of _ "tr @ tr'"]) (auto simp: bnd_Ret sorted_append sorted_replicate)
  qed (use m tr const in \<open>auto simp: bnd_def sorted_replicate\<close>)
qed

lemma phased_seq: "emits (\<lambda>ev. gcp_phase ev = i) m \<Longrightarrow> phased j k \<Longrightarrow> i \<le> j \<Longrightarrow> phased i (seq m k)"
  unfolding seq_def by (rule phased_bnd)

lemma phase_frames:
  "emits (\<lambda>ev. gcp_phase ev = 0) (ensure_firewall_rules p em)"
  "emits (\<lambda>ev. gcp_phase ev = 1) (ensureHealthCheck p spec)"
  "emits (\<lambda>ev. gcp_phase ev = 2) (ensureZonalNetworkEndpointGroups E p spec)"
  "emits (\<lambda>ev. gcp_phase ev = 3) (ensureBackendService E p spec h zs)"
  "emits (\<lambda>ev. gcp_phase ev = 4) (ensureTargetTCPProxy p spec b)"
  "emits (\<lambda>ev. gcp_phase ev = 5) (ensureGlobalIP p spec)"
  "emits (\<lambda>ev. gcp_phase ev = 6) (ensureForwardingRule p spec t ip)"
  "emits (\<lambda>ev. gcp_phase ev = 7) (ensureDNSEntry p spec ip)"
proof -
  show "emits (\<lambda>ev. gcp_phase ev = 0) (ensure_firewall_rules p em)"
    by (induction p em rule: ensure_firewall_rules.induct) (simp_all add: Let_def, (intro frame_intros; simp)+)
  show "emits (\<lambda>ev. gcp_phase ev = 2) (ensureZonalNetworkEndpointGroups E p spec)"
    by (rule emits_mono [OF goroutine_programs_emit(1)]) (simp add: neg_event_def)
qed (unfold ensureHealthCheck_def ensureBackendService_def ensureTargetTCPProxy_def ensureGlobalIP_def
      ensureForwardingRule_def ensureDNSEntry_def Let_def, (intro frame_intros; simp)+)

text \<open>
  C29: the order of creation. Whatever the answers and however the run ends, the requests of
  \<open>ensureDNSRecord\<close> go through the objects of the load balancer in the order in which they depend on
  each other: firewall rules, health check, network endpoint groups, backend service, target
  proxy, global address, forwarding rule and, last, the DNS entry.
\<close>

theorem gcp_creation_order: "sorted (map gcp_phase (requests (gcp_ensureDNSRecord E p) s))"
proof -
  have "phased 0 (gcp_ensureDNSRecord E p)"
    unfolding gcp_ensureDNSRecord_def ensureFirewallRulesAllowForHealthChecks_def Let_def
    by (rule phased_bnd [where j = 0] phased_seq [where j = 1] phased_bnd [where j = 2] phased_bnd [where j = 3]
        phased_bnd [where j = 4] phased_bnd [where j = 5] phased_bnd [where j = 6] phased_seq [where j = 7]
        phased_emits phase_frames frame_intros | simp)+
  from this [unfolded phased_def, rule_format, of s] show ?thesis by (auto simp: requests_def)
qed

section \<open>The DNS entry\<close>

text \<open>
  How \<open>ensureDNSEntry\<close> can have succeeded: the entry had the address, type and time to live already,
  it was created because there was none, or it was replaced; or the entry could not be read for a
  reason that is not an answer of the API, which the source does not look at.
\<close>

definition published :: "'w googleGCPProvider \<Rightarrow> GlobalDNSRecordSpec \<Rightarrow> string \<Rightarrow> string \<Rightarrow> (event, 'w, 'l) io \<Rightarrow> (event, 'w, 'l) io \<Rightarrow> bool" where
  "published p spec zone ip u t \<longleftrightarrow>
     (let project = gg_googleProject p; name = getRecordSetName spec; desired = getDesiredRecordSet spec ip;
          get = Google (GetRecordSet project zone name ''A'') in
      \<exists>r w. g_GetRecordSet (gg_client p) project zone name ''A'' (world u) = (r, w) \<and> (case r of
         Ret rrs \<Rightarrow>
           (\<exists>others. rrs_Rrdatas rrs = Some (ip # others)) \<and> rrs_Type rrs = ''A'' \<and> rrs_Ttl rrs = rs_TTL spec \<and> trace t = trace u @ [get]
           \<or> (\<exists>a w'. g_PatchRecordSet (gg_client p) project zone name ''A'' desired w = (Ret a, w')
                \<and> trace t = trace u @ [get, Google (PatchRecordSet project zone name ''A'' desired)])
       | Fail (GoogleErr code _) \<Rightarrow> code = 404 \<and> (\<exists>a w'. g_CreateRecordSet (gg_client p) project zone desired w = (Ret a, w')
                \<and> trace t = trace u @ [get, Google (CreateRecordSet project zone desired)])
       | Fail _ \<Rightarrow> trace t = trace u @ [get]
       | Panic _ \<Rightarrow> False))"

lemma request_eq_Fail:
  "request ev f s = (Fail e, t) \<longleftrightarrow> (\<exists>w. f (world s) = (Fail e, w) \<and> t = s\<lparr>trace := trace s @ [ev], world := w\<rparr>)"
  by (auto simp: request_def split: prod.splits)

lemma compareRecordSet_returns:
  assumes "compareRecordSet rrs (getDesiredRecordSet spec ip) s = (Ret same, t)"
  shows "t = s \<and> (same \<longrightarrow> (\<exists>others. rrs_Rrdatas rrs = Some (ip # others)) \<and> rrs_Type rrs = ''A'' \<and> rrs_Ttl rrs = rs_TTL spec)"
proof (cases "rrs_Rrdatas rrs")
  case (Some xs)
  with assms show ?thesis
    by (cases xs) (auto simp: compareRecordSet_def getDesiredRecordSet_def inv_Ret split: if_splits)
qed (use assms in \<open>auto simp: compareRecordSet_def getDesiredRecordSet_def inv_Ret\<close>)

lemma ensureDNSEntry_published:
  assumes "ensureDNSEntry p spec ip u = (Ret (), t)" and "pc_GCPGLB (zs_Provider (zone_Spec (gg_globalzone p))) = Some config"
  shows "published p spec (gcpc_ManagedZoneName config) ip u t"
proof -
  let ?zone = "gcpc_ManagedZoneName config" and ?project = "gg_googleProject p" and ?name = "getRecordSetName spec"
  obtain r w where get: "g_GetRecordSet (gg_client p) ?project ?zone ?name ''A'' (world u) = (r, w)" by fastforce
  show ?thesis
  proof (cases r)
    case (Ret rrs)
    with assms get show ?thesis
      by (auto simp: ensureDNSEntry_def managed_zone_def published_def inv_Ret request_eq_Fail Let_def dest!: compareRecordSet_returns split: if_splits)
  next
    case (Fail e)
    with assms get show ?thesis
      by (cases e) (auto simp: ensureDNSEntry_def managed_zone_def published_def inv_Ret request_eq_Fail Let_def split: if_splits)
  next
    case (Panic pn)
    with assms get show ?thesis by (auto simp: ensureDNSEntry_def managed_zone_def inv_Ret request_eq_Fail Let_def)
  qed
qed

lemma emits_grows: "emits P m \<Longrightarrow> m s = (r, t) \<Longrightarrow> grows s t"
  by (auto simp: grows_def dest: emitsD)

text \<open>The address of the load balancer: the API has answered it, or the address could not be read for a
  reason that is not an answer of the API.\<close>

definition address_known :: "'w googleGCPProvider \<Rightarrow> GlobalDNSRecordSpec \<Rightarrow> string \<Rightarrow> bool" where
  "address_known p spec ip \<longleftrightarrow> (\<exists>r w w'. g_GetAddress (gg_client p) (gg_googleProject p) (getGlobalIPName spec) w = (r, w') \<and> (case r of
      Ret address \<Rightarrow> ip = adr_Address address | Fail e \<Rightarrow> google_code e = None \<and> ip = [] | Panic _ \<Rightarrow> False))"

lemma ensureGlobalIP_known:
  assumes "ensureGlobalIP p spec s = (Ret ip, t)"
  shows "address_known p spec ip"
proof -
  let ?get = "g_GetAddress (gg_client p) (gg_googleProject p) (getGlobalIPName spec)"
  obtain r w where get: "?get (world s) = (r, w)" by fastforce
  show ?thesis
  proof (cases r)
    case (Ret address)
    with assms get show ?thesis unfolding address_known_def
      by (intro exI [of _ r] exI [of _ "world s"] exI [of _ w]) (auto simp: ensureGlobalIP_def inv_Ret request_eq_Fail Let_def)
  next
    case (Fail e)
    show ?thesis
    proof (cases "google_code e")
      case None
      with assms get Fail show ?thesis unfolding address_known_def
        by (intro exI [of _ r] exI [of _ "world s"] exI [of _ w]) (auto simp: ensureGlobalIP_def inv_Ret request_eq_Fail Let_def)
    next
      case (Some code)
      with assms get Fail obtain v address w' where "?get v = (Ret address, w')" "ip = adr_Address address"
        by (auto simp: ensureGlobalIP_def inv_Ret request_eq_Fail Let_def split: if_splits)
      then show ?thesis unfolding address_known_def by force
    qed
  next
    case (Panic pn)
    with assms get show ?thesis by (auto simp: ensureGlobalIP_def inv_Ret request_eq_Fail Let_def)
  qed
qed

text \<open>
  C30: what a success of the Google provider means. After everything else, the DNS entry of the
  record has been made to hold, or held already, the address that the API reports for the load
  balancer, as an A record with the time to live of the record.
\<close>

theorem gcp_record_published:
  assumes "gcp_ensureDNSRecord E p s = (Ret (), t)" and "pc_GCPGLB (zs_Provider (zone_Spec (gg_globalzone p))) = Some config"
  shows "\<exists>ip u. address_known p (spec_of (local s)) ip \<and> prefix (trace s) (trace u)
     \<and> published p (spec_of (local s)) (gcpc_ManagedZoneName config) ip u t"
proof -
  let ?spec = "spec_of (local s)"
  from assms(1) [unfolded gcp_ensureDNSRecord_def Let_def] obtain h zneg b t1 t2 t3 t4 t5 ip t6 t7 where
    runs: "ensureFirewallRulesAllowForHealthChecks p s = (Ret (), t1)" "ensureHealthCheck p ?spec t1 = (Ret h, t2)"
      "ensureZonalNetworkEndpointGroups E p ?spec t2 = (Ret zneg, t3)" "ensureBackendService E p ?spec h zneg t3 = (Ret b, t4)"
    and rest: "(\<exists>proxy. ensureTargetTCPProxy p ?spec b t4 = (Ret proxy, t5) \<and> ensureForwardingRule p ?spec proxy ip t6 = (Ret (), t7))"
      "ensureGlobalIP p ?spec t5 = (Ret ip, t6)" "ensureDNSEntry p ?spec ip t7 = (Ret (), t)"
    by (auto simp: inv_Ret)
  from rest(1) obtain proxy where more: "ensureTargetTCPProxy p ?spec b t4 = (Ret proxy, t5)"
    "ensureForwardingRule p ?spec proxy ip t6 = (Ret (), t7)" by blast
  have "grows s t1"
    by (rule emits_grows [OF ensure_firewall_rules_frame(1) runs(1) [unfolded ensureFirewallRulesAllowForHealthChecks_def]])
  also have "grows t1 t2" by (rule emits_grows [OF ensure_objects_frame(1) runs(2)])
  also (grows_trans) have "grows t2 t3" by (rule emits_grows [OF goroutine_programs_frame(1) runs(3)])
  also (grows_trans) have "grows t3 t4" by (rule emits_grows [OF ensure_objects_frame(3) runs(4)])
  also (grows_trans) have "grows t4 t5" by (rule emits_grows [OF ensure_objects_frame(5) more(1)])
  also (grows_trans) have "grows t5 t6" by (rule emits_grows [OF ensure_objects_frame(7) rest(2)])
  also (grows_trans) have "grows t6 t7" by (rule emits_grows [OF ensure_objects_frame(9) more(2)])
  finally (grows_trans) have "prefix (trace s) (trace t7)" unfolding grows_def .
  with rest(2,3) assms(2) show ?thesis using ensureGlobalIP_known ensureDNSEntry_published by blast
qed

theorem gcp_record_published_witness:
  "\<exists>t ip u. gcp_ensureDNSRecord (sample_env no_document) (gcp_sample []) gcp_state = (Ret (), t)
     \<and> published (gcp_sample []) gcp_spec ''managed'' ip u t"
proof -
  have "fst (gcp_ensureDNSRecord (sample_env no_document) (gcp_sample []) gcp_state) = Ret ()" by code_simp
  then obtain t where run: "gcp_ensureDNSRecord (sample_env no_document) (gcp_sample []) gcp_state = (Ret (), t)"
    by (metis prod.collapse)
  have "pc_GCPGLB (zs_Provider (zone_Spec (gg_globalzone (gcp_sample []))))
      = Some \<lparr>gcpc_CredentialsSecretRef = sample_name ''gcp'', gcpc_ManagedZoneName = ''managed''\<rparr>"
    by (simp add: gcp_sample_def gcp_zone_def)
  from gcp_record_published [OF run this] run show ?thesis by (auto simp: gcp_state_def sample_locals_def)
qed

section \<open>The order of deletion\<close>

text \<open>The program sends the requests \<open>evs\<close> in this order, and then only such that look for and delete network
  endpoint groups; it ends earlier only with an error of the API other than 404, or a panic.\<close>

definition torn :: "google_event list \<Rightarrow> ('w, 'l, unit) op \<Rightarrow> bool" where
  "torn evs m \<longleftrightarrow> (\<forall>s r t. m s = (r, t) \<longrightarrow> (\<exists>n tr. trace t = trace s @ map Google (take n evs) @ tr \<and> list_all group_event tr
     \<and> (n < length evs \<longrightarrow> tr = [] \<and> (case r of Ret _ \<Rightarrow> False | Fail e \<Rightarrow> (\<exists>code. google_code e = Some code \<and> code \<noteq> 404) | Panic _ \<Rightarrow> True))))"

lemma tornD:
  "torn evs m \<Longrightarrow> m s = (r, t) \<Longrightarrow> \<exists>n tr. trace t = trace s @ map Google (take n evs) @ tr \<and> list_all group_event tr
     \<and> (n < length evs \<longrightarrow> tr = [] \<and> (case r of Ret _ \<Rightarrow> False | Fail e \<Rightarrow> (\<exists>code. google_code e = Some code \<and> code \<noteq> 404) | Panic _ \<Rightarrow> True))"
  unfolding torn_def by blast

lemma torn_groups: "emits group_event m \<Longrightarrow> torn [] m"
  unfolding torn_def by (auto dest: emitsD)

lemma google_delete_cases:
  assumes "google_delete ev f s = (r, t)"
  shows "trace t = trace s @ [Google ev]
     \<and> (case r of Ret _ \<Rightarrow> True | Fail e \<Rightarrow> (\<exists>code. google_code e = Some code \<and> code \<noteq> 404) | Panic _ \<Rightarrow> True)"
  using assms
  by (auto simp: google_delete_def bnd_def attempt_def request_def prog_simps split: prod.splits outcome.splits option.splits if_splits)

lemma torn_step:
  assumes "torn evs m"
  shows "torn (ev # evs) (seq (google_delete ev f) m)"
  unfolding torn_def
proof (intro allI impI)
  fix s r t
  assume run: "seq (google_delete ev f) m s = (r, t)"
  obtain r' u where d: "google_delete ev f s = (r', u)" by fastforce
  note head = google_delete_cases [OF d]
  show "\<exists>n tr. trace t = trace s @ map Google (take n (ev # evs)) @ tr \<and> list_all group_event tr
     \<and> (n < length (ev # evs) \<longrightarrow> tr = [] \<and> (case r of Ret _ \<Rightarrow> False | Fail e \<Rightarrow> (\<exists>code. google_code e = Some code \<and> code \<noteq> 404) | Panic _ \<Rightarrow> True))"
  proof (cases r')
    case (Ret x)
    with run d have "m u = (r, t)" by (simp add: seq_def bnd_def)
    with assms obtain n tr where "trace t = trace u @ map Google (take n evs) @ tr" "list_all group_event tr"
      "n < length evs \<longrightarrow> tr = [] \<and> (case r of Ret _ \<Rightarrow> False | Fail e \<Rightarrow> (\<exists>code. google_code e = Some code \<and> code \<noteq> 404) | Panic _ \<Rightarrow> True)"
      unfolding torn_def by blast
    with head show ?thesis by (intro exI [of _ "Suc n"] exI [of _ tr]) auto
  qed (use run d head in \<open>auto simp: seq_def bnd_def intro!: exI [of _ 1] exI [of _ "[]"]\<close>)
qed

text \<open>
  C31: the order of deletion. \<open>deleteDNSRecord\<close> deletes the DNS entry, then the forwarding rule, the
  address, the proxy, the backend service and the health check, each before the objects it
  depends on, and then the network endpoint groups. It stops early only for an error of the API
  other than 404, or a panic; so no success leaves one of the six objects without a deletion.
\<close>

theorem gcp_deletion_order:
  assumes "gcp_deleteDNSRecord E p s = (r, t)" and "pc_GCPGLB (zs_Provider (zone_Spec (gg_globalzone p))) = Some config"
    and "evs = [DeleteGoogleRecordSet (gg_googleProject p) (gcpc_ManagedZoneName config) (getRecordSetName (spec_of (local s))) ''A'',
       DeleteForwardingRule (gg_googleProject p) (getForwardingRuleName (spec_of (local s))),
       DeleteAddress (gg_googleProject p) (getGlobalIPName (spec_of (local s))),
       DeleteTargetTcpProxy (gg_googleProject p) (getTargetTCPProxyName (spec_of (local s))),
       DeleteBackendService (gg_googleProject p) (getBackendServiceName (spec_of (local s))),
       DeleteComputeHealthCheck (gg_googleProject p) (getHealthCheckName (spec_of (local s)))]"
  shows "\<exists>n tr. trace t = trace s @ map Google (take n evs) @ tr \<and> list_all group_event tr \<and> (n < 6 \<longrightarrow> tr = []
     \<and> (case r of Ret _ \<Rightarrow> False | Fail e \<Rightarrow> (\<exists>code. google_code e = Some code \<and> code \<noteq> 404) | Panic _ \<Rightarrow> True))"
proof -
  let ?spec = "spec_of (local s)" and ?project = "gg_googleProject p" and ?api = "gg_client p" and ?zone = "gcpc_ManagedZoneName config"
  define m :: "(event, 'a, record_locals) io \<Rightarrow> _" where "m = seq (google_delete (DeleteGoogleRecordSet ?project ?zone (getRecordSetName ?spec) ''A'')
            (g_DeleteRecordSet ?api ?project ?zone (getRecordSetName ?spec) ''A''))
    (seq (google_delete (DeleteForwardingRule ?project (getForwardingRuleName ?spec)) (g_DeleteForwardingRule ?api ?project (getForwardingRuleName ?spec)))
    (seq (google_delete (DeleteAddress ?project (getGlobalIPName ?spec)) (g_DeleteAddress ?api ?project (getGlobalIPName ?spec)))
    (seq (google_delete (DeleteTargetTcpProxy ?project (getTargetTCPProxyName ?spec)) (g_DeleteTargetTcpProxy ?api ?project (getTargetTCPProxyName ?spec)))
    (seq (google_delete (DeleteBackendService ?project (getBackendServiceName ?spec)) (g_DeleteBackendService ?api ?project (getBackendServiceName ?spec)))
    (seq (google_delete (DeleteComputeHealthCheck ?project (getHealthCheckName ?spec)) (g_DeleteHealthCheck ?api ?project (getHealthCheckName ?spec)))
         (delete_groups E p ?spec))))))"
  have torn: "torn evs m" unfolding m_def assms(3) by (intro torn_step torn_groups goroutine_programs_emit)
  have run: "m s = (r, t)"
    using assms(1,2) by (simp add: m_def gcp_deleteDNSRecord_def managed_zone_def bnd_def get_local_apply deref_def ret_def Let_def)
  have "length evs = 6" by (simp add: assms(3))
  with tornD [OF torn, of s r t] run show ?thesis by simp
qed

theorem gcp_deletion_order_witness:
  "\<exists>r t (n :: nat) tr. gcp_deleteDNSRecord (sample_env no_document) (gcp_sample []) gcp_state = (r, t) \<and> list_all group_event tr
     \<and> (n < 6 \<longrightarrow> tr = [] \<and> (case r of Ret _ \<Rightarrow> False | Fail e \<Rightarrow> (\<exists>code. google_code e = Some code \<and> code \<noteq> 404) | Panic _ \<Rightarrow> True))"
proof -
  obtain r t where run: "gcp_deleteDNSRecord (sample_env no_document) (gcp_sample []) gcp_state = (r, t)" by fastforce
  have "pc_GCPGLB (zs_Provider (zone_Spec (gg_globalzone (gcp_sample []))))
      = Some \<lparr>gcpc_CredentialsSecretRef = sample_name ''gcp'', gcpc_ManagedZoneName = ''managed''\<rparr>"
    by (simp add: gcp_sample_def gcp_zone_def)
  from gcp_deletion_order [OF run this refl] obtain n :: nat and tr where "list_all group_event tr"
    "n < 6 \<longrightarrow> tr = [] \<and> (case r of Ret _ \<Rightarrow> False | Fail e \<Rightarrow> (\<exists>code. google_code e = Some code \<and> code \<noteq> 404) | Panic _ \<Rightarrow> True)"
    by (elim exE conjE) (rule that)
  with run show ?thesis by (intro exI conjI)
qed

section \<open>The comparison of health checks\<close>

text \<open>
  C32: the health check is compared the wrong way round. A check that is exactly the wanted one is
  updated by every reconciliation, and one whose host, path or port is wrong is left as it is when
  the intervals, thresholds and the type are right.
\<close>

theorem gcp_health_check_comparison:
  assumes "getDesiredHealthCheck spec s = (Ret desired, s)"
    and "g_GetHealthCheck (gg_client p) (gg_googleProject p) (getHealthCheckName spec) (world s) = (Ret current, w)"
  shows "(current = desired\<lparr>chc_SelfLink := link\<rparr> \<longrightarrow>
       trace (snd (ensureHealthCheck p spec s)) = trace s @ [Google (GetComputeHealthCheck (gg_googleProject p) (getHealthCheckName spec)),
         Google (UpdateComputeHealthCheck (gg_googleProject p) (getHealthCheckName spec) desired)])
   \<and> (\<not> same_http_check (chc_HttpHealthCheck current) (chc_HttpHealthCheck desired)
      \<and> \<not> same_http_check (chc_HttpsHealthCheck current) (chc_HttpsHealthCheck desired)
      \<and> chc_CheckIntervalSec current = chc_CheckIntervalSec desired \<and> chc_UnhealthyThreshold current = chc_UnhealthyThreshold desired
      \<and> chc_TimeoutSec current = chc_TimeoutSec desired \<and> chc_Type current = chc_Type desired \<longrightarrow>
      ensureHealthCheck p spec s = (Ret (chc_SelfLink current),
        s\<lparr>trace := trace s @ [Google (GetComputeHealthCheck (gg_googleProject p) (getHealthCheckName spec))], world := w\<rparr>))"
proof -
  from assms(1) have "chc_HttpHealthCheck desired \<noteq> None \<or> chc_HttpsHealthCheck desired \<noteq> None"
    by (auto simp: getDesiredHealthCheck_def inv_Ret Let_def split: if_splits)
  then have equal: "\<not> compareHealthCheck (desired\<lparr>chc_SelfLink := link\<rparr>) desired"
    by (auto simp: compareHealthCheck_def same_http_check_def)
  let ?get = "Google (GetComputeHealthCheck (gg_googleProject p) (getHealthCheckName spec))"
  let ?s = "s\<lparr>trace := trace s @ [?get], world := w\<rparr>"
  have get: "attempt (request ?get (g_GetHealthCheck (gg_client p) (gg_googleProject p) (getHealthCheckName spec))) s = (Ret (Inr current), ?s)"
    by (simp add: attempt_def request_def assms(2))
  have run: "ensureHealthCheck p spec s =
     (if \<not> compareHealthCheck current desired
      then bnd (request (Google (UpdateComputeHealthCheck (gg_googleProject p) (getHealthCheckName spec) desired))
             (g_UpdateHealthCheck (gg_client p) (gg_googleProject p) (getHealthCheckName spec) desired)) (\<lambda>op. ret (op_TargetLink op)) ?s
      else ret (chc_SelfLink current) ?s)"
    unfolding ensureHealthCheck_def Let_def
    by (simp add: bnd_Ret [of "getDesiredHealthCheck spec" s desired s, OF assms(1)] bnd_Ret [of "attempt _" s "Inr current" ?s, OF get])
  show ?thesis
  proof (intro conjI impI)
    assume "current = desired\<lparr>chc_SelfLink := link\<rparr>"
    with equal run show "trace (snd (ensureHealthCheck p spec s)) = trace s @ [?get,
         Google (UpdateComputeHealthCheck (gg_googleProject p) (getHealthCheckName spec) desired)]"
      by (simp add: bnd_def request_def ret_def split: prod.split outcome.split)
  qed (simp add: run compareHealthCheck_def ret_def)
qed

definition checked :: "ComputeHealthCheck \<Rightarrow> sample_world googleGCPProvider" where
  "checked check = (gcp_sample [])\<lparr>gg_client := sample_google\<lparr>g_GetHealthCheck := (\<lambda>_ _ w. (Ret check, w))\<rparr>\<rparr>"

theorem gcp_health_check_comparison_witness:
  "\<exists>desired. getDesiredHealthCheck gcp_spec gcp_state = (Ret desired, gcp_state)
     \<and> trace (snd (ensureHealthCheck (checked desired) gcp_spec gcp_state)) = trace gcp_state @
         [Google (GetComputeHealthCheck (gg_googleProject (checked desired)) (getHealthCheckName gcp_spec)),
          Google (UpdateComputeHealthCheck (gg_googleProject (checked desired)) (getHealthCheckName gcp_spec) desired)]"
proof -
  obtain desired where d: "getDesiredHealthCheck gcp_spec gcp_state = (Ret desired, gcp_state)"
    by (simp add: getDesiredHealthCheck_def probe_scheme_def gcp_spec_def gcp_probe_def deref_def ret_def bnd_def)
  have "g_GetHealthCheck (gg_client (checked desired)) (gg_googleProject (checked desired)) (getHealthCheckName gcp_spec) (world gcp_state)
      = (Ret desired, world gcp_state)" by (simp add: checked_def)
  from gcp_health_check_comparison [OF d this, of "chc_SelfLink desired"] d show ?thesis by simp
qed

end
