(* ===== verification/Route_Reconciler.thy ===== *)
theory Route_Reconciler
  imports Loop_Variable Sample_World
begin

text \<open>
  controllers/globalroutediscovery/routereconciler.go: the controller that runs inside a remote
  manager of the route discovery. It watches the routes of a controlled cluster, the ingress
  controllers and the load balancer services of the routers; a change of one of the latter is
  turned into requests for the routes they serve. A reconciliation tells the discovery controller,
  over a channel, which GlobalRouteDiscovery resources select the route.
\<close>

section \<open>The reconciler\<close>

record RouteReconciler =
  rr_remoteManager :: RemoteManager

definition watch_kind :: "'w env \<Rightarrow> string \<Rightarrow> ('w, 'l, unit) op" where
  "watch_kind E kind = request (Remote (WatchKind kind)) (m_WatchKind (e_remote E) kind)"

definition newRouteReconciler ::
  "'w env \<Rightarrow> RemoteManager \<Rightarrow> ClusterReference \<Rightarrow> ('w, 'l, RouteReconciler) op" where
  "newRouteReconciler E mgr cluster =
     seq (request (Remote (NewController (cr_ClusterName cluster))) (m_NewController (e_remote E) (cr_ClusterName cluster)))
    (seq (watch_kind E ''Service'')
    (seq (watch_kind E ''IngressController'')
    (seq (watch_kind E ''Route'')
         (ret \<lparr>rr_remoteManager = mgr\<rparr>))))"

text \<open>As in the service reconciler, the loop over the discoveries assigns its variable in every iteration
  and a send on the channel carries the address of this variable.\<close>

definition set_discovery_var :: "'w env \<Rightarrow> GlobalRouteDiscovery \<Rightarrow> ('w, 'l, unit) op" where
  "set_discovery_var E d = request (K8s (SetDiscoveryVar d)) (\<lambda>w. (Ret (), k_SetDiscoveryVar (e_k8s E) d w))"

definition notify_discovery :: "'w env \<Rightarrow> ('w, 'l, unit) op" where
  "notify_discovery E = request (K8s NotifyDiscovery) (\<lambda>w. (Ret (), k_NotifyDiscovery (e_k8s E) w))"

definition route_manageStatus :: "'w env \<Rightarrow> error option \<Rightarrow> ('w, RouteReconciler, unit) op" where
  "route_manageStatus E err =
     bnd (now E) (\<lambda>t.
     let condition = (case err of
           None \<Rightarrow> success_condition E t
         | Some e \<Rightarrow> error_condition E t (error_text E e)) in
     seq (upd_local (\<lambda>rr. rr\<lparr>rr_remoteManager := SetStatus (rr_remoteManager rr)
            (u_AddOrReplaceCondition (e_util E) condition (GetStatus (rr_remoteManager rr)))\<rparr>))
         (case err of None \<Rightarrow> ret () | Some e \<Rightarrow> fail e))"

text \<open>The loop over the discoveries; an invalid selector ends it.\<close>

definition notify_matching :: "'w env \<Rightarrow> Route \<Rightarrow> GlobalRouteDiscovery list \<Rightarrow> ('w, 'l, unit) op" where
  "notify_matching E route =
     for_each (\<lambda>_ discovery.
       seq (set_discovery_var E discovery)
      (bnd (pure_call (l_LabelSelectorAsSelector (e_labels E) (gs_RouteSelector (grd_Spec discovery)))) (\<lambda>labelSelector.
       if l_Matches (e_labels E) labelSelector (om_Labels (rt_Meta route))
       then notify_discovery E else ret ()))) ()"

definition route_Reconcile :: "'w env \<Rightarrow> NamespacedName \<Rightarrow> ('w, RouteReconciler, unit) op" where
  "route_Reconcile E req =
     bnd get_local (\<lambda>rr. let client = RemoteManager_GetKey (rr_remoteManager rr) in
     bnd (attempt (request (Remote (GetRoute client req)) (m_GetRoute (e_remote E) client req))) (\<lambda>r.
     case r of
       Inl err \<Rightarrow> if IsNotFound err then ret () else route_manageStatus E (Some err)
     | Inr route \<Rightarrow>
         bnd (attempt (request (K8s ListGlobalRouteDiscoveries) (k_ListGlobalRouteDiscoveries (e_k8s E)))) (\<lambda>r.
         case r of
           Inl err \<Rightarrow> route_manageStatus E (Some err)
         | Inr globalRouteDiscoveries \<Rightarrow>
             bnd (attempt (notify_matching E route globalRouteDiscoveries)) (\<lambda>r.
             case r of
               Inl err \<Rightarrow> route_manageStatus E (Some err)
             | Inr _ \<Rightarrow> route_manageStatus E None))))"

section \<open>From routers to routes\<close>

definition enqueue :: "'w env \<Rightarrow> NamespacedName \<Rightarrow> ('w, 'l, unit) op" where
  "enqueue E n = request (Remote (Enqueue n)) (\<lambda>w. (Ret (), m_Enqueue (e_remote E) n w))"

definition route_name :: "Route \<Rightarrow> NamespacedName" where
  "route_name route = \<lparr>nn_Name = om_Name (rt_Meta route), nn_Namespace = om_Namespace (rt_Meta route)\<rparr>"

definition findAllRoutes :: "'w env \<Rightarrow> ('w, RouteReconciler, Route list) op" where
  "findAllRoutes E =
     bnd get_local (\<lambda>rr. let client = RemoteManager_GetKey (rr_remoteManager rr) in
     request (Remote (ListRoutes client None)) (m_ListRoutes (e_remote E) client None))"

definition findAndEnqueueRoutesForIngressController :: "'w env \<Rightarrow> string \<Rightarrow> ('w, RouteReconciler, unit) op" where
  "findAndEnqueueRoutesForIngressController E name =
     bnd (attempt (findAllRoutes E)) (\<lambda>r.
     case r of
       Inl err \<Rightarrow> ret ()
     | Inr routes \<Rightarrow>
         for_each (\<lambda>_ route.
           for_each (\<lambda>_ ingress. if ri_RouterName ingress = name then enqueue E (route_name route) else ret ())
             () (rt_Ingress route)) () routes)"

definition lookupIngressControllerForService ::
  "'w env \<Rightarrow> Service \<Rightarrow> ('w, RouteReconciler, string option) op" where
  "lookupIngressControllerForService E service =
     bnd get_local (\<lambda>rr.
     let client = RemoteManager_GetKey (rr_remoteManager rr);
         name = \<lparr>nn_Name = trim_prefix (svc_Name service) ''router-'', nn_Namespace = ''openshift-ingress-operator''\<rparr> in
     bnd (attempt (request (Remote (GetIngressController client name)) (m_GetIngressController (e_remote E) client name))) (\<lambda>r.
     case r of
       Inl err \<Rightarrow> if IsNotFound err then ret None else fail err
     | Inr ingressController \<Rightarrow> ret (Some ingressController)))"

definition findAndEnqueueRoutesForService :: "'w env \<Rightarrow> Service \<Rightarrow> ('w, RouteReconciler, unit) op" where
  "findAndEnqueueRoutesForService E service =
     (if svc_Type service \<noteq> ''LoadBalancer'' then ret ()
      else if svc_Namespace service \<noteq> ''openshift-ingress'' then ret ()
      else bnd (attempt (lookupIngressControllerForService E service)) (\<lambda>r.
        case r of
          Inl err \<Rightarrow> ret ()
        | Inr None \<Rightarrow> ret ()
        | Inr (Some ingressController) \<Rightarrow> findAndEnqueueRoutesForIngressController E ingressController))"

section \<open>Event handlers and predicates\<close>

text \<open>The object of an event: a service, or another object, of which only the name is used.\<close>

datatype watched = ServiceObject Service | OtherObject string

definition is_router_service :: "watched \<Rightarrow> bool" where
  "is_router_service object = (case object of
      ServiceObject service \<Rightarrow> svc_Type service = ''LoadBalancer'' \<and> svc_Namespace service = ''openshift-ingress''
    | OtherObject _ \<Rightarrow> False)"

definition filter_Update :: "watched \<Rightarrow> watched \<Rightarrow> bool" where
  "filter_Update objectOld objectNew = is_router_service objectNew"

definition filter_Create :: "watched \<Rightarrow> bool" where
  "filter_Create object = is_router_service object"

definition filter_Delete :: "watched \<Rightarrow> bool" where
  "filter_Delete object = is_router_service object"

definition filter_Generic :: "watched \<Rightarrow> bool" where
  "filter_Generic object = False"

definition ingress_Create :: "'w env \<Rightarrow> string \<Rightarrow> ('w, RouteReconciler, unit) op" where
  "ingress_Create E name = findAndEnqueueRoutesForIngressController E name"

definition ingress_Update :: "'w env \<Rightarrow> string \<Rightarrow> string \<Rightarrow> ('w, RouteReconciler, unit) op" where
  "ingress_Update E nameOld nameNew = findAndEnqueueRoutesForIngressController E nameNew"

definition ingress_Delete :: "'w env \<Rightarrow> string \<Rightarrow> ('w, RouteReconciler, unit) op" where
  "ingress_Delete E name = findAndEnqueueRoutesForIngressController E name"

definition ingress_Generic :: "'w env \<Rightarrow> string \<Rightarrow> ('w, RouteReconciler, unit) op" where
  "ingress_Generic E name = ret ()"

definition enqueue_for_object :: "'w env \<Rightarrow> watched \<Rightarrow> ('w, RouteReconciler, unit) op" where
  "enqueue_for_object E object = (case object of
      ServiceObject service \<Rightarrow> findAndEnqueueRoutesForService E service
    | OtherObject _ \<Rightarrow> ret ())"

definition service_Create :: "'w env \<Rightarrow> watched \<Rightarrow> ('w, RouteReconciler, unit) op" where
  "service_Create E object = enqueue_for_object E object"

definition service_Update :: "'w env \<Rightarrow> watched \<Rightarrow> watched \<Rightarrow> ('w, RouteReconciler, unit) op" where
  "service_Update E objectOld objectNew = enqueue_for_object E objectNew"

definition service_Delete :: "'w env \<Rightarrow> watched \<Rightarrow> ('w, RouteReconciler, unit) op" where
  "service_Delete E object = enqueue_for_object E object"

definition service_Generic :: "'w env \<Rightarrow> watched \<Rightarrow> ('w, RouteReconciler, unit) op" where
  "service_Generic E object = ret ()"

end
