(* ===== verification/Go_Strconv.thy ===== *)
theory Go_Strconv
  imports GLB_Prelude
begin

text \<open>
  Of Go's package strconv what the route discovery uses: \<open>Atoi\<close> on a platform with 64-bit integers,
  with the text of its errors. The route annotation with the time to live goes through it. Strings
  are ASCII; \<open>decimal\<close> is the specification \<open>Atoi\<close> is proved against.
\<close>

section \<open>Atoi\<close>

definition is_digit :: "char \<Rightarrow> bool" where
  "is_digit c \<longleftrightarrow> 48 \<le> (of_char c :: int) \<and> (of_char c :: int) \<le> 57"

definition digit_value :: "char \<Rightarrow> int" where
  "digit_value c = of_char c - 48"

text \<open>\<open>ParseUint\<close> in base 10: an overflow is noticed before a later invalid character.\<close>

datatype num_error = ErrSyntax | ErrRange

fun parse_uint :: "int \<Rightarrow> string \<Rightarrow> num_error + int" where
  "parse_uint n [] = Inr n"
| "parse_uint n (c # cs) =
     (if \<not> is_digit c then Inl ErrSyntax
      else if n * 10 + digit_value c > 2 ^ 64 - 1 then Inl ErrRange
      else parse_uint (n * 10 + digit_value c) cs)"

text \<open>The sign and the range of the result.\<close>

definition split_sign :: "string \<Rightarrow> bool \<times> string" where
  "split_sign s = (case s of
      [] \<Rightarrow> (False, [])
    | c # cs \<Rightarrow> if c = CHR ''-'' then (True, cs) else if c = CHR ''+'' then (False, cs) else (False, s))"

definition parse_int :: "string \<Rightarrow> num_error + int" where
  "parse_int s = (case split_sign s of (neg, digits) \<Rightarrow>
     if digits = [] then Inl ErrSyntax
     else (case parse_uint 0 digits of
        Inl e \<Rightarrow> Inl e
      | Inr un \<Rightarrow>
          if \<not> neg \<and> un \<ge> 2 ^ 63 \<or> neg \<and> un > 2 ^ 63 then Inl ErrRange
          else Inr (if neg then - un else un)))"

text \<open>\<open>strconv.Quote\<close> for ASCII, and the text of a \<open>NumError\<close>.\<close>

definition hex_digit :: "nat \<Rightarrow> char" where
  "hex_digit n = (if n < 10 then char_of (48 + n) else char_of (87 + n))"

definition quote_char :: "char \<Rightarrow> string" where
  "quote_char c = (let n = of_char c :: nat; backslash = char_of (92 :: nat) in
     if n = 34 \<or> n = 92 then [backslash, c]
     else if 32 \<le> n \<and> n \<le> 126 then [c]
     else if 7 \<le> n \<and> n \<le> 13 then [backslash, ''abtnvfr'' ! (n - 7)]
     else [backslash, CHR ''x'', hex_digit (n div 16), hex_digit (n mod 16)])"

definition Quote :: "string \<Rightarrow> string" where
  "Quote s = [char_of (34 :: nat)] @ concat (map quote_char s) @ [char_of (34 :: nat)]"

definition Atoi :: "string \<Rightarrow> error + int" where
  "Atoi s = (case parse_int s of
      Inr n \<Rightarrow> Inr n
    | Inl e \<Rightarrow> Inl (ErrNew (''strconv.Atoi: parsing '' @ Quote s @ '': '' @
        (case e of ErrSyntax \<Rightarrow> ''invalid syntax'' | ErrRange \<Rightarrow> ''value out of range''))))"

section \<open>Numerals\<close>

fun digits :: "nat \<Rightarrow> nat list" where
  "digits n = (let rest = n div 10 in if rest = 0 then [n] else digits rest @ [n mod 10])"

declare digits.simps [simp del]

definition decimal_nat :: "nat \<Rightarrow> string" where
  "decimal_nat n = map (\<lambda>d. char_of (48 + d)) (digits n)"

lemma decimal_nat_simps:
  "n < 10 \<Longrightarrow> decimal_nat n = [char_of (48 + n)]"
  "\<not> n < 10 \<Longrightarrow> decimal_nat n = decimal_nat (n div 10) @ [char_of (48 + n mod 10)]"
  by (simp_all add: decimal_nat_def digits.simps [of n] Let_def div_eq_0_iff)

lemma decimal_induct [case_names digit more]:
  assumes "\<And>n. n < 10 \<Longrightarrow> P n" and "\<And>n. \<not> n < 10 \<Longrightarrow> P (n div 10) \<Longrightarrow> P n"
  shows "P (n :: nat)"
proof (induction n rule: less_induct)
  case (less n)
  then show ?case by (cases "n < 10") (auto intro: assms)
qed

definition decimal :: "int \<Rightarrow> string" where
  "decimal i = (if i < 0 then CHR ''-'' # decimal_nat (nat (- i)) else decimal_nat (nat i))"

lemma digit_char:
  assumes "d < 10"
  shows "is_digit (char_of (48 + d))" "digit_value (char_of (48 + d)) = int d"
proof -
  have "of_char (char_of (48 + d) :: char) = int ((48 + d) mod 256)" by (metis of_char_of of_nat_of_char)
  also have "\<dots> = 48 + int d" using assms by simp
  finally have c: "of_char (char_of (48 + d) :: char) = 48 + int d" .
  with assms show "is_digit (char_of (48 + d))" "digit_value (char_of (48 + d)) = int d"
    by (simp_all add: is_digit_def digit_value_def)
qed

lemma parse_uint_append:
  "parse_uint n (xs @ ys) = (case parse_uint n xs of Inl e \<Rightarrow> Inl e | Inr k \<Rightarrow> parse_uint k ys)"
  by (induction n xs rule: parse_uint.induct) auto

lemma parse_uint_decimal:
  "parse_uint 0 (decimal_nat n) = (if int n \<le> 2 ^ 64 - 1 then Inr (int n) else Inl ErrRange)"
proof (induction n rule: decimal_induct)
  case (digit n)
  with digit_char [OF digit] show ?case by (simp add: decimal_nat_simps)
next
  case (more n)
  have d: "is_digit (char_of (48 + n mod 10))" "digit_value (char_of (48 + n mod 10)) = int (n mod 10)"
    by (rule digit_char; simp)+
  have n: "int (n div 10) * 10 + int (n mod 10) = int n"
    by (metis div_mult_mod_eq of_nat_add of_nat_mult of_nat_numeral)
  show ?case
  proof (cases "int (n div 10) \<le> 2 ^ 64 - 1")
    case True
    with more(2) have "parse_uint 0 (decimal_nat (n div 10)) = Inr (int (n div 10))" by simp
    then show ?thesis
      by (simp add: decimal_nat_simps(2) [OF more(1)] parse_uint_append d n del: of_nat_mod zmod_int zdiv_int)
  next
    case False
    with more(2) have "parse_uint 0 (decimal_nat (n div 10)) = Inl ErrRange" by (simp only: if_False)
    moreover have "\<not> int n \<le> 2 ^ 64 - 1" using False div_le_dividend [of n 10] by linarith
    ultimately show ?thesis by (simp only: decimal_nat_simps(2) [OF more(1)] parse_uint_append sum.case if_False)
  qed
qed

lemma decimal_nat_digits: "decimal_nat n \<noteq> [] \<and> list_all is_digit (decimal_nat n)"
  by (induction n rule: decimal_induct) (simp_all add: decimal_nat_simps digit_char)

lemma digit_no_sign: "is_digit c \<Longrightarrow> c \<noteq> CHR ''-'' \<and> c \<noteq> CHR ''+''"
  by (auto simp: is_digit_def)

lemma split_sign_decimal: "split_sign (decimal i) = (i < 0, decimal_nat (nat \<bar>i\<bar>))"
proof (cases "i < 0")
  case False
  with decimal_nat_digits [of "nat i"] digit_no_sign show ?thesis
    by (cases "decimal_nat (nat i)") (auto simp: decimal_def split_sign_def)
qed (simp add: decimal_def split_sign_def)

text \<open>Every numeral of a 64-bit integer is read as this integer, and every other one is out of range.\<close>

lemma parse_int_decimal:
  "parse_int (decimal i) = (if - (2 ^ 63) \<le> i \<and> i < 2 ^ 63 then Inr i else Inl ErrRange)"
  by (auto simp: parse_int_def split_sign_decimal decimal_nat_digits parse_uint_decimal)

text \<open>What is read at all is a sign and digits.\<close>

lemma parse_uint_digits: "parse_uint n cs = Inr k \<Longrightarrow> list_all is_digit cs"
  by (induction n cs rule: parse_uint.induct) (auto split: if_splits)

lemma parse_uint_nonneg: "parse_uint n cs = Inr k \<Longrightarrow> 0 \<le> n \<Longrightarrow> 0 \<le> k"
proof (induction n cs rule: parse_uint.induct)
  case (2 n c cs)
  then have c: "is_digit c" and le: "\<not> n * 10 + digit_value c > 2 ^ 64 - 1" and k: "parse_uint (n * 10 + digit_value c) cs = Inr k"
    by (simp_all only: parse_uint.simps split: if_splits) simp_all
  from c have "0 \<le> n * 10 + digit_value c" using 2(3) by (simp add: is_digit_def digit_value_def)
  with 2(1) c le k show ?case by blast
qed simp

lemma parse_int_bounds:
  assumes "parse_int s = Inr i"
  shows "- (2 ^ 63) \<le> i \<and> i < 2 ^ 63 \<and> snd (split_sign s) \<noteq> [] \<and> list_all is_digit (snd (split_sign s))"
  using assms
  by (auto simp: parse_int_def split: prod.splits sum.splits if_splits dest: parse_uint_digits parse_uint_nonneg)

end
