(* ===== verification/Route_Discovery.thy ===== *)
theory Route_Discovery
  imports Route_Reconciler Manager_Pool Go_Strconv
begin

text \<open>
  controllers/globalroutediscovery/globalroutediscovery\_controller.go: the reconciliation of a
  GlobalRouteDiscovery. The controller keeps a remote manager per cluster the discoveries name,
  lists the routes the discovery selects in its clusters, finds for each route the probe of a pod
  behind it, the load balancer service of its router, its policy and time to live, groups the
  routes of all clusters by namespace and name, and creates or updates one GlobalDNSRecord per
  group.
\<close>

section \<open>Data\<close>

definition discovery_controllerName :: string where
  "discovery_controllerName = ''globalroutediscovery-controller''"

definition loadBalancingPolicyAnnotation :: string where
  "loadBalancingPolicyAnnotation = ''global-load-balancer-operator.redhat-cop.io/load-balancing-policy''"

definition containerProbeAnnotation :: string where
  "containerProbeAnnotation = ''global-load-balancer-operator.redhat-cop.io/container-probe''"

definition tTLAnnotation :: string where
  "tTLAnnotation = ''global-load-balancer-operator.redhat-cop.io/ttl''"

definition healthCheckAnnotation :: string where
  "healthCheckAnnotation = ''global-load-balancer-operator.redhat-cop.io/health-check''"

text \<open>The resource that is reconciled, which \<open>ManageError\<close> and \<open>ManageSuccess\<close> change in place, and the
  reconciler's map of remote managers.\<close>

record discovery_locals =
  dl_instance :: GlobalRouteDiscovery
  dl_remoteManagersMap :: manager_map

record RouteInfo =
  rinfo_Route :: Route
  rinfo_Service :: Service
  rinfo_ReadinessCheck :: "Probe option"
  rinfo_LoadBalancigPolicy :: LoadBalancingPolicy
  rinfo_ClusterReference :: ClusterReference
  rinfo_TTL :: int

text \<open>Reading an annotation, of a map that may be nil.\<close>

definition annotation :: "string \<Rightarrow> Route \<Rightarrow> string option" where
  "annotation key route = (case om_Annotations (rt_Meta route) of None \<Rightarrow> None | Some m \<Rightarrow> Mapping.lookup m key)"

section \<open>Remote managers\<close>

definition discovery_getRestConfig :: "'w env \<Rightarrow> ClusterReference \<Rightarrow> ('w, 'l, RestConfig) op" where
  "discovery_getRestConfig E cluster = getRestConfig E (cr_CredentialsSecretRef cluster)"

text \<open>The key of the manager is not the key under which it is kept in the map.\<close>

definition manager_key :: "ClusterReference \<Rightarrow> string" where
  "manager_key cluster = cr_ClusterName cluster @ ''@'' @ nn_Namespace (cr_CredentialsSecretRef cluster)
     @ ''/'' @ nn_Name (cr_CredentialsSecretRef cluster)"

definition discovery_createRemoteManager :: "'w env \<Rightarrow> ClusterReference \<Rightarrow> ('w, 'l, RemoteManager) op" where
  "discovery_createRemoteManager E cluster =
     bnd (discovery_getRestConfig E cluster) (\<lambda>restConfig.
     bnd (NewRemoteManager E restConfig (manager_key cluster)) (\<lambda>remoteManager.
     seq (newRouteReconciler E remoteManager cluster) (ret remoteManager)))"

definition needed_clusters :: "'w env \<Rightarrow> GlobalRouteDiscovery list \<Rightarrow> ClusterReference list" where
  "needed_clusters E instances = foldl (\<lambda>needed i.
     if \<not> u_IsBeingDeleted (e_util E) (grd_Meta i) then needed @ gs_Clusters (grd_Spec i) else needed) [] instances"

definition zero_ClusterReference :: ClusterReference where
  "zero_ClusterReference = \<lparr>cr_ClusterName = [], cr_CredentialsSecretRef = \<lparr>nn_Name = [], nn_Namespace = []\<rparr>\<rparr>"

definition needed_cluster :: "ClusterReference list \<Rightarrow> string \<Rightarrow> ClusterReference" where
  "needed_cluster needed key =
     (case foldl (\<lambda>m c. m(ClusterReference_GetKey c \<mapsto> c)) Map.empty needed key of None \<Rightarrow> zero_ClusterReference | Some c \<Rightarrow> c)"

definition discovery_ensureRemoteManagers :: "'w env \<Rightarrow> ('w, discovery_locals, unit) op" where
  "discovery_ensureRemoteManagers E =
     bnd (request (K8s ListGlobalRouteDiscoveries) (k_ListGlobalRouteDiscoveries (e_k8s E))) (\<lambda>instances.
     let needed = needed_clusters E instances in
     sync_managers E dl_remoteManagersMap dl_remoteManagersMap_update
       (\<lambda>key. discovery_createRemoteManager E (needed_cluster needed key)) (map ClusterReference_GetKey needed))"

section \<open>What is known of a route\<close>

definition findQualifyingRoutes :: "'w env \<Rightarrow> GlobalRouteDiscovery \<Rightarrow> RemoteClient \<Rightarrow> ('w, 'l, Route list) op" where
  "findQualifyingRoutes E inst c =
     bnd (pure_call (l_LabelSelectorAsSelector (e_labels E) (gs_RouteSelector (grd_Spec inst)))) (\<lambda>labelSelector.
     request (Remote (ListRoutes c (Some labelSelector))) (m_ListRoutes (e_remote E) c (Some labelSelector)))"

text \<open>The container whose probe is used: the last one of the annotated name, or the first of the pod.\<close>

definition probe_container :: "Route \<Rightarrow> Pod \<Rightarrow> ('w, 'l, Container option) op" where
  "probe_container route pod = (case annotation containerProbeAnnotation route of
      Some containerName \<Rightarrow> ret (foldl (\<lambda>cnt container.
        if cnt_Name container = containerName then Some container else cnt) None (pod_Containers pod))
    | None \<Rightarrow> bnd (index (pod_Containers pod) 0) (\<lambda>cnt. ret (Some cnt)))"

definition findProbeForRoute :: "'w env \<Rightarrow> Route \<Rightarrow> RemoteClient \<Rightarrow> ('w, 'l, Probe option) op" where
  "findProbeForRoute E route c =
     (case annotation healthCheckAnnotation route of
        Some healthCheckString \<Rightarrow>
          bnd (pure_call (j_UnmarshalProbe (e_json E) healthCheckString)) (\<lambda>probe. ret (Some probe))
      | None \<Rightarrow>
          let name = \<lparr>nn_Name = rt_To_Name route, nn_Namespace = om_Namespace (rt_Meta route)\<rparr> in
          bnd (request (Remote (GetRemoteService c name)) (m_GetService (e_remote E) c name)) (\<lambda>service.
          bnd (pure_call (l_LabelSelectorAsSelector (e_labels E) (l_SetAsLabelSelector (e_labels E) (svc_Selector service)))) (\<lambda>labelSelector.
          bnd (attempt (request (Remote (ListPods c labelSelector (svc_Namespace service)))
                 (m_ListPods (e_remote E) c labelSelector (svc_Namespace service)))) (\<lambda>r.
          case r of
            Inl err \<Rightarrow> if IsNotFound err then ret None else fail err
          | Inr [] \<Rightarrow> ret None
          | Inr (pod # _) \<Rightarrow>
              bnd (probe_container route pod) (\<lambda>found.
              case found of
                None \<Rightarrow> ret None
              | Some cnt \<Rightarrow> (case cnt_ReadinessProbe cnt of
                    Some probe \<Rightarrow> ret (if pr_HTTPGet probe \<noteq> None then Some probe else None)
                  | None \<Rightarrow> ret None))))))"

definition findIngressControllerServiceForRoute :: "'w env \<Rightarrow> Route \<Rightarrow> RemoteClient \<Rightarrow> ('w, 'l, Service) op" where
  "findIngressControllerServiceForRoute E route c = (case rt_Ingress route of
      [] \<Rightarrow> fail (ErrNew ''no status found'')
    | ingress # _ \<Rightarrow>
        let name = \<lparr>nn_Name = ''router-'' @ ri_RouterName ingress, nn_Namespace = ''openshift-ingress''\<rparr> in
        request (Remote (GetRemoteService c name)) (m_GetService (e_remote E) c name))"

definition route_policy :: "GlobalRouteDiscovery \<Rightarrow> Route \<Rightarrow> LoadBalancingPolicy" where
  "route_policy inst route = (case annotation loadBalancingPolicyAnnotation route of
      Some loadBalancingPolicy \<Rightarrow> loadBalancingPolicy
    | None \<Rightarrow> gs_DefaultLoadBalancingPolicy (grd_Spec inst))"

definition route_ttl :: "GlobalRouteDiscovery \<Rightarrow> Route \<Rightarrow> ('w, 'l, int) op" where
  "route_ttl inst route = (case annotation tTLAnnotation route of
      Some ttl \<Rightarrow> (case Atoi ttl of Inl err \<Rightarrow> fail err | Inr ttlint \<Rightarrow> ret ttlint)
    | None \<Rightarrow> ret (gs_DefaultTTL (grd_Spec inst)))"

definition route_info ::
  "'w env \<Rightarrow> GlobalRouteDiscovery \<Rightarrow> ClusterReference \<Rightarrow> RemoteClient \<Rightarrow> Route \<Rightarrow> ('w, 'l, RouteInfo) op" where
  "route_info E inst clusterReference c route =
     bnd (findProbeForRoute E route c) (\<lambda>probe.
     bnd (findIngressControllerServiceForRoute E route c) (\<lambda>service.
     bnd (route_ttl inst route) (\<lambda>ttl.
     ret \<lparr>rinfo_Route = route, rinfo_Service = service, rinfo_ReadinessCheck = probe,
          rinfo_LoadBalancigPolicy = route_policy inst route, rinfo_ClusterReference = clusterReference, rinfo_TTL = ttl\<rparr>)))"

section \<open>The routes of all clusters\<close>

definition cluster_clients :: "'w env \<Rightarrow> ClusterReference list \<Rightarrow> ('w, 'l, ClusterReference \<rightharpoonup> RemoteClient) op" where
  "cluster_clients E clusters =
     for_each (\<lambda>clients clusterReference.
       bnd (discovery_getRestConfig E clusterReference) (\<lambda>restConfig.
       bnd (request (Remote (NewClient restConfig)) (m_NewClient (e_remote E) restConfig)) (\<lambda>client.
       ret (clients(clusterReference \<mapsto> client))))) Map.empty clusters"

text \<open>Reading a missing key of the map would give a nil client, whose first call panics.\<close>

definition qualifying_routes ::
  "'w env \<Rightarrow> GlobalRouteDiscovery \<Rightarrow> (ClusterReference \<rightharpoonup> RemoteClient) \<Rightarrow> ('w, 'l, RouteInfo list) op" where
  "qualifying_routes E inst clients =
     for_each (\<lambda>qualifyingRoutes clusterReference.
       bnd (deref (clients clusterReference)) (\<lambda>c.
       bnd (findQualifyingRoutes E inst c) (\<lambda>routes.
       bnd (for_each (\<lambda>routeInfos route.
              bnd (route_info E inst clusterReference c route) (\<lambda>routeInfo.
              ret (routeInfos @ [routeInfo]))) [] routes) (\<lambda>routeInfos.
       ret (qualifyingRoutes @ routeInfos))))) [] (gs_Clusters (grd_Spec inst))"

definition group_routes :: "'w env \<Rightarrow> RouteInfo list \<Rightarrow> (string \<times> RouteInfo list) list" where
  "group_routes E infos = foldl (\<lambda>m info.
     let key = u_GetKeyShort (e_util E) (rt_Meta (rinfo_Route info)) in
     AList.update key ((case map_of m key of None \<Rightarrow> [] | Some is \<Rightarrow> is) @ [info]) m) [] infos"

section \<open>The record of a group\<close>

definition getHealthCheck :: "Route \<Rightarrow> Probe \<Rightarrow> HTTPGetAction \<Rightarrow> Probe" where
  "getHealthCheck route probe httpGet =
     (let httpHeaders = filter (\<lambda>header. hh_Name header \<noteq> ''host'') (hg_HTTPHeaders httpGet);
          (scheme, port) = (if rt_TLS route then (''HTTPS'', 443) else (''HTTP'', 80)) in
      \<lparr>pr_HTTPGet = Some \<lparr>hg_Path = hg_Path httpGet, hg_Port = \<lparr>ios_IntVal = port, ios_StrVal = []\<rparr>,
         hg_Host = rt_Host route, hg_Scheme = scheme, hg_HTTPHeaders = httpHeaders\<rparr>,
       pr_InitialDelaySeconds = pr_InitialDelaySeconds probe, pr_TimeoutSeconds = pr_TimeoutSeconds probe,
       pr_PeriodSeconds = pr_PeriodSeconds probe, pr_SuccessThreshold = pr_SuccessThreshold probe,
       pr_FailureThreshold = pr_FailureThreshold probe\<rparr>)"

text \<open>The checks of one route against the first of the group, in the order of the source.\<close>

definition inconsistency :: "RouteInfo \<Rightarrow> RouteInfo \<Rightarrow> error option" where
  "inconsistency route0 route =
     (if rt_Host (rinfo_Route route) \<noteq> rt_Host (rinfo_Route route0) then Some (ErrNew (''route'' @ [CHR 0x27] @ ''s hosts must match''))
      else if rinfo_LoadBalancigPolicy route \<noteq> rinfo_LoadBalancigPolicy route0
      then Some (ErrNew (''route'' @ [CHR 0x27] @ ''s load balancing policy must match''))
      else if rinfo_TTL route \<noteq> rinfo_TTL route0 then Some (ErrNew (''route'' @ [CHR 0x27] @ ''s TTLs must match''))
      else if rinfo_ReadinessCheck route \<noteq> rinfo_ReadinessCheck route0 then Some (ErrNew (''route'' @ [CHR 0x27] @ ''s health checks must match''))
      else None)"

fun consistent :: "RouteInfo \<Rightarrow> RouteInfo list \<Rightarrow> error option" where
  "consistent route0 [] = None"
| "consistent route0 (route # routes) = (case inconsistency route0 route of Some e \<Rightarrow> Some e | None \<Rightarrow> consistent route0 routes)"

definition route_endpoint :: "RouteInfo \<Rightarrow> Endpoint" where
  "route_endpoint info = \<lparr>ep_ClusterName = cr_ClusterName (rinfo_ClusterReference info),
     ep_CredentialsSecretRef = cr_CredentialsSecretRef (rinfo_ClusterReference info),
     ep_LoadBalancerServiceRef = \<lparr>nn_Name = svc_Name (rinfo_Service info), nn_Namespace = svc_Namespace (rinfo_Service info)\<rparr>\<rparr>"

definition zero_ProviderStatus :: ProviderStatus where
  "zero_ProviderStatus = \<lparr>ps_Route53 = None, ps_TrafficManager = None\<rparr>"

definition new_record :: "GlobalRouteDiscovery \<Rightarrow> RouteInfo \<Rightarrow> RouteInfo list \<Rightarrow> GlobalDNSRecord" where
  "new_record inst route0 routeInfos =
     \<lparr>rec_Meta = \<lparr>om_Name = rt_Host (rinfo_Route route0), om_Namespace = om_Namespace (grd_Meta inst), om_Labels = None,
        om_Annotations = None, om_Finalizers = [], om_DeletionTimestamp = None, om_ResourceVersion = []\<rparr>,
      rec_Spec = \<lparr>rs_Name = rt_Host (rinfo_Route route0), rs_Endpoints = map route_endpoint routeInfos,
        rs_TTL = rinfo_TTL route0,
        rs_HealthCheck = (case rinfo_ReadinessCheck route0 of
            Some probe \<Rightarrow> (case pr_HTTPGet probe of
                Some httpGet \<Rightarrow> Some (getHealthCheck (rinfo_Route route0) probe httpGet)
              | None \<Rightarrow> None)
          | None \<Rightarrow> None),
        rs_LoadBalancingPolicy = rinfo_LoadBalancigPolicy route0, rs_GlobalZoneRef = gs_GlobalZoneRef (grd_Spec inst)\<rparr>,
      rec_Status = \<lparr>rst_Conditions = [], rst_MonitoredServiceStatuses = Map.empty, rst_EndpointStatuses = Map.empty,
        rst_ProviderStatus = zero_ProviderStatus\<rparr>\<rparr>"

definition getGlobalDNSRecord :: "GlobalRouteDiscovery \<Rightarrow> string \<Rightarrow> RouteInfo list \<Rightarrow> ('w, 'l, GlobalDNSRecord) op" where
  "getGlobalDNSRecord inst name routeInfos = (case routeInfos of
      [] \<Rightarrow> fail (ErrNew ''no route info'')
    | route0 # _ \<Rightarrow> (case consistent route0 routeInfos of
          Some err \<Rightarrow> fail err
        | None \<Rightarrow> ret (new_record inst route0 routeInfos)))"

section \<open>Writing the status\<close>

definition discovery_IsInitialized :: "'w env \<Rightarrow> GlobalRouteDiscovery \<Rightarrow> bool \<times> GlobalRouteDiscovery" where
  "discovery_IsInitialized E d =
     (if \<not> u_HasFinalizer (e_util E) (grd_Meta d) discovery_controllerName
      then (False, d\<lparr>grd_Meta := u_AddFinalizer (e_util E) (grd_Meta d) discovery_controllerName\<rparr>) else (True, d))"

definition getClusterReferenceStatuses :: "'w env \<Rightarrow> ('w, discovery_locals, string \<rightharpoonup> Conditions) op" where
  "getClusterReferenceStatuses E =
     bnd get_local (\<lambda>l.
     for_each (\<lambda>conditions clusterReference.
       case map_of (dl_remoteManagersMap l) (ClusterReference_GetKey clusterReference) of
         None \<Rightarrow> ret conditions
       | Some remoteManager \<Rightarrow>
           let key = RemoteManager_GetKey remoteManager; conditions' = conditions(key \<mapsto> GetStatus remoteManager) in
           seq (report_manager E (map_lookup conditions' key)) (ret conditions'))
       Map.empty (gs_Clusters (grd_Spec (dl_instance l))))"

definition set_discovery :: "GlobalRouteDiscovery \<Rightarrow> ('w, discovery_locals, unit) op" where
  "set_discovery d = upd_local (\<lambda>l. l\<lparr>dl_instance := d\<rparr>)"

definition upd_discovery_status ::
  "(GlobalRouteDiscoveryStatus \<Rightarrow> GlobalRouteDiscoveryStatus) \<Rightarrow> ('w, discovery_locals, unit) op" where
  "upd_discovery_status f = upd_local (\<lambda>l. l\<lparr>dl_instance := (dl_instance l)\<lparr>grd_Status := f (grd_Status (dl_instance l))\<rparr>\<rparr>)"

definition update_discovery :: "'w env \<Rightarrow> ('w, discovery_locals, unit) op" where
  "update_discovery E =
     bnd get_local (\<lambda>l.
     bnd (request (K8s (UpdateGlobalRouteDiscovery (dl_instance l))) (k_UpdateGlobalRouteDiscovery (e_k8s E) (dl_instance l)))
       set_discovery)"

definition write_discovery_status :: "'w env \<Rightarrow> Condition \<Rightarrow> ('w, discovery_locals, unit) op" where
  "write_discovery_status E condition =
     seq (upd_discovery_status (\<lambda>st. st\<lparr>gst_Conditions := u_AddOrReplaceCondition (e_util E) condition (gst_Conditions st)\<rparr>))
    (bnd (getClusterReferenceStatuses E) (\<lambda>statuses.
     seq (upd_discovery_status (\<lambda>st. st\<lparr>gst_ClusterReferenceStatuses := statuses\<rparr>))
    (bnd get_local (\<lambda>l.
     bnd (request (K8s (UpdateGlobalRouteDiscoveryStatus (dl_instance l)))
            (k_UpdateGlobalRouteDiscoveryStatus (e_k8s E) (dl_instance l)))
       set_discovery))))"

definition discovery_ManageError :: "'w env \<Rightarrow> error \<Rightarrow> ('w, discovery_locals, unit) op" where
  "discovery_ManageError E issue =
     seq (record_event E (error_text E issue))
    (bnd (now E) (\<lambda>t.
     seq (write_discovery_status E (error_condition E t (error_text E issue)))
         (fail issue)))"

definition discovery_ManageSuccess :: "'w env \<Rightarrow> ('w, discovery_locals, unit) op" where
  "discovery_ManageSuccess E =
     bnd (now E) (\<lambda>t. write_discovery_status E (success_condition E t))"

section \<open>The reconciliation\<close>

text \<open>A step whose error is handed to \<open>ManageError\<close>.\<close>

definition or_ManageError ::
  "'w env \<Rightarrow> ('w, discovery_locals, 'a) op \<Rightarrow> ('a \<Rightarrow> ('w, discovery_locals, unit) op) \<Rightarrow> ('w, discovery_locals, unit) op" where
  "or_ManageError E m k =
     bnd (attempt m) (\<lambda>r. case r of Inl err \<Rightarrow> discovery_ManageError E err | Inr a \<Rightarrow> k a)"

definition delete_discovery :: "'w env \<Rightarrow> ('w, discovery_locals, unit) op" where
  "delete_discovery E =
     bnd get_local (\<lambda>l.
     if \<not> u_HasFinalizer (e_util E) (grd_Meta (dl_instance l)) discovery_controllerName then ret ()
     else or_ManageError E (discovery_ensureRemoteManagers E) (\<lambda>_.
     seq (upd_local (\<lambda>l. l\<lparr>dl_instance := (dl_instance l)\<lparr>grd_Meta :=
            u_RemoveFinalizer (e_util E) (grd_Meta (dl_instance l)) discovery_controllerName\<rparr>\<rparr>))
    (or_ManageError E (update_discovery E) (\<lambda>_. ret ()))))"

text \<open>The loop over the groups, in the order \<open>ord\<close> in which the runtime ranges over the map.\<close>

definition create_records :: "'w env \<Rightarrow> GlobalRouteDiscovery \<Rightarrow> (string \<times> RouteInfo list) list \<Rightarrow> ('w, 'l, unit) op" where
  "create_records E inst groups =
     for_each (\<lambda>_ (name, routeInfos).
       bnd (getGlobalDNSRecord inst name routeInfos) (\<lambda>globaDNSRecord.
       request (K8s (CreateOrUpdateRecord inst (om_Namespace (grd_Meta inst)) globaDNSRecord))
         (k_CreateOrUpdateRecord (e_k8s E) inst (om_Namespace (grd_Meta inst)) globaDNSRecord))) () groups"

type_synonym group_order = "(string \<times> RouteInfo list) list \<Rightarrow> (string \<times> RouteInfo list) list"

definition discover_routes :: "'w env \<Rightarrow> group_order \<Rightarrow> ('w, discovery_locals, unit) op" where
  "discover_routes E ord =
     or_ManageError E (discovery_ensureRemoteManagers E) (\<lambda>_.
     bnd get_local (\<lambda>l. let inst = dl_instance l in
     or_ManageError E (cluster_clients E (gs_Clusters (grd_Spec inst))) (\<lambda>clients.
     or_ManageError E (qualifying_routes E inst clients) (\<lambda>qualifyingRoutes.
     or_ManageError E (create_records E inst (ord (group_routes E qualifyingRoutes))) (\<lambda>_.
     discovery_ManageSuccess E)))))"

definition discovery_Reconcile :: "'w env \<Rightarrow> group_order \<Rightarrow> NamespacedName \<Rightarrow> ('w, discovery_locals, unit) op" where
  "discovery_Reconcile E ord req =
     bnd (attempt (request (K8s (GetGlobalRouteDiscovery req)) (k_GetGlobalRouteDiscovery (e_k8s E) req))) (\<lambda>r.
     case r of
       Inl err \<Rightarrow> if IsNotFound err then ret () else fail err
     | Inr inst \<Rightarrow>
         (case discovery_IsInitialized E inst of
           (ok, inst') \<Rightarrow>
             seq (set_discovery inst')
            (if \<not> ok then or_ManageError E (update_discovery E) (\<lambda>_. ret ())
             else if u_IsBeingDeleted (e_util E) (grd_Meta inst') then delete_discovery E
             else discover_routes E ord)))"

text \<open>\<open>SetupWithManager\<close> gives the controller an empty map of managers.\<close>

definition discovery_setup :: manager_map where
  "discovery_setup = []"

end
