(* ===== verification/Discovery_Properties.thy ===== *)
theory Discovery_Properties
  imports Route_Discovery
begin

text \<open>
  Properties of the reconciliation of a GlobalRouteDiscovery: its remote managers over time, the
  routes it finds and the records it leaves when it succeeds, and that its errors reach the status.
\<close>

section \<open>Remote managers\<close>

lemma discovery_createRemoteManager_frame [frame_intros]:
  "emits quiet (discovery_createRemoteManager E c)" "keeps f (discovery_createRemoteManager E c)"
  unfolding discovery_createRemoteManager_def discovery_getRestConfig_def getRestConfig_def NewRemoteManager_def
    newRouteReconciler_def watch_kind_def
  by (intro frame_intros; simp)+

interpretation discovery_managers: manager_pool dl_remoteManagersMap dl_remoteManagersMap_update
  "\<lambda>key. discovery_createRemoteManager E (needed_cluster needed key)" for E needed
  by unfold_locales (auto intro: discovery_createRemoteManager_frame)

lemma discovery_ensureRemoteManagers_pool:
  assumes "strset_ok E"
  shows "obeys (pool_rel dl_remoteManagersMap) (discovery_ensureRemoteManagers E)"
proof -
  have "obeys (pool_rel dl_remoteManagersMap) (sync_managers E dl_remoteManagersMap dl_remoteManagersMap_update
      (\<lambda>key. discovery_createRemoteManager E (needed_cluster needed key)) keys)" for needed keys
    unfolding obeys_def pool_rel_def using discovery_managers.sync_balanced [OF assms] by (metis prod.collapse)
  moreover have "obeys (pool_rel dl_remoteManagersMap) (request (K8s ListGlobalRouteDiscoveries) f)" for f
    by (intro pool_quiet frame_intros; simp)
  ultimately show ?thesis unfolding discovery_ensureRemoteManagers_def Let_def by (intro pool_frame.obeys_bnd)
qed

text \<open>What the rest of the controller sends and keeps.\<close>

fun discovery_status_event :: "event \<Rightarrow> bool" where
  "discovery_status_event (K8s (RecordEvent _ _ _)) = True"
| "discovery_status_event (K8s (UpdateGlobalRouteDiscoveryStatus _)) = True"
| "discovery_status_event _ = False"

lemma write_discovery_status_frame [frame_intros]:
  "emits discovery_status_event (write_discovery_status E c)" "keeps dl_remoteManagersMap (write_discovery_status E c)"
  unfolding write_discovery_status_def upd_discovery_status_def set_discovery_def getClusterReferenceStatuses_def Let_def
  by (intro frame_intros; simp)+

lemma discovery_manage_frame [frame_intros]:
  "emits discovery_status_event (discovery_ManageError E e)" "keeps dl_remoteManagersMap (discovery_ManageError E e)"
  "emits discovery_status_event (discovery_ManageSuccess E)" "keeps dl_remoteManagersMap (discovery_ManageSuccess E)"
  unfolding discovery_ManageError_def discovery_ManageSuccess_def record_event_def by (intro frame_intros; simp)+

lemma update_discovery_frame [frame_intros]:
  "emits (\<lambda>ev. \<exists>d. ev = K8s (UpdateGlobalRouteDiscovery d)) (update_discovery E)" "keeps dl_remoteManagersMap (update_discovery E)"
  unfolding update_discovery_def set_discovery_def by (intro frame_intros; simp)+

lemma probe_container_frame [frame_intros]: "emits P (probe_container route pod)" "keeps f (probe_container route pod)"
  unfolding probe_container_def by (intro frame_intros)+

lemma route_ttl_frame [frame_intros]: "emits P (route_ttl inst route)" "keeps f (route_ttl inst route)"
  unfolding route_ttl_def by (intro frame_intros)+

lemma obeys_case_list [frame_intros]:
  "obeys R m \<Longrightarrow> (\<And>x xs. obeys R (f x xs)) \<Longrightarrow> obeys R (case l of [] \<Rightarrow> m | x # xs \<Rightarrow> f x xs)"
  by (cases l) simp_all

lemma route_lookup_frame [frame_intros]:
  "emits (\<lambda>ev. \<not> mutating ev) (findProbeForRoute E route c)" "keeps f (findProbeForRoute E route c)"
  "emits (\<lambda>ev. \<not> mutating ev) (findIngressControllerServiceForRoute E route c)" "keeps f (findIngressControllerServiceForRoute E route c)"
  "emits (\<lambda>ev. \<not> mutating ev) (findQualifyingRoutes E inst c)" "keeps f (findQualifyingRoutes E inst c)"
  unfolding findProbeForRoute_def findIngressControllerServiceForRoute_def findQualifyingRoutes_def Let_def
  by (intro frame_intros; simp)+

lemma routes_frame [frame_intros]:
  "emits (\<lambda>ev. \<not> mutating ev) (qualifying_routes E inst clients)" "keeps f (qualifying_routes E inst clients)"
  "emits (\<lambda>ev. \<not> mutating ev) (cluster_clients E cs)" "keeps f (cluster_clients E cs)"
  unfolding qualifying_routes_def route_info_def cluster_clients_def discovery_getRestConfig_def getRestConfig_def
  by (intro frame_intros; simp)+

lemma getGlobalDNSRecord_frame [frame_intros]: "emits P (getGlobalDNSRecord inst n is)" "keeps f (getGlobalDNSRecord inst n is)"
  unfolding getGlobalDNSRecord_def by (intro frame_intros)+

lemma create_records_frame [frame_intros]:
  "emits (\<lambda>ev. \<exists>i n r. ev = K8s (CreateOrUpdateRecord i n r)) (create_records E inst groups)" "keeps f (create_records E inst groups)"
  unfolding create_records_def by (intro frame_intros; simp)+

lemma discovery_quiet:
  "discovery_status_event ev \<Longrightarrow> quiet ev" "\<not> mutating ev \<Longrightarrow> quiet ev" "\<exists>d. ev = K8s (UpdateGlobalRouteDiscovery d) \<Longrightarrow> quiet ev"
  "\<exists>i n r. ev = K8s (CreateOrUpdateRecord i n r) \<Longrightarrow> quiet ev"
  by (cases ev rule: quiet.cases; auto)+

lemma discovery_pool:
  "obeys (pool_rel dl_remoteManagersMap) (discovery_ManageError E e)" "obeys (pool_rel dl_remoteManagersMap) (discovery_ManageSuccess E)"
  "obeys (pool_rel dl_remoteManagersMap) (update_discovery E)" "obeys (pool_rel dl_remoteManagersMap) (create_records E inst groups)"
  "obeys (pool_rel dl_remoteManagersMap) (qualifying_routes E inst clients)" "obeys (pool_rel dl_remoteManagersMap) (cluster_clients E cs)"
  by (intro pool_quiet frame_intros emits_mono [OF discovery_manage_frame(1) discovery_quiet(1)]
      emits_mono [OF discovery_manage_frame(3) discovery_quiet(1)] emits_mono [OF update_discovery_frame(1) discovery_quiet(3)]
      emits_mono [OF create_records_frame(1) discovery_quiet(4)] emits_mono [OF routes_frame(1) discovery_quiet(2)]
      emits_mono [OF routes_frame(3) discovery_quiet(2)]; assumption)+

lemma or_ManageError_pool:
  "obeys (pool_rel dl_remoteManagersMap) m \<Longrightarrow> (\<And>a. obeys (pool_rel dl_remoteManagersMap) (k a)) \<Longrightarrow>
     obeys (pool_rel dl_remoteManagersMap) (or_ManageError E m k)"
  unfolding or_ManageError_def by (intro pool_frame.obeys_bnd pool_frame.obeys_attempt pool_frame.obeys_case_sum discovery_pool)

lemma discovery_upd_pool:
  "(\<And>l. dl_remoteManagersMap (g l) = dl_remoteManagersMap l) \<Longrightarrow> obeys (pool_rel dl_remoteManagersMap) (upd_local g)"
  by (intro pool_quiet frame_intros)

lemma discovery_Reconcile_pool:
  assumes "strset_ok E"
  shows "obeys (pool_rel dl_remoteManagersMap) (discovery_Reconcile E ord req)"
proof -
  have read: "obeys (pool_rel dl_remoteManagersMap) (request (K8s (GetGlobalRouteDiscovery n)) f)" for n f
    by (intro pool_quiet frame_intros; simp)
  show ?thesis
    unfolding discovery_Reconcile_def delete_discovery_def discover_routes_def set_discovery_def Let_def
    by (intro frame_intros read or_ManageError_pool discovery_ensureRemoteManagers_pool assms discovery_pool discovery_upd_pool; simp)
qed

text \<open>The discovery controller in its environment: any reconciliations under any map orders, status
  changes of managers by their route reconcilers, and changes of the world by everybody else.\<close>

inductive discovery_system :: "'w env \<Rightarrow> (event, 'w, discovery_locals) io \<Rightarrow> bool"
  for E :: "'w env" where
  start: "discovery_system E \<lparr>trace = [], world = w, local = \<lparr>dl_instance = d, dl_remoteManagersMap = discovery_setup\<rparr>\<rparr>"
| reconcile: "discovery_system E s \<Longrightarrow> discovery_Reconcile E ord req s = (r, t) \<Longrightarrow> discovery_system E t"
| status: "discovery_system E s \<Longrightarrow> discovery_system E (s\<lparr>local := dl_remoteManagersMap_update
     (map (\<lambda>(k, rm). (k, if k = key then SetStatus rm conditions else rm))) (local s)\<rparr>)"
| other: "discovery_system E s \<Longrightarrow> discovery_system E (s\<lparr>world := w\<rparr>)"

text \<open>
  C33: no manager of the route discovery is leaked. In every state the system can reach, whatever the
  reconciliations did and however they ended, a remote manager has been started once more than
  stopped when it is in the map of the controller, and as often as stopped when it is not.
\<close>

theorem discovery_managers_never_leaked:
  assumes "strset_ok E" and "discovery_system E s"
  shows "balanced (trace s) (dl_remoteManagersMap (local s))"
  using assms(2)
proof induction
  case (reconcile s ord req r t)
  from discovery_Reconcile_pool [OF assms(1)]
  have "pool_rel dl_remoteManagersMap s (snd (discovery_Reconcile E ord req s))" by (simp add: obeys_def)
  with reconcile show ?case by (simp add: pool_rel_def)
next
  case (start w d)
  show ?case by (simp add: discovery_setup_def balanced_def live_def)
qed (simp_all add: balanced_status)

section \<open>Which routes are found\<close>

text \<open>A request that was sent among the events of a run, and an answer to it.\<close>

definition asked :: "event list \<Rightarrow> event \<Rightarrow> ('w \<Rightarrow> 'a outcome \<times> 'w) \<Rightarrow> 'a \<Rightarrow> bool" where
  "asked evs ev f a \<longleftrightarrow> ev \<in> set evs \<and> (\<exists>w w'. f w = (Ret a, w'))"

lemma asked_mono: "asked evs ev f a \<Longrightarrow> set evs \<subseteq> set evs' \<Longrightarrow> asked evs' ev f a"
  by (auto simp: asked_def)

lemma asked_request:
  assumes "request ev f s = (Ret a, t)"
  shows "trace t = trace s @ [ev] \<and> asked [ev] ev f a"
  using assms by (auto simp: asked_def run_simps)

text \<open>The client of a cluster is built from the kubeconfig of the secret that the cluster names.\<close>

definition client_for :: "'w env \<Rightarrow> event list \<Rightarrow> ClusterReference \<Rightarrow> RemoteClient \<Rightarrow> bool" where
  "client_for E evs cluster c \<longleftrightarrow> (\<exists>secret kubeconfig config.
     asked evs (K8s (GetSecret (cr_CredentialsSecretRef cluster))) (k_GetSecret (e_k8s E) (cr_CredentialsSecretRef cluster)) secret
     \<and> sec_Data secret ''kubeconfig'' = Some kubeconfig \<and> m_RESTConfigFromKubeConfig (e_remote E) kubeconfig = Ret config
     \<and> asked evs (Remote (NewClient config)) (m_NewClient (e_remote E) config) c)"

text \<open>The routes of a cluster are the answer to a list request through its client with the selector of
  the discovery.\<close>

definition answered :: "'w env \<Rightarrow> event list \<Rightarrow> GlobalRouteDiscovery \<Rightarrow> RemoteClient \<Rightarrow> Route list \<Rightarrow> bool" where
  "answered E evs inst c routes \<longleftrightarrow> (\<exists>selector.
     l_LabelSelectorAsSelector (e_labels E) (gs_RouteSelector (grd_Spec inst)) = Ret selector
     \<and> asked evs (Remote (ListRoutes c (Some selector))) (m_ListRoutes (e_remote E) c (Some selector)) routes)"

definition info_of :: "RouteInfo \<Rightarrow> ClusterReference \<times> Route" where
  "info_of info = (rinfo_ClusterReference info, rinfo_Route info)"

text \<open>The probe of a route: the annotated one, or the readiness probe of a container of the first pod
  behind the route's service, when it is an HTTP probe.\<close>

definition chosen_container :: "Route \<Rightarrow> Pod \<Rightarrow> Container option" where
  "chosen_container route pod = (case annotation containerProbeAnnotation route of
      Some name \<Rightarrow> List.find (\<lambda>cnt. cnt_Name cnt = name) (rev (pod_Containers pod))
    | None \<Rightarrow> Some (hd (pod_Containers pod)))"

definition pods_probe :: "Route \<Rightarrow> Pod list \<Rightarrow> Probe option \<Rightarrow> bool" where
  "pods_probe route pods probe \<longleftrightarrow> (\<forall>p. probe = Some p \<longleftrightarrow> (\<exists>pod rest cnt. pods = pod # rest
     \<and> chosen_container route pod = Some cnt \<and> cnt_ReadinessProbe cnt = Some p \<and> pr_HTTPGet p \<noteq> None))"

definition probe_ok :: "'w env \<Rightarrow> event list \<Rightarrow> RemoteClient \<Rightarrow> Route \<Rightarrow> Probe option \<Rightarrow> bool" where
  "probe_ok E evs c route probe \<longleftrightarrow> (case annotation healthCheckAnnotation route of
      Some text \<Rightarrow> \<exists>p. j_UnmarshalProbe (e_json E) text = Ret p \<and> probe = Some p
    | None \<Rightarrow> \<exists>service selector.
        asked evs (Remote (GetRemoteService c \<lparr>nn_Name = rt_To_Name route, nn_Namespace = om_Namespace (rt_Meta route)\<rparr>))
          (m_GetService (e_remote E) c \<lparr>nn_Name = rt_To_Name route, nn_Namespace = om_Namespace (rt_Meta route)\<rparr>) service
        \<and> l_LabelSelectorAsSelector (e_labels E) (l_SetAsLabelSelector (e_labels E) (svc_Selector service)) = Ret selector
        \<and> ((\<exists>pods. asked evs (Remote (ListPods c selector (svc_Namespace service)))
              (m_ListPods (e_remote E) c selector (svc_Namespace service)) pods \<and> pods_probe route pods probe)
          \<or> (\<exists>err w w'. m_ListPods (e_remote E) c selector (svc_Namespace service) w = (Fail err, w') \<and> IsNotFound err \<and> probe = None)))"

text \<open>What a RouteInfo says of its route: its policy and time to live, the service of its first router
  and its probe, the latter two as the client of the route's cluster answered.\<close>

definition info_ok :: "'w env \<Rightarrow> event list \<Rightarrow> GlobalRouteDiscovery \<Rightarrow> RemoteClient \<Rightarrow> RouteInfo \<Rightarrow> bool" where
  "info_ok E evs inst c info \<longleftrightarrow>
     (case annotation loadBalancingPolicyAnnotation (rinfo_Route info) of
        None \<Rightarrow> rinfo_LoadBalancigPolicy info = gs_DefaultLoadBalancingPolicy (grd_Spec inst)
      | Some policy \<Rightarrow> rinfo_LoadBalancigPolicy info = policy)
     \<and> (case annotation tTLAnnotation (rinfo_Route info) of
          None \<Rightarrow> rinfo_TTL info = gs_DefaultTTL (grd_Spec inst) | Some ttl \<Rightarrow> Atoi ttl = Inr (rinfo_TTL info))
     \<and> (\<exists>ingress rest. rt_Ingress (rinfo_Route info) = ingress # rest
       \<and> asked evs (Remote (GetRemoteService c \<lparr>nn_Name = ''router-'' @ ri_RouterName ingress, nn_Namespace = ''openshift-ingress''\<rparr>))
           (m_GetService (e_remote E) c \<lparr>nn_Name = ''router-'' @ ri_RouterName ingress, nn_Namespace = ''openshift-ingress''\<rparr>)
           (rinfo_Service info))
     \<and> probe_ok E evs c (rinfo_Route info) (rinfo_ReadinessCheck info)"

text \<open>Every selected route of every cluster, in the order of the clusters, and nothing else; all that is
  known of the routes of a cluster comes through the client of this cluster.\<close>

definition routes_found :: "'w env \<Rightarrow> event list \<Rightarrow> GlobalRouteDiscovery \<Rightarrow> (ClusterReference \<Rightarrow> RemoteClient) \<Rightarrow>
    ClusterReference list \<Rightarrow> RouteInfo list \<Rightarrow> bool" where
  "routes_found E evs inst clients clusters infos \<longleftrightarrow>
     (\<exists>lists. list_all2 (\<lambda>cluster. answered E evs inst (clients cluster)) clusters lists
     \<and> map info_of infos = concat (map (\<lambda>(cluster, routes). map (Pair cluster) routes) (zip clusters lists))
     \<and> (\<forall>info \<in> set infos. info_ok E evs inst (clients (rinfo_ClusterReference info)) info))"

lemma found_mono:
  assumes "set evs \<subseteq> set evs'"
  shows "client_for E evs cluster c \<Longrightarrow> client_for E evs' cluster c"
    and "answered E evs inst c routes \<Longrightarrow> answered E evs' inst c routes"
    and "probe_ok E evs c route probe \<Longrightarrow> probe_ok E evs' c route probe"
    and "info_ok E evs inst c info \<Longrightarrow> info_ok E evs' inst c info"
    and "routes_found E evs inst clients clusters infos \<Longrightarrow> routes_found E evs' inst clients clusters infos"
proof -
  show "client_for E evs cluster c \<Longrightarrow> client_for E evs' cluster c"
    unfolding client_for_def by (elim exE conjE, intro exI conjI; (erule asked_mono [OF _ assms])?)
  show a: "answered E evs inst c routes \<Longrightarrow> answered E evs' inst c routes" for c routes
    unfolding answered_def by (elim exE conjE, intro exI conjI; (erule asked_mono [OF _ assms])?)
  show p: "probe_ok E evs c route probe \<Longrightarrow> probe_ok E evs' c route probe" for c route probe
    using assms by (cases "annotation healthCheckAnnotation route") (auto simp: probe_ok_def asked_def, blast+)
  show i: "info_ok E evs inst c info \<Longrightarrow> info_ok E evs' inst c info" for c info
    using assms p [of c "rinfo_Route info" "rinfo_ReadinessCheck info"] by (auto simp: info_ok_def asked_def)
  show "routes_found E evs inst clients clusters infos \<Longrightarrow> routes_found E evs' inst clients clusters infos"
    unfolding routes_found_def
  proof (elim exE conjE, intro exI conjI)
    fix lists assume "list_all2 (\<lambda>cluster. answered E evs inst (clients cluster)) clusters lists"
    then show "list_all2 (\<lambda>cluster. answered E evs' inst (clients cluster)) clusters lists" by (rule list_all2_mono) (rule a)
  qed (use i in auto)
qed

lemma findIngressControllerServiceForRoute_Ret:
  assumes "findIngressControllerServiceForRoute E route c s = (Ret service, t)"
  obtains ingress rest w' where "rt_Ingress route = ingress # rest"
    "m_GetService (e_remote E) c \<lparr>nn_Name = ''router-'' @ ri_RouterName ingress, nn_Namespace = ''openshift-ingress''\<rparr> (world s) = (Ret service, w')"
    "trace t = trace s @ [Remote (GetRemoteService c \<lparr>nn_Name = ''router-'' @ ri_RouterName ingress, nn_Namespace = ''openshift-ingress''\<rparr>)]"
  using assms by (auto simp: findIngressControllerServiceForRoute_def inv_Ret run_simps Let_def split: list.splits)

lemma probe_container_Ret:
  assumes "probe_container route pod s = (Ret found, t)"
  shows "found = chosen_container route pod \<and> t = s"
proof -
  have "foldl (\<lambda>cnt container. if P container then Some container else cnt) None xs = List.find P (rev xs)" for P and xs :: "'x list"
    by (induction xs rule: rev_induct) auto
  with assms show ?thesis
    by (auto simp: probe_container_def chosen_container_def inv_Ret run_simps hd_conv_nth split: option.splits)
qed

lemma findProbeForRoute_Ret:
  assumes "findProbeForRoute E route c s = (Ret probe, t)"
  shows "\<exists>tr. trace t = trace s @ tr \<and> probe_ok E tr c route probe"
proof (cases "annotation healthCheckAnnotation route")
  case (Some json)
  with assms show ?thesis by (auto simp: findProbeForRoute_def probe_ok_def inv_Ret run_simps)
next
  case None
  let ?name = "\<lparr>nn_Name = rt_To_Name route, nn_Namespace = om_Namespace (rt_Meta route)\<rparr>"
  from None assms obtain service u selector r v where
    service: "request (Remote (GetRemoteService c ?name)) (m_GetService (e_remote E) c ?name) s = (Ret service, u)"
    and selector: "l_LabelSelectorAsSelector (e_labels E) (l_SetAsLabelSelector (e_labels E) (svc_Selector service)) = Ret selector"
    and r: "attempt (request (Remote (ListPods c selector (svc_Namespace service)))
        (m_ListPods (e_remote E) c selector (svc_Namespace service))) u = (Ret r, v)"
    and rest: "(case r of Inl err \<Rightarrow> if IsNotFound err then ret None else fail err | Inr [] \<Rightarrow> ret None
      | Inr (pod # _) \<Rightarrow> bnd (probe_container route pod) (\<lambda>found. case found of None \<Rightarrow> ret None
          | Some cnt \<Rightarrow> (case cnt_ReadinessProbe cnt of
              Some probe \<Rightarrow> ret (if pr_HTTPGet probe \<noteq> None then Some probe else None) | None \<Rightarrow> ret None))) v = (Ret probe, t)"
    by (auto simp: findProbeForRoute_def Let_def bnd_eq_Ret pure_call_def)
  note asked = asked_request [OF service]
  have v: "trace v = trace u @ [Remote (ListPods c selector (svc_Namespace service))]"
    using r by (auto simp: attempt_def request_def split: prod.splits outcome.splits)
  have "trace t = trace v \<and> (case r of
      Inl err \<Rightarrow> IsNotFound err \<and> probe = None | Inr pods \<Rightarrow> pods_probe route pods probe)"
  proof (cases "\<exists>pod pods. r = Inr (pod # pods)")
    case True
    then obtain pod pods where pods: "r = Inr (pod # pods)" by auto
    with rest obtain found v' where found: "probe_container route pod v = (Ret found, v')"
      and "(case found of None \<Rightarrow> ret None | Some cnt \<Rightarrow> (case cnt_ReadinessProbe cnt of
          Some probe \<Rightarrow> ret (if pr_HTTPGet probe \<noteq> None then Some probe else None) | None \<Rightarrow> ret None)) v' = (Ret probe, t)"
      by (auto simp: bnd_eq_Ret)
    with probe_container_Ret [OF found] pods show ?thesis
      by (auto simp: pods_probe_def run_simps split: option.splits if_splits)
  next
    case False
    with rest show ?thesis by (auto simp: pods_probe_def run_simps split: sum.splits list.splits if_splits)
  qed
  moreover have "case r of
      Inl err \<Rightarrow> (\<exists>w w'. m_ListPods (e_remote E) c selector (svc_Namespace service) w = (Fail err, w'))
    | Inr pods \<Rightarrow> (\<exists>w w'. m_ListPods (e_remote E) c selector (svc_Namespace service) w = (Ret pods, w'))"
    using r by (cases "m_ListPods (e_remote E) c selector (svc_Namespace service) (world u)")
      (auto simp: attempt_def request_def split: outcome.splits, blast+)
  ultimately show ?thesis
    using None asked selector v
    by (intro exI [of _ "[Remote (GetRemoteService c ?name), Remote (ListPods c selector (svc_Namespace service))]"];
        cases r) (auto simp: probe_ok_def asked_def, blast+)
qed

lemma route_info_result:
  assumes "route_info E inst cluster c route s = (Ret info, t)"
  shows "\<exists>tr. trace t = trace s @ tr \<and> info_of info = (cluster, route) \<and> info_ok E tr inst c info"
proof -
  from assms obtain probe u service v ttl where probe: "findProbeForRoute E route c s = (Ret probe, u)"
    and service: "findIngressControllerServiceForRoute E route c u = (Ret service, v)"
    and ttl: "route_ttl inst route v = (Ret ttl, t)"
    and info: "info = \<lparr>rinfo_Route = route, rinfo_Service = service, rinfo_ReadinessCheck = probe,
      rinfo_LoadBalancigPolicy = route_policy inst route, rinfo_ClusterReference = cluster, rinfo_TTL = ttl\<rparr>"
    unfolding route_info_def inv_Ret by blast
  from findProbeForRoute_Ret [OF probe] obtain tr where tr: "trace u = trace s @ tr" "probe_ok E tr c route probe" by blast
  from findIngressControllerServiceForRoute_Ret [OF service] obtain ingress rest w' where i: "rt_Ingress route = ingress # rest"
    "m_GetService (e_remote E) c \<lparr>nn_Name = ''router-'' @ ri_RouterName ingress, nn_Namespace = ''openshift-ingress''\<rparr> (world u) = (Ret service, w')"
    "trace v = trace u @ [Remote (GetRemoteService c \<lparr>nn_Name = ''router-'' @ ri_RouterName ingress, nn_Namespace = ''openshift-ingress''\<rparr>)]" .
  from ttl have t: "t = v" "case annotation tTLAnnotation route of
      None \<Rightarrow> ttl = gs_DefaultTTL (grd_Spec inst) | Some text \<Rightarrow> Atoi text = Inr ttl"
    by (auto simp: route_ttl_def inv_Ret run_simps split: option.splits sum.splits)
  let ?tr = "tr @ [Remote (GetRemoteService c \<lparr>nn_Name = ''router-'' @ ri_RouterName ingress, nn_Namespace = ''openshift-ingress''\<rparr>)]"
  have "probe_ok E ?tr c route probe" by (rule found_mono(3) [OF _ tr(2)]) auto
  with i t have "info_ok E ?tr inst c info"
    unfolding info info_ok_def by (auto simp: asked_def route_policy_def split: option.splits)
  then show ?thesis using tr(1) i(3) t(1) by (intro exI [of _ ?tr]) (simp add: info info_of_def)
qed

lemma cluster_routes_result:
  assumes "for_each (\<lambda>routeInfos route. bnd (route_info E inst cluster c route) (\<lambda>routeInfo. ret (routeInfos @ [routeInfo]))) [] routes s
     = (Ret infos, t)"
  shows "\<exists>tr. trace t = trace s @ tr \<and> map info_of infos = map (Pair cluster) routes \<and> (\<forall>info \<in> set infos. info_ok E tr inst c info)"
proof (rule for_each_events [OF assms, where P = "\<lambda>ys acc evs. map info_of acc = map (Pair cluster) ys \<and> (\<forall>info \<in> set acc. info_ok E evs inst c info)"])
  fix ys y acc evs r and s t :: "(event, 'a, 'b) io"
  assume acc: "map info_of acc = map (Pair cluster) ys \<and> (\<forall>info \<in> set acc. info_ok E evs inst c info)"
    and "bnd (route_info E inst cluster c y) (\<lambda>routeInfo. ret (acc @ [routeInfo])) s = (Ret r, t)"
  then obtain info where r: "r = acc @ [info]" and "route_info E inst cluster c y s = (Ret info, t)" by (auto simp: inv_Ret run_simps)
  from route_info_result [OF this(2)] obtain tr where "trace t = trace s @ tr" "info_of info = (cluster, y)" "info_ok E tr inst c info"
    by blast
  with acc r show "\<exists>tr. trace t = trace s @ tr \<and> map info_of r = map (Pair cluster) (ys @ [y])
      \<and> (\<forall>info \<in> set r. info_ok E (evs @ tr) inst c info)"
    by (intro exI [of _ tr]) (auto intro: found_mono(4) [rotated])
qed simp

lemma cluster_clients_found:
  assumes "cluster_clients E clusters s = (Ret clients, t)"
  shows "\<exists>evs. trace t = trace s @ evs \<and> (\<forall>cluster c. clients cluster = Some c \<longrightarrow> client_for E evs cluster c)"
proof (rule for_each_events [OF assms [unfolded cluster_clients_def],
      where P = "\<lambda>_ m evs. \<forall>cluster c. m cluster = Some c \<longrightarrow> client_for E evs cluster c"])
  fix ys y m evs r and s t :: "(event, 'a, 'b) io"
  assume m: "\<forall>cluster c. m cluster = Some c \<longrightarrow> client_for E evs cluster c"
    and "bnd (discovery_getRestConfig E y) (\<lambda>restConfig.
       bnd (request (Remote (NewClient restConfig)) (m_NewClient (e_remote E) restConfig)) (\<lambda>client. ret (m(y \<mapsto> client)))) s = (Ret r, t)"
  then obtain secret kubeconfig config c w w' w'' where c: "k_GetSecret (e_k8s E) (cr_CredentialsSecretRef y) (world s) = (Ret secret, w)"
    "sec_Data secret ''kubeconfig'' = Some kubeconfig" "m_RESTConfigFromKubeConfig (e_remote E) kubeconfig = Ret config"
    "m_NewClient (e_remote E) config w' = (Ret c, w'')" "r = m(y \<mapsto> c)"
    "trace t = trace s @ [K8s (GetSecret (cr_CredentialsSecretRef y)), Remote (NewClient config)]"
    by (auto simp: discovery_getRestConfig_def getRestConfig_def inv_Ret run_simps split: option.splits)
  then have "client_for E [K8s (GetSecret (cr_CredentialsSecretRef y)), Remote (NewClient config)] y c" (is "client_for E ?tr y c")
    unfolding client_for_def asked_def by (metis list.set_intros)
  moreover have "client_for E (evs @ ?tr) cluster c" if "client_for E evs cluster c \<or> client_for E ?tr cluster c" for cluster c
    using that found_mono(1) [of evs "evs @ ?tr"] found_mono(1) [of ?tr "evs @ ?tr"] by auto
  ultimately show "\<exists>tr. trace t = trace s @ tr \<and> (\<forall>cluster c. r cluster = Some c \<longrightarrow> client_for E (evs @ tr) cluster c)"
    using c(5,6) m by (intro exI [of _ ?tr]) simp
qed simp

lemma qualifying_routes_found:
  assumes "qualifying_routes E inst clients s = (Ret infos, t)"
  shows "\<exists>evs. trace t = trace s @ evs \<and> set (gs_Clusters (grd_Spec inst)) \<subseteq> dom clients
     \<and> routes_found E evs inst (the \<circ> clients) (gs_Clusters (grd_Spec inst)) infos"
proof (rule for_each_events [OF assms [unfolded qualifying_routes_def],
      where P = "\<lambda>ys acc evs. set ys \<subseteq> dom clients \<and> routes_found E evs inst (the \<circ> clients) ys acc"])
  fix ys y acc evs r and s t :: "(event, 'a, 'b) io"
  assume "set ys \<subseteq> dom clients \<and> routes_found E evs inst (the \<circ> clients) ys acc"
  then have dom: "set ys \<subseteq> dom clients" and found: "routes_found E evs inst (the \<circ> clients) ys acc" by simp_all
  assume "bnd (deref (clients y)) (\<lambda>c. bnd (findQualifyingRoutes E inst c) (\<lambda>routes.
     bnd (for_each (\<lambda>routeInfos route. bnd (route_info E inst y c route) (\<lambda>routeInfo. ret (routeInfos @ [routeInfo]))) [] routes)
       (\<lambda>routeInfos. ret (acc @ routeInfos)))) s = (Ret r, t)"
  then obtain c routes u new where c: "clients y = Some c" and routes: "findQualifyingRoutes E inst c s = (Ret routes, u)" and r: "r = acc @ new"
    and new: "for_each (\<lambda>routeInfos route. bnd (route_info E inst y c route) (\<lambda>routeInfo. ret (routeInfos @ [routeInfo]))) [] routes u = (Ret new, t)"
    by (auto simp: inv_Ret run_simps)
  from routes obtain selector w where selector: "l_LabelSelectorAsSelector (e_labels E) (gs_RouteSelector (grd_Spec inst)) = Ret selector"
    "m_ListRoutes (e_remote E) c (Some selector) (world s) = (Ret routes, w)"
    "trace u = trace s @ [Remote (ListRoutes c (Some selector))]" by (auto simp: findQualifyingRoutes_def inv_Ret run_simps)
  then obtain tr1 where tr1: "trace u = trace s @ tr1" "answered E tr1 inst c routes"
    unfolding answered_def asked_def by (metis list.set_intros(1))
  from cluster_routes_result [OF new] obtain tr2 where tr2: "trace t = trace u @ tr2" "map info_of new = map (Pair y) routes"
    "\<forall>info \<in> set new. info_ok E tr2 inst c info" by blast
  let ?evs = "evs @ tr1 @ tr2"
  have "answered E ?evs inst c routes" by (rule found_mono(2) [OF _ tr1(2)]) auto
  moreover have "\<forall>info \<in> set new. info_ok E ?evs inst (the (clients (rinfo_ClusterReference info))) info"
  proof
    fix info assume i: "info \<in> set new"
    then have "info_of info \<in> set (map (Pair y) routes)" unfolding tr2(2) [symmetric] by simp
    then have "rinfo_ClusterReference info = y" by (auto simp: info_of_def)
    with tr2(3) i c show "info_ok E ?evs inst (the (clients (rinfo_ClusterReference info))) info"
      by (auto intro: found_mono(4) [rotated])
  qed
  moreover have "routes_found E ?evs inst (the \<circ> clients) ys acc" by (rule found_mono(5) [OF _ found]) auto
  then obtain lists where l: "list_all2 (\<lambda>cluster. answered E ?evs inst (the (clients cluster))) ys lists"
    "map info_of acc = concat (map (\<lambda>(cluster, routes). map (Pair cluster) routes) (zip ys lists))"
    "\<forall>info \<in> set acc. info_ok E ?evs inst (the (clients (rinfo_ClusterReference info))) info" by (auto simp: routes_found_def)
  ultimately have "routes_found E ?evs inst (the \<circ> clients) (ys @ [y]) r"
    unfolding routes_found_def using c r tr2(2) list_all2_lengthD [OF l(1)]
    by (intro exI [of _ "lists @ [routes]"]) (auto intro: list_all2_appendI)
  with dom c tr1(1) tr2(1) show "\<exists>tr. trace t = trace s @ tr \<and> set (ys @ [y]) \<subseteq> dom clients
      \<and> routes_found E (evs @ tr) inst (the \<circ> clients) (ys @ [y]) r"
    by (intro exI [of _ "tr1 @ tr2"]) auto
qed (simp add: routes_found_def)

section \<open>Groups\<close>

definition route_key :: "'w env \<Rightarrow> RouteInfo \<Rightarrow> string" where
  "route_key E info = u_GetKeyShort (e_util E) (rt_Meta (rinfo_Route info))"

lemma group_routes_map:
  "distinct (map fst (group_routes E infos)) \<and> map_of (group_routes E infos) k =
     (let g = filter (\<lambda>i. route_key E i = k) infos in if g = [] then None else Some g)"
proof (induction infos arbitrary: k rule: rev_induct)
  case (snoc info infos)
  have step: "group_routes E (infos @ [info]) = AList.update (route_key E info)
      ((case map_of (group_routes E infos) (route_key E info) of None \<Rightarrow> [] | Some is \<Rightarrow> is) @ [info]) (group_routes E infos)"
    by (simp add: group_routes_def route_key_def Let_def)
  show ?case unfolding step update_conv' using snoc by (auto simp: distinct_update Let_def)
qed (simp add: group_routes_def)

text \<open>The groups of routes: one per key, with all routes of the key.\<close>

definition grouped :: "'w env \<Rightarrow> RouteInfo list \<Rightarrow> (string \<times> RouteInfo list) list \<Rightarrow> bool" where
  "grouped E infos groups \<longleftrightarrow> distinct (map fst groups)
     \<and> (\<forall>k g. (k, g) \<in> set groups \<longleftrightarrow> g = filter (\<lambda>i. route_key E i = k) infos \<and> g \<noteq> [])"

lemma group_routes_grouped:
  assumes "mset groups = mset (group_routes E infos)"
  shows "grouped E infos groups"
proof -
  have d: "distinct (map fst (group_routes E infos))" using group_routes_map by blast
  from assms have "mset (map fst groups) = mset (map fst (group_routes E infos))" by simp
  with d have "distinct (map fst groups)" by (metis mset_eq_imp_distinct_iff)
  moreover have "(k, g) \<in> set groups \<longleftrightarrow> g = filter (\<lambda>i. route_key E i = k) infos \<and> g \<noteq> []" for k g
  proof -
    have "(k, g) \<in> set groups \<longleftrightarrow> map_of (group_routes E infos) k = Some g"
      using mset_eq_setD [OF assms] d by simp
    with group_routes_map [of E infos k] show ?thesis by (auto simp: Let_def split: if_splits)
  qed
  ultimately show ?thesis by (simp add: grouped_def)
qed

section \<open>What a successful reconciliation leaves\<close>

lemma discovery_ManageError_fails: "discovery_ManageError E e s \<noteq> (Ret a, t)"
  by (auto simp: discovery_ManageError_def inv_Ret run_simps)

lemma or_ManageError_Ret:
  "or_ManageError E m k s = (Ret b, t) \<longleftrightarrow> (\<exists>a u. m s = (Ret a, u) \<and> k a u = (Ret b, t))"
  by (auto simp: or_ManageError_def inv_Ret discovery_ManageError_fails)

lemma getGlobalDNSRecord_Ret:
  "getGlobalDNSRecord inst name infos s = (Ret r, t) \<longleftrightarrow>
     infos \<noteq> [] \<and> consistent (hd infos) infos = None \<and> r = new_record inst (hd infos) infos \<and> t = s"
  by (cases infos) (auto simp: getGlobalDNSRecord_def run_simps split: option.splits)

text \<open>Whether two routes of a group agree in all that the record takes from the first.\<close>

definition same_settings :: "RouteInfo \<Rightarrow> RouteInfo \<Rightarrow> bool" where
  "same_settings i j \<longleftrightarrow> rt_Host (rinfo_Route i) = rt_Host (rinfo_Route j)
     \<and> rinfo_LoadBalancigPolicy i = rinfo_LoadBalancigPolicy j \<and> rinfo_TTL i = rinfo_TTL j
     \<and> rinfo_ReadinessCheck i = rinfo_ReadinessCheck j"

lemma consistent_None: "consistent route0 routes = None \<longleftrightarrow> (\<forall>route \<in> set routes. same_settings route route0)"
  by (induction routes) (auto simp: inconsistency_def same_settings_def split: option.splits if_splits)

text \<open>The endpoint and the health check that the record must have, field by field.\<close>

definition endpoint_of :: "RouteInfo \<Rightarrow> Endpoint \<Rightarrow> bool" where
  "endpoint_of info e \<longleftrightarrow> ep_ClusterName e = cr_ClusterName (rinfo_ClusterReference info)
     \<and> ep_CredentialsSecretRef e = cr_CredentialsSecretRef (rinfo_ClusterReference info)
     \<and> nn_Name (ep_LoadBalancerServiceRef e) = svc_Name (rinfo_Service info)
     \<and> nn_Namespace (ep_LoadBalancerServiceRef e) = svc_Namespace (rinfo_Service info)"

definition check_of :: "Route \<Rightarrow> Probe \<Rightarrow> Probe \<Rightarrow> bool" where
  "check_of route probe check \<longleftrightarrow> (\<exists>get get'. pr_HTTPGet probe = Some get \<and> pr_HTTPGet check = Some get'
     \<and> hg_Host get' = rt_Host route \<and> hg_Path get' = hg_Path get
     \<and> (rt_TLS route \<and> hg_Scheme get' = ''HTTPS'' \<and> ios_IntVal (hg_Port get') = 443
       \<or> \<not> rt_TLS route \<and> hg_Scheme get' = ''HTTP'' \<and> ios_IntVal (hg_Port get') = 80)
     \<and> (\<forall>header. header \<in> set (hg_HTTPHeaders get') \<longleftrightarrow> header \<in> set (hg_HTTPHeaders get) \<and> hh_Name header \<noteq> ''host''))
     \<and> pr_InitialDelaySeconds check = pr_InitialDelaySeconds probe \<and> pr_TimeoutSeconds check = pr_TimeoutSeconds probe
     \<and> pr_PeriodSeconds check = pr_PeriodSeconds probe \<and> pr_SuccessThreshold check = pr_SuccessThreshold probe
     \<and> pr_FailureThreshold check = pr_FailureThreshold probe"

text \<open>The record of a group: named by the host in the namespace of the discovery, with one endpoint per
  route, and a health check when the routes have an HTTP probe.\<close>

definition record_of :: "GlobalRouteDiscovery \<Rightarrow> RouteInfo list \<Rightarrow> GlobalDNSRecord \<Rightarrow> bool" where
  "record_of inst infos r \<longleftrightarrow>
     om_Name (rec_Meta r) = rt_Host (rinfo_Route (hd infos)) \<and> om_Namespace (rec_Meta r) = om_Namespace (grd_Meta inst)
     \<and> rs_Name (rec_Spec r) = rt_Host (rinfo_Route (hd infos)) \<and> rs_TTL (rec_Spec r) = rinfo_TTL (hd infos)
     \<and> rs_LoadBalancingPolicy (rec_Spec r) = rinfo_LoadBalancigPolicy (hd infos)
     \<and> rs_GlobalZoneRef (rec_Spec r) = gs_GlobalZoneRef (grd_Spec inst)
     \<and> list_all2 endpoint_of infos (rs_Endpoints (rec_Spec r))
     \<and> (case rs_HealthCheck (rec_Spec r) of
          Some check \<Rightarrow> (\<exists>probe. rinfo_ReadinessCheck (hd infos) = Some probe \<and> check_of (rinfo_Route (hd infos)) probe check)
        | None \<Rightarrow> (\<forall>probe. rinfo_ReadinessCheck (hd infos) = Some probe \<longrightarrow> pr_HTTPGet probe = None))"

lemma new_record_of: "record_of inst infos (new_record inst (hd infos) infos)"
proof -
  have "list_all2 endpoint_of infos (map route_endpoint infos)"
    by (simp add: list_all2_map2 list_all2_same endpoint_of_def route_endpoint_def)
  then show ?thesis
    by (auto simp: record_of_def new_record_def check_of_def getHealthCheck_def Let_def split: option.splits)
qed

abbreviation record_request :: "GlobalRouteDiscovery \<Rightarrow> GlobalDNSRecord \<Rightarrow> event" where
  "record_request inst r \<equiv> K8s (CreateOrUpdateRecord inst (om_Namespace (grd_Meta inst)) r)"

lemma create_records_result:
  assumes "create_records E inst groups s = (Ret (), t)"
  shows "\<exists>records. trace t = trace s @ map (record_request inst) records
     \<and> list_all2 (\<lambda>(k, g). record_of inst g) groups records
     \<and> (\<forall>(k, g) \<in> set groups. \<forall>i \<in> set g. same_settings i (hd g))"
proof -
  let ?records = "map (\<lambda>(k, g). new_record inst (hd g) g) groups"
  have "trace t = trace s @ concat (map (\<lambda>(k, g). [record_request inst (new_record inst (hd g) g)]) groups)"
    by (rule for_each_trace [OF assms [unfolded create_records_def]]) (auto simp: inv_Ret getGlobalDNSRecord_Ret)
  also have "concat (map (\<lambda>(k, g). [record_request inst (new_record inst (hd g) g)]) groups) = map (record_request inst) ?records"
    by (induction groups) auto
  finally have "trace t = trace s @ map (record_request inst) ?records" .
  moreover have "list_all2 (\<lambda>(k, g). record_of inst g) groups ?records"
    by (auto simp: list_all2_map2 list_all2_same new_record_of)
  moreover have "\<forall>i \<in> set g. same_settings i (hd g)" if "(k, g) \<in> set groups" for k g
    using for_each_item [OF assms [unfolded create_records_def] that] by (auto simp: inv_Ret getGlobalDNSRecord_Ret consistent_None)
  ultimately show ?thesis by (intro exI [of _ ?records]) auto
qed

lemma getClusterReferenceStatuses_frame [frame_intros]:
  "emits discovery_status_event (getClusterReferenceStatuses E)" "keeps f (getClusterReferenceStatuses E)"
  unfolding getClusterReferenceStatuses_def Let_def by (intro frame_intros; simp)+

text \<open>The status update is the last request, and it carries the condition.\<close>

lemma write_discovery_status_result:
  assumes "write_discovery_status E c s = (Ret (), t)"
  shows "\<exists>pre x cs. trace t = trace s @ pre @ [K8s (UpdateGlobalRouteDiscoveryStatus x)] \<and> list_all discovery_status_event pre
     \<and> gst_Conditions (grd_Status x) = u_AddOrReplaceCondition (e_util E) c cs \<and> grd_Spec x = grd_Spec (dl_instance (local s))"
proof -
  let ?l = "(local s)\<lparr>dl_instance := (dl_instance (local s))\<lparr>grd_Status := (grd_Status (dl_instance (local s)))\<lparr>
      gst_Conditions := u_AddOrReplaceCondition (e_util E) c (gst_Conditions (grd_Status (dl_instance (local s))))\<rparr>\<rparr>\<rparr>"
  from assms obtain m u where m: "getClusterReferenceStatuses E (s\<lparr>local := ?l\<rparr>) = (Ret m, u)"
    and t: "\<exists>x. trace t = trace u @ [K8s (UpdateGlobalRouteDiscoveryStatus x)] \<and> x = (dl_instance (local u))\<lparr>grd_Status :=
        (grd_Status (dl_instance (local u)))\<lparr>gst_ClusterReferenceStatuses := m\<rparr>\<rparr>"
    by (auto simp: write_discovery_status_def upd_discovery_status_def set_discovery_def inv_Ret)
  from keepsD [OF getClusterReferenceStatuses_frame(2) [where f = "\<lambda>l. l"] m] have u: "local u = ?l" by simp
  from emitsD [OF getClusterReferenceStatuses_frame(1) m] obtain pre where "trace u = trace s @ pre" "list_all discovery_status_event pre"
    by auto
  with t u show ?thesis by auto
qed

text \<open>Requests other than those for records.\<close>

fun no_record :: "event \<Rightarrow> bool" where
  "no_record (K8s (CreateOrUpdateRecord _ _ _)) = False"
| "no_record _ = True"

lemma no_record_read: "\<not> mutating ev \<Longrightarrow> no_record ev"
  by (cases ev rule: no_record.cases) simp_all

lemma discovery_ensureRemoteManagers_emits: "emits no_record (discovery_ensureRemoteManagers E)"
proof -
  have "emits no_record (discovery_createRemoteManager E c)" for c
    unfolding discovery_createRemoteManager_def discovery_getRestConfig_def getRestConfig_def NewRemoteManager_def
      newRouteReconciler_def watch_kind_def
    by (intro frame_intros; simp)
  then show ?thesis
    unfolding discovery_ensureRemoteManagers_def Let_def by (intro frame_intros sync_emits) simp_all
qed

lemma discovery_ensureRemoteManagers_keeps: "keeps dl_instance (discovery_ensureRemoteManagers E)"
  unfolding discovery_ensureRemoteManagers_def Let_def by (intro frame_intros discovery_managers.sync_keeps) simp

text \<open>
  C34: what a successful discovery leaves. The reconciliation of a discovery that is not being deleted
  has built a client for each cluster from the secret of this cluster, asked it for the routes of the
  selector, and found every route that was answered, in the order of the clusters, with its policy, its
  time to live, the service of its router and its probe, the latter two asked of the same client. The
  routes are grouped by namespace and name, the routes of a group agree in host, policy, time to live and probe, and for each
  group and for nothing else one request was sent to create or update the record of the group: named by
  the host, with one endpoint per route and the health check of the probe. The last request writes the
  success condition.
\<close>

theorem discovery_records_published:
  assumes "discovery_Reconcile E ord req s = (Ret (), t)"
    and "k_GetGlobalRouteDiscovery (e_k8s E) req (world s) = (Ret inst, w)"
    and "u_HasFinalizer (e_util E) (grd_Meta inst) discovery_controllerName" and "\<not> u_IsBeingDeleted (e_util E) (grd_Meta inst)"
    and "\<And>m. mset (ord m) = mset m"
  shows "\<exists>clients infos groups records evs pre x time cs.
     (\<forall>cluster \<in> set (gs_Clusters (grd_Spec inst)). client_for E evs cluster (clients cluster))
     \<and> routes_found E evs inst clients (gs_Clusters (grd_Spec inst)) infos \<and> grouped E infos groups
     \<and> (\<forall>(k, g) \<in> set groups. \<forall>i \<in> set g. same_settings i (hd g))
     \<and> list_all2 (\<lambda>(k, g). record_of inst g) groups records
     \<and> trace t = trace s @ evs @ map (\<lambda>r. K8s (CreateOrUpdateRecord inst (om_Namespace (grd_Meta inst)) r)) records
         @ pre @ [K8s (UpdateGlobalRouteDiscoveryStatus x)]
     \<and> list_all no_record evs \<and> list_all discovery_status_event pre
     \<and> gst_Conditions (grd_Status x) = u_AddOrReplaceCondition (e_util E) (success_condition E time) cs \<and> grd_Spec x = grd_Spec inst"
proof -
  let ?s = "s\<lparr>trace := trace s @ [K8s (GetGlobalRouteDiscovery req)], world := w, local := (local s)\<lparr>dl_instance := inst\<rparr>\<rparr>"
  from assms(1-4) have "discover_routes E ord ?s = (Ret (), t)"
    by (simp add: discovery_Reconcile_def attempt_def request_def bnd_def seq_def prog_simps set_discovery_def discovery_IsInitialized_def)
  then obtain b clients u infos v y where b: "discovery_ensureRemoteManagers E ?s = (Ret (), b)"
    and clients: "cluster_clients E (gs_Clusters (grd_Spec (dl_instance (local b)))) b = (Ret clients, u)"
    and infos: "qualifying_routes E (dl_instance (local b)) clients u = (Ret infos, v)"
    and recs: "create_records E (dl_instance (local b)) (ord (group_routes E infos)) v = (Ret (), y)"
    and fin: "discovery_ManageSuccess E y = (Ret (), t)"
    by (auto simp: discover_routes_def or_ManageError_Ret inv_Ret Let_def)
  have inst: "dl_instance (local b) = inst" using keepsD [OF discovery_ensureRemoteManagers_keeps b] by simp
  have y: "dl_instance (local y) = inst"
    using keepsD [OF routes_frame(4) [where f = dl_instance] clients] keepsD [OF routes_frame(2) [where f = dl_instance] infos]
      keepsD [OF create_records_frame(2) [where f = dl_instance] recs] inst by simp
  let ?cs = "gs_Clusters (grd_Spec inst)" and ?groups = "ord (group_routes E infos)"
  obtain tr where tr: "trace v = trace s @ tr" "list_all no_record tr"
    using emitsD [OF discovery_ensureRemoteManagers_emits b] emitsD [OF emits_mono [OF routes_frame(3) no_record_read] clients]
      emitsD [OF emits_mono [OF routes_frame(1) no_record_read] infos] by fastforce
  from cluster_clients_found [OF clients] qualifying_routes_found [OF infos] emitsD [OF discovery_ensureRemoteManagers_emits b]
  obtain ec ei where found: "trace u = trace b @ ec" "\<forall>cluster c. clients cluster = Some c \<longrightarrow> client_for E ec cluster c"
    "trace v = trace u @ ei" "set ?cs \<subseteq> dom clients" "routes_found E ei inst (the \<circ> clients) ?cs infos"
    and sub: "set ec \<subseteq> set tr" "set ei \<subseteq> set tr" using tr(1) unfolding inst by fastforce
  have "\<forall>cluster \<in> set ?cs. client_for E tr cluster ((the \<circ> clients) cluster)"
    using found(2,4) found_mono(1) [OF sub(1)] by fastforce
  moreover note found_mono(5) [OF sub(2) found(5)] tr(2)
  moreover have "grouped E infos ?groups" by (rule group_routes_grouped) (rule assms(5))
  moreover obtain records where "trace y = trace v @ map (record_request inst) records"
    "list_all2 (\<lambda>(k, g). record_of inst g) ?groups records" "\<forall>(k, g) \<in> set ?groups. \<forall>i \<in> set g. same_settings i (hd g)"
    using create_records_result [OF recs, unfolded inst] by blast
  moreover have "write_discovery_status E (success_condition E (e_now E (world y))) y = (Ret (), t)"
    using fin by (simp add: discovery_ManageSuccess_def bnd_def now_def)
  from write_discovery_status_result [OF this] obtain pre x cs where "list_all discovery_status_event pre"
    "trace t = trace y @ pre @ [K8s (UpdateGlobalRouteDiscoveryStatus x)]"
    "gst_Conditions (grd_Status x) = u_AddOrReplaceCondition (e_util E) (success_condition E (e_now E (world y))) cs" "grd_Spec x = grd_Spec inst"
    unfolding y by blast
  moreover from calculation(5,9) tr(1) have "trace t = trace s @ tr @ map (record_request inst) records @ pre @ [K8s (UpdateGlobalRouteDiscoveryStatus x)]"
    by simp
  ultimately show ?thesis by (intro exI conjI) assumption+
qed

section \<open>How errors are reported\<close>

lemma getClusterReferenceStatuses_no_Fail: "getClusterReferenceStatuses E s \<noteq> (Fail e, t)"
proof -
  have "(case map_of m (ClusterReference_GetKey c) of None \<Rightarrow> ret conditions
       | Some remoteManager \<Rightarrow> let key = RemoteManager_GetKey remoteManager; conditions' = conditions(key \<mapsto> GetStatus remoteManager) in
           seq (report_manager E (map_lookup conditions' key)) (ret conditions')) u \<noteq> (Fail e, t)"
    for m c conditions e t and u :: "(event, 'a, discovery_locals) io"
    by (auto simp: report_manager_def record_event_def request_def Let_def seq_def bnd_def prog_simps split: option.splits)
  from for_each_no_Fail [OF this] show ?thesis by (simp add: getClusterReferenceStatuses_def bnd_def prog_simps)
qed

text \<open>The last request is a status update that tells of the error, or the status update itself failed.\<close>

definition discovery_error_reported ::
  "'w env \<Rightarrow> (event, 'w, discovery_locals) io \<Rightarrow> error \<Rightarrow> (event, 'w, discovery_locals) io \<Rightarrow> bool" where
  "discovery_error_reported E s e t \<longleftrightarrow> (\<exists>pre x w. trace t = trace s @ pre @ [K8s (UpdateGlobalRouteDiscoveryStatus x)]
     \<and> ((\<exists>time cs. gst_Conditions (grd_Status x) = u_AddOrReplaceCondition (e_util E) (error_condition E time (error_text E e)) cs)
       \<or> fst (k_UpdateGlobalRouteDiscoveryStatus (e_k8s E) x w) = Fail e))"

lemma discovery_error_reported_extend:
  "trace u = trace s @ tr \<Longrightarrow> discovery_error_reported E u e t \<Longrightarrow> discovery_error_reported E s e t"
  unfolding discovery_error_reported_def by (metis append.assoc)

lemma write_discovery_status_Fail:
  assumes "write_discovery_status E c s = (Fail e, t)"
  shows "discovery_error_reported E s e t"
proof -
  let ?l = "(local s)\<lparr>dl_instance := (dl_instance (local s))\<lparr>grd_Status := (grd_Status (dl_instance (local s)))\<lparr>
      gst_Conditions := u_AddOrReplaceCondition (e_util E) c (gst_Conditions (grd_Status (dl_instance (local s))))\<rparr>\<rparr>\<rparr>"
  obtain r u where m: "getClusterReferenceStatuses E (s\<lparr>local := ?l\<rparr>) = (r, u)" by fastforce
  with assms getClusterReferenceStatuses_no_Fail obtain x where x: "trace t = trace u @ [K8s (UpdateGlobalRouteDiscoveryStatus x)]"
    "fst (k_UpdateGlobalRouteDiscoveryStatus (e_k8s E) x (world u)) = Fail e"
    by (cases r) (auto simp: write_discovery_status_def upd_discovery_status_def set_discovery_def seq_def bnd_def request_def prog_simps
        split: prod.splits outcome.splits)
  from m have "\<exists>pre. trace u = trace s @ pre" using emitsD [OF getClusterReferenceStatuses_frame(1) m] by auto
  with x show ?thesis by (auto simp: discovery_error_reported_def)
qed

lemma discovery_ManageError_reported:
  assumes "discovery_ManageError E issue s = (Fail e, t)"
  shows "discovery_error_reported E s e t"
proof -
  let ?s = "snd (record_event E (error_text E issue) s)"
  have ev: "record_event E (error_text E issue) s = (Ret (), ?s)" "\<exists>tr. trace ?s = trace s @ tr"
    by (simp_all add: record_event_def request_def)
  let ?m = "write_discovery_status E (error_condition E (e_now E (world ?s)) (error_text E issue))"
  from assms ev(1) have m: "(\<exists>u. ?m ?s = (Ret (), t) \<and> e = issue) \<or> ?m ?s = (Fail e, t)"
    by (auto simp: discovery_ManageError_def seq_def bnd_def now_def prog_simps split: prod.splits outcome.splits)
  then have "discovery_error_reported E ?s e t"
  proof
    assume "\<exists>u. ?m ?s = (Ret (), t) \<and> e = issue"
    then have "?m ?s = (Ret (), t)" "e = issue" by auto
    from write_discovery_status_result [OF this(1)] this(2) show ?thesis
      unfolding discovery_error_reported_def by blast
  qed (rule write_discovery_status_Fail)
  with ev(2) show ?thesis using discovery_error_reported_extend by blast
qed

lemma or_ManageError_reported:
  assumes "or_ManageError E m k s = (Fail e, t)" and "emits P m"
    and "\<And>a u. m s = (Ret a, u) \<Longrightarrow> k a u = (Fail e, t) \<Longrightarrow> discovery_error_reported E u e t"
  shows "discovery_error_reported E s e t"
proof -
  obtain r u where m: "m s = (r, u)" by fastforce
  have "discovery_error_reported E u e t"
    using assms(1,3) m discovery_ManageError_reported by (cases r) (auto simp: or_ManageError_def attempt_def bnd_def)
  with emitsD [OF assms(2) m] show ?thesis using discovery_error_reported_extend by blast
qed

lemma discover_routes_reported:
  assumes "discover_routes E ord s = (Fail e, t)"
  shows "discovery_error_reported E s e t"
  using assms [unfolded discover_routes_def]
proof (rule or_ManageError_reported [OF _ discovery_ensureRemoteManagers_emits])
  fix u
  assume "bnd get_local (\<lambda>l. let inst = dl_instance l in
     or_ManageError E (cluster_clients E (gs_Clusters (grd_Spec inst))) (\<lambda>clients.
     or_ManageError E (qualifying_routes E inst clients) (\<lambda>qualifyingRoutes.
     or_ManageError E (create_records E inst (ord (group_routes E qualifyingRoutes))) (\<lambda>_.
     discovery_ManageSuccess E)))) u = (Fail e, t)"
  then show "discovery_error_reported E u e t"
    by (auto simp: bnd_def prog_simps Let_def discovery_ManageSuccess_def now_def
        intro!: write_discovery_status_Fail
        elim!: or_ManageError_reported [OF _ routes_frame(3)] or_ManageError_reported [OF _ routes_frame(1)]
          or_ManageError_reported [OF _ create_records_frame(1)])
qed

lemma update_discovery_reported:
  "or_ManageError E (update_discovery E) (\<lambda>_. ret ()) s = (Fail e, t) \<Longrightarrow> discovery_error_reported E s e t"
  by (rule or_ManageError_reported [OF _ update_discovery_frame(1)]) (auto simp: prog_simps)

lemma delete_discovery_reported:
  fixes E :: "'w env"
  assumes "delete_discovery E s = (Fail e, t)"
  shows "discovery_error_reported E s e t"
proof -
  have "or_ManageError E (discovery_ensureRemoteManagers E) (\<lambda>_.
     seq (upd_local (\<lambda>l. l\<lparr>dl_instance := (dl_instance l)\<lparr>grd_Meta :=
            u_RemoveFinalizer (e_util E) (grd_Meta (dl_instance l)) discovery_controllerName\<rparr>\<rparr>))
    (or_ManageError E (update_discovery E) (\<lambda>_. ret ()))) s = (Fail e, t)"
    using assms by (auto simp: delete_discovery_def bnd_def prog_simps split: if_splits)
  then show ?thesis
  proof (rule or_ManageError_reported [OF _ discovery_ensureRemoteManagers_emits])
    fix u :: "(event, 'w, discovery_locals) io"
    let ?u = "u\<lparr>local := (local u)\<lparr>dl_instance := (dl_instance (local u))\<lparr>grd_Meta :=
        u_RemoveFinalizer (e_util E) (grd_Meta (dl_instance (local u))) discovery_controllerName\<rparr>\<rparr>\<rparr>"
    assume "seq (upd_local (\<lambda>l. l\<lparr>dl_instance := (dl_instance l)\<lparr>grd_Meta :=
            u_RemoveFinalizer (e_util E) (grd_Meta (dl_instance l)) discovery_controllerName\<rparr>\<rparr>))
      (or_ManageError E (update_discovery E) (\<lambda>_. ret ())) u = (Fail e, t)"
    then have "or_ManageError E (update_discovery E) (\<lambda>_. ret ()) ?u = (Fail e, t)" by (simp add: seq_def bnd_def prog_simps)
    from update_discovery_reported [OF this] show "discovery_error_reported E u e t" by (simp add: discovery_error_reported_def)
  qed
qed

text \<open>
  C35: errors of the discovery reach the status. When the reconciliation of a discovery that could be
  read returns an error, its last request is an update of the status, and this update carries the
  error condition with the text of the error, unless the error is the failure of the update itself.
\<close>

theorem discovery_reconcile_error_reported:
  assumes "discovery_Reconcile E ord req s = (Fail e, t)" and "k_GetGlobalRouteDiscovery (e_k8s E) req (world s) = (Ret inst, w)"
  shows "discovery_error_reported E s e t"
proof -
  obtain ok inst' where init: "discovery_IsInitialized E inst = (ok, inst')" by fastforce
  let ?u = "s\<lparr>trace := trace s @ [K8s (GetGlobalRouteDiscovery req)], world := w, local := (local s)\<lparr>dl_instance := inst'\<rparr>\<rparr>"
  from assms init have "(if \<not> ok then or_ManageError E (update_discovery E) (\<lambda>_. ret ())
     else if u_IsBeingDeleted (e_util E) (grd_Meta inst') then delete_discovery E else discover_routes E ord) ?u = (Fail e, t)"
    by (simp add: discovery_Reconcile_def attempt_def request_def bnd_def seq_def set_discovery_def prog_simps)
  then have "discovery_error_reported E ?u e t"
    by (auto split: if_splits intro: update_discovery_reported delete_discovery_reported discover_routes_reported)
  then show ?thesis by (rule discovery_error_reported_extend [rotated]) simp
qed

end
