(* ===== verification/Discovery_Routing.thy ===== *)
theory Discovery_Routing
  imports Discovery_Properties
begin

text \<open>
  The route discovery at its interfaces: the time-to-live annotation, the way of a change of a
  router's load balancer to the discoveries whose routes it serves, and the runs on which the
  properties of the discovery are exercised. Two groups of routes of the same
  host overwrite each other's record.
\<close>

section \<open>The time to live\<close>

text \<open>
  C36: the time-to-live annotation. The numeral of an integer is read as this integer when it fits into
  64 bits and is rejected with the range error of strconv otherwise; whatever text is accepted is an
  optional sign and digits, and its value fits into 64 bits. Reading the annotation changes nothing.
\<close>

theorem ttl_annotation_roundtrip:
  assumes "annotation tTLAnnotation route = Some text"
  shows "(\<forall>i. text = decimal i \<longrightarrow> route_ttl inst route s = (if - (2 ^ 63) \<le> i \<and> i < 2 ^ 63 then (Ret i, s)
       else (Fail (ErrNew (''strconv.Atoi: parsing '' @ Quote text @ '': value out of range'')), s)))
     \<and> (\<forall>i t. route_ttl inst route s = (Ret i, t) \<longrightarrow> - (2 ^ 63) \<le> i \<and> i < 2 ^ 63 \<and> t = s
       \<and> snd (split_sign text) \<noteq> [] \<and> list_all is_digit (snd (split_sign text)))"
proof (intro conjI allI impI)
  fix i assume "text = decimal i"
  with assms show "route_ttl inst route s = (if - (2 ^ 63) \<le> i \<and> i < 2 ^ 63 then (Ret i, s)
       else (Fail (ErrNew (''strconv.Atoi: parsing '' @ Quote text @ '': value out of range'')), s))"
    by (simp add: route_ttl_def Atoi_def parse_int_decimal prog_simps)
next
  fix i t assume "route_ttl inst route s = (Ret i, t)"
  with assms have "parse_int text = Inr i" and t: "t = s"
    by (auto simp: route_ttl_def Atoi_def inv_Ret prog_simps split: sum.splits)
  from parse_int_bounds [OF this(1)]
  show "- (2 ^ 63) \<le> i" "i < 2 ^ 63" "snd (split_sign text) \<noteq> []" "list_all is_digit (snd (split_sign text))" by auto
  show "t = s" by (rule t)
qed

section \<open>From a router to the discoveries\<close>

text \<open>The API answers a read with the object that was asked for.\<close>

definition answers_named :: "'w env \<Rightarrow> bool" where
  "answers_named E \<longleftrightarrow>
     (\<forall>c n w service w'. m_GetService (e_remote E) c n w = (Ret service, w') \<longrightarrow>
        svc_Name service = nn_Name n \<and> svc_Namespace service = nn_Namespace n)
   \<and> (\<forall>c n w name w'. m_GetIngressController (e_remote E) c n w = (Ret name, w') \<longrightarrow> name = nn_Name n)"

definition selects :: "'w env \<Rightarrow> Route \<Rightarrow> GlobalRouteDiscovery \<Rightarrow> bool" where
  "selects E route d = (case l_LabelSelectorAsSelector (e_labels E) (gs_RouteSelector (grd_Spec d)) of
      Ret selector \<Rightarrow> l_Matches (e_labels E) selector (om_Labels (rt_Meta route)) | _ \<Rightarrow> False)"

lemma enqueue_routes:
  "\<exists>w. for_each (\<lambda>_ route. for_each (\<lambda>_ ingress. if ri_RouterName ingress = name then enqueue E (route_name route) else ret ())
       () (rt_Ingress route)) () routes s
     = (Ret (), s\<lparr>trace := trace s @ concat (map (\<lambda>route. concat (map (\<lambda>ingress.
          if ri_RouterName ingress = name then [Remote (Enqueue (route_name route))] else []) (rt_Ingress route))) routes), world := w\<rparr>)"
  unfolding enqueue_def by (intro for_each_sends send_if)

text \<open>The events of the loop over the discoveries.\<close>

abbreviation discovery_events :: "'w env \<Rightarrow> Route \<Rightarrow> GlobalRouteDiscovery list \<Rightarrow> event list" where
  "discovery_events E route ds \<equiv>
     loop_events (\<lambda>d. K8s (SetDiscoveryVar d)) (K8s NotifyDiscovery) (\<lambda>d. if selects E route d then 1 else 0) ds"

lemma notify_matching_Ret:
  assumes "notify_matching E route ds s = (Ret (), t)"
  shows "trace t = trace s @ discovery_events E route ds"
  unfolding loop_events_def
proof (rule for_each_trace [OF assms [unfolded notify_matching_def]])
  fix d r and s t :: "(event, 'a, 'b) io"
  let ?u = "s\<lparr>trace := trace s @ [K8s (SetDiscoveryVar d)], world := k_SetDiscoveryVar (e_k8s E) d (world s)\<rparr>"
  assume "seq (set_discovery_var E d) (bnd (pure_call (l_LabelSelectorAsSelector (e_labels E) (gs_RouteSelector (grd_Spec d)))) (\<lambda>labelSelector.
     if l_Matches (e_labels E) labelSelector (om_Labels (rt_Meta route)) then notify_discovery E else ret ())) s = (Ret r, t)"
  then have "(if selects E route d then notify_discovery E else ret ()) ?u = (Ret r, t)"
    by (auto simp: inv_Ret run_simps selects_def set_discovery_var_def)
  then have "trace t = trace ?u @ (if selects E route d then [K8s NotifyDiscovery] else [])"
    using send_if [of "selects E route d" "K8s NotifyDiscovery" "k_NotifyDiscovery (e_k8s E)" ?u]
    by (auto simp: notify_discovery_def)
  then show "trace t = trace s @ K8s (SetDiscoveryVar d) # replicate (if selects E route d then 1 else 0) (K8s NotifyDiscovery)"
    by simp
qed

lemma route_manageStatus_keeps_trace:
  "route_manageStatus E err s = (Ret (), t) \<Longrightarrow> err = None \<and> trace t = trace s"
  by (cases err) (auto simp: route_manageStatus_def inv_Ret run_simps now_def)

text \<open>
  C37: a change of a router's load balancer reaches the discoveries. When the load balancer service that
  the discovery found for a route changes, the predicate of the watch lets the event pass and its
  handler puts the route into the queue of the route reconciler, given that it can read the ingress
  controller and the routes. A successful reconciliation of the route then sends one event for each
  discovery whose selector matches the route, in the order of their list, and no other; but the event carries the address
  of the loop variable, so the receiver sees the matching discovery or any discovery later in the list.
  Only a matching discovery that is the last of the list is told for certain.
\<close>

theorem router_change_reaches_discoveries:
  assumes "answers_named E" and "findIngressControllerServiceForRoute E route c s = (Ret service, s')"
    and "svc_Name changed = svc_Name service" and "svc_Namespace changed = svc_Namespace service" and "svc_Type changed = ''LoadBalancer''"
    and "lookupIngressControllerForService E changed t = (Ret (Some ingressController), t1)"
    and "findAllRoutes E t1 = (Ret routes, t2)" and "route \<in> set routes"
    and "route_Reconcile E (route_name route) u = (Ret (), v)"
    and "m_GetRoute (e_remote E) (RemoteManager_GetKey (rr_remoteManager (local u))) (route_name route) (world u) = (Ret route', w)"
    and "k_ListGlobalRouteDiscoveries (e_k8s E) w = (Ret discoveries, w')"
  shows "filter_Update old (ServiceObject changed)
     \<and> (\<exists>t'. service_Update E old (ServiceObject changed) t = (Ret (), t') \<and> Remote (Enqueue (route_name route)) \<in> set (trace t'))
     \<and> trace v = trace u @ [Remote (GetRoute (RemoteManager_GetKey (rr_remoteManager (local u))) (route_name route)),
         K8s ListGlobalRouteDiscoveries] @ loop_events (\<lambda>d. K8s (SetDiscoveryVar d)) (K8s NotifyDiscovery)
           (\<lambda>d. if selects E route' d then 1 else 0) discoveries
     \<and> discoveries_seen (drop (length (trace u)) (trace v))
         = concat (map (\<lambda>i. if selects E route' (discoveries ! i) then [set (drop i discoveries)] else []) [0..<length discoveries])"
proof -
  from findIngressControllerServiceForRoute_Ret [OF assms(2)] obtain ingress rest w0 where i: "rt_Ingress route = ingress # rest"
    and "m_GetService (e_remote E) c \<lparr>nn_Name = ''router-'' @ ri_RouterName ingress, nn_Namespace = ''openshift-ingress''\<rparr> (world s) = (Ret service, w0)" .
  with assms(1) have n: "svc_Name service = ''router-'' @ ri_RouterName ingress" "svc_Namespace service = ''openshift-ingress''"
    by (force simp: answers_named_def)+
  from assms(6) obtain k w0 where "m_GetIngressController (e_remote E) k
      \<lparr>nn_Name = trim_prefix (svc_Name changed) ''router-'', nn_Namespace = ''openshift-ingress-operator''\<rparr> (world t) = (Ret ingressController, w0)"
    by (auto simp: lookupIngressControllerForService_def attempt_def request_def bnd_def prog_simps Let_def split: outcome.splits prod.splits if_splits)
  with assms(1) have "ingressController = trim_prefix (svc_Name changed) ''router-''" by (force simp: answers_named_def)
  then have ic: "ingressController = ri_RouterName ingress" using n(1) assms(3) by (simp add: trim_prefix_def)
  obtain w1 where "findAndEnqueueRoutesForIngressController E ingressController t1 = (Ret (), t2\<lparr>trace := trace t2 @ concat (map (\<lambda>route. concat (map (\<lambda>ingress.
          if ri_RouterName ingress = ingressController then [Remote (Enqueue (route_name route))] else []) (rt_Ingress route))) routes), world := w1\<rparr>)"
    using enqueue_routes [of ingressController E routes t2] assms(7)
    by (auto simp: findAndEnqueueRoutesForIngressController_def attempt_def bnd_def)
  with assms(5,6) n assms(3,4) have "service_Update E old (ServiceObject changed) t
      = (Ret (), t2\<lparr>trace := trace t2 @ concat (map (\<lambda>route. concat (map (\<lambda>ingress.
          if ri_RouterName ingress = ingressController then [Remote (Enqueue (route_name route))] else []) (rt_Ingress route))) routes), world := w1\<rparr>)"
    by (simp add: service_Update_def enqueue_for_object_def findAndEnqueueRoutesForService_def attempt_def bnd_def)
  then have "\<exists>t'. service_Update E old (ServiceObject changed) t = (Ret (), t') \<and> Remote (Enqueue (route_name route)) \<in> set (trace t')"
    using assms(8) i ic by fastforce
  moreover have "filter_Update old (ServiceObject changed)"
    using assms(4,5) n by (simp add: filter_Update_def is_router_service_def)
  moreover from assms(9-11) have tr: "trace v = trace u @ [Remote (GetRoute (RemoteManager_GetKey (rr_remoteManager (local u))) (route_name route)),
         K8s ListGlobalRouteDiscoveries] @ discovery_events E route' discoveries"
    by (auto simp: route_Reconcile_def inv_Ret Let_def request_def dest!: notify_matching_Ret route_manageStatus_keeps_trace)
  moreover have "discoveries_seen (drop (length (trace u)) (trace v))
      = concat (map (\<lambda>i. if selects E route' (discoveries ! i) then [set (drop i discoveries)] else []) [0..<length discoveries])"
  proof -
    have "replicate (if b then 1 else 0) x = (if b then [x] else [])" for b and x :: "GlobalRouteDiscovery set" by simp
    moreover have "discoveries_seen (Remote q # K8s ListGlobalRouteDiscoveries # evs) = discoveries_seen evs" for q evs
      by (simp add: discoveries_seen_def)
    ultimately show ?thesis
      using discoveries_seen_loop [of "\<lambda>d. if selects E route' d then 1 else 0" discoveries] unfolding tr by simp
  qed
  ultimately show ?thesis by blast
qed

section \<open>Routes of the same host\<close>

text \<open>A Kubernetes API that keeps one record per namespace and name; a successful request to create or
  update a record replaces what is stored under its name and nothing else.\<close>

definition record_name :: "GlobalDNSRecord \<Rightarrow> NamespacedName" where
  "record_name r = \<lparr>nn_Name = om_Name (rec_Meta r), nn_Namespace = om_Namespace (rec_Meta r)\<rparr>"

definition record_store :: "'w env \<Rightarrow> ('w \<Rightarrow> NamespacedName \<rightharpoonup> GlobalDNSRecordSpec) \<Rightarrow> bool" where
  "record_store E stored \<longleftrightarrow> (\<forall>owner r w w'.
     k_CreateOrUpdateRecord (e_k8s E) owner (om_Namespace (rec_Meta r)) r w = (Ret (), w') \<longrightarrow>
     stored w' = (stored w)(record_name r \<mapsto> rec_Spec r))"

definition group_host :: "string \<times> RouteInfo list \<Rightarrow> string" where
  "group_host g = rt_Host (rinfo_Route (hd (snd g)))"

lemma create_records_Cons:
  assumes "record_store E stored" and "create_records E inst (g # groups) s = (Ret (), t)"
  shows "\<exists>u r. stored (world u) = (stored (world s))(\<lparr>nn_Name = group_host g, nn_Namespace = om_Namespace (grd_Meta inst)\<rparr> \<mapsto> rec_Spec r)
     \<and> record_of inst (snd g) r \<and> create_records E inst groups u = (Ret (), t)"
proof -
  let ?r = "new_record inst (hd (snd g)) (snd g)"
  have name: "record_name ?r = \<lparr>nn_Name = group_host g, nn_Namespace = om_Namespace (grd_Meta inst)\<rparr>"
    "om_Namespace (rec_Meta ?r) = om_Namespace (grd_Meta inst)"
    by (simp_all add: record_name_def new_record_def group_host_def)
  from assms(2) obtain w where w: "k_CreateOrUpdateRecord (e_k8s E) inst (om_Namespace (rec_Meta ?r)) ?r (world s) = (Ret (), w)"
    "create_records E inst groups (s\<lparr>trace := trace s @ [record_request inst ?r], world := w\<rparr>) = (Ret (), t)"
    unfolding name(2) by (cases g) (auto simp: create_records_def inv_Ret getGlobalDNSRecord_Ret)
  with assms(1) have "stored w = (stored (world s))(record_name ?r \<mapsto> rec_Spec ?r)" unfolding record_store_def by blast
  with w(2) new_record_of show ?thesis unfolding name(1)
    by (intro exI [of _ "s\<lparr>trace := trace s @ [record_request inst ?r], world := w\<rparr>"] exI [of _ ?r]) simp
qed

lemma create_records_keeps:
  assumes "record_store E stored" and "create_records E inst groups s = (Ret (), t)" and "\<forall>g \<in> set groups. group_host g \<noteq> host"
  shows "stored (world t) \<lparr>nn_Name = host, nn_Namespace = om_Namespace (grd_Meta inst)\<rparr>
     = stored (world s) \<lparr>nn_Name = host, nn_Namespace = om_Namespace (grd_Meta inst)\<rparr>"
  using assms(2,3)
proof (induction groups arbitrary: s)
  case (Cons g groups)
  from create_records_Cons [OF assms(1) Cons.prems(1)] Cons.IH Cons.prems(2) show ?case by fastforce
qed (simp add: create_records_def run_simps)

text \<open>
  C38: routes of one host overwrite one record. The record is named by the host alone, the groups by
  namespace and name. When the loop over the groups has succeeded, in whatever order it ranged over
  them, then for each group the record of the group's host is the one of the last group with this host: its time to
  live, policy and endpoints are those of the routes of that group's key, so the endpoints
  of every other group with the same host, consistent as it is, are not in it.
\<close>

theorem same_host_records_overwrite:
  assumes "record_store E stored" and "mset groups = mset (group_routes E infos)"
    and "create_records E inst groups s = (Ret (), t)" and "g \<in> set groups"
  shows "\<exists>earlier last later spec. groups = earlier @ last # later \<and> group_host last = group_host g
     \<and> (\<forall>g' \<in> set later. group_host g' \<noteq> group_host g)
     \<and> stored (world t) \<lparr>nn_Name = group_host g, nn_Namespace = om_Namespace (grd_Meta inst)\<rparr> = Some spec
     \<and> rs_TTL spec = rinfo_TTL (hd (snd last)) \<and> rs_LoadBalancingPolicy spec = rinfo_LoadBalancigPolicy (hd (snd last))
     \<and> list_all2 endpoint_of (filter (\<lambda>i. route_key E i = fst last) infos) (rs_Endpoints spec)"
proof -
  from assms(4) have "\<exists>x \<in> set groups. group_host x = group_host g" by blast
  from split_list_last_prop [OF this] obtain earlier last later where l: "groups = earlier @ last # later"
    "group_host last = group_host g" "\<forall>x \<in> set later. group_host x \<noteq> group_host g" by auto
  from assms(3) obtain u where "create_records E inst (last # later) u = (Ret (), t)"
    by (auto simp: l(1) create_records_def for_each_append bnd_eq_Ret)
  from create_records_Cons [OF assms(1) this] obtain v r where
    v: "stored (world v) = (stored (world u))(\<lparr>nn_Name = group_host g, nn_Namespace = om_Namespace (grd_Meta inst)\<rparr> \<mapsto> rec_Spec r)"
      "record_of inst (snd last) r" "create_records E inst later v = (Ret (), t)" unfolding l(2) by blast
  have "stored (world t) \<lparr>nn_Name = group_host g, nn_Namespace = om_Namespace (grd_Meta inst)\<rparr> = Some (rec_Spec r)"
    using create_records_keeps [OF assms(1) v(3) l(3)] v(1) by simp
  moreover from group_routes_grouped [OF assms(2)] have "snd last = filter (\<lambda>i. route_key E i = fst last) infos"
    unfolding grouped_def l(1) by (cases last) auto
  ultimately show ?thesis using l v(2)
    by (intro exI [of _ earlier] exI [of _ last] exI [of _ later] exI [of _ "rec_Spec r"]) (simp add: record_of_def)
qed

section \<open>Samples\<close>

definition sample_route :: "string \<Rightarrow> string \<Rightarrow> Route" where
  "sample_route namespace ttl = \<lparr>rt_Meta = \<lparr>om_Name = ''app'', om_Namespace = namespace, om_Labels = None,
       om_Annotations = Some (Mapping.of_alist [(tTLAnnotation, ttl)]), om_Finalizers = [], om_DeletionTimestamp = None, om_ResourceVersion = []\<rparr>,
     rt_Host = ''app.example.com'', rt_TLS = True, rt_To_Name = ''app'', rt_Ingress = [\<lparr>ri_RouterName = ''default''\<rparr>]\<rparr>"

definition sample_discovery :: GlobalRouteDiscovery where
  "sample_discovery = \<lparr>grd_Meta = \<lparr>om_Name = ''disc'', om_Namespace = ''ns'', om_Labels = None, om_Annotations = None,
       om_Finalizers = [discovery_controllerName], om_DeletionTimestamp = None, om_ResourceVersion = []\<rparr>,
     grd_Spec = \<lparr>gs_Clusters = [\<lparr>cr_ClusterName = ''c1'', cr_CredentialsSecretRef = sample_name ''s1''\<rparr>], gs_RouteSelector = ''global'',
       gs_DefaultLoadBalancingPolicy = ''Multivalue'', gs_DefaultTTL = 60, gs_GlobalZoneRef = ''zone''\<rparr>,
     grd_Status = \<lparr>gst_Conditions = [], gst_ClusterReferenceStatuses = Map.empty\<rparr>\<rparr>"

definition discovery_state :: "Route list \<Rightarrow> (event, sample_world, discovery_locals) io" where
  "discovery_state routes = \<lparr>trace = [], world = empty_world\<lparr>sw_discovery := Some sample_discovery, sw_routes := routes\<rparr>,
     local = \<lparr>dl_instance = sample_discovery, dl_remoteManagersMap = discovery_setup\<rparr>\<rparr>"

definition same_host :: "Route list" where
  "same_host = [sample_route ''one'' ''30'', sample_route ''two'' ''90'']"

lemma sample_ttls: "Atoi ''30'' = Inr 30" "Atoi ''90'' = Inr 90"
  by code_simp+

lemmas discovery_steps = discovery_Reconcile_def discover_routes_def or_ManageError_def discovery_ensureRemoteManagers_def
  needed_clusters_def needed_cluster_def sync_managers_def deferred_def stop_manager_def add_manager_def discovery_createRemoteManager_def
  discovery_getRestConfig_def getRestConfig_def NewRemoteManager_def newRouteReconciler_def watch_kind_def manager_Start_def
  cluster_clients_def qualifying_routes_def findQualifyingRoutes_def route_info_def findProbeForRoute_def probe_container_def
  findIngressControllerServiceForRoute_def route_ttl_def route_policy_def annotation_def group_routes_def create_records_def
  getGlobalDNSRecord_def new_record_def inconsistency_def discovery_ManageSuccess_def write_discovery_status_def upd_discovery_status_def
  set_discovery_def getClusterReferenceStatuses_def report_manager_def discovery_IsInitialized_def ClusterReference_GetKey_def
  index_def now_def GetStatus_def RemoteManager_GetKey_def record_event_def map_lookup_def
  Let_def bnd_def seq_def attempt_def request_def pure_call_def prog_simps ret_def

lemmas strset_steps = sample_strset_def New_def NewWithSize_def Add_def Difference_def Separate_def Copy_def List_items_def
  map_put_def map_delete_def

lemmas sample_discovery_defs = sample_E_simps sample_ttls discovery_state_def discovery_setup_def sample_discovery_def sample_route_def
  same_host_def sample_k8s_def sample_util_def sample_remote_def sample_labels_def sample_service_def empty_world_def sample_name_def
  not_found_def store_record_def Mapping.lookup_of_alist
  discovery_controllerName_def tTLAnnotation_def healthCheckAnnotation_def loadBalancingPolicyAnnotation_def containerProbeAnnotation_def

section \<open>Witnesses\<close>

lemma sample_discovery_run:
  "\<exists>t. discovery_Reconcile sample_E (\<lambda>m. m) (sample_name ''disc'') (discovery_state same_host) = (Ret (), t)
     \<and> map fst (dl_remoteManagersMap (local t)) = [''ns/s1'']"
  by (simp add: discovery_steps strset_steps sample_discovery_defs)

theorem discovery_managers_never_leaked_witness:
  "\<exists>t. discovery_Reconcile sample_E (\<lambda>m. m) (sample_name ''disc'') (discovery_state same_host) = (Ret (), t)
     \<and> map fst (dl_remoteManagersMap (local t)) = [''ns/s1''] \<and> balanced (trace t) (dl_remoteManagersMap (local t))"
proof -
  obtain t where t: "discovery_Reconcile sample_E (\<lambda>m. m) (sample_name ''disc'') (discovery_state same_host) = (Ret (), t)"
    "map fst (dl_remoteManagersMap (local t)) = [''ns/s1'']" using sample_discovery_run by (elim exE conjE)
  have "discovery_system sample_E (discovery_state same_host)" unfolding discovery_state_def by (rule discovery_system.start)
  from discovery_managers_never_leaked [OF sample_strset_ok discovery_system.reconcile [OF this t(1)]] t show ?thesis by (intro exI conjI)
qed

theorem discovery_records_published_witness:
  "\<exists>t clients infos groups records evs pre. discovery_Reconcile sample_E (\<lambda>m. m) (sample_name ''disc'') (discovery_state same_host) = (Ret (), t)
     \<and> routes_found sample_E evs sample_discovery clients (gs_Clusters (grd_Spec sample_discovery)) infos \<and> grouped sample_E infos groups
     \<and> list_all2 (\<lambda>(k, g). record_of sample_discovery g) groups records
     \<and> prefix (evs @ map (record_request sample_discovery) records @ pre) (trace t)"
proof -
  obtain t where t: "discovery_Reconcile sample_E (\<lambda>m. m) (sample_name ''disc'') (discovery_state same_host) = (Ret (), t)"
    using sample_discovery_run by (elim exE conjE)
  have "k_GetGlobalRouteDiscovery (e_k8s sample_E) (sample_name ''disc'') (world (discovery_state same_host))
      = (Ret sample_discovery, world (discovery_state same_host))"
    by (simp add: sample_E_simps sample_k8s_def discovery_state_def)
  moreover have "u_HasFinalizer (e_util sample_E) (grd_Meta sample_discovery) discovery_controllerName"
    "\<not> u_IsBeingDeleted (e_util sample_E) (grd_Meta sample_discovery)"
    by (simp_all add: sample_E_simps sample_util_def sample_discovery_def)
  ultimately obtain clients infos groups records evs pre x where
    "routes_found sample_E evs sample_discovery clients (gs_Clusters (grd_Spec sample_discovery)) infos" "grouped sample_E infos groups"
    "list_all2 (\<lambda>(k, g). record_of sample_discovery g) groups records"
    "trace t = trace (discovery_state same_host) @ evs @ map (record_request sample_discovery) records @ pre @ [K8s (UpdateGlobalRouteDiscoveryStatus x)]"
    using discovery_records_published [OF t] by blast
  moreover from this(4) have "prefix (evs @ map (record_request sample_discovery) records @ pre) (trace t)"
    by (simp add: discovery_state_def prefix_def)
  ultimately show ?thesis using t by (intro exI conjI)
qed

text \<open>The groups of two routes of one host, which the loop may visit in either order.\<close>

definition route_infos :: "RouteInfo list" where
  "route_infos = map (\<lambda>(route, ttl). \<lparr>rinfo_Route = route, rinfo_Service = sample_service, rinfo_ReadinessCheck = None,
     rinfo_LoadBalancigPolicy = ''Multivalue'', rinfo_ClusterReference = hd (gs_Clusters (grd_Spec sample_discovery)), rinfo_TTL = ttl\<rparr>)
     [(sample_route ''one'' ''30'', 30), (sample_route ''two'' ''90'', 90)]"

definition sample_stored :: "sample_world \<Rightarrow> NamespacedName \<rightharpoonup> GlobalDNSRecordSpec" where
  "sample_stored w n = map_option rec_Spec (List.find (\<lambda>r. record_name r = n) (sw_records w))"

lemma sample_record_store: "record_store sample_E sample_stored"
proof -
  have "List.find (\<lambda>x. record_name x = n) (store_record r rs)
      = (if record_name r = n then Some r else List.find (\<lambda>x. record_name x = n) rs)" for n r rs
    unfolding store_record_def by (induction rs) (auto simp: record_name_def)
  then show ?thesis by (auto simp: record_store_def sample_stored_def sample_E_simps sample_k8s_def fun_eq_iff)
qed

lemma route_groups:
  "\<exists>g h. group_routes sample_E route_infos = [g, h] \<and> group_host g = ''app.example.com'' \<and> group_host h = ''app.example.com''
     \<and> rinfo_TTL (hd (snd g)) = 30 \<and> rinfo_TTL (hd (snd h)) = 90
     \<and> (\<exists>t. create_records sample_E sample_discovery [g, h] (discovery_state []) = (Ret (), t))
     \<and> (\<exists>t. create_records sample_E sample_discovery [h, g] (discovery_state []) = (Ret (), t))"
  by (simp add: new_record_def route_infos_def group_routes_def group_host_def create_records_def getGlobalDNSRecord_def inconsistency_def
      Let_def bnd_def request_def prog_simps ret_def sample_discovery_defs)

theorem same_host_records_overwrite_witness:
  "\<exists>g h t t'. group_routes sample_E route_infos = [g, h]
     \<and> create_records sample_E sample_discovery [g, h] (discovery_state []) = (Ret (), t)
     \<and> create_records sample_E sample_discovery [h, g] (discovery_state []) = (Ret (), t')
     \<and> map_option rs_TTL (sample_stored (world t) (sample_name ''app.example.com'')) = Some 90
     \<and> map_option rs_TTL (sample_stored (world t') (sample_name ''app.example.com'')) = Some 30"
proof -
  obtain g h t t' where g: "group_routes sample_E route_infos = [g, h]" "group_host g = ''app.example.com''" "group_host h = ''app.example.com''"
    "rinfo_TTL (hd (snd g)) = 30" "rinfo_TTL (hd (snd h)) = 90"
    and t: "create_records sample_E sample_discovery [g, h] (discovery_state []) = (Ret (), t)"
    and t': "create_records sample_E sample_discovery [h, g] (discovery_state []) = (Ret (), t')"
    using route_groups by auto
  have ns: "om_Namespace (grd_Meta sample_discovery) = ''ns''" by (simp add: sample_discovery_def)
  have m: "mset [g, h] = mset (group_routes sample_E route_infos)" "mset [h, g] = mset (group_routes sample_E route_infos)"
    unfolding g(1) by simp_all
  have "map_option rs_TTL (sample_stored (world t) (sample_name ''app.example.com'')) = Some 90"
    using same_host_records_overwrite [OF sample_record_store m(1) t, of g] g(2-5)
    by (auto simp: sample_name_def ns append_eq_Cons_conv Cons_eq_append_conv)
  moreover have "map_option rs_TTL (sample_stored (world t') (sample_name ''app.example.com'')) = Some 30"
    using same_host_records_overwrite [OF sample_record_store m(2) t', of g] g(2-5)
    by (auto simp: sample_name_def ns append_eq_Cons_conv Cons_eq_append_conv)
  ultimately show ?thesis using g(1) t t' by blast
qed

definition bad_ttl :: "Route list" where
  "bad_ttl = [sample_route ''one'' ''soon'']"

definition bad_ttl_error :: error where
  "bad_ttl_error = ErrNew (''strconv.Atoi: parsing '' @ Quote ''soon'' @ '': invalid syntax'')"

lemma sample_bad_ttl: "Atoi ''soon'' = Inl bad_ttl_error"
  by code_simp

lemma sample_bad_ttl_run:
  "\<exists>t. discovery_Reconcile sample_E (\<lambda>m. m) (sample_name ''disc'') (discovery_state bad_ttl) = (Fail bad_ttl_error, t)"
  by (simp add: discovery_steps discovery_ManageError_def strset_steps sample_discovery_defs bad_ttl_def sample_bad_ttl)

theorem discovery_reconcile_error_reported_witness:
  "\<exists>t. discovery_Reconcile sample_E (\<lambda>m. m) (sample_name ''disc'') (discovery_state bad_ttl) = (Fail bad_ttl_error, t)
     \<and> discovery_error_reported sample_E (discovery_state bad_ttl) bad_ttl_error t"
proof -
  obtain t where t: "discovery_Reconcile sample_E (\<lambda>m. m) (sample_name ''disc'') (discovery_state bad_ttl) = (Fail bad_ttl_error, t)"
    using sample_bad_ttl_run by (elim exE)
  have "k_GetGlobalRouteDiscovery (e_k8s sample_E) (sample_name ''disc'') (world (discovery_state bad_ttl))
      = (Ret sample_discovery, world (discovery_state bad_ttl))"
    by (simp add: sample_E_simps sample_k8s_def discovery_state_def)
  from discovery_reconcile_error_reported [OF t this] t show ?thesis by (intro exI conjI)
qed

theorem ttl_annotation_roundtrip_witness:
  "route_ttl sample_discovery (sample_route ''two'' (decimal 90)) (discovery_state []) = (Ret 90, discovery_state [])"
proof -
  have "annotation tTLAnnotation (sample_route ''two'' (decimal 90)) = Some (decimal 90)"
    by (simp add: annotation_def sample_route_def Mapping.lookup_of_alist)
  from ttl_annotation_roundtrip [OF this, THEN conjunct1, rule_format, OF refl, of sample_discovery "discovery_state []"] show ?thesis by simp
qed

text \<open>Two discoveries, of which the first selects the route and the second does not.\<close>

definition other_discovery :: GlobalRouteDiscovery where
  "other_discovery = sample_discovery\<lparr>grd_Spec := (grd_Spec sample_discovery)\<lparr>gs_RouteSelector := ''none''\<rparr>\<rparr>"

definition route_state :: "(event, sample_world, RouteReconciler) io" where
  "route_state = \<lparr>trace = [], world = empty_world\<lparr>sw_discovery := Some sample_discovery, sw_routes := same_host\<rparr>,
     local = \<lparr>rr_remoteManager = \<lparr>rm_status = [], rm_key = ''c1@ns/s1''\<rparr>\<rparr>\<rparr>"

definition router_service :: Service where
  "router_service = sample_service\<lparr>svc_Name := ''router-default'', svc_Namespace := ''openshift-ingress''\<rparr>"

lemmas route_steps = findIngressControllerServiceForRoute_def lookupIngressControllerForService_def findAllRoutes_def
  route_Reconcile_def notify_matching_def set_discovery_var_def notify_discovery_def route_manageStatus_def trim_prefix_def route_state_def router_service_def route_name_def

definition two_E :: "sample_world env" where
  "two_E = sample_E\<lparr>e_k8s := sample_k8s\<lparr>k_ListGlobalRouteDiscoveries := \<lambda>w. (Ret [sample_discovery, other_discovery], w)\<rparr>,
     e_labels := sample_labels\<lparr>l_Matches := \<lambda>selector _. selector = ''global''\<rparr>\<rparr>"

lemma two_E_simps:
  "e_remote two_E = sample_remote" "e_util two_E = sample_util" "e_now two_E w = 0"
  "k_ListGlobalRouteDiscoveries (e_k8s two_E) w = (Ret [sample_discovery, other_discovery], w)"
  "k_SetDiscoveryVar (e_k8s two_E) d w = w" "k_NotifyDiscovery (e_k8s two_E) w = w"
  "l_LabelSelectorAsSelector (e_labels two_E) l = Ret l" "l_Matches (e_labels two_E) l m \<longleftrightarrow> l = ''global''"
  by (simp_all add: two_E_def sample_env_def sample_labels_def sample_k8s_def)

lemmas two_defs = two_E_simps other_discovery_def sample_discovery_defs

theorem router_change_reaches_discoveries_witness:
  "\<exists>t v. service_Update two_E (OtherObject []) (ServiceObject router_service) route_state = (Ret (), t)
     \<and> Remote (Enqueue \<lparr>nn_Name = ''app'', nn_Namespace = ''one''\<rparr>) \<in> set (trace t)
     \<and> route_Reconcile two_E \<lparr>nn_Name = ''app'', nn_Namespace = ''one''\<rparr> route_state = (Ret (), v)
     \<and> discoveries_seen (trace v) = [{sample_discovery, other_discovery}]"
proof -
  let ?route = "sample_route ''one'' ''30''" and ?name = "\<lparr>nn_Name = ''app'', nn_Namespace = ''one''\<rparr>"
  have named: "answers_named two_E" by (auto simp: answers_named_def two_E_simps sample_remote_def)
  have found: "\<exists>s. findIngressControllerServiceForRoute two_E ?route ''c'' route_state = (Ret router_service, s)"
    by (simp add: route_steps discovery_steps two_defs)
  have lookup: "\<exists>u. lookupIngressControllerForService two_E router_service route_state = (Ret (Some ''default''), u) \<and> world u = world route_state"
    by (simp add: route_steps discovery_steps two_defs)
  have all: "\<exists>t. findAllRoutes two_E u = (Ret same_host, t)" if "world u = world route_state" for u
    using that by (simp add: route_steps discovery_steps two_defs)
  have run: "\<exists>v. route_Reconcile two_E ?name route_state = (Ret (), v)"
    by (simp add: route_steps discovery_steps two_defs)
  have get: "m_GetRoute (e_remote two_E) k ?name (world route_state) = (Ret ?route, world route_state)" for k
    by (simp add: route_state_def two_E_simps sample_remote_def same_host_def sample_route_def)
  have ds: "k_ListGlobalRouteDiscoveries (e_k8s two_E) (world route_state) = (Ret [sample_discovery, other_discovery], world route_state)"
    by (simp add: two_E_simps)
  have sel: "selects two_E ?route sample_discovery" "\<not> selects two_E ?route other_discovery"
    by (simp_all add: selects_def two_E_simps other_discovery_def sample_discovery_def)
  have name: "route_name ?route = ?name" by (simp add: route_name_def sample_route_def)
  have mem: "?route \<in> set same_host" by (simp add: same_host_def)
  have ty: "svc_Type router_service = ''LoadBalancer''" by (simp add: router_service_def sample_service_def)
  from found lookup all run obtain s u t v where *: "findIngressControllerServiceForRoute two_E ?route ''c'' route_state = (Ret router_service, s)"
    "lookupIngressControllerForService two_E router_service route_state = (Ret (Some ''default''), u)"
    "findAllRoutes two_E u = (Ret same_host, t)" "route_Reconcile two_E ?name route_state = (Ret (), v)" by blast
  have "trace route_state = []" by (simp add: route_state_def)
  with router_change_reaches_discoveries [OF named *(1) refl refl ty *(2,3) mem *(4) [folded name] get [folded name] ds, of "OtherObject []",
      THEN conjunct2, THEN conjunct2, THEN conjunct2] sel
  have "discoveries_seen (trace v) = [{sample_discovery, other_discovery}]" by (simp add: upt_rec)
  moreover from router_change_reaches_discoveries [OF named *(1) refl refl ty *(2,3) mem *(4) [folded name] get [folded name] ds, of "OtherObject []",
      THEN conjunct2, THEN conjunct1]
  have "\<exists>t'. service_Update two_E (OtherObject []) (ServiceObject router_service) route_state = (Ret (), t') \<and> Remote (Enqueue ?name) \<in> set (trace t')"
    by (simp add: name)
  ultimately show ?thesis using *(4) by blast
qed

end
