(* ===== verification/Program_Start.thy ===== *)
theory Program_Start
  imports Record_Controller Route_Discovery
begin

text \<open>
  main.go and the SetupWithManager functions of the three controllers: the scheme is filled, a manager
  is created from the flags, the controllers and the two checks are registered with it and it is
  started; the first error ends the process. The controller runtime is a parameter, and so is the
  outcome of parsing the flags, which a third-party package extends.
\<close>

section \<open>The controller runtime\<close>

record flag_values =
  fl_metricsAddr :: string
  fl_probeAddr :: string
  fl_enableLeaderElection :: bool

definition default_flags :: flag_values where
  "default_flags = \<lparr>fl_metricsAddr = '':8080'', fl_probeAddr = '':8081'', fl_enableLeaderElection = False\<rparr>"

record manager_options =
  mo_MetricsBindAddress :: string
  mo_Port :: int
  mo_HealthProbeBindAddress :: string
  mo_LeaderElection :: bool
  mo_LeaderElectionID :: string
  mo_LeaderElectionResourceLock :: string

text \<open>The packages whose types are added to the scheme, and what a controller is told of.\<close>

datatype scheme_package = ClientGo | RedhatCop | CloudCredential | OpenShiftRoute | OpenShiftOperator | ExternalDNS

datatype predicate = NoPredicate | GenerationOrFinalizerChanged | GenerationChanged

datatype watch = WatchFor string predicate | WatchOwns string predicate | WatchChannel

datatype start_event =
    AddToScheme scheme_package
  | GetConfig
  | NewManager manager_options
  | IsAPIResourceAvailable string string string
  | CompleteController "watch list"
  | AddHealthzCheck string
  | AddReadyzCheck string
  | StartManager

record 'w start_api =
  st_AddToScheme :: "scheme_package \<Rightarrow> ('w, unit) answer"
  st_GetConfig :: "('w, unit) answer"
  st_NewManager :: "manager_options \<Rightarrow> ('w, unit) answer"
  st_IsAPIResourceAvailable :: "string \<Rightarrow> string \<Rightarrow> string \<Rightarrow> ('w, bool) answer"
  st_Complete :: "watch list \<Rightarrow> ('w, unit) answer"
  st_AddHealthzCheck :: "string \<Rightarrow> ('w, unit) answer"
  st_AddReadyzCheck :: "string \<Rightarrow> ('w, unit) answer"
  st_Start :: "('w, unit) answer"

text \<open>What the process keeps: the managers of the two controllers that have some, once they are set up.\<close>

record program_locals =
  pl_record_managers :: "manager_map option"
  pl_discovery_managers :: "manager_map option"

type_synonym ('w, 'a) start_op = "(start_event, 'w, program_locals, 'a) prog"

section \<open>Setting up the controllers\<close>

definition complete :: "'w start_api \<Rightarrow> watch list \<Rightarrow> ('w, unit) start_op" where
  "complete S watches = request (CompleteController watches) (st_Complete S watches)"

text \<open>An error of the lookup of the resource counts as not available.\<close>

definition dns_endpoint_available :: "'w start_api \<Rightarrow> ('w, bool) start_op" where
  "dns_endpoint_available S =
     bnd (attempt (request (IsAPIResourceAvailable ''externaldns.k8s.io'' ''v1alpha1'' ''DNSEndpoint'')
            (st_IsAPIResourceAvailable S ''externaldns.k8s.io'' ''v1alpha1'' ''DNSEndpoint''))) (\<lambda>r.
     ret (case r of Inl err \<Rightarrow> False | Inr ok \<Rightarrow> ok))"

definition record_SetupWithManager :: "'w start_api \<Rightarrow> ('w, unit) start_op" where
  "record_SetupWithManager S =
     seq (upd_local (\<lambda>l. l\<lparr>pl_record_managers := Some record_setup\<rparr>))
    (bnd (dns_endpoint_available S) (\<lambda>ok.
     complete S ([WatchFor ''GlobalDNSRecord'' GenerationOrFinalizerChanged, WatchChannel]
       @ (if ok then [WatchOwns ''DNSEndpoint'' NoPredicate] else []))))"

definition discovery_SetupWithManager :: "'w start_api \<Rightarrow> ('w, unit) start_op" where
  "discovery_SetupWithManager S =
     seq (upd_local (\<lambda>l. l\<lparr>pl_discovery_managers := Some discovery_setup\<rparr>))
         (complete S [WatchFor ''GlobalRouteDiscovery'' GenerationOrFinalizerChanged,
            WatchOwns ''GlobalDNSRecord'' GenerationChanged, WatchChannel])"

definition zone_SetupWithManager :: "'w start_api \<Rightarrow> ('w, unit) start_op" where
  "zone_SetupWithManager S = complete S [WatchFor ''GlobalDNSZone'' GenerationOrFinalizerChanged]"

section \<open>The program\<close>

definition must_AddToScheme :: "'w start_api \<Rightarrow> scheme_package \<Rightarrow> ('w, unit) start_op" where
  "must_AddToScheme S p =
     bnd (attempt (request (AddToScheme p) (st_AddToScheme S p))) (\<lambda>r.
     case r of Inl err \<Rightarrow> crash (PanicWith err) | Inr _ \<Rightarrow> ret ())"

definition main_init :: "'w start_api \<Rightarrow> ('w, unit) start_op" where
  "main_init S = for_each (\<lambda>_. must_AddToScheme S) ()
     [ClientGo, RedhatCop, CloudCredential, OpenShiftRoute, OpenShiftOperator, ExternalDNS]"

definition options_of :: "flag_values \<Rightarrow> manager_options" where
  "options_of flags = \<lparr>mo_MetricsBindAddress = fl_metricsAddr flags, mo_Port = 9443,
     mo_HealthProbeBindAddress = fl_probeAddr flags, mo_LeaderElection = fl_enableLeaderElection flags,
     mo_LeaderElectionID = ''dbc5c72c.redhat.io'', mo_LeaderElectionResourceLock = ''configmaps''\<rparr>"

text \<open>A step whose error ends the process with exit status 1; the program returns its exit status.\<close>

definition or_exit :: "('w, unit) start_op \<Rightarrow> ('w, int) start_op \<Rightarrow> ('w, int) start_op" where
  "or_exit m k = bnd (attempt m) (\<lambda>r. case r of Inl err \<Rightarrow> ret 1 | Inr _ \<Rightarrow> k)"

definition main :: "'w start_api \<Rightarrow> flag_values \<Rightarrow> ('w, int) start_op" where
  "main S flags =
     or_exit (request GetConfig (st_GetConfig S))
    (or_exit (request (NewManager (options_of flags)) (st_NewManager S (options_of flags)))
    (or_exit (record_SetupWithManager S)
    (or_exit (discovery_SetupWithManager S)
    (or_exit (zone_SetupWithManager S)
    (or_exit (request (AddHealthzCheck ''health'') (st_AddHealthzCheck S ''health''))
    (or_exit (request (AddReadyzCheck ''check'') (st_AddReadyzCheck S ''check''))
    (or_exit (request StartManager (st_Start S))
    (ret 0))))))))"

section \<open>The order of the start\<close>

text \<open>The requests of a complete start, with or without the watch for DNSEndpoint.\<close>

definition start_script :: "flag_values \<Rightarrow> bool \<Rightarrow> start_event list" where
  "start_script flags ok =
     [GetConfig, NewManager (options_of flags), IsAPIResourceAvailable ''externaldns.k8s.io'' ''v1alpha1'' ''DNSEndpoint'',
      CompleteController ([WatchFor ''GlobalDNSRecord'' GenerationOrFinalizerChanged, WatchChannel]
        @ (if ok then [WatchOwns ''DNSEndpoint'' NoPredicate] else [])),
      CompleteController [WatchFor ''GlobalRouteDiscovery'' GenerationOrFinalizerChanged,
        WatchOwns ''GlobalDNSRecord'' GenerationChanged, WatchChannel],
      CompleteController [WatchFor ''GlobalDNSZone'' GenerationOrFinalizerChanged],
      AddHealthzCheck ''health'', AddReadyzCheck ''check'', StartManager]"

text \<open>A run along a script sends an initial part of it, and the exit status is 0 only after the whole script.\<close>

definition follows :: "start_event list \<Rightarrow> (start_event, 'w, program_locals) io \<Rightarrow> int outcome \<times> (start_event, 'w, program_locals) io \<Rightarrow> bool" where
  "follows script s p \<longleftrightarrow> (\<exists>n. trace (snd p) = trace s @ take n script \<and> (fst p = Ret 0 \<longrightarrow> n = length script))
     \<and> fst p \<in> {Ret 0, Ret 1} \<union> range Panic"

text \<open>A program that follows one of the two scripts, according to what is available.\<close>

definition along :: "(bool \<Rightarrow> start_event list) \<Rightarrow> ('w, int) start_op \<Rightarrow> bool" where
  "along script k \<longleftrightarrow> (\<forall>s. \<exists>ok. follows (script ok) s (k s))"

lemma follows_step:
  assumes "m s = (r, t)" and "trace t = trace s @ take n es" and "r = Ret () \<Longrightarrow> length es \<le> n \<and> follows script t (k t)"
  shows "follows (es @ script) s (or_exit m k s)"
proof (cases r)
  case (Ret a)
  with assms(3) obtain i where n: "length es \<le> n" and k: "trace (snd (k t)) = trace t @ take i script"
    "fst (k t) = Ret 0 \<longrightarrow> i = length script" "fst (k t) \<in> {Ret 0, Ret 1} \<union> range Panic" by (auto simp: follows_def)
  with assms(2) have "trace (snd (k t)) = trace s @ take (length es + i) (es @ script)" by simp
  with k(2,3) Ret assms(1) show ?thesis
    by (auto simp: or_exit_def attempt_def bnd_def follows_def intro: exI [of _ "length es + i"])
next
  case (Fail e)
  have "trace t = trace s @ take (min n (length es)) (es @ script)" using assms(2) by (simp add: min_def)
  with Fail assms(1) show ?thesis unfolding follows_def by (intro conjI exI [of _ "min n (length es)"]) (simp_all add: or_exit_def attempt_def bnd_def prog_simps)
next
  case (Panic p)
  have "trace t = trace s @ take (min n (length es)) (es @ script)" using assms(2) by (simp add: min_def)
  with Panic assms(1) show ?thesis unfolding follows_def by (intro conjI exI [of _ "min n (length es)"]) (simp_all add: or_exit_def attempt_def bnd_def)
qed

lemma along_end: "along (\<lambda>_. []) (ret 0)"
  by (simp add: along_def follows_def prog_simps)

lemma along_request:
  assumes "along script k"
  shows "along (\<lambda>ok. ev # script ok) (or_exit (request ev f) k)" "along (\<lambda>ok. ev # script ok) (or_exit (seq (upd_local g) (request ev f)) k)"
proof -
  have "\<exists>ok. follows ([ev] @ script ok) s (or_exit m k s)" if "m s = (r, t)" and "trace t = trace s @ [ev]" for m s r t
  proof -
    from assms obtain ok where "follows (script ok) t (k t)" by (auto simp: along_def)
    with that show ?thesis by (intro exI [of _ ok] follows_step [of m s r t 1]) auto
  qed
  note step = this [simplified]
  show "along (\<lambda>ok. ev # script ok) (or_exit (request ev f) k)"
    unfolding along_def using step [OF prod.collapse [symmetric]] by (simp add: request_def split: prod.splits)
  show "along (\<lambda>ok. ev # script ok) (or_exit (seq (upd_local g) (request ev f)) k)"
    unfolding along_def using step [OF prod.collapse [symmetric]] by (simp add: request_def seq_def bnd_def prog_simps split: prod.splits outcome.splits)
qed

lemma along_record_setup:
  assumes "along (\<lambda>_. script) k"
  shows "along (\<lambda>ok. IsAPIResourceAvailable ''externaldns.k8s.io'' ''v1alpha1'' ''DNSEndpoint'' #
      CompleteController ([WatchFor ''GlobalDNSRecord'' GenerationOrFinalizerChanged, WatchChannel]
        @ (if ok then [WatchOwns ''DNSEndpoint'' NoPredicate] else [])) # script) (or_exit (record_SetupWithManager S) k)"
  unfolding along_def
proof
  fix s :: "(start_event, 'a, program_locals) io"
  obtain r w where a: "st_IsAPIResourceAvailable S ''externaldns.k8s.io'' ''v1alpha1'' ''DNSEndpoint'' (world s) = (r, w)" by fastforce
  let ?ok = "r = Ret True"
  let ?es = "[IsAPIResourceAvailable ''externaldns.k8s.io'' ''v1alpha1'' ''DNSEndpoint'',
      CompleteController ([WatchFor ''GlobalDNSRecord'' GenerationOrFinalizerChanged, WatchChannel]
        @ (if ?ok then [WatchOwns ''DNSEndpoint'' NoPredicate] else []))]"
  obtain r' t where m: "record_SetupWithManager S s = (r', t)" by fastforce
  have "trace t = trace s @ take (if \<exists>p. r = Panic p then 1 else 2) ?es \<and> (r' = Ret () \<longrightarrow> \<not> (\<exists>p. r = Panic p))"
    using m a by (cases r) (auto simp: record_SetupWithManager_def dns_endpoint_available_def complete_def request_def attempt_def
        seq_def bnd_def prog_simps split: prod.splits)
  with assms have "follows (?es @ script) s (or_exit (record_SetupWithManager S) k s)"
    by (intro follows_step [of "record_SetupWithManager S", OF m]) (auto simp: along_def)
  then show "\<exists>ok. follows (IsAPIResourceAvailable ''externaldns.k8s.io'' ''v1alpha1'' ''DNSEndpoint'' #
      CompleteController ([WatchFor ''GlobalDNSRecord'' GenerationOrFinalizerChanged, WatchChannel]
        @ (if ok then [WatchOwns ''DNSEndpoint'' NoPredicate] else [])) # script) s (or_exit (record_SetupWithManager S) k s)"
    by (intro exI [of _ ?ok]) simp
qed

lemma main_follows_script: "along (start_script flags) (main S flags)"
  unfolding main_def start_script_def discovery_SetupWithManager_def zone_SetupWithManager_def complete_def
  by (intro along_request along_record_setup along_end)

text \<open>In particular the manager is started only after all three controllers and both checks have been registered.\<close>

lemma main_starts_last:
  assumes "main S flags s = (r, t)" and "StartManager \<in> set (drop (length (trace s)) (trace t))"
  shows "\<exists>ok. trace t = trace s @ start_script flags ok"
proof -
  from main_follows_script [of flags S] assms(1) obtain ok n where n: "trace t = trace s @ take n (start_script flags ok)"
    by (auto simp: along_def follows_def) (metis fst_conv snd_conv)
  have "start_script flags ok = butlast (start_script flags ok) @ [StartManager]" "StartManager \<notin> set (butlast (start_script flags ok))"
    "length (start_script flags ok) = 9" by (simp_all add: start_script_def)
  moreover from this(1,3) have "take n (start_script flags ok) = take n (butlast (start_script flags ok))" if "n < 9"
    using that by (metis butlast_take length_butlast less_imp_le_nat nat_less_le take_butlast)
  ultimately have "9 \<le> n" using assms(2) n by (metis append_eq_conv_conj in_set_takeD not_le)
  with n show ?thesis using \<open>length (start_script flags ok) = 9\<close> by auto
qed

end
