(* ===== verification/Reference_String.thy ===== *)
theory Reference_String
  imports Rule_Reference_Set Go_Strconv
begin

text \<open>
  The String method of the rule reference set: the items in the order in which the runtime ranges
  over the map, each formatted as \<open>fmt\<close> formats a struct with the verb \<open>%v\<close>.
\<close>

definition format_bool :: "bool \<Rightarrow> string" where
  "format_bool b = (if b then ''true'' else ''false'')"

text \<open>\<open>strings.Join\<close>.\<close>

fun strings_Join :: "string list \<Rightarrow> string \<Rightarrow> string" where
  "strings_Join [] sep = []"
| "strings_Join [s] sep = s"
| "strings_Join (s # t # rest) sep = s @ sep @ strings_Join (t # rest) sep"

definition format_reference :: "Route53EndpointRuleReference \<Rightarrow> string" where
  "format_reference r = ''{'' @ strings_Join
     [err_EndpointReference r, err_RuleReference r, format_bool (err_EvaluateTargetHealth r), err_HealthCheck r,
      format_bool (err_IsDefault r), err_Continent r, err_Country r, err_Subdivision r, err_Region r,
      decimal (err_Latitude r), decimal (err_Longitude r), decimal (err_Bias r), decimal (err_Weight r)] '' '' @ ''}''"

definition String :: "Route53EndpointRuleReference Set \<Rightarrow> string" where
  "String s = ''['' @ strings_Join (foldl (\<lambda>v item. v @ [format_reference item]) [] (set_m s)) '', '' @ '']''"

lemma String_items: "String s = ''['' @ strings_Join (map format_reference (set_m s)) '', '' @ '']''"
  using foldl_snoc [of format_reference "[]" "set_m s"] by (simp add: String_def)

lemma strings_Join_length: "length (strings_Join xs sep) = sum_list (map length xs) + (length xs - 1) * length sep"
  by (induction xs sep rule: strings_Join.induct) auto

text \<open>Equal sets have strings of equal length, whatever the iteration orders: the strings are
  arrangements of the same items.\<close>

lemma String_length:
  assumes "mset (set_m s) = mset (set_m t)"
  shows "length (String s) = length (String t)"
proof -
  have "mset (map (length \<circ> format_reference) (set_m s)) = mset (map (length \<circ> format_reference) (set_m t))"
    unfolding mset_map assms ..
  then have "sum_list (map (length \<circ> format_reference) (set_m s)) = sum_list (map (length \<circ> format_reference) (set_m t))"
    by (metis sum_mset_sum_list)
  with mset_eq_length [OF assms] show ?thesis by (simp add: String_items strings_Join_length comp_def)
qed

end
