(* ===== verification/Heap_Copy.thy ===== *)
theory Heap_Copy
  imports Main "HOL-Library.State_Monad" "HOL-Library.Sublist"
begin

text \<open>
  Memory for the deep copies of the resources: a heap of cells that only grows, references into it,
  and the contract of a deep copy, the locale \<open>deep_copy\<close>. A value that may hold references has a
  footprint, the addresses it reaches, and a meaning, what a reader finds by following the references.
  A deep copy means the same, reaches only cells that did not exist before, and changes no cell.

  The contract is closed under the ways in which Go composes data: references (pointers, slices and
  maps, each nil or the address of a cell), sequences, maps, pairs and structs. An array or a struct
  is allocated with its final contents, because the order of allocations cannot be observed.
\<close>

section \<open>The heap\<close>

type_synonym address = nat

type_synonym ('c, 'a) mem = "('c list, 'a) state"

definition cell_at :: "'c list \<Rightarrow> address \<Rightarrow> 'c option" where
  "cell_at h a = (if a < length h then Some (h ! a) else None)"

definition alloc :: "'c \<Rightarrow> ('c, address) mem" where
  "alloc c = do { h \<leftarrow> State_Monad.get; State_Monad.set (h @ [c]); State_Monad.return (length h) }"

lemma run_alloc [simp]: "run_state (alloc c) h = (length h, h @ [c])"
  by (simp add: alloc_def)

lemma cell_at_snoc [simp]: "cell_at (h @ [c]) (length h) = Some c"
  by (simp add: cell_at_def)

lemma cell_at_prefix: "prefix h h' \<Longrightarrow> a < length h \<Longrightarrow> cell_at h' a = cell_at h a"
  by (auto simp: prefix_def cell_at_def nth_append)

section \<open>The contract of a deep copy\<close>

locale deep_copy =
  fixes copy :: "'a \<Rightarrow> ('c, 'a) mem" and foot :: "'c list \<Rightarrow> 'a \<Rightarrow> address set" and meaning :: "'c list \<Rightarrow> 'a \<Rightarrow> 'v"
  assumes depends: "(\<And>a. a \<in> foot h x \<Longrightarrow> cell_at h' a = cell_at h a) \<Longrightarrow> foot h' x = foot h x \<and> meaning h' x = meaning h x"
    and copies: "run_state (copy x) h = (y, h') \<Longrightarrow> foot h x \<subseteq> {..<length h} \<Longrightarrow>
      prefix h h' \<and> foot h' y \<subseteq> {length h..<length h'} \<and> meaning h' y = meaning h x"
begin

text \<open>What is allocated is not changed by later allocations; in particular a copy stays one while more is copied.\<close>

lemma grown: "prefix h h' \<Longrightarrow> foot h x \<subseteq> {..<length h} \<Longrightarrow> foot h' x = foot h x \<and> meaning h' x = meaning h x"
  by (rule depends) (auto intro: cell_at_prefix)

lemma copies_further:
  assumes "run_state (copy x) h = (y, h1)" and "foot h x \<subseteq> {..<length h}" and "prefix h1 h'"
  shows "length h \<le> length h1 \<and> prefix h h' \<and> foot h' y \<subseteq> {length h..<length h'} \<and> meaning h' y = meaning h x"
proof -
  from copies [OF assms(1,2)] have 1: "prefix h h1" "foot h1 y \<subseteq> {length h..<length h1}" "meaning h1 y = meaning h x" by auto
  then have "foot h1 y \<subseteq> {..<length h1}" by auto
  from grown [OF assms(3) this] 1 prefix_length_le [OF assms(3)] prefix_length_le [OF 1(1)] prefix_order.trans [OF 1(1) assms(3)]
  show ?thesis by auto
qed

text \<open>Neither of the two can be changed through the other: whatever is written to the cells of the copy,
  the original keeps its meaning, and the other way round.\<close>

lemma original_unchanged:
  assumes "run_state (copy x) h = (y, h')" and "foot h x \<subseteq> {..<length h}"
    and "\<And>a. a \<notin> foot h' y \<Longrightarrow> cell_at h'' a = cell_at h' a"
  shows "meaning h'' x = meaning h x"
proof -
  from copies [OF assms(1,2)] have p: "prefix h h'" and f: "foot h' y \<subseteq> {length h..<length h'}" by auto
  from grown [OF p assms(2)] have x: "foot h' x = foot h x" "meaning h' x = meaning h x" by auto
  have "cell_at h'' a = cell_at h' a" if "a \<in> foot h' x" for a
  proof (rule assms(3))
    from that assms(2) x(1) have "a < length h" by auto
    with f show "a \<notin> foot h' y" by auto
  qed
  from depends [of h' x h'', OF this] x show ?thesis by simp
qed

lemma copy_unchanged:
  assumes "run_state (copy x) h = (y, h')" and "foot h x \<subseteq> {..<length h}"
    and "\<And>a. a \<notin> foot h x \<Longrightarrow> cell_at h'' a = cell_at h' a"
  shows "meaning h'' y = meaning h x"
proof -
  from copies [OF assms(1,2)] have f: "foot h' y \<subseteq> {length h..<length h'}" and m: "meaning h' y = meaning h x" by auto
  have "cell_at h'' a = cell_at h' a" if "a \<in> foot h' y" for a
  proof (rule assms(3))
    from that f have "length h \<le> a" by auto
    with assms(2) show "a \<notin> foot h x" by auto
  qed
  from depends [of h' y h'', OF this] m show ?thesis by simp
qed

end

text \<open>The contract as a statement about all heaps and all changes, for the properties of the copies.\<close>

definition separate_copies ::
  "('a \<Rightarrow> ('c, 'a) mem) \<Rightarrow> ('c list \<Rightarrow> 'a \<Rightarrow> address set) \<Rightarrow> ('c list \<Rightarrow> 'a \<Rightarrow> 'v) \<Rightarrow> bool" where
  "separate_copies copy foot meaning \<longleftrightarrow> (\<forall>x h y h'. run_state (copy x) h = (y, h') \<longrightarrow> foot h x \<subseteq> {..<length h} \<longrightarrow>
     prefix h h' \<and> meaning h' y = meaning h x
     \<and> (\<forall>h''. (\<forall>a. a \<notin> foot h' y \<longrightarrow> cell_at h'' a = cell_at h' a) \<longrightarrow> meaning h'' x = meaning h x)
     \<and> (\<forall>h''. (\<forall>a. a \<notin> foot h x \<longrightarrow> cell_at h'' a = cell_at h' a) \<longrightarrow> meaning h'' y = meaning h x))"

lemma separate_copiesI:
  assumes "deep_copy copy foot meaning"
  shows "separate_copies copy foot meaning"
  unfolding separate_copies_def
  using deep_copy.copies [OF assms] deep_copy.original_unchanged [OF assms] deep_copy.copy_unchanged [OF assms] by blast

section \<open>Values without references\<close>

definition no_foot :: "'c list \<Rightarrow> 'a \<Rightarrow> address set" where
  "no_foot h x = {}"

definition itself :: "'c list \<Rightarrow> 'a \<Rightarrow> 'a" where
  "itself h x = x"

interpretation flat: deep_copy State_Monad.return no_foot itself
  by unfold_locales (auto simp: no_foot_def itself_def)

section \<open>Pairs and structs\<close>

definition copy_pair :: "('a \<Rightarrow> ('c, 'a) mem) \<Rightarrow> ('b \<Rightarrow> ('c, 'b) mem) \<Rightarrow> 'a \<times> 'b \<Rightarrow> ('c, 'a \<times> 'b) mem" where
  "copy_pair f g p = do { x \<leftarrow> f (fst p); y \<leftarrow> g (snd p); State_Monad.return (x, y) }"

definition foot_pair :: "('c list \<Rightarrow> 'a \<Rightarrow> address set) \<Rightarrow> ('c list \<Rightarrow> 'b \<Rightarrow> address set) \<Rightarrow> 'c list \<Rightarrow> 'a \<times> 'b \<Rightarrow> address set" where
  "foot_pair F G h p = F h (fst p) \<union> G h (snd p)"

definition meaning_pair :: "('c list \<Rightarrow> 'a \<Rightarrow> 'v) \<Rightarrow> ('c list \<Rightarrow> 'b \<Rightarrow> 'w) \<Rightarrow> 'c list \<Rightarrow> 'a \<times> 'b \<Rightarrow> 'v \<times> 'w" where
  "meaning_pair V W h p = (V h (fst p), W h (snd p))"

lemma deep_copy_pair:
  assumes "deep_copy f F V" and "deep_copy g G W"
  shows "deep_copy (copy_pair f g) (foot_pair F G) (meaning_pair V W)"
proof
  fix h h' :: "'b list" and p :: "'a \<times> 'd"
  assume "\<And>a. a \<in> foot_pair F G h p \<Longrightarrow> cell_at h' a = cell_at h a"
  then show "foot_pair F G h' p = foot_pair F G h p \<and> meaning_pair V W h' p = meaning_pair V W h p"
    using deep_copy.depends [OF assms(1), of h "fst p" h'] deep_copy.depends [OF assms(2), of h "snd p" h']
    by (simp add: foot_pair_def meaning_pair_def)
next
  fix p q :: "'a \<times> 'd" and h h' :: "'b list"
  assume run: "run_state (copy_pair f g p) h = (q, h')" and alloc: "foot_pair F G h p \<subseteq> {..<length h}"
  then obtain x h1 y where x: "run_state (f (fst p)) h = (x, h1)" and y: "run_state (g (snd p)) h1 = (y, h')" and q: "q = (x, y)"
    by (auto simp: copy_pair_def split: prod.splits)
  from alloc have fst: "F h (fst p) \<subseteq> {..<length h}" and snd: "G h (snd p) \<subseteq> {..<length h}" by (auto simp: foot_pair_def)
  from deep_copy.copies [OF assms(1) x fst] have p: "prefix h h1" by blast
  note snd' = deep_copy.grown [OF assms(2) p snd]
  with snd prefix_length_le [OF p] have "G h1 (snd p) \<subseteq> {..<length h1}" by auto
  note y' = deep_copy.copies [OF assms(2) y this]
  note x' = deep_copy.copies_further [OF assms(1) x fst, of h']
  from x' y' snd' show "prefix h h' \<and> foot_pair F G h' q \<subseteq> {length h..<length h'} \<and> meaning_pair V W h' q = meaning_pair V W h p"
    by (fastforce simp: foot_pair_def meaning_pair_def q)
qed

text \<open>A struct is given by the part that holds its references: \<open>parts\<close> reads this part and \<open>build\<close>
  replaces it, as an assignment of the struct followed by assignments of these fields does.\<close>

lemma deep_copy_struct:
  assumes "deep_copy f F V"
    and "\<And>s. copy s = do { p \<leftarrow> f (parts s); State_Monad.return (build s p) }"
    and "\<And>s p. parts (build s p) = p"
    and "\<And>h s. foot h s = F h (parts s)"
    and "\<And>h s. meaning h s = whole s (V h (parts s))" and "\<And>s p. whole (build s p) = whole s"
  shows "deep_copy copy foot meaning"
proof
  fix h h' x
  assume "\<And>a. a \<in> foot h x \<Longrightarrow> cell_at h' a = cell_at h a"
  with deep_copy.depends [OF assms(1), of h "parts x" h']
  show "foot h' x = foot h x \<and> meaning h' x = meaning h x" by (simp add: assms(4,5))
next
  fix x h y h'
  assume "run_state (copy x) h = (y, h')" and alloc: "foot h x \<subseteq> {..<length h}"
  then obtain p where p: "run_state (f (parts x)) h = (p, h')" and y: "y = build x p"
    by (auto simp: assms(2) split: prod.splits)
  from deep_copy.copies [OF assms(1) p alloc [unfolded assms(4)]]
  show "prefix h h' \<and> foot h' y \<subseteq> {length h..<length h'} \<and> meaning h' y = meaning h x" by (simp add: y assms(3-6))
qed

section \<open>Sequences and maps\<close>

definition foot_list :: "('c list \<Rightarrow> 'a \<Rightarrow> address set) \<Rightarrow> 'c list \<Rightarrow> 'a list \<Rightarrow> address set" where
  "foot_list F h xs = (\<Union>x \<in> set xs. F h x)"

definition meaning_list :: "('c list \<Rightarrow> 'a \<Rightarrow> 'v) \<Rightarrow> 'c list \<Rightarrow> 'a list \<Rightarrow> 'v list" where
  "meaning_list V h xs = map (V h) xs"

lemma deep_copy_list:
  assumes "deep_copy f F V"
  shows "deep_copy (traverse_list f) (foot_list F) (meaning_list V)"
proof
  fix h h' :: "'b list" and xs :: "'a list"
  assume same: "\<And>a. a \<in> foot_list F h xs \<Longrightarrow> cell_at h' a = cell_at h a"
  have "F h' x = F h x \<and> V h' x = V h x" if "x \<in> set xs" for x
    using that same by (intro deep_copy.depends [OF assms]) (auto simp: foot_list_def)
  then show "foot_list F h' xs = foot_list F h xs \<and> meaning_list V h' xs = meaning_list V h xs"
    by (simp add: foot_list_def meaning_list_def)
next
  fix xs ys :: "'a list" and h h' :: "'b list"
  assume "run_state (traverse_list f xs) h = (ys, h')" and "foot_list F h xs \<subseteq> {..<length h}"
  then show "prefix h h' \<and> foot_list F h' ys \<subseteq> {length h..<length h'} \<and> meaning_list V h' ys = meaning_list V h xs"
  proof (induction xs arbitrary: ys h)
    case (Cons x xs)
    from Cons.prems(1) obtain y h1 zs where y: "run_state (f x) h = (y, h1)" and zs: "run_state (traverse_list f xs) h1 = (zs, h')"
      and ys: "ys = y # zs" by (auto split: prod.splits)
    from Cons.prems(2) have x: "F h x \<subseteq> {..<length h}" and xs: "foot_list F h xs \<subseteq> {..<length h}" by (auto simp: foot_list_def)
    from deep_copy.copies [OF assms y x] have p: "prefix h h1" by blast
    have same: "F h1 z = F h z \<and> V h1 z = V h z" if "z \<in> set xs" for z
      using that xs by (intro deep_copy.grown [OF assms p]) (auto simp: foot_list_def)
    with xs prefix_length_le [OF p] have "foot_list F h1 xs \<subseteq> {..<length h1}" by (fastforce simp: foot_list_def)
    note zs' = Cons.IH [OF zs this]
    note y' = deep_copy.copies_further [OF assms y x, of h']
    from zs' y' same show ?case by (fastforce simp: foot_list_def meaning_list_def ys)
  qed (simp add: foot_list_def meaning_list_def)
qed

text \<open>A map is the sequence of its entries in some order of iteration; its keys are distinct, so that the
  assignments to a new map add one entry each.\<close>

definition copy_entry :: "('a \<Rightarrow> ('c, 'a) mem) \<Rightarrow> 'k \<times> 'a \<Rightarrow> ('c, 'k \<times> 'a) mem" where
  "copy_entry f e = do { val \<leftarrow> f (snd e); State_Monad.return (fst e, val) }"

definition foot_entry :: "('c list \<Rightarrow> 'a \<Rightarrow> address set) \<Rightarrow> 'c list \<Rightarrow> 'k \<times> 'a \<Rightarrow> address set" where
  "foot_entry F h e = F h (snd e)"

definition meaning_entry :: "('c list \<Rightarrow> 'a \<Rightarrow> 'v) \<Rightarrow> 'c list \<Rightarrow> 'k \<times> 'a \<Rightarrow> 'k \<times> 'v" where
  "meaning_entry V h e = (fst e, V h (snd e))"

lemma deep_copy_entry:
  assumes "deep_copy f F V"
  shows "deep_copy (copy_entry f) (foot_entry F) (meaning_entry V)"
  by (rule deep_copy_struct [OF assms, where parts = snd and build = "\<lambda>e val. (fst e, val)" and whole = "\<lambda>e v. (fst e, v)"])
    (simp_all add: copy_entry_def foot_entry_def meaning_entry_def)

section \<open>References\<close>

text \<open>A reference is nil or the address of a cell, from which \<open>get\<close> reads what the reference is declared
  to refer to. Go has no references to cells of another type; here they read as nil.\<close>

definition read_ref :: "('c \<Rightarrow> 'b option) \<Rightarrow> 'c list \<Rightarrow> address option \<Rightarrow> 'b option" where
  "read_ref get h r = Option.bind (Option.bind r (cell_at h)) get"

definition copy_ref :: "('b \<Rightarrow> 'c) \<Rightarrow> ('c \<Rightarrow> 'b option) \<Rightarrow> ('b \<Rightarrow> ('c, 'b) mem) \<Rightarrow> address option \<Rightarrow> ('c, address option) mem" where
  "copy_ref put get f r = do {
     h \<leftarrow> State_Monad.get;
     case read_ref get h r of
       None \<Rightarrow> State_Monad.return None
     | Some x \<Rightarrow> do { y \<leftarrow> f x; a \<leftarrow> alloc (put y); State_Monad.return (Some a) } }"

definition foot_ref :: "('c \<Rightarrow> 'b option) \<Rightarrow> ('c list \<Rightarrow> 'b \<Rightarrow> address set) \<Rightarrow> 'c list \<Rightarrow> address option \<Rightarrow> address set" where
  "foot_ref get F h r = set_option r \<union> (case read_ref get h r of None \<Rightarrow> {} | Some x \<Rightarrow> F h x)"

definition meaning_ref :: "('c \<Rightarrow> 'b option) \<Rightarrow> ('c list \<Rightarrow> 'b \<Rightarrow> 'v) \<Rightarrow> 'c list \<Rightarrow> address option \<Rightarrow> 'v option" where
  "meaning_ref get V h r = map_option (V h) (read_ref get h r)"

lemma deep_copy_ref:
  assumes "deep_copy f F V" and "\<And>x. get (put x) = Some x"
  shows "deep_copy (copy_ref put get f) (foot_ref get F) (meaning_ref get V)"
proof
  fix h h' :: "'b list" and r :: "address option"
  assume same: "\<And>a. a \<in> foot_ref get F h r \<Longrightarrow> cell_at h' a = cell_at h a"
  then have r: "read_ref get h' r = read_ref get h r" by (cases r) (auto simp: foot_ref_def read_ref_def)
  show "foot_ref get F h' r = foot_ref get F h r \<and> meaning_ref get V h' r = meaning_ref get V h r"
  proof (cases "read_ref get h r")
    case (Some x)
    with same have "F h' x = F h x \<and> V h' x = V h x" by (intro deep_copy.depends [OF assms(1)]) (simp add: foot_ref_def)
    with r Some show ?thesis by (simp add: foot_ref_def meaning_ref_def)
  qed (simp add: r foot_ref_def meaning_ref_def)
next
  fix r q :: "address option" and h h' :: "'b list"
  assume run: "run_state (copy_ref put get f r) h = (q, h')" and alloc: "foot_ref get F h r \<subseteq> {..<length h}"
  show "prefix h h' \<and> foot_ref get F h' q \<subseteq> {length h..<length h'} \<and> meaning_ref get V h' q = meaning_ref get V h r"
  proof (cases "read_ref get h r")
    case None
    with run show ?thesis by (auto simp: copy_ref_def foot_ref_def meaning_ref_def read_ref_def)
  next
    case (Some x)
    with run obtain y h1 where y: "run_state (f x) h = (y, h1)" and h': "h' = h1 @ [put y]" and q: "q = Some (length h1)"
      by (auto simp: copy_ref_def split: prod.splits)
    from alloc Some have "F h x \<subseteq> {..<length h}" by (auto simp: foot_ref_def)
    from deep_copy.copies_further [OF assms(1) y this, of h'] h'
    have "length h \<le> length h1" "prefix h h'" "F h' y \<subseteq> {length h..<length h'}" "V h' y = V h x" by auto
    moreover have "read_ref get h' q = Some y" by (simp add: read_ref_def q h' assms(2))
    ultimately show ?thesis using Some h' by (auto simp: foot_ref_def meaning_ref_def q)
  qed
qed

end
