(* ===== verification/Deep_Copies.thy ===== *)
theory Deep_Copies
  imports API_Types Heap_Copy
begin

text \<open>
  api/v1alpha1/zz\_generated.deepcopy.go: the deep copies of the resources and their parts. A struct that
  holds references (pointers, slices, maps) is a record with the suffix \<open>_m\<close>, whose fields of these
  kinds are addresses; a struct without references is the record of \<open>API_Types\<close>. The meaning of a
  struct in memory is the record of \<open>API_Types\<close> that the controllers work with.

  \<open>DeepCopyInto\<close> gives the contents of \<open>*out\<close>, which do not depend on what was there before; \<open>DeepCopy\<close>
  works on pointers. The copies of the types of other packages (ObjectMeta, ListMeta, LabelSelector,
  Probe, Condition) are the parameter \<open>foreign\<close>, with the contract of a deep copy as the hypothesis
  \<open>foreign_ok\<close>.
\<close>

section \<open>Structs in memory\<close>

record TypeMeta =
  tm_Kind :: string
  tm_APIVersion :: string

record ExternalDNSProviderConfig_m =
  edm_Annotations :: "address option"

record ProviderConfig_m =
  pcm_Route53 :: "address option"
  pcm_ExternalDNS :: "address option"
  pcm_TrafficManager :: "address option"
  pcm_GCPGLB :: "address option"

record Route53ProviderStatus_m =
  r53m_PolicyID :: string
  r53m_HealthCheckIDs :: "address option"
  r53m_PolicyInstanceID :: string

record ProviderStatus_m =
  psm_Route53 :: "address option"
  psm_TrafficManager :: "address option"

record GlobalDNSRecordSpec_m =
  rsm_Name :: string
  rsm_Endpoints :: "address option"
  rsm_TTL :: int
  rsm_HealthCheck :: "address option"
  rsm_LoadBalancingPolicy :: LoadBalancingPolicy
  rsm_GlobalZoneRef :: string

record GlobalDNSRecordStatus_m =
  rstm_Conditions :: "address option"
  rstm_MonitoredServiceStatuses :: "address option"
  rstm_EndpointStatuses :: "address option"
  rstm_ProviderStatus :: ProviderStatus_m

record 'x GlobalDNSRecord_m =
  recm_TypeMeta :: TypeMeta
  recm_ObjectMeta :: 'x
  recm_Spec :: GlobalDNSRecordSpec_m
  recm_Status :: GlobalDNSRecordStatus_m

record GlobalDNSZoneSpec_m =
  zsm_Domain :: string
  zsm_Provider :: ProviderConfig_m

record GlobalDNSZoneStatus_m =
  zstm_Conditions :: "address option"

record 'x GlobalDNSZone_m =
  zonem_TypeMeta :: TypeMeta
  zonem_ObjectMeta :: 'x
  zonem_Spec :: GlobalDNSZoneSpec_m
  zonem_Status :: GlobalDNSZoneStatus_m

record 'x GlobalRouteDiscoverySpec_m =
  gsm_Clusters :: "address option"
  gsm_RouteSelector :: 'x
  gsm_DefaultLoadBalancingPolicy :: LoadBalancingPolicy
  gsm_DefaultTTL :: int
  gsm_GlobalZoneRef :: string

record GlobalRouteDiscoveryStatus_m =
  gstm_Conditions :: "address option"
  gstm_ClusterReferenceStatuses :: "address option"

record 'x GlobalRouteDiscovery_m =
  grdm_TypeMeta :: TypeMeta
  grdm_ObjectMeta :: 'x
  grdm_Spec :: "'x GlobalRouteDiscoverySpec_m"
  grdm_Status :: GlobalRouteDiscoveryStatus_m

text \<open>The three list types have the same fields.\<close>

record 'x List_m =
  lm_TypeMeta :: TypeMeta
  lm_ListMeta :: 'x
  lm_Items :: "address option"

text \<open>What a cell of the heap holds: a struct, the array of a slice, the entries of a map, or what code of
  other packages keeps there.\<close>

datatype 'x cell =
    C_ClusterReference ClusterReference
  | C_Endpoint Endpoint
  | C_ExternalDNSProviderConfig ExternalDNSProviderConfig_m
  | C_GCPGLBProviderConfig GCPGLBProviderConfig
  | C_GlobalDNSRecord "'x GlobalDNSRecord_m"
  | C_GlobalDNSRecordList "'x List_m"
  | C_GlobalDNSRecordSpec GlobalDNSRecordSpec_m
  | C_GlobalDNSRecordStatus GlobalDNSRecordStatus_m
  | C_GlobalDNSZone "'x GlobalDNSZone_m"
  | C_GlobalDNSZoneList "'x List_m"
  | C_GlobalDNSZoneSpec GlobalDNSZoneSpec_m
  | C_GlobalDNSZoneStatus GlobalDNSZoneStatus_m
  | C_GlobalRouteDiscovery "'x GlobalRouteDiscovery_m"
  | C_GlobalRouteDiscoveryList "'x List_m"
  | C_GlobalRouteDiscoverySpec "'x GlobalRouteDiscoverySpec_m"
  | C_GlobalRouteDiscoveryStatus GlobalRouteDiscoveryStatus_m
  | C_NamespacedName NamespacedName
  | C_ProviderConfig ProviderConfig_m
  | C_ProviderStatus ProviderStatus_m
  | C_Route53ProviderConfig Route53ProviderConfig
  | C_Route53ProviderStatus Route53ProviderStatus_m
  | C_TrafficManagerProviderConfig TrafficManagerProviderConfig
  | C_TrafficManagerProviderStatus TrafficManagerProviderStatus
  | C_Probe 'x
  | C_Endpoints "Endpoint list"
  | C_Clusters "ClusterReference list"
  | C_Conditions "'x list"
  | C_ConditionMap "(string \<times> address option) list"
  | C_Strings "(string \<times> string) list"
  | C_Records "'x GlobalDNSRecord_m list"
  | C_Zones "'x GlobalDNSZone_m list"
  | C_Discoveries "'x GlobalRouteDiscovery_m list"
  | C_Foreign 'x

definition get_ClusterReference :: "'x cell \<Rightarrow> (ClusterReference) option" where
  "get_ClusterReference c = (case c of C_ClusterReference v \<Rightarrow> Some v | _ \<Rightarrow> None)"

definition get_Endpoint :: "'x cell \<Rightarrow> (Endpoint) option" where
  "get_Endpoint c = (case c of C_Endpoint v \<Rightarrow> Some v | _ \<Rightarrow> None)"

definition get_ExternalDNSProviderConfig :: "'x cell \<Rightarrow> (ExternalDNSProviderConfig_m) option" where
  "get_ExternalDNSProviderConfig c = (case c of C_ExternalDNSProviderConfig v \<Rightarrow> Some v | _ \<Rightarrow> None)"

definition get_GCPGLBProviderConfig :: "'x cell \<Rightarrow> (GCPGLBProviderConfig) option" where
  "get_GCPGLBProviderConfig c = (case c of C_GCPGLBProviderConfig v \<Rightarrow> Some v | _ \<Rightarrow> None)"

definition get_GlobalDNSRecord :: "'x cell \<Rightarrow> ('x GlobalDNSRecord_m) option" where
  "get_GlobalDNSRecord c = (case c of C_GlobalDNSRecord v \<Rightarrow> Some v | _ \<Rightarrow> None)"

definition get_GlobalDNSRecordList :: "'x cell \<Rightarrow> ('x List_m) option" where
  "get_GlobalDNSRecordList c = (case c of C_GlobalDNSRecordList v \<Rightarrow> Some v | _ \<Rightarrow> None)"

definition get_GlobalDNSRecordSpec :: "'x cell \<Rightarrow> (GlobalDNSRecordSpec_m) option" where
  "get_GlobalDNSRecordSpec c = (case c of C_GlobalDNSRecordSpec v \<Rightarrow> Some v | _ \<Rightarrow> None)"

definition get_GlobalDNSRecordStatus :: "'x cell \<Rightarrow> (GlobalDNSRecordStatus_m) option" where
  "get_GlobalDNSRecordStatus c = (case c of C_GlobalDNSRecordStatus v \<Rightarrow> Some v | _ \<Rightarrow> None)"

definition get_GlobalDNSZone :: "'x cell \<Rightarrow> ('x GlobalDNSZone_m) option" where
  "get_GlobalDNSZone c = (case c of C_GlobalDNSZone v \<Rightarrow> Some v | _ \<Rightarrow> None)"

definition get_GlobalDNSZoneList :: "'x cell \<Rightarrow> ('x List_m) option" where
  "get_GlobalDNSZoneList c = (case c of C_GlobalDNSZoneList v \<Rightarrow> Some v | _ \<Rightarrow> None)"

definition get_GlobalDNSZoneSpec :: "'x cell \<Rightarrow> (GlobalDNSZoneSpec_m) option" where
  "get_GlobalDNSZoneSpec c = (case c of C_GlobalDNSZoneSpec v \<Rightarrow> Some v | _ \<Rightarrow> None)"

definition get_GlobalDNSZoneStatus :: "'x cell \<Rightarrow> (GlobalDNSZoneStatus_m) option" where
  "get_GlobalDNSZoneStatus c = (case c of C_GlobalDNSZoneStatus v \<Rightarrow> Some v | _ \<Rightarrow> None)"

definition get_GlobalRouteDiscovery :: "'x cell \<Rightarrow> ('x GlobalRouteDiscovery_m) option" where
  "get_GlobalRouteDiscovery c = (case c of C_GlobalRouteDiscovery v \<Rightarrow> Some v | _ \<Rightarrow> None)"

definition get_GlobalRouteDiscoveryList :: "'x cell \<Rightarrow> ('x List_m) option" where
  "get_GlobalRouteDiscoveryList c = (case c of C_GlobalRouteDiscoveryList v \<Rightarrow> Some v | _ \<Rightarrow> None)"

definition get_GlobalRouteDiscoverySpec :: "'x cell \<Rightarrow> ('x GlobalRouteDiscoverySpec_m) option" where
  "get_GlobalRouteDiscoverySpec c = (case c of C_GlobalRouteDiscoverySpec v \<Rightarrow> Some v | _ \<Rightarrow> None)"

definition get_GlobalRouteDiscoveryStatus :: "'x cell \<Rightarrow> (GlobalRouteDiscoveryStatus_m) option" where
  "get_GlobalRouteDiscoveryStatus c = (case c of C_GlobalRouteDiscoveryStatus v \<Rightarrow> Some v | _ \<Rightarrow> None)"

definition get_NamespacedName :: "'x cell \<Rightarrow> (NamespacedName) option" where
  "get_NamespacedName c = (case c of C_NamespacedName v \<Rightarrow> Some v | _ \<Rightarrow> None)"

definition get_ProviderConfig :: "'x cell \<Rightarrow> (ProviderConfig_m) option" where
  "get_ProviderConfig c = (case c of C_ProviderConfig v \<Rightarrow> Some v | _ \<Rightarrow> None)"

definition get_ProviderStatus :: "'x cell \<Rightarrow> (ProviderStatus_m) option" where
  "get_ProviderStatus c = (case c of C_ProviderStatus v \<Rightarrow> Some v | _ \<Rightarrow> None)"

definition get_Route53ProviderConfig :: "'x cell \<Rightarrow> (Route53ProviderConfig) option" where
  "get_Route53ProviderConfig c = (case c of C_Route53ProviderConfig v \<Rightarrow> Some v | _ \<Rightarrow> None)"

definition get_Route53ProviderStatus :: "'x cell \<Rightarrow> (Route53ProviderStatus_m) option" where
  "get_Route53ProviderStatus c = (case c of C_Route53ProviderStatus v \<Rightarrow> Some v | _ \<Rightarrow> None)"

definition get_TrafficManagerProviderConfig :: "'x cell \<Rightarrow> (TrafficManagerProviderConfig) option" where
  "get_TrafficManagerProviderConfig c = (case c of C_TrafficManagerProviderConfig v \<Rightarrow> Some v | _ \<Rightarrow> None)"

definition get_TrafficManagerProviderStatus :: "'x cell \<Rightarrow> (TrafficManagerProviderStatus) option" where
  "get_TrafficManagerProviderStatus c = (case c of C_TrafficManagerProviderStatus v \<Rightarrow> Some v | _ \<Rightarrow> None)"

definition get_Probe :: "'x cell \<Rightarrow> ('x) option" where
  "get_Probe c = (case c of C_Probe v \<Rightarrow> Some v | _ \<Rightarrow> None)"

definition get_Endpoints :: "'x cell \<Rightarrow> (Endpoint list) option" where
  "get_Endpoints c = (case c of C_Endpoints v \<Rightarrow> Some v | _ \<Rightarrow> None)"

definition get_Clusters :: "'x cell \<Rightarrow> (ClusterReference list) option" where
  "get_Clusters c = (case c of C_Clusters v \<Rightarrow> Some v | _ \<Rightarrow> None)"

definition get_Conditions :: "'x cell \<Rightarrow> ('x list) option" where
  "get_Conditions c = (case c of C_Conditions v \<Rightarrow> Some v | _ \<Rightarrow> None)"

definition get_ConditionMap :: "'x cell \<Rightarrow> ((string \<times> address option) list) option" where
  "get_ConditionMap c = (case c of C_ConditionMap v \<Rightarrow> Some v | _ \<Rightarrow> None)"

definition get_Strings :: "'x cell \<Rightarrow> ((string \<times> string) list) option" where
  "get_Strings c = (case c of C_Strings v \<Rightarrow> Some v | _ \<Rightarrow> None)"

definition get_Records :: "'x cell \<Rightarrow> ('x GlobalDNSRecord_m list) option" where
  "get_Records c = (case c of C_Records v \<Rightarrow> Some v | _ \<Rightarrow> None)"

definition get_Zones :: "'x cell \<Rightarrow> ('x GlobalDNSZone_m list) option" where
  "get_Zones c = (case c of C_Zones v \<Rightarrow> Some v | _ \<Rightarrow> None)"

definition get_Discoveries :: "'x cell \<Rightarrow> ('x GlobalRouteDiscovery_m list) option" where
  "get_Discoveries c = (case c of C_Discoveries v \<Rightarrow> Some v | _ \<Rightarrow> None)"

lemma get_cell [simp]:
  "get_ClusterReference (C_ClusterReference v0) = Some v0"
  "get_Endpoint (C_Endpoint v1) = Some v1"
  "get_ExternalDNSProviderConfig (C_ExternalDNSProviderConfig v2) = Some v2"
  "get_GCPGLBProviderConfig (C_GCPGLBProviderConfig v3) = Some v3"
  "get_GlobalDNSRecord (C_GlobalDNSRecord v4) = Some v4"
  "get_GlobalDNSRecordList (C_GlobalDNSRecordList v5) = Some v5"
  "get_GlobalDNSRecordSpec (C_GlobalDNSRecordSpec v6) = Some v6"
  "get_GlobalDNSRecordStatus (C_GlobalDNSRecordStatus v7) = Some v7"
  "get_GlobalDNSZone (C_GlobalDNSZone v8) = Some v8"
  "get_GlobalDNSZoneList (C_GlobalDNSZoneList v9) = Some v9"
  "get_GlobalDNSZoneSpec (C_GlobalDNSZoneSpec v10) = Some v10"
  "get_GlobalDNSZoneStatus (C_GlobalDNSZoneStatus v11) = Some v11"
  "get_GlobalRouteDiscovery (C_GlobalRouteDiscovery v12) = Some v12"
  "get_GlobalRouteDiscoveryList (C_GlobalRouteDiscoveryList v13) = Some v13"
  "get_GlobalRouteDiscoverySpec (C_GlobalRouteDiscoverySpec v14) = Some v14"
  "get_GlobalRouteDiscoveryStatus (C_GlobalRouteDiscoveryStatus v15) = Some v15"
  "get_NamespacedName (C_NamespacedName v16) = Some v16"
  "get_ProviderConfig (C_ProviderConfig v17) = Some v17"
  "get_ProviderStatus (C_ProviderStatus v18) = Some v18"
  "get_Route53ProviderConfig (C_Route53ProviderConfig v19) = Some v19"
  "get_Route53ProviderStatus (C_Route53ProviderStatus v20) = Some v20"
  "get_TrafficManagerProviderConfig (C_TrafficManagerProviderConfig v21) = Some v21"
  "get_TrafficManagerProviderStatus (C_TrafficManagerProviderStatus v22) = Some v22"
  "get_Probe (C_Probe v23) = Some v23"
  "get_Endpoints (C_Endpoints v24) = Some v24"
  "get_Clusters (C_Clusters v25) = Some v25"
  "get_Conditions (C_Conditions v26) = Some v26"
  "get_ConditionMap (C_ConditionMap v27) = Some v27"
  "get_Strings (C_Strings v28) = Some v28"
  "get_Records (C_Records v29) = Some v29"
  "get_Zones (C_Zones v30) = Some v30"
  "get_Discoveries (C_Discoveries v31) = Some v31"
    by (simp_all add: get_ClusterReference_def get_Endpoint_def get_ExternalDNSProviderConfig_def
      get_GCPGLBProviderConfig_def get_GlobalDNSRecord_def get_GlobalDNSRecordList_def get_GlobalDNSRecordSpec_def
      get_GlobalDNSRecordStatus_def get_GlobalDNSZone_def get_GlobalDNSZoneList_def get_GlobalDNSZoneSpec_def
      get_GlobalDNSZoneStatus_def get_GlobalRouteDiscovery_def get_GlobalRouteDiscoveryList_def
      get_GlobalRouteDiscoverySpec_def get_GlobalRouteDiscoveryStatus_def get_NamespacedName_def
      get_ProviderConfig_def get_ProviderStatus_def get_Route53ProviderConfig_def get_Route53ProviderStatus_def
      get_TrafficManagerProviderConfig_def get_TrafficManagerProviderStatus_def get_Probe_def get_Endpoints_def
      get_Clusters_def get_Conditions_def get_ConditionMap_def get_Strings_def get_Records_def get_Zones_def
      get_Discoveries_def)

section \<open>The types of other packages\<close>

record 'x foreign =
  f_copy :: "'x \<Rightarrow> ('x cell, 'x) mem"
  f_foot :: "'x cell list \<Rightarrow> 'x \<Rightarrow> address set"
  f_ObjectMeta :: "'x cell list \<Rightarrow> 'x \<Rightarrow> ObjectMeta"
  f_ListMeta :: "'x cell list \<Rightarrow> 'x \<Rightarrow> string"
  f_LabelSelector :: "'x cell list \<Rightarrow> 'x \<Rightarrow> LabelSelector"
  f_Probe :: "'x cell list \<Rightarrow> 'x \<Rightarrow> Probe"
  f_Condition :: "'x cell list \<Rightarrow> 'x \<Rightarrow> Condition"

definition f_meaning :: "'x foreign \<Rightarrow> 'x cell list \<Rightarrow> 'x \<Rightarrow> ObjectMeta \<times> string \<times> LabelSelector \<times> Probe \<times> Condition" where
  "f_meaning F h x = (f_ObjectMeta F h x, f_ListMeta F h x, f_LabelSelector F h x, f_Probe F h x, f_Condition F h x)"

definition foreign_ok :: "'x foreign \<Rightarrow> bool" where
  "foreign_ok F \<longleftrightarrow> deep_copy (f_copy F) (f_foot F) (f_meaning F)"

lemma deep_copy_view:
  assumes "deep_copy f F V" and "\<And>h x. W h x = g (V h x)"
  shows "deep_copy f F W"
  by (rule deep_copy_struct [OF assms(1), where parts = "\<lambda>x. x" and build = "\<lambda>_ p. p" and whole = "\<lambda>_. g"]) (simp_all add: assms(2))

lemma foreign_copies:
  assumes "foreign_ok F"
  shows "deep_copy (f_copy F) (f_foot F) (f_ObjectMeta F)" "deep_copy (f_copy F) (f_foot F) (f_ListMeta F)"
    "deep_copy (f_copy F) (f_foot F) (f_LabelSelector F)" "deep_copy (f_copy F) (f_foot F) (f_Probe F)"
    "deep_copy (f_copy F) (f_foot F) (f_Condition F)"
  by (rule deep_copy_view [OF assms [unfolded foreign_ok_def], where g = fst], simp add: f_meaning_def)
    (rule deep_copy_view [OF assms [unfolded foreign_ok_def], where g = "\<lambda>v. fst (snd v)"], simp add: f_meaning_def,
     rule deep_copy_view [OF assms [unfolded foreign_ok_def], where g = "\<lambda>v. fst (snd (snd v))"], simp add: f_meaning_def,
     rule deep_copy_view [OF assms [unfolded foreign_ok_def], where g = "\<lambda>v. fst (snd (snd (snd v)))"], simp add: f_meaning_def,
     rule deep_copy_view [OF assms [unfolded foreign_ok_def], where g = "\<lambda>v. snd (snd (snd (snd v)))"], simp add: f_meaning_def)

section \<open>Structs without references\<close>

definition ClusterReference_DeepCopyInto :: "ClusterReference \<Rightarrow> ('x cell, ClusterReference) mem" where
  "ClusterReference_DeepCopyInto x = State_Monad.return (x\<lparr>cr_CredentialsSecretRef := cr_CredentialsSecretRef x\<rparr>)"

definition Endpoint_DeepCopyInto :: "Endpoint \<Rightarrow> ('x cell, Endpoint) mem" where
  "Endpoint_DeepCopyInto x = State_Monad.return (x\<lparr>ep_CredentialsSecretRef := ep_CredentialsSecretRef x,
     ep_LoadBalancerServiceRef := ep_LoadBalancerServiceRef x\<rparr>)"

definition GCPGLBProviderConfig_DeepCopyInto :: "GCPGLBProviderConfig \<Rightarrow> ('x cell, GCPGLBProviderConfig) mem" where
  "GCPGLBProviderConfig_DeepCopyInto x = State_Monad.return (x\<lparr>gcpc_CredentialsSecretRef := gcpc_CredentialsSecretRef x\<rparr>)"

definition NamespacedName_DeepCopyInto :: "NamespacedName \<Rightarrow> ('x cell, NamespacedName) mem" where
  "NamespacedName_DeepCopyInto x = State_Monad.return x"

definition Route53ProviderConfig_DeepCopyInto :: "Route53ProviderConfig \<Rightarrow> ('x cell, Route53ProviderConfig) mem" where
  "Route53ProviderConfig_DeepCopyInto x = State_Monad.return (x\<lparr>r53c_CredentialsSecretRef := r53c_CredentialsSecretRef x\<rparr>)"

definition TrafficManagerProviderConfig_DeepCopyInto ::
  "TrafficManagerProviderConfig \<Rightarrow> ('x cell, TrafficManagerProviderConfig) mem" where
  "TrafficManagerProviderConfig_DeepCopyInto x = State_Monad.return (x\<lparr>tmc_CredentialsSecretRef := tmc_CredentialsSecretRef x\<rparr>)"

definition TrafficManagerProviderStatus_DeepCopyInto ::
  "TrafficManagerProviderStatus \<Rightarrow> ('x cell, TrafficManagerProviderStatus) mem" where
  "TrafficManagerProviderStatus_DeepCopyInto x = State_Monad.return x"

lemma flat_DeepCopyInto:
  "ClusterReference_DeepCopyInto = State_Monad.return" "Endpoint_DeepCopyInto = State_Monad.return"
  "GCPGLBProviderConfig_DeepCopyInto = State_Monad.return" "NamespacedName_DeepCopyInto = State_Monad.return"
  "Route53ProviderConfig_DeepCopyInto = State_Monad.return" "TrafficManagerProviderConfig_DeepCopyInto = State_Monad.return"
  "TrafficManagerProviderStatus_DeepCopyInto = State_Monad.return"
  by (simp_all add: fun_eq_iff ClusterReference_DeepCopyInto_def Endpoint_DeepCopyInto_def GCPGLBProviderConfig_DeepCopyInto_def
      NamespacedName_DeepCopyInto_def Route53ProviderConfig_DeepCopyInto_def TrafficManagerProviderConfig_DeepCopyInto_def
      TrafficManagerProviderStatus_DeepCopyInto_def)

section \<open>The parts of a zone\<close>

text \<open>The loop over a map of strings, and of the fields that are references to structs without references.\<close>

definition copy_Strings :: "address option \<Rightarrow> ('x cell, address option) mem" where
  "copy_Strings = copy_ref C_Strings get_Strings (traverse_list (copy_entry State_Monad.return))"

definition foot_Strings :: "'x cell list \<Rightarrow> address option \<Rightarrow> address set" where
  "foot_Strings = foot_ref get_Strings (foot_list (foot_entry no_foot))"

definition meaning_Strings :: "'x cell list \<Rightarrow> address option \<Rightarrow> (string \<times> string) list option" where
  "meaning_Strings = meaning_ref get_Strings (meaning_list (meaning_entry itself))"

interpretation strings: deep_copy copy_Strings foot_Strings meaning_Strings
  unfolding copy_Strings_def foot_Strings_def meaning_Strings_def
  by (intro deep_copy_ref deep_copy_list deep_copy_entry flat.deep_copy_axioms get_cell)

definition ExternalDNSProviderConfig_DeepCopyInto :: "ExternalDNSProviderConfig_m \<Rightarrow> ('x cell, ExternalDNSProviderConfig_m) mem" where
  "ExternalDNSProviderConfig_DeepCopyInto x = do {
     annotations \<leftarrow> copy_Strings (edm_Annotations x);
     State_Monad.return (x\<lparr>edm_Annotations := annotations\<rparr>) }"

definition foot_ExternalDNSProviderConfig :: "'x cell list \<Rightarrow> ExternalDNSProviderConfig_m \<Rightarrow> address set" where
  "foot_ExternalDNSProviderConfig h x = foot_Strings h (edm_Annotations x)"

definition meaning_ExternalDNSProviderConfig :: "'x cell list \<Rightarrow> ExternalDNSProviderConfig_m \<Rightarrow> ExternalDNSProviderConfig" where
  "meaning_ExternalDNSProviderConfig h x = \<lparr>edc_Annotations = map_option Mapping.of_alist (meaning_Strings h (edm_Annotations x))\<rparr>"

interpretation external_dns_config: deep_copy ExternalDNSProviderConfig_DeepCopyInto foot_ExternalDNSProviderConfig
    meaning_ExternalDNSProviderConfig
  by (rule deep_copy_struct [OF strings.deep_copy_axioms, where parts = edm_Annotations and build = "\<lambda>x a. x\<lparr>edm_Annotations := a\<rparr>"
        and whole = "\<lambda>_ a. \<lparr>edc_Annotations = map_option Mapping.of_alist a\<rparr>"])
    (simp_all add: ExternalDNSProviderConfig_DeepCopyInto_def foot_ExternalDNSProviderConfig_def meaning_ExternalDNSProviderConfig_def)

definition ProviderConfig_DeepCopyInto :: "ProviderConfig_m \<Rightarrow> ('x cell, ProviderConfig_m) mem" where
  "ProviderConfig_DeepCopyInto x = do {
     route53 \<leftarrow> copy_ref C_Route53ProviderConfig get_Route53ProviderConfig State_Monad.return (pcm_Route53 x);
     externalDNS \<leftarrow> copy_ref C_ExternalDNSProviderConfig get_ExternalDNSProviderConfig ExternalDNSProviderConfig_DeepCopyInto (pcm_ExternalDNS x);
     trafficManager \<leftarrow> copy_ref C_TrafficManagerProviderConfig get_TrafficManagerProviderConfig State_Monad.return (pcm_TrafficManager x);
     gcpGLB \<leftarrow> copy_ref C_GCPGLBProviderConfig get_GCPGLBProviderConfig State_Monad.return (pcm_GCPGLB x);
     State_Monad.return (x\<lparr>pcm_Route53 := route53, pcm_ExternalDNS := externalDNS, pcm_TrafficManager := trafficManager, pcm_GCPGLB := gcpGLB\<rparr>) }"

definition foot_ProviderConfig :: "'x cell list \<Rightarrow> ProviderConfig_m \<Rightarrow> address set" where
  "foot_ProviderConfig h x = foot_ref get_Route53ProviderConfig no_foot h (pcm_Route53 x)
     \<union> (foot_ref get_ExternalDNSProviderConfig foot_ExternalDNSProviderConfig h (pcm_ExternalDNS x)
     \<union> (foot_ref get_TrafficManagerProviderConfig no_foot h (pcm_TrafficManager x)
     \<union> foot_ref get_GCPGLBProviderConfig no_foot h (pcm_GCPGLB x)))"

definition meaning_ProviderConfig :: "'x cell list \<Rightarrow> ProviderConfig_m \<Rightarrow> ProviderConfig" where
  "meaning_ProviderConfig h x =
     \<lparr>pc_Route53 = meaning_ref get_Route53ProviderConfig itself h (pcm_Route53 x),
      pc_ExternalDNS = meaning_ref get_ExternalDNSProviderConfig meaning_ExternalDNSProviderConfig h (pcm_ExternalDNS x),
      pc_TrafficManager = meaning_ref get_TrafficManagerProviderConfig itself h (pcm_TrafficManager x),
      pc_GCPGLB = meaning_ref get_GCPGLBProviderConfig itself h (pcm_GCPGLB x)\<rparr>"

lemmas pair_defs = copy_pair_def foot_pair_def meaning_pair_def

interpretation provider_config: deep_copy ProviderConfig_DeepCopyInto foot_ProviderConfig meaning_ProviderConfig
  by (rule deep_copy_struct [OF deep_copy_pair [OF deep_copy_ref [OF flat.deep_copy_axioms, of get_Route53ProviderConfig C_Route53ProviderConfig]
          deep_copy_pair [OF deep_copy_ref [OF external_dns_config.deep_copy_axioms, of get_ExternalDNSProviderConfig C_ExternalDNSProviderConfig]
          deep_copy_pair [OF deep_copy_ref [OF flat.deep_copy_axioms, of get_TrafficManagerProviderConfig C_TrafficManagerProviderConfig]
            deep_copy_ref [OF flat.deep_copy_axioms, of get_GCPGLBProviderConfig C_GCPGLBProviderConfig]]]],
        where parts = "\<lambda>x. (pcm_Route53 x, pcm_ExternalDNS x, pcm_TrafficManager x, pcm_GCPGLB x)"
        and build = "\<lambda>x (a, b, c, d). x\<lparr>pcm_Route53 := a, pcm_ExternalDNS := b, pcm_TrafficManager := c, pcm_GCPGLB := d\<rparr>"
        and whole = "\<lambda>_ (a, b, c, d). \<lparr>pc_Route53 = a, pc_ExternalDNS = b, pc_TrafficManager = c, pc_GCPGLB = d\<rparr>"])
    (auto simp: ProviderConfig_DeepCopyInto_def foot_ProviderConfig_def meaning_ProviderConfig_def pair_defs)

definition GlobalDNSZoneSpec_DeepCopyInto :: "GlobalDNSZoneSpec_m \<Rightarrow> ('x cell, GlobalDNSZoneSpec_m) mem" where
  "GlobalDNSZoneSpec_DeepCopyInto x = do {
     provider \<leftarrow> ProviderConfig_DeepCopyInto (zsm_Provider x);
     State_Monad.return (x\<lparr>zsm_Provider := provider\<rparr>) }"

definition foot_GlobalDNSZoneSpec :: "'x cell list \<Rightarrow> GlobalDNSZoneSpec_m \<Rightarrow> address set" where
  "foot_GlobalDNSZoneSpec h x = foot_ProviderConfig h (zsm_Provider x)"

definition meaning_GlobalDNSZoneSpec :: "'x cell list \<Rightarrow> GlobalDNSZoneSpec_m \<Rightarrow> GlobalDNSZoneSpec" where
  "meaning_GlobalDNSZoneSpec h x = \<lparr>zs_Domain = zsm_Domain x, zs_Provider = meaning_ProviderConfig h (zsm_Provider x)\<rparr>"

interpretation zone_spec: deep_copy GlobalDNSZoneSpec_DeepCopyInto foot_GlobalDNSZoneSpec meaning_GlobalDNSZoneSpec
  by (rule deep_copy_struct [OF provider_config.deep_copy_axioms, where parts = zsm_Provider and build = "\<lambda>x a. x\<lparr>zsm_Provider := a\<rparr>"
        and whole = "\<lambda>x a. \<lparr>zs_Domain = zsm_Domain x, zs_Provider = a\<rparr>"])
    (simp_all add: GlobalDNSZoneSpec_DeepCopyInto_def foot_GlobalDNSZoneSpec_def meaning_GlobalDNSZoneSpec_def)

section \<open>The parts of a record\<close>

text \<open>The loop over a slice of conditions, and the loop over a map of such slices, which may be nil.\<close>

definition copy_Conditions :: "'x foreign \<Rightarrow> address option \<Rightarrow> ('x cell, address option) mem" where
  "copy_Conditions F = copy_ref C_Conditions get_Conditions (traverse_list (f_copy F))"

definition foot_Conditions :: "'x foreign \<Rightarrow> 'x cell list \<Rightarrow> address option \<Rightarrow> address set" where
  "foot_Conditions F = foot_ref get_Conditions (foot_list (f_foot F))"

definition meaning_Conditions :: "'x foreign \<Rightarrow> 'x cell list \<Rightarrow> address option \<Rightarrow> Conditions option" where
  "meaning_Conditions F = meaning_ref get_Conditions (meaning_list (f_Condition F))"

definition copy_ConditionMap :: "'x foreign \<Rightarrow> address option \<Rightarrow> ('x cell, address option) mem" where
  "copy_ConditionMap F = copy_ref C_ConditionMap get_ConditionMap (traverse_list (copy_entry (copy_Conditions F)))"

definition foot_ConditionMap :: "'x foreign \<Rightarrow> 'x cell list \<Rightarrow> address option \<Rightarrow> address set" where
  "foot_ConditionMap F = foot_ref get_ConditionMap (foot_list (foot_entry (foot_Conditions F)))"

definition meaning_ConditionMap :: "'x foreign \<Rightarrow> 'x cell list \<Rightarrow> address option \<Rightarrow> (string \<times> Conditions option) list option" where
  "meaning_ConditionMap F = meaning_ref get_ConditionMap (meaning_list (meaning_entry (meaning_Conditions F)))"

lemma conditions_copies:
  assumes "foreign_ok F"
  shows "deep_copy (copy_Conditions F) (foot_Conditions F) (meaning_Conditions F)"
    "deep_copy (copy_ConditionMap F) (foot_ConditionMap F) (meaning_ConditionMap F)"
proof -
  show c: "deep_copy (copy_Conditions F) (foot_Conditions F) (meaning_Conditions F)"
    unfolding copy_Conditions_def foot_Conditions_def meaning_Conditions_def
    by (intro deep_copy_ref deep_copy_list foreign_copies assms get_cell)
  show "deep_copy (copy_ConditionMap F) (foot_ConditionMap F) (meaning_ConditionMap F)"
    unfolding copy_ConditionMap_def foot_ConditionMap_def meaning_ConditionMap_def
    by (intro deep_copy_ref deep_copy_list deep_copy_entry c get_cell)
qed

text \<open>Reading a nil slice or a nil map: it is empty.\<close>

definition slice :: "'a list option \<Rightarrow> 'a list" where
  "slice s = (case s of None \<Rightarrow> [] | Some xs \<Rightarrow> xs)"

definition status_map :: "(string \<times> Conditions option) list option \<Rightarrow> (string \<rightharpoonup> Conditions)" where
  "status_map m = map_of (map (\<lambda>(k, cs). (k, slice cs)) (slice m))"

definition Route53ProviderStatus_DeepCopyInto :: "Route53ProviderStatus_m \<Rightarrow> ('x cell, Route53ProviderStatus_m) mem" where
  "Route53ProviderStatus_DeepCopyInto x = do {
     ids \<leftarrow> copy_Strings (r53m_HealthCheckIDs x);
     State_Monad.return (x\<lparr>r53m_HealthCheckIDs := ids\<rparr>) }"

definition foot_Route53ProviderStatus :: "'x cell list \<Rightarrow> Route53ProviderStatus_m \<Rightarrow> address set" where
  "foot_Route53ProviderStatus h x = foot_Strings h (r53m_HealthCheckIDs x)"

definition meaning_Route53ProviderStatus :: "'x cell list \<Rightarrow> Route53ProviderStatus_m \<Rightarrow> Route53ProviderStatus" where
  "meaning_Route53ProviderStatus h x = \<lparr>r53s_PolicyID = r53m_PolicyID x,
     r53s_HealthCheckIDs = map_option map_of (meaning_Strings h (r53m_HealthCheckIDs x)), r53s_PolicyInstanceID = r53m_PolicyInstanceID x\<rparr>"

interpretation route53_status: deep_copy Route53ProviderStatus_DeepCopyInto foot_Route53ProviderStatus meaning_Route53ProviderStatus
  by (rule deep_copy_struct [OF strings.deep_copy_axioms, where parts = r53m_HealthCheckIDs and build = "\<lambda>x a. x\<lparr>r53m_HealthCheckIDs := a\<rparr>"
        and whole = "\<lambda>x a. \<lparr>r53s_PolicyID = r53m_PolicyID x, r53s_HealthCheckIDs = map_option map_of a, r53s_PolicyInstanceID = r53m_PolicyInstanceID x\<rparr>"])
    (simp_all add: Route53ProviderStatus_DeepCopyInto_def foot_Route53ProviderStatus_def meaning_Route53ProviderStatus_def)

definition ProviderStatus_DeepCopyInto :: "ProviderStatus_m \<Rightarrow> ('x cell, ProviderStatus_m) mem" where
  "ProviderStatus_DeepCopyInto x = do {
     route53 \<leftarrow> copy_ref C_Route53ProviderStatus get_Route53ProviderStatus Route53ProviderStatus_DeepCopyInto (psm_Route53 x);
     trafficManager \<leftarrow> copy_ref C_TrafficManagerProviderStatus get_TrafficManagerProviderStatus State_Monad.return (psm_TrafficManager x);
     State_Monad.return (x\<lparr>psm_Route53 := route53, psm_TrafficManager := trafficManager\<rparr>) }"

definition foot_ProviderStatus :: "'x cell list \<Rightarrow> ProviderStatus_m \<Rightarrow> address set" where
  "foot_ProviderStatus h x = foot_ref get_Route53ProviderStatus foot_Route53ProviderStatus h (psm_Route53 x)
     \<union> foot_ref get_TrafficManagerProviderStatus no_foot h (psm_TrafficManager x)"

definition meaning_ProviderStatus :: "'x cell list \<Rightarrow> ProviderStatus_m \<Rightarrow> ProviderStatus" where
  "meaning_ProviderStatus h x =
     \<lparr>ps_Route53 = meaning_ref get_Route53ProviderStatus meaning_Route53ProviderStatus h (psm_Route53 x),
      ps_TrafficManager = meaning_ref get_TrafficManagerProviderStatus itself h (psm_TrafficManager x)\<rparr>"

interpretation provider_status: deep_copy ProviderStatus_DeepCopyInto foot_ProviderStatus meaning_ProviderStatus
  by (rule deep_copy_struct [OF deep_copy_pair [OF deep_copy_ref [OF route53_status.deep_copy_axioms, of get_Route53ProviderStatus C_Route53ProviderStatus]
          deep_copy_ref [OF flat.deep_copy_axioms, of get_TrafficManagerProviderStatus C_TrafficManagerProviderStatus]],
        where parts = "\<lambda>x. (psm_Route53 x, psm_TrafficManager x)"
        and build = "\<lambda>x (a, b). x\<lparr>psm_Route53 := a, psm_TrafficManager := b\<rparr>"
        and whole = "\<lambda>_ (a, b). \<lparr>ps_Route53 = a, ps_TrafficManager = b\<rparr>"])
    (auto simp: ProviderStatus_DeepCopyInto_def foot_ProviderStatus_def meaning_ProviderStatus_def pair_defs)

text \<open>The endpoints are copied with \<open>copy\<close>, which is enough because an endpoint holds no references.\<close>

definition GlobalDNSRecordSpec_DeepCopyInto :: "'x foreign \<Rightarrow> GlobalDNSRecordSpec_m \<Rightarrow> ('x cell, GlobalDNSRecordSpec_m) mem" where
  "GlobalDNSRecordSpec_DeepCopyInto F x = do {
     endpoints \<leftarrow> copy_ref C_Endpoints get_Endpoints State_Monad.return (rsm_Endpoints x);
     healthCheck \<leftarrow> copy_ref C_Probe get_Probe (f_copy F) (rsm_HealthCheck x);
     State_Monad.return (x\<lparr>rsm_Endpoints := endpoints, rsm_HealthCheck := healthCheck, rsm_GlobalZoneRef := rsm_GlobalZoneRef x\<rparr>) }"

definition foot_GlobalDNSRecordSpec :: "'x foreign \<Rightarrow> 'x cell list \<Rightarrow> GlobalDNSRecordSpec_m \<Rightarrow> address set" where
  "foot_GlobalDNSRecordSpec F h x = foot_ref get_Endpoints no_foot h (rsm_Endpoints x) \<union> foot_ref get_Probe (f_foot F) h (rsm_HealthCheck x)"

definition meaning_GlobalDNSRecordSpec :: "'x foreign \<Rightarrow> 'x cell list \<Rightarrow> GlobalDNSRecordSpec_m \<Rightarrow> GlobalDNSRecordSpec" where
  "meaning_GlobalDNSRecordSpec F h x =
     \<lparr>rs_Name = rsm_Name x, rs_Endpoints = slice (meaning_ref get_Endpoints itself h (rsm_Endpoints x)), rs_TTL = rsm_TTL x,
      rs_HealthCheck = meaning_ref get_Probe (f_Probe F) h (rsm_HealthCheck x),
      rs_LoadBalancingPolicy = rsm_LoadBalancingPolicy x, rs_GlobalZoneRef = rsm_GlobalZoneRef x\<rparr>"

lemma GlobalDNSRecordSpec_copies:
  assumes "foreign_ok F"
  shows "deep_copy (GlobalDNSRecordSpec_DeepCopyInto F) (foot_GlobalDNSRecordSpec F) (meaning_GlobalDNSRecordSpec F)"
  by (rule deep_copy_struct [OF deep_copy_pair [OF deep_copy_ref [OF flat.deep_copy_axioms, of get_Endpoints C_Endpoints]
          deep_copy_ref [OF foreign_copies(4) [OF assms], of get_Probe C_Probe]],
        where parts = "\<lambda>x. (rsm_Endpoints x, rsm_HealthCheck x)"
        and build = "\<lambda>x (a, b). x\<lparr>rsm_Endpoints := a, rsm_HealthCheck := b\<rparr>"
        and whole = "\<lambda>x (a, b). \<lparr>rs_Name = rsm_Name x, rs_Endpoints = slice a, rs_TTL = rsm_TTL x, rs_HealthCheck = b,
          rs_LoadBalancingPolicy = rsm_LoadBalancingPolicy x, rs_GlobalZoneRef = rsm_GlobalZoneRef x\<rparr>"])
    (auto simp: GlobalDNSRecordSpec_DeepCopyInto_def foot_GlobalDNSRecordSpec_def meaning_GlobalDNSRecordSpec_def pair_defs)

definition GlobalDNSRecordStatus_DeepCopyInto :: "'x foreign \<Rightarrow> GlobalDNSRecordStatus_m \<Rightarrow> ('x cell, GlobalDNSRecordStatus_m) mem" where
  "GlobalDNSRecordStatus_DeepCopyInto F x = do {
     conditions \<leftarrow> copy_Conditions F (rstm_Conditions x);
     monitored \<leftarrow> copy_ConditionMap F (rstm_MonitoredServiceStatuses x);
     endpoints \<leftarrow> copy_ConditionMap F (rstm_EndpointStatuses x);
     provider \<leftarrow> ProviderStatus_DeepCopyInto (rstm_ProviderStatus x);
     State_Monad.return (x\<lparr>rstm_Conditions := conditions, rstm_MonitoredServiceStatuses := monitored,
       rstm_EndpointStatuses := endpoints, rstm_ProviderStatus := provider\<rparr>) }"

definition foot_GlobalDNSRecordStatus :: "'x foreign \<Rightarrow> 'x cell list \<Rightarrow> GlobalDNSRecordStatus_m \<Rightarrow> address set" where
  "foot_GlobalDNSRecordStatus F h x = foot_Conditions F h (rstm_Conditions x) \<union> (foot_ConditionMap F h (rstm_MonitoredServiceStatuses x)
     \<union> (foot_ConditionMap F h (rstm_EndpointStatuses x) \<union> foot_ProviderStatus h (rstm_ProviderStatus x)))"

definition meaning_GlobalDNSRecordStatus :: "'x foreign \<Rightarrow> 'x cell list \<Rightarrow> GlobalDNSRecordStatus_m \<Rightarrow> GlobalDNSRecordStatus" where
  "meaning_GlobalDNSRecordStatus F h x =
     \<lparr>rst_Conditions = slice (meaning_Conditions F h (rstm_Conditions x)),
      rst_MonitoredServiceStatuses = status_map (meaning_ConditionMap F h (rstm_MonitoredServiceStatuses x)),
      rst_EndpointStatuses = status_map (meaning_ConditionMap F h (rstm_EndpointStatuses x)),
      rst_ProviderStatus = meaning_ProviderStatus h (rstm_ProviderStatus x)\<rparr>"

lemma GlobalDNSRecordStatus_copies:
  assumes "foreign_ok F"
  shows "deep_copy (GlobalDNSRecordStatus_DeepCopyInto F) (foot_GlobalDNSRecordStatus F) (meaning_GlobalDNSRecordStatus F)"
  by (rule deep_copy_struct [OF deep_copy_pair [OF conditions_copies(1) [OF assms] deep_copy_pair [OF conditions_copies(2) [OF assms]
          deep_copy_pair [OF conditions_copies(2) [OF assms] provider_status.deep_copy_axioms]]],
        where parts = "\<lambda>x. (rstm_Conditions x, rstm_MonitoredServiceStatuses x, rstm_EndpointStatuses x, rstm_ProviderStatus x)"
        and build = "\<lambda>x (a, b, c, d). x\<lparr>rstm_Conditions := a, rstm_MonitoredServiceStatuses := b, rstm_EndpointStatuses := c, rstm_ProviderStatus := d\<rparr>"
        and whole = "\<lambda>x (a, b, c, d). \<lparr>rst_Conditions = slice a, rst_MonitoredServiceStatuses = status_map b,
          rst_EndpointStatuses = status_map c, rst_ProviderStatus = d\<rparr>"])
    (auto simp: GlobalDNSRecordStatus_DeepCopyInto_def foot_GlobalDNSRecordStatus_def meaning_GlobalDNSRecordStatus_def pair_defs)

section \<open>The resources\<close>

definition GlobalDNSRecord_DeepCopyInto :: "'x foreign \<Rightarrow> 'x GlobalDNSRecord_m \<Rightarrow> ('x cell, 'x GlobalDNSRecord_m) mem" where
  "GlobalDNSRecord_DeepCopyInto F x = do {
     meta \<leftarrow> f_copy F (recm_ObjectMeta x);
     spec \<leftarrow> GlobalDNSRecordSpec_DeepCopyInto F (recm_Spec x);
     status \<leftarrow> GlobalDNSRecordStatus_DeepCopyInto F (recm_Status x);
     State_Monad.return (x\<lparr>recm_TypeMeta := recm_TypeMeta x, recm_ObjectMeta := meta, recm_Spec := spec, recm_Status := status\<rparr>) }"

definition foot_GlobalDNSRecord :: "'x foreign \<Rightarrow> 'x cell list \<Rightarrow> 'x GlobalDNSRecord_m \<Rightarrow> address set" where
  "foot_GlobalDNSRecord F h x = f_foot F h (recm_ObjectMeta x) \<union> (foot_GlobalDNSRecordSpec F h (recm_Spec x)
     \<union> foot_GlobalDNSRecordStatus F h (recm_Status x))"

definition meaning_GlobalDNSRecord :: "'x foreign \<Rightarrow> 'x cell list \<Rightarrow> 'x GlobalDNSRecord_m \<Rightarrow> TypeMeta \<times> GlobalDNSRecord" where
  "meaning_GlobalDNSRecord F h x = (recm_TypeMeta x, \<lparr>rec_Meta = f_ObjectMeta F h (recm_ObjectMeta x),
     rec_Spec = meaning_GlobalDNSRecordSpec F h (recm_Spec x), rec_Status = meaning_GlobalDNSRecordStatus F h (recm_Status x)\<rparr>)"

lemma GlobalDNSRecord_copies:
  assumes "foreign_ok F"
  shows "deep_copy (GlobalDNSRecord_DeepCopyInto F) (foot_GlobalDNSRecord F) (meaning_GlobalDNSRecord F)"
  by (rule deep_copy_struct [OF deep_copy_pair [OF foreign_copies(1) [OF assms]
          deep_copy_pair [OF GlobalDNSRecordSpec_copies [OF assms] GlobalDNSRecordStatus_copies [OF assms]]],
        where parts = "\<lambda>x. (recm_ObjectMeta x, recm_Spec x, recm_Status x)"
        and build = "\<lambda>x (a, b, c). x\<lparr>recm_ObjectMeta := a, recm_Spec := b, recm_Status := c\<rparr>"
        and whole = "\<lambda>x (a, b, c). (recm_TypeMeta x, \<lparr>rec_Meta = a, rec_Spec = b, rec_Status = c\<rparr>)"])
    (auto simp: GlobalDNSRecord_DeepCopyInto_def foot_GlobalDNSRecord_def meaning_GlobalDNSRecord_def pair_defs)

definition GlobalDNSZoneStatus_DeepCopyInto :: "'x foreign \<Rightarrow> GlobalDNSZoneStatus_m \<Rightarrow> ('x cell, GlobalDNSZoneStatus_m) mem" where
  "GlobalDNSZoneStatus_DeepCopyInto F x = do {
     conditions \<leftarrow> copy_Conditions F (zstm_Conditions x);
     State_Monad.return (x\<lparr>zstm_Conditions := conditions\<rparr>) }"

definition foot_GlobalDNSZoneStatus :: "'x foreign \<Rightarrow> 'x cell list \<Rightarrow> GlobalDNSZoneStatus_m \<Rightarrow> address set" where
  "foot_GlobalDNSZoneStatus F h x = foot_Conditions F h (zstm_Conditions x)"

definition meaning_GlobalDNSZoneStatus :: "'x foreign \<Rightarrow> 'x cell list \<Rightarrow> GlobalDNSZoneStatus_m \<Rightarrow> Conditions" where
  "meaning_GlobalDNSZoneStatus F h x = slice (meaning_Conditions F h (zstm_Conditions x))"

lemma GlobalDNSZoneStatus_copies:
  assumes "foreign_ok F"
  shows "deep_copy (GlobalDNSZoneStatus_DeepCopyInto F) (foot_GlobalDNSZoneStatus F) (meaning_GlobalDNSZoneStatus F)"
  by (rule deep_copy_struct [OF conditions_copies(1) [OF assms], where parts = zstm_Conditions
        and build = "\<lambda>x a. x\<lparr>zstm_Conditions := a\<rparr>" and whole = "\<lambda>_. slice"])
    (simp_all add: GlobalDNSZoneStatus_DeepCopyInto_def foot_GlobalDNSZoneStatus_def meaning_GlobalDNSZoneStatus_def)

definition GlobalDNSZone_DeepCopyInto :: "'x foreign \<Rightarrow> 'x GlobalDNSZone_m \<Rightarrow> ('x cell, 'x GlobalDNSZone_m) mem" where
  "GlobalDNSZone_DeepCopyInto F x = do {
     meta \<leftarrow> f_copy F (zonem_ObjectMeta x);
     spec \<leftarrow> GlobalDNSZoneSpec_DeepCopyInto (zonem_Spec x);
     status \<leftarrow> GlobalDNSZoneStatus_DeepCopyInto F (zonem_Status x);
     State_Monad.return (x\<lparr>zonem_TypeMeta := zonem_TypeMeta x, zonem_ObjectMeta := meta, zonem_Spec := spec, zonem_Status := status\<rparr>) }"

definition foot_GlobalDNSZone :: "'x foreign \<Rightarrow> 'x cell list \<Rightarrow> 'x GlobalDNSZone_m \<Rightarrow> address set" where
  "foot_GlobalDNSZone F h x = f_foot F h (zonem_ObjectMeta x) \<union> (foot_GlobalDNSZoneSpec h (zonem_Spec x)
     \<union> foot_GlobalDNSZoneStatus F h (zonem_Status x))"

definition meaning_GlobalDNSZone :: "'x foreign \<Rightarrow> 'x cell list \<Rightarrow> 'x GlobalDNSZone_m \<Rightarrow> TypeMeta \<times> GlobalDNSZone" where
  "meaning_GlobalDNSZone F h x = (zonem_TypeMeta x, \<lparr>zone_Meta = f_ObjectMeta F h (zonem_ObjectMeta x),
     zone_Spec = meaning_GlobalDNSZoneSpec h (zonem_Spec x), zone_Conditions = meaning_GlobalDNSZoneStatus F h (zonem_Status x)\<rparr>)"

lemma GlobalDNSZone_copies:
  assumes "foreign_ok F"
  shows "deep_copy (GlobalDNSZone_DeepCopyInto F) (foot_GlobalDNSZone F) (meaning_GlobalDNSZone F)"
  by (rule deep_copy_struct [OF deep_copy_pair [OF foreign_copies(1) [OF assms]
          deep_copy_pair [OF zone_spec.deep_copy_axioms GlobalDNSZoneStatus_copies [OF assms]]],
        where parts = "\<lambda>x. (zonem_ObjectMeta x, zonem_Spec x, zonem_Status x)"
        and build = "\<lambda>x (a, b, c). x\<lparr>zonem_ObjectMeta := a, zonem_Spec := b, zonem_Status := c\<rparr>"
        and whole = "\<lambda>x (a, b, c). (zonem_TypeMeta x, \<lparr>zone_Meta = a, zone_Spec = b, zone_Conditions = c\<rparr>)"])
    (auto simp: GlobalDNSZone_DeepCopyInto_def foot_GlobalDNSZone_def meaning_GlobalDNSZone_def pair_defs)

definition GlobalRouteDiscoverySpec_DeepCopyInto ::
  "'x foreign \<Rightarrow> 'x GlobalRouteDiscoverySpec_m \<Rightarrow> ('x cell, 'x GlobalRouteDiscoverySpec_m) mem" where
  "GlobalRouteDiscoverySpec_DeepCopyInto F x = do {
     clusters \<leftarrow> copy_ref C_Clusters get_Clusters State_Monad.return (gsm_Clusters x);
     selector \<leftarrow> f_copy F (gsm_RouteSelector x);
     State_Monad.return (x\<lparr>gsm_Clusters := clusters, gsm_RouteSelector := selector, gsm_GlobalZoneRef := gsm_GlobalZoneRef x\<rparr>) }"

definition foot_GlobalRouteDiscoverySpec :: "'x foreign \<Rightarrow> 'x cell list \<Rightarrow> 'x GlobalRouteDiscoverySpec_m \<Rightarrow> address set" where
  "foot_GlobalRouteDiscoverySpec F h x = foot_ref get_Clusters no_foot h (gsm_Clusters x) \<union> f_foot F h (gsm_RouteSelector x)"

definition meaning_GlobalRouteDiscoverySpec :: "'x foreign \<Rightarrow> 'x cell list \<Rightarrow> 'x GlobalRouteDiscoverySpec_m \<Rightarrow> GlobalRouteDiscoverySpec" where
  "meaning_GlobalRouteDiscoverySpec F h x =
     \<lparr>gs_Clusters = slice (meaning_ref get_Clusters itself h (gsm_Clusters x)), gs_RouteSelector = f_LabelSelector F h (gsm_RouteSelector x),
      gs_DefaultLoadBalancingPolicy = gsm_DefaultLoadBalancingPolicy x, gs_DefaultTTL = gsm_DefaultTTL x,
      gs_GlobalZoneRef = gsm_GlobalZoneRef x\<rparr>"

lemma GlobalRouteDiscoverySpec_copies:
  assumes "foreign_ok F"
  shows "deep_copy (GlobalRouteDiscoverySpec_DeepCopyInto F) (foot_GlobalRouteDiscoverySpec F) (meaning_GlobalRouteDiscoverySpec F)"
  by (rule deep_copy_struct [OF deep_copy_pair [OF deep_copy_ref [OF flat.deep_copy_axioms, of get_Clusters C_Clusters] foreign_copies(3) [OF assms]],
        where parts = "\<lambda>x. (gsm_Clusters x, gsm_RouteSelector x)"
        and build = "\<lambda>x (a, b). x\<lparr>gsm_Clusters := a, gsm_RouteSelector := b\<rparr>"
        and whole = "\<lambda>x (a, b). \<lparr>gs_Clusters = slice a, gs_RouteSelector = b, gs_DefaultLoadBalancingPolicy = gsm_DefaultLoadBalancingPolicy x,
          gs_DefaultTTL = gsm_DefaultTTL x, gs_GlobalZoneRef = gsm_GlobalZoneRef x\<rparr>"])
    (auto simp: GlobalRouteDiscoverySpec_DeepCopyInto_def foot_GlobalRouteDiscoverySpec_def meaning_GlobalRouteDiscoverySpec_def pair_defs)

definition GlobalRouteDiscoveryStatus_DeepCopyInto ::
  "'x foreign \<Rightarrow> GlobalRouteDiscoveryStatus_m \<Rightarrow> ('x cell, GlobalRouteDiscoveryStatus_m) mem" where
  "GlobalRouteDiscoveryStatus_DeepCopyInto F x = do {
     conditions \<leftarrow> copy_Conditions F (gstm_Conditions x);
     statuses \<leftarrow> copy_ConditionMap F (gstm_ClusterReferenceStatuses x);
     State_Monad.return (x\<lparr>gstm_Conditions := conditions, gstm_ClusterReferenceStatuses := statuses\<rparr>) }"

definition foot_GlobalRouteDiscoveryStatus :: "'x foreign \<Rightarrow> 'x cell list \<Rightarrow> GlobalRouteDiscoveryStatus_m \<Rightarrow> address set" where
  "foot_GlobalRouteDiscoveryStatus F h x =
     foot_Conditions F h (gstm_Conditions x) \<union> foot_ConditionMap F h (gstm_ClusterReferenceStatuses x)"

definition meaning_GlobalRouteDiscoveryStatus :: "'x foreign \<Rightarrow> 'x cell list \<Rightarrow> GlobalRouteDiscoveryStatus_m \<Rightarrow> GlobalRouteDiscoveryStatus" where
  "meaning_GlobalRouteDiscoveryStatus F h x =
     \<lparr>gst_Conditions = slice (meaning_Conditions F h (gstm_Conditions x)),
      gst_ClusterReferenceStatuses = status_map (meaning_ConditionMap F h (gstm_ClusterReferenceStatuses x))\<rparr>"

lemma GlobalRouteDiscoveryStatus_copies:
  assumes "foreign_ok F"
  shows "deep_copy (GlobalRouteDiscoveryStatus_DeepCopyInto F) (foot_GlobalRouteDiscoveryStatus F) (meaning_GlobalRouteDiscoveryStatus F)"
  by (rule deep_copy_struct [OF deep_copy_pair [OF conditions_copies [OF assms]],
        where parts = "\<lambda>x. (gstm_Conditions x, gstm_ClusterReferenceStatuses x)"
        and build = "\<lambda>x (a, b). x\<lparr>gstm_Conditions := a, gstm_ClusterReferenceStatuses := b\<rparr>"
        and whole = "\<lambda>x (a, b). \<lparr>gst_Conditions = slice a, gst_ClusterReferenceStatuses = status_map b\<rparr>"])
    (auto simp: GlobalRouteDiscoveryStatus_DeepCopyInto_def foot_GlobalRouteDiscoveryStatus_def meaning_GlobalRouteDiscoveryStatus_def pair_defs)

definition GlobalRouteDiscovery_DeepCopyInto :: "'x foreign \<Rightarrow> 'x GlobalRouteDiscovery_m \<Rightarrow> ('x cell, 'x GlobalRouteDiscovery_m) mem" where
  "GlobalRouteDiscovery_DeepCopyInto F x = do {
     meta \<leftarrow> f_copy F (grdm_ObjectMeta x);
     spec \<leftarrow> GlobalRouteDiscoverySpec_DeepCopyInto F (grdm_Spec x);
     status \<leftarrow> GlobalRouteDiscoveryStatus_DeepCopyInto F (grdm_Status x);
     State_Monad.return (x\<lparr>grdm_TypeMeta := grdm_TypeMeta x, grdm_ObjectMeta := meta, grdm_Spec := spec, grdm_Status := status\<rparr>) }"

definition foot_GlobalRouteDiscovery :: "'x foreign \<Rightarrow> 'x cell list \<Rightarrow> 'x GlobalRouteDiscovery_m \<Rightarrow> address set" where
  "foot_GlobalRouteDiscovery F h x = f_foot F h (grdm_ObjectMeta x) \<union> (foot_GlobalRouteDiscoverySpec F h (grdm_Spec x)
     \<union> foot_GlobalRouteDiscoveryStatus F h (grdm_Status x))"

definition meaning_GlobalRouteDiscovery :: "'x foreign \<Rightarrow> 'x cell list \<Rightarrow> 'x GlobalRouteDiscovery_m \<Rightarrow> TypeMeta \<times> GlobalRouteDiscovery" where
  "meaning_GlobalRouteDiscovery F h x = (grdm_TypeMeta x, \<lparr>grd_Meta = f_ObjectMeta F h (grdm_ObjectMeta x),
     grd_Spec = meaning_GlobalRouteDiscoverySpec F h (grdm_Spec x), grd_Status = meaning_GlobalRouteDiscoveryStatus F h (grdm_Status x)\<rparr>)"

lemma GlobalRouteDiscovery_copies:
  assumes "foreign_ok F"
  shows "deep_copy (GlobalRouteDiscovery_DeepCopyInto F) (foot_GlobalRouteDiscovery F) (meaning_GlobalRouteDiscovery F)"
  by (rule deep_copy_struct [OF deep_copy_pair [OF foreign_copies(1) [OF assms]
          deep_copy_pair [OF GlobalRouteDiscoverySpec_copies [OF assms] GlobalRouteDiscoveryStatus_copies [OF assms]]],
        where parts = "\<lambda>x. (grdm_ObjectMeta x, grdm_Spec x, grdm_Status x)"
        and build = "\<lambda>x (a, b, c). x\<lparr>grdm_ObjectMeta := a, grdm_Spec := b, grdm_Status := c\<rparr>"
        and whole = "\<lambda>x (a, b, c). (grdm_TypeMeta x, \<lparr>grd_Meta = a, grd_Spec = b, grd_Status = c\<rparr>)"])
    (auto simp: GlobalRouteDiscovery_DeepCopyInto_def foot_GlobalRouteDiscovery_def meaning_GlobalRouteDiscovery_def pair_defs)

section \<open>Lists\<close>

definition foot_List ::
  "'x foreign \<Rightarrow> ('x cell \<Rightarrow> 'a list option) \<Rightarrow> ('x cell list \<Rightarrow> 'a \<Rightarrow> address set) \<Rightarrow> 'x cell list \<Rightarrow> 'x List_m \<Rightarrow> address set" where
  "foot_List F get foot h x = f_foot F h (lm_ListMeta x) \<union> foot_ref get (foot_list foot) h (lm_Items x)"

definition meaning_List ::
  "'x foreign \<Rightarrow> ('x cell \<Rightarrow> 'a list option) \<Rightarrow> ('x cell list \<Rightarrow> 'a \<Rightarrow> 'v) \<Rightarrow> 'x cell list \<Rightarrow> 'x List_m \<Rightarrow> TypeMeta \<times> string \<times> 'v list" where
  "meaning_List F get meaning h x = (lm_TypeMeta x, f_ListMeta F h (lm_ListMeta x), slice (meaning_ref get (meaning_list meaning) h (lm_Items x)))"

lemma list_copies:
  assumes "foreign_ok F" and "deep_copy item foot meaning" and "\<And>x. get (put x) = Some x"
    and "\<And>x. copy x = do { meta \<leftarrow> f_copy F (lm_ListMeta x); items \<leftarrow> copy_ref put get (traverse_list item) (lm_Items x);
       State_Monad.return (x\<lparr>lm_TypeMeta := lm_TypeMeta x, lm_ListMeta := meta, lm_Items := items\<rparr>) }"
  shows "deep_copy copy (foot_List F get foot) (meaning_List F get meaning)"
  by (rule deep_copy_struct [OF deep_copy_pair [OF foreign_copies(2) [OF assms(1)] deep_copy_ref [OF deep_copy_list [OF assms(2)], of get put, OF assms(3)]],
        where parts = "\<lambda>x. (lm_ListMeta x, lm_Items x)" and build = "\<lambda>x (a, b). x\<lparr>lm_ListMeta := a, lm_Items := b\<rparr>"
        and whole = "\<lambda>x (a, b). (lm_TypeMeta x, a, slice b)"])
    (auto simp: assms(4) foot_List_def meaning_List_def pair_defs)

definition GlobalDNSRecordList_DeepCopyInto :: "'x foreign \<Rightarrow> 'x List_m \<Rightarrow> ('x cell, 'x List_m) mem" where
  "GlobalDNSRecordList_DeepCopyInto F x = do {
     meta \<leftarrow> f_copy F (lm_ListMeta x);
     items \<leftarrow> copy_ref C_Records get_Records (traverse_list (GlobalDNSRecord_DeepCopyInto F)) (lm_Items x);
     State_Monad.return (x\<lparr>lm_TypeMeta := lm_TypeMeta x, lm_ListMeta := meta, lm_Items := items\<rparr>) }"

definition GlobalDNSZoneList_DeepCopyInto :: "'x foreign \<Rightarrow> 'x List_m \<Rightarrow> ('x cell, 'x List_m) mem" where
  "GlobalDNSZoneList_DeepCopyInto F x = do {
     meta \<leftarrow> f_copy F (lm_ListMeta x);
     items \<leftarrow> copy_ref C_Zones get_Zones (traverse_list (GlobalDNSZone_DeepCopyInto F)) (lm_Items x);
     State_Monad.return (x\<lparr>lm_TypeMeta := lm_TypeMeta x, lm_ListMeta := meta, lm_Items := items\<rparr>) }"

definition GlobalRouteDiscoveryList_DeepCopyInto :: "'x foreign \<Rightarrow> 'x List_m \<Rightarrow> ('x cell, 'x List_m) mem" where
  "GlobalRouteDiscoveryList_DeepCopyInto F x = do {
     meta \<leftarrow> f_copy F (lm_ListMeta x);
     items \<leftarrow> copy_ref C_Discoveries get_Discoveries (traverse_list (GlobalRouteDiscovery_DeepCopyInto F)) (lm_Items x);
     State_Monad.return (x\<lparr>lm_TypeMeta := lm_TypeMeta x, lm_ListMeta := meta, lm_Items := items\<rparr>) }"

lemma resource_lists_copies:
  assumes "foreign_ok F"
  shows "deep_copy (GlobalDNSRecordList_DeepCopyInto F) (foot_List F get_Records (foot_GlobalDNSRecord F)) (meaning_List F get_Records (meaning_GlobalDNSRecord F))"
    "deep_copy (GlobalDNSZoneList_DeepCopyInto F) (foot_List F get_Zones (foot_GlobalDNSZone F)) (meaning_List F get_Zones (meaning_GlobalDNSZone F))"
    "deep_copy (GlobalRouteDiscoveryList_DeepCopyInto F) (foot_List F get_Discoveries (foot_GlobalRouteDiscovery F)) (meaning_List F get_Discoveries (meaning_GlobalRouteDiscovery F))"
proof -
  show "deep_copy (GlobalDNSRecordList_DeepCopyInto F) (foot_List F get_Records (foot_GlobalDNSRecord F)) (meaning_List F get_Records (meaning_GlobalDNSRecord F))"
    by (rule list_copies [OF assms GlobalDNSRecord_copies [OF assms], where put = C_Records]; simp add: GlobalDNSRecordList_DeepCopyInto_def)
  show "deep_copy (GlobalDNSZoneList_DeepCopyInto F) (foot_List F get_Zones (foot_GlobalDNSZone F)) (meaning_List F get_Zones (meaning_GlobalDNSZone F))"
    by (rule list_copies [OF assms GlobalDNSZone_copies [OF assms], where put = C_Zones]; simp add: GlobalDNSZoneList_DeepCopyInto_def)
  show "deep_copy (GlobalRouteDiscoveryList_DeepCopyInto F) (foot_List F get_Discoveries (foot_GlobalRouteDiscovery F)) (meaning_List F get_Discoveries (meaning_GlobalRouteDiscovery F))"
    by (rule list_copies [OF assms GlobalRouteDiscovery_copies [OF assms], where put = C_Discoveries]; simp add: GlobalRouteDiscoveryList_DeepCopyInto_def)
qed

section \<open>Copies behind a pointer\<close>

text \<open>\<open>DeepCopy\<close> of a nil pointer is nil; otherwise a new struct gets the copied contents.\<close>

definition ClusterReference_DeepCopy :: "address option \<Rightarrow> ('x cell, address option) mem" where
  "ClusterReference_DeepCopy = copy_ref C_ClusterReference get_ClusterReference ClusterReference_DeepCopyInto"

definition Endpoint_DeepCopy :: "address option \<Rightarrow> ('x cell, address option) mem" where
  "Endpoint_DeepCopy = copy_ref C_Endpoint get_Endpoint Endpoint_DeepCopyInto"

definition ExternalDNSProviderConfig_DeepCopy :: "address option \<Rightarrow> ('x cell, address option) mem" where
  "ExternalDNSProviderConfig_DeepCopy = copy_ref C_ExternalDNSProviderConfig get_ExternalDNSProviderConfig ExternalDNSProviderConfig_DeepCopyInto"

definition GCPGLBProviderConfig_DeepCopy :: "address option \<Rightarrow> ('x cell, address option) mem" where
  "GCPGLBProviderConfig_DeepCopy = copy_ref C_GCPGLBProviderConfig get_GCPGLBProviderConfig GCPGLBProviderConfig_DeepCopyInto"

definition GlobalDNSRecord_DeepCopy :: "'x foreign \<Rightarrow> address option \<Rightarrow> ('x cell, address option) mem" where
  "GlobalDNSRecord_DeepCopy F = copy_ref C_GlobalDNSRecord get_GlobalDNSRecord (GlobalDNSRecord_DeepCopyInto F)"

definition GlobalDNSRecordList_DeepCopy :: "'x foreign \<Rightarrow> address option \<Rightarrow> ('x cell, address option) mem" where
  "GlobalDNSRecordList_DeepCopy F = copy_ref C_GlobalDNSRecordList get_GlobalDNSRecordList (GlobalDNSRecordList_DeepCopyInto F)"

definition GlobalDNSRecordSpec_DeepCopy :: "'x foreign \<Rightarrow> address option \<Rightarrow> ('x cell, address option) mem" where
  "GlobalDNSRecordSpec_DeepCopy F = copy_ref C_GlobalDNSRecordSpec get_GlobalDNSRecordSpec (GlobalDNSRecordSpec_DeepCopyInto F)"

definition GlobalDNSRecordStatus_DeepCopy :: "'x foreign \<Rightarrow> address option \<Rightarrow> ('x cell, address option) mem" where
  "GlobalDNSRecordStatus_DeepCopy F = copy_ref C_GlobalDNSRecordStatus get_GlobalDNSRecordStatus (GlobalDNSRecordStatus_DeepCopyInto F)"

definition GlobalDNSZone_DeepCopy :: "'x foreign \<Rightarrow> address option \<Rightarrow> ('x cell, address option) mem" where
  "GlobalDNSZone_DeepCopy F = copy_ref C_GlobalDNSZone get_GlobalDNSZone (GlobalDNSZone_DeepCopyInto F)"

definition GlobalDNSZoneList_DeepCopy :: "'x foreign \<Rightarrow> address option \<Rightarrow> ('x cell, address option) mem" where
  "GlobalDNSZoneList_DeepCopy F = copy_ref C_GlobalDNSZoneList get_GlobalDNSZoneList (GlobalDNSZoneList_DeepCopyInto F)"

definition GlobalDNSZoneSpec_DeepCopy :: "address option \<Rightarrow> ('x cell, address option) mem" where
  "GlobalDNSZoneSpec_DeepCopy = copy_ref C_GlobalDNSZoneSpec get_GlobalDNSZoneSpec GlobalDNSZoneSpec_DeepCopyInto"

definition GlobalDNSZoneStatus_DeepCopy :: "'x foreign \<Rightarrow> address option \<Rightarrow> ('x cell, address option) mem" where
  "GlobalDNSZoneStatus_DeepCopy F = copy_ref C_GlobalDNSZoneStatus get_GlobalDNSZoneStatus (GlobalDNSZoneStatus_DeepCopyInto F)"

definition GlobalRouteDiscovery_DeepCopy :: "'x foreign \<Rightarrow> address option \<Rightarrow> ('x cell, address option) mem" where
  "GlobalRouteDiscovery_DeepCopy F = copy_ref C_GlobalRouteDiscovery get_GlobalRouteDiscovery (GlobalRouteDiscovery_DeepCopyInto F)"

definition GlobalRouteDiscoveryList_DeepCopy :: "'x foreign \<Rightarrow> address option \<Rightarrow> ('x cell, address option) mem" where
  "GlobalRouteDiscoveryList_DeepCopy F = copy_ref C_GlobalRouteDiscoveryList get_GlobalRouteDiscoveryList (GlobalRouteDiscoveryList_DeepCopyInto F)"

definition GlobalRouteDiscoverySpec_DeepCopy :: "'x foreign \<Rightarrow> address option \<Rightarrow> ('x cell, address option) mem" where
  "GlobalRouteDiscoverySpec_DeepCopy F = copy_ref C_GlobalRouteDiscoverySpec get_GlobalRouteDiscoverySpec (GlobalRouteDiscoverySpec_DeepCopyInto F)"

definition GlobalRouteDiscoveryStatus_DeepCopy :: "'x foreign \<Rightarrow> address option \<Rightarrow> ('x cell, address option) mem" where
  "GlobalRouteDiscoveryStatus_DeepCopy F = copy_ref C_GlobalRouteDiscoveryStatus get_GlobalRouteDiscoveryStatus (GlobalRouteDiscoveryStatus_DeepCopyInto F)"

definition NamespacedName_DeepCopy :: "address option \<Rightarrow> ('x cell, address option) mem" where
  "NamespacedName_DeepCopy = copy_ref C_NamespacedName get_NamespacedName NamespacedName_DeepCopyInto"

definition ProviderConfig_DeepCopy :: "address option \<Rightarrow> ('x cell, address option) mem" where
  "ProviderConfig_DeepCopy = copy_ref C_ProviderConfig get_ProviderConfig ProviderConfig_DeepCopyInto"

definition ProviderStatus_DeepCopy :: "address option \<Rightarrow> ('x cell, address option) mem" where
  "ProviderStatus_DeepCopy = copy_ref C_ProviderStatus get_ProviderStatus ProviderStatus_DeepCopyInto"

definition Route53ProviderConfig_DeepCopy :: "address option \<Rightarrow> ('x cell, address option) mem" where
  "Route53ProviderConfig_DeepCopy = copy_ref C_Route53ProviderConfig get_Route53ProviderConfig Route53ProviderConfig_DeepCopyInto"

definition Route53ProviderStatus_DeepCopy :: "address option \<Rightarrow> ('x cell, address option) mem" where
  "Route53ProviderStatus_DeepCopy = copy_ref C_Route53ProviderStatus get_Route53ProviderStatus Route53ProviderStatus_DeepCopyInto"

definition TrafficManagerProviderConfig_DeepCopy :: "address option \<Rightarrow> ('x cell, address option) mem" where
  "TrafficManagerProviderConfig_DeepCopy = copy_ref C_TrafficManagerProviderConfig get_TrafficManagerProviderConfig TrafficManagerProviderConfig_DeepCopyInto"

definition TrafficManagerProviderStatus_DeepCopy :: "address option \<Rightarrow> ('x cell, address option) mem" where
  "TrafficManagerProviderStatus_DeepCopy = copy_ref C_TrafficManagerProviderStatus get_TrafficManagerProviderStatus TrafficManagerProviderStatus_DeepCopyInto"

text \<open>\<open>DeepCopyObject\<close> returns an interface value: nil, or a pointer with its type. The test makes a nil
  pointer a nil interface.\<close>

definition object_of :: "address option \<Rightarrow> address option option" where
  "object_of c = (if c \<noteq> None then Some c else None)"

definition GlobalDNSRecord_DeepCopyObject :: "'x foreign \<Rightarrow> address option \<Rightarrow> ('x cell, address option option) mem" where
  "GlobalDNSRecord_DeepCopyObject F x = do { c \<leftarrow> GlobalDNSRecord_DeepCopy F x; State_Monad.return (object_of c) }"

definition GlobalDNSRecordList_DeepCopyObject :: "'x foreign \<Rightarrow> address option \<Rightarrow> ('x cell, address option option) mem" where
  "GlobalDNSRecordList_DeepCopyObject F x = do { c \<leftarrow> GlobalDNSRecordList_DeepCopy F x; State_Monad.return (object_of c) }"

definition GlobalDNSZone_DeepCopyObject :: "'x foreign \<Rightarrow> address option \<Rightarrow> ('x cell, address option option) mem" where
  "GlobalDNSZone_DeepCopyObject F x = do { c \<leftarrow> GlobalDNSZone_DeepCopy F x; State_Monad.return (object_of c) }"

definition GlobalDNSZoneList_DeepCopyObject :: "'x foreign \<Rightarrow> address option \<Rightarrow> ('x cell, address option option) mem" where
  "GlobalDNSZoneList_DeepCopyObject F x = do { c \<leftarrow> GlobalDNSZoneList_DeepCopy F x; State_Monad.return (object_of c) }"

definition GlobalRouteDiscovery_DeepCopyObject :: "'x foreign \<Rightarrow> address option \<Rightarrow> ('x cell, address option option) mem" where
  "GlobalRouteDiscovery_DeepCopyObject F x = do { c \<leftarrow> GlobalRouteDiscovery_DeepCopy F x; State_Monad.return (object_of c) }"

definition GlobalRouteDiscoveryList_DeepCopyObject :: "'x foreign \<Rightarrow> address option \<Rightarrow> ('x cell, address option option) mem" where
  "GlobalRouteDiscoveryList_DeepCopyObject F x = do { c \<leftarrow> GlobalRouteDiscoveryList_DeepCopy F x; State_Monad.return (object_of c) }"

lemma object_of_copy: "object_of c = map_option (\<lambda>a. Some a) c"
  by (cases c) (simp_all add: object_of_def)

text \<open>
  C39: deep copies are separate. The copy of a resource, or of a list of resources, behind a pointer
  means the same as the original, and no existing cell is changed by copying; whatever is written
  afterwards to the cells the copy reaches, the original keeps its meaning, and whatever is written
  to the cells the original reached, the copy keeps it. Nil is copied to nil.
\<close>

theorem deep_copies_separate:
  assumes "foreign_ok F"
  shows "separate_copies (GlobalDNSRecord_DeepCopy F) (foot_ref get_GlobalDNSRecord (foot_GlobalDNSRecord F)) (meaning_ref get_GlobalDNSRecord (meaning_GlobalDNSRecord F))
    \<and> separate_copies (GlobalDNSZone_DeepCopy F) (foot_ref get_GlobalDNSZone (foot_GlobalDNSZone F)) (meaning_ref get_GlobalDNSZone (meaning_GlobalDNSZone F))
    \<and> separate_copies (GlobalRouteDiscovery_DeepCopy F) (foot_ref get_GlobalRouteDiscovery (foot_GlobalRouteDiscovery F)) (meaning_ref get_GlobalRouteDiscovery (meaning_GlobalRouteDiscovery F))
    \<and> separate_copies (GlobalDNSRecordList_DeepCopy F) (foot_ref get_GlobalDNSRecordList (foot_List F get_Records (foot_GlobalDNSRecord F))) (meaning_ref get_GlobalDNSRecordList (meaning_List F get_Records (meaning_GlobalDNSRecord F)))
    \<and> separate_copies (GlobalDNSZoneList_DeepCopy F) (foot_ref get_GlobalDNSZoneList (foot_List F get_Zones (foot_GlobalDNSZone F))) (meaning_ref get_GlobalDNSZoneList (meaning_List F get_Zones (meaning_GlobalDNSZone F)))
    \<and> separate_copies (GlobalRouteDiscoveryList_DeepCopy F) (foot_ref get_GlobalRouteDiscoveryList (foot_List F get_Discoveries (foot_GlobalRouteDiscovery F))) (meaning_ref get_GlobalRouteDiscoveryList (meaning_List F get_Discoveries (meaning_GlobalRouteDiscovery F)))
    \<and> (\<forall>h. run_state (GlobalDNSRecord_DeepCopyObject F None) h = (None, h))"
proof (intro conjI allI)
  show "separate_copies (GlobalDNSRecord_DeepCopy F) (foot_ref get_GlobalDNSRecord (foot_GlobalDNSRecord F)) (meaning_ref get_GlobalDNSRecord (meaning_GlobalDNSRecord F))"
    unfolding GlobalDNSRecord_DeepCopy_def by (intro separate_copiesI deep_copy_ref GlobalDNSRecord_copies assms get_cell)
  show "separate_copies (GlobalDNSZone_DeepCopy F) (foot_ref get_GlobalDNSZone (foot_GlobalDNSZone F)) (meaning_ref get_GlobalDNSZone (meaning_GlobalDNSZone F))"
    unfolding GlobalDNSZone_DeepCopy_def by (intro separate_copiesI deep_copy_ref GlobalDNSZone_copies assms get_cell)
  show "separate_copies (GlobalRouteDiscovery_DeepCopy F) (foot_ref get_GlobalRouteDiscovery (foot_GlobalRouteDiscovery F)) (meaning_ref get_GlobalRouteDiscovery (meaning_GlobalRouteDiscovery F))"
    unfolding GlobalRouteDiscovery_DeepCopy_def by (intro separate_copiesI deep_copy_ref GlobalRouteDiscovery_copies assms get_cell)
  show "separate_copies (GlobalDNSRecordList_DeepCopy F) (foot_ref get_GlobalDNSRecordList (foot_List F get_Records (foot_GlobalDNSRecord F))) (meaning_ref get_GlobalDNSRecordList (meaning_List F get_Records (meaning_GlobalDNSRecord F)))"
    unfolding GlobalDNSRecordList_DeepCopy_def by (intro separate_copiesI deep_copy_ref resource_lists_copies(1) assms get_cell)
  show "separate_copies (GlobalDNSZoneList_DeepCopy F) (foot_ref get_GlobalDNSZoneList (foot_List F get_Zones (foot_GlobalDNSZone F))) (meaning_ref get_GlobalDNSZoneList (meaning_List F get_Zones (meaning_GlobalDNSZone F)))"
    unfolding GlobalDNSZoneList_DeepCopy_def by (intro separate_copiesI deep_copy_ref resource_lists_copies(2) assms get_cell)
  show "separate_copies (GlobalRouteDiscoveryList_DeepCopy F) (foot_ref get_GlobalRouteDiscoveryList (foot_List F get_Discoveries (foot_GlobalRouteDiscovery F))) (meaning_ref get_GlobalRouteDiscoveryList (meaning_List F get_Discoveries (meaning_GlobalRouteDiscovery F)))"
    unfolding GlobalRouteDiscoveryList_DeepCopy_def by (intro separate_copiesI deep_copy_ref resource_lists_copies(3) assms get_cell)
  show "run_state (GlobalDNSRecord_DeepCopyObject F None) h = (None, h)" for h
    by (simp add: GlobalDNSRecord_DeepCopyObject_def GlobalDNSRecord_DeepCopy_def copy_ref_def read_ref_def object_of_def)
qed

section \<open>A concrete heap\<close>

text \<open>Values of other packages that consist of a name and a map of labels.\<close>

definition copy_named :: "string \<times> address option \<Rightarrow> ((string \<times> address option) cell, string \<times> address option) mem" where
  "copy_named = copy_entry copy_Strings"

definition named_ObjectMeta :: "string \<times> (string \<times> string) list option \<Rightarrow> ObjectMeta" where
  "named_ObjectMeta v = \<lparr>om_Name = fst v, om_Namespace = [], om_Labels = map_option Mapping.of_alist (snd v), om_Annotations = None,
     om_Finalizers = [], om_DeletionTimestamp = None, om_ResourceVersion = []\<rparr>"

definition sample_foreign :: "(string \<times> address option) foreign" where
  "sample_foreign = \<lparr>f_copy = copy_named, f_foot = foot_entry foot_Strings,
     f_ObjectMeta = (\<lambda>h x. named_ObjectMeta (meaning_entry meaning_Strings h x)), f_ListMeta = (\<lambda>h x. fst x), f_LabelSelector = (\<lambda>h x. fst x),
     f_Probe = (\<lambda>h x. \<lparr>pr_HTTPGet = None, pr_InitialDelaySeconds = 0, pr_TimeoutSeconds = 1, pr_PeriodSeconds = 10,
       pr_SuccessThreshold = 1, pr_FailureThreshold = 3\<rparr>),
     f_Condition = (\<lambda>h x. \<lparr>cond_Type = fst x, cond_Status = ''True'', cond_LastTransitionTime = 0, cond_Reason = [], cond_Message = []\<rparr>)\<rparr>"

lemma sample_foreign_ok: "foreign_ok sample_foreign"
proof -
  have "deep_copy copy_named (foot_entry foot_Strings) (f_meaning sample_foreign)"
    unfolding copy_named_def
    by (rule deep_copy_view [OF deep_copy_entry [OF strings.deep_copy_axioms], where g = "\<lambda>v. (named_ObjectMeta v, fst v, fst v,
      \<lparr>pr_HTTPGet = None, pr_InitialDelaySeconds = 0, pr_TimeoutSeconds = 1, pr_PeriodSeconds = 10, pr_SuccessThreshold = 1, pr_FailureThreshold = 3\<rparr>,
      \<lparr>cond_Type = fst v, cond_Status = ''True'', cond_LastTransitionTime = 0, cond_Reason = [], cond_Message = []\<rparr>)"])
      (simp add: sample_foreign_def f_meaning_def meaning_entry_def)
  then show ?thesis by (simp add: foreign_ok_def sample_foreign_def)
qed

text \<open>A heap with a record: its labels, its endpoints and the record itself.\<close>

definition record_in_memory :: "(string \<times> address option) GlobalDNSRecord_m" where
  "record_in_memory = \<lparr>recm_TypeMeta = \<lparr>tm_Kind = ''GlobalDNSRecord'', tm_APIVersion = ''v1alpha1''\<rparr>, recm_ObjectMeta = (''rec'', Some 0),
     recm_Spec = \<lparr>rsm_Name = ''app.example.com'', rsm_Endpoints = Some 1, rsm_TTL = 60, rsm_HealthCheck = None,
       rsm_LoadBalancingPolicy = Multivalue, rsm_GlobalZoneRef = ''zone''\<rparr>,
     recm_Status = \<lparr>rstm_Conditions = None, rstm_MonitoredServiceStatuses = None, rstm_EndpointStatuses = None,
       rstm_ProviderStatus = \<lparr>psm_Route53 = None, psm_TrafficManager = None\<rparr>\<rparr>\<rparr>"

definition record_heap :: "(string \<times> address option) cell list" where
  "record_heap = [C_Strings [(''app'', ''web'')], C_Endpoints [], C_GlobalDNSRecord record_in_memory]"

lemmas record_copy_steps = GlobalDNSRecord_DeepCopy_def GlobalDNSRecord_DeepCopyInto_def GlobalDNSRecordSpec_DeepCopyInto_def
  GlobalDNSRecordStatus_DeepCopyInto_def ProviderStatus_DeepCopyInto_def copy_Conditions_def copy_ConditionMap_def copy_Strings_def
  copy_ref_def read_ref_def copy_entry_def copy_named_def cell_at_def sample_foreign_def record_heap_def record_in_memory_def

lemmas record_foot_steps = foot_GlobalDNSRecord_def foot_GlobalDNSRecordSpec_def foot_GlobalDNSRecordStatus_def foot_ProviderStatus_def
  foot_Conditions_def foot_ConditionMap_def foot_Strings_def foot_ref_def foot_list_def foot_entry_def no_foot_def

text \<open>The labels of the copy are in a new cell; the ones of the original survive their loss.\<close>

theorem deep_copies_separate_witness:
  "\<exists>h'. run_state (GlobalDNSRecord_DeepCopy sample_foreign (Some 2)) record_heap = (Some 5, h') \<and> h' ! 3 = C_Strings [(''app'', ''web'')]
     \<and> meaning_ref get_GlobalDNSRecord (meaning_GlobalDNSRecord sample_foreign) (h'[3 := C_Strings []]) (Some 2)
       = meaning_ref get_GlobalDNSRecord (meaning_GlobalDNSRecord sample_foreign) record_heap (Some 2)"
proof -
  let ?foot = "foot_ref get_GlobalDNSRecord (foot_GlobalDNSRecord sample_foreign)"
  obtain h' where run: "run_state (GlobalDNSRecord_DeepCopy sample_foreign (Some 2)) record_heap = (Some 5, h')"
    and new: "h' ! 3 = C_Strings [(''app'', ''web'')]" and cell: "3 \<in> ?foot h' (Some 5)"
    by (simp add: record_copy_steps record_foot_steps)
  have "?foot record_heap (Some 2) \<subseteq> {..<length record_heap}" by (simp add: record_copy_steps record_foot_steps)
  moreover have "cell_at (h'[3 := C_Strings []]) a = cell_at h' a" if "a \<notin> ?foot h' (Some 5)" for a
    using that cell by (cases "a = 3") (auto simp: cell_at_def)
  ultimately have "meaning_ref get_GlobalDNSRecord (meaning_GlobalDNSRecord sample_foreign) (h'[3 := C_Strings []]) (Some 2)
       = meaning_ref get_GlobalDNSRecord (meaning_GlobalDNSRecord sample_foreign) record_heap (Some 2)"
    using deep_copies_separate [OF sample_foreign_ok, THEN conjunct1, unfolded separate_copies_def] run by blast
  with run new show ?thesis by blast
qed

end
