(* ===== verification/Public_IP_Iterator.thy ===== *)
theory Public_IP_Iterator
  imports Traffic_Manager_Provider
begin

text \<open>
  The loop of controllers/globaldnsrecord/trafficManagerProvider.go that reads all public IPs from the
  iterator Azure returns. The provider works with the list of values an iterator delivers
  (\<open>list_public_ips\<close>); here the loop is modelled as it is written, over an arbitrary iterator, as a
  function that may not return. It returns exactly when the iterator comes to an end, and then it
  does what the provider does with the list.
\<close>

section \<open>The loop\<close>

record ('it, 'w) ip_iterator =
  it_NotDone :: "'it \<Rightarrow> bool"
  it_Value :: "'it \<Rightarrow> PublicIPAddress"
  it_NextWithContext :: "'it \<Rightarrow> 'w \<Rightarrow> (error option \<times> 'it) \<times> 'w"

partial_function (option) collect_public_ips ::
  "('it, 'w) ip_iterator \<Rightarrow> PublicIPAddress list \<Rightarrow> 'it \<Rightarrow> 'w \<Rightarrow> ((error + PublicIPAddress list) \<times> 'w) option" where
  "collect_public_ips I publicIPs it w =
     (if it_NotDone I it
      then (case it_NextWithContext I it w of ((err, it'), w') \<Rightarrow>
        (case err of
           Some e \<Rightarrow> Some (Inl e, w')
         | None \<Rightarrow> collect_public_ips I (publicIPs @ [it_Value I it]) it' w'))
      else Some (Inr publicIPs, w))"

section \<open>What an iterator delivers\<close>

text \<open>The values up to the end of the iterator, or up to the first error.\<close>

inductive delivers :: "('it, 'w) ip_iterator \<Rightarrow> 'it \<Rightarrow> 'w \<Rightarrow> PublicIPAddress list \<Rightarrow> error option \<Rightarrow> 'w \<Rightarrow> bool"
  for I :: "('it, 'w) ip_iterator" where
  ended: "\<not> it_NotDone I it \<Longrightarrow> delivers I it w [] None w"
| failed: "it_NotDone I it \<Longrightarrow> it_NextWithContext I it w = ((Some e, it'), w') \<Longrightarrow> delivers I it w [it_Value I it] (Some e) w'"
| item: "it_NotDone I it \<Longrightarrow> it_NextWithContext I it w = ((None, it'), w') \<Longrightarrow> delivers I it' w' xs err w'' \<Longrightarrow>
    delivers I it w (it_Value I it # xs) err w''"

inductive_cases delivers_Nil: "delivers I it w [] err w'"

definition loop_result :: "PublicIPAddress list \<Rightarrow> error option \<Rightarrow> error + PublicIPAddress list" where
  "loop_result xs err = (case err of None \<Rightarrow> Inr xs | Some e \<Rightarrow> Inl e)"

lemma delivers_collect:
  "delivers I it w xs err w' \<Longrightarrow> collect_public_ips I acc it w = Some (loop_result (acc @ xs) err, w')"
proof (induction arbitrary: acc rule: delivers.induct)
  case (ended it w)
  then show ?case by (subst collect_public_ips.simps) (simp add: loop_result_def)
next
  case (failed it w e it' w')
  then show ?case by (subst collect_public_ips.simps) (simp add: loop_result_def)
next
  case (item it w it' w' xs err w'')
  then show ?case by (subst collect_public_ips.simps) (simp add: loop_result_def split: option.split)
qed

text \<open>Conversely, a run that returns has read the iterator to its end or to an error.\<close>

lemma collect_delivers:
  fixes I :: "('it, 'w) ip_iterator"
  assumes "collect_public_ips I acc it w = Some (r, w')"
  shows "\<exists>xs err. delivers I it w xs err w' \<and> r = loop_result (acc @ xs) err"
proof -
  have "\<exists>xs err. delivers I it w xs err (snd (r, w')) \<and> fst (r, w') = loop_result (acc @ xs) err"
  proof (rule collect_public_ips.raw_induct [where P = "\<lambda>I acc it w y. \<exists>xs err. delivers I it w xs err (snd y) \<and> fst y = loop_result (acc @ xs) err",
        OF _ assms])
    fix collect :: "('it, 'w) ip_iterator \<Rightarrow> PublicIPAddress list \<Rightarrow> 'it \<Rightarrow> 'w \<Rightarrow> ((error + PublicIPAddress list) \<times> 'w) option"
      and I :: "('it, 'w) ip_iterator" and acc it w y
    assume IH: "\<And>I acc it w y. collect I acc it w = Some y \<Longrightarrow> \<exists>xs err. delivers I it w xs err (snd y) \<and> fst y = loop_result (acc @ xs) err"
      and run: "(if it_NotDone I it then (case it_NextWithContext I it w of ((err, it'), w') \<Rightarrow>
        (case err of Some e \<Rightarrow> Some (Inl e, w') | None \<Rightarrow> collect I (acc @ [it_Value I it]) it' w')) else Some (Inr acc, w)) = Some y"
    obtain err it' w1 where n: "it_NextWithContext I it w = ((err, it'), w1)" by (metis surj_pair)
    consider "\<not> it_NotDone I it" | e where "it_NotDone I it" "err = Some e" | "it_NotDone I it" "err = None" by (cases err) auto
    then show "\<exists>xs err. delivers I it w xs err (snd y) \<and> fst y = loop_result (acc @ xs) err"
    proof cases
      case 1
      with run have "delivers I it w [] None (snd y) \<and> fst y = loop_result (acc @ []) None"
        by (auto simp: loop_result_def intro: delivers.ended)
      then show ?thesis by blast
    next
      case (2 e)
      with run n have "delivers I it w [it_Value I it] (Some e) (snd y) \<and> fst y = loop_result (acc @ [it_Value I it]) (Some e)"
        by (auto simp: loop_result_def intro: delivers.failed)
      then show ?thesis by blast
    next
      case 3
      with run n have "collect I (acc @ [it_Value I it]) it' w1 = Some y" by simp
      from IH [OF this] obtain xs err' where "delivers I it' w1 xs err' (snd y)" "fst y = loop_result (acc @ it_Value I it # xs) err'" by auto
      with delivers.item [OF 3(1) n [unfolded 3(2)]] show ?thesis by blast
    qed
  qed
  then show ?thesis by simp
qed

lemma failed_delivers_value: "delivers I it w xs (Some e) w' \<Longrightarrow> xs \<noteq> []"
  by (auto elim: delivers_Nil)

text \<open>An iterator whose steps use up something ends.\<close>

lemma decreasing_delivers:
  fixes remaining :: "'it \<Rightarrow> nat" and I :: "('it, 'w) ip_iterator"
  assumes "\<And>it w it' w'. it_NotDone I it \<Longrightarrow> it_NextWithContext I it w = ((None, it'), w') \<Longrightarrow> remaining it' < remaining it"
  shows "\<exists>xs err w'. delivers I it w xs err w'"
proof (induction it arbitrary: w rule: measure_induct_rule [of remaining])
  case (less it)
  obtain err it' w1 where n: "it_NextWithContext I it w = ((err, it'), w1)" by (metis surj_pair)
  consider "\<not> it_NotDone I it" | e where "it_NotDone I it" "err = Some e" | "it_NotDone I it" "err = None" by (cases err) auto
  then show ?case
  proof cases
    case 1
    then show ?thesis by (intro exI) (rule delivers.ended)
  next
    case (2 e)
    with n have "delivers I it w [it_Value I it] (Some e) w1" by (simp add: delivers.failed)
    then show ?thesis by blast
  next
    case 3
    with n have "remaining it' < remaining it" using assms by blast
    from less.IH [OF this] obtain xs err' w' where "delivers I it' w1 xs err' w'" by blast
    with 3 n have "delivers I it w (it_Value I it # xs) err' w'" by (simp add: delivers.item)
    then show ?thesis by blast
  qed
qed

text \<open>
  C40: the loop over the public IPs ends. It returns exactly when the iterator delivers a list of values
  up to its end or up to an error, and then with this list or error; it does return for every
  iterator whose steps use up something; and what it returns is what the provider makes of the
  list and the error the iterator delivers.
\<close>

theorem public_ip_loop_terminates:
  fixes I :: "('it, 'w) ip_iterator"
  shows "(\<forall>it w r w'. collect_public_ips I [] it w = Some (r, w') \<longleftrightarrow> (\<exists>xs err. delivers I it w xs err w' \<and> r = loop_result xs err))
   \<and> (\<forall>remaining :: 'it \<Rightarrow> nat. (\<forall>it w it' w'. it_NotDone I it \<and> it_NextWithContext I it w = ((None, it'), w') \<longrightarrow> remaining it' < remaining it) \<longrightarrow>
        (\<forall>it w. collect_public_ips I [] it w \<noteq> None))
   \<and> (\<forall>it w xs err w' E p rg (s :: (event, 'v, 'l) io) v. delivers I it w xs err w' \<and> az_ListComplete (azure_client E p) rg (world s) = (Ret (xs, err), v) \<longrightarrow>
        fst (list_public_ips E p rg s) = (case loop_result xs err of Inl e \<Rightarrow> Fail e | Inr publicIPs \<Rightarrow> Ret publicIPs))"
proof (intro conjI allI impI)
  fix it w r w'
  show "collect_public_ips I [] it w = Some (r, w') \<longleftrightarrow> (\<exists>xs err. delivers I it w xs err w' \<and> r = loop_result xs err)"
    using collect_delivers [of I "[]" it w r w'] delivers_collect [of I it w _ _ w' "[]"] by auto
next
  fix remaining :: "'it \<Rightarrow> nat" and it w
  assume "\<forall>it w it' w'. it_NotDone I it \<and> it_NextWithContext I it w = ((None, it'), w') \<longrightarrow> remaining it' < remaining it"
  then obtain xs err w' where "delivers I it w xs err w'" using decreasing_delivers [of I remaining it w] by blast
  from delivers_collect [OF this] show "collect_public_ips I [] it w \<noteq> None" by simp
next
  fix it w xs err w' E p rg and s :: "(event, 'v, 'l) io" and v
  assume "delivers I it w xs err w' \<and> az_ListComplete (azure_client E p) rg (world s) = (Ret (xs, err), v)"
  then show "fst (list_public_ips E p rg s) = (case loop_result xs err of Inl e \<Rightarrow> Fail e | Inr publicIPs \<Rightarrow> Ret publicIPs)"
    by (cases err) (auto simp: list_public_ips_def loop_result_def request_def bnd_def prog_simps dest: failed_delivers_value)
qed

section \<open>A list as an iterator\<close>

definition list_iterator :: "(PublicIPAddress list, unit) ip_iterator" where
  "list_iterator = \<lparr>it_NotDone = (\<lambda>xs. xs \<noteq> []), it_Value = hd, it_NextWithContext = (\<lambda>xs w. ((None, tl xs), w))\<rparr>"

lemma list_iterator_delivers: "delivers list_iterator xs () xs None ()"
proof (induction xs)
  case Nil
  show ?case by (rule delivers.ended) (simp add: list_iterator_def)
next
  case (Cons x xs)
  with delivers.item [of list_iterator "x # xs" "()" xs "()" xs None "()"] show ?case by (simp add: list_iterator_def)
qed

theorem public_ip_loop_terminates_witness:
  "collect_public_ips list_iterator [] [sample_public_ip, sample_public_ip] () = Some (Inr [sample_public_ip, sample_public_ip], ())
   \<and> (\<forall>xs. collect_public_ips list_iterator [] xs () \<noteq> None)
   \<and> fst (list_public_ips (sample_env no_document) sample_tm_provider ''rg'' sample_state) = Ret [sample_public_ip]"
proof (intro conjI allI)
  let ?ips = "[sample_public_ip, sample_public_ip]"
  have "delivers list_iterator ?ips () ?ips None () \<and> Inr ?ips = loop_result ?ips None"
    by (simp add: list_iterator_delivers loop_result_def)
  then show "collect_public_ips list_iterator [] ?ips () = Some (Inr ?ips, ())"
    using public_ip_loop_terminates [of list_iterator, THEN conjunct1, rule_format, of ?ips "()" "Inr ?ips" "()"] by blast
next
  fix xs
  show "collect_public_ips list_iterator [] xs () \<noteq> None"
    by (rule public_ip_loop_terminates [of list_iterator, THEN conjunct2, THEN conjunct1, rule_format, of length])
      (auto simp: list_iterator_def)
next
  have "az_ListComplete (azure_client (sample_env no_document) sample_tm_provider) ''rg'' (world sample_state)
    = (Ret ([sample_public_ip], None), world sample_state)"
    by (simp add: sample_run_defs)
  then show "fst (list_public_ips (sample_env no_document) sample_tm_provider ''rg'' sample_state) = Ret [sample_public_ip]"
    using public_ip_loop_terminates [of list_iterator, THEN conjunct2, THEN conjunct2, rule_format,
        OF conjI [OF list_iterator_delivers [of "[sample_public_ip]"]]] by (fastforce simp: loop_result_def)
qed

end
