(* ===== verification/Spec2Isabelle.thy ===== *)
theory Spec2Isabelle
  imports Route53_Properties Record_Properties Zone_Controller GCP_Lifecycle Discovery_Routing
    Program_Start Reference_String Deep_Copies Public_IP_Iterator
begin

text \<open>
  Verification of the global load balancer operator, a Kubernetes operator in Go that publishes the
  load balancers of several clusters under one DNS name.

  \<^bold>\<open>The program.\<close> Three controllers reconcile three custom resources in a control cluster. A
  GlobalDNSZone names a domain and the service that hosts it. A GlobalDNSRecord names a host in a
  zone and the load balancer services, its endpoints, in the controlled clusters; its controller
  looks the endpoints up, builds a provider for the zone and lets it publish the record through
  Amazon Route53, Azure Traffic Manager, a global load balancer of Google Cloud, or the external-dns
  operator. A GlobalRouteDiscovery selects routes in the controlled clusters and turns each group of
  equally named routes into a GlobalDNSRecord. The record and the discovery controller keep a map of
  remote managers, one per cluster or endpoint; inside a remote manager runs a small controller (the
  service reconciler, the route reconciler) that watches the controlled cluster, sends the resources
  to reconcile over a channel, and leaves its status in the manager, from where the reconciliation
  copies it into the resource.

  \<^bold>\<open>How it is modelled.\<close> A Go function is a program: a function from a state to an outcome (a value,
  an error, a panic) and a state (\<open>GLB_Prelude\<close>). The state holds the trace of the requests that left
  the process, the world outside, and the data the function shares with its callers (the resource
  that is reconciled, the map of managers, the status of a manager). Everything outside the
  repository is a parameter, the record \<open>env\<close> of \<open>Services\<close>: the Kubernetes API, the three clouds, the
  clock, the resolver and the packages the code calls. Nothing is assumed about it except by named
  hypotheses of the theorems that need it: \<open>strset_ok\<close> (the string set package is a set),
  \<open>multierror_ok\<close> (an appended error list is nil when all parts are), \<open>finalizers_ok\<close>, \<open>answers_named\<close>
  (a read returns the object asked for), the storage laws of Route53 (\<open>policy_store\<close>, with pages of 100 policies
  and reads that may fail, and \<open>check_store\<close>), of the Kubernetes API (\<open>dns_store\<close>, \<open>record_store\<close>: objects are kept by
  namespace and name), and \<open>foreign_ok\<close> (the types of other packages have deep copies). Each of them holds in the concrete environment of
  \<open>Sample_World\<close>, or for \<open>sample_foreign\<close> in \<open>Deep_Copies\<close>, on which the theorems with hypotheses are
  exercised.

  Structs are records, enumerations of strings are string constants as in Go, a pointer that is tested
  or dereferenced is an option, and every dereference, index and slice expression that can panic does
  so in the model. Integers are unbounded where the code only copies or compares them; the numerals of
  the route annotation are read with the 64-bit bounds of strconv (\<open>Go_Strconv\<close>), and the
  bound \<open>maxInt\<close> of the sets is that of a 64-bit word (\<open>Rule_Reference_Set\<close>). The loops of the sources range over slices, maps or iterators and are
  recursion over the lists of what these deliver, so there is no fuel and every program is total. The one loop that asks an iterator
  of a cloud whether there is more is modelled a second time as it is written, as a function that may not return
  (\<open>Public_IP_Iterator\<close>).

  The controllers work on values. Where sharing matters, in the deep copies, the model has a heap: a list of
  cells that grows, with pointers, slices and maps as addresses into it (\<open>Heap_Copy\<close>). What a struct in the
  heap means is the value the controllers work on.

  Go leaves the order of an iteration over a map open. A map over which the code ranges is a list of
  pairs, and the order is an argument: \<open>endpoint_ranges\<close> gives a provider the order of each of its
  loops, \<open>iteration_orders\<close> the record controller, \<open>group_order\<close> the discovery. The theorems hold for
  every order, or exhibit two orders that differ. Goroutines, which only the Google provider starts,
  are resumptions interleaved by an arbitrary schedule (\<open>Goroutines\<close>); when a schedule is
  used up the remaining goroutines finish one after the other, so that every schedule describes a
  full run.

  \<^bold>\<open>Theories and sources.\<close>
  \<^item> \<open>GLB_Prelude\<close>, \<open>Go_Strconv\<close>: errors, programs, their laws and frame rules, strings, strconv.
  \<^item> \<open>Loop_Variable\<close>: what the receiver of a pointer to a loop variable can see, for the two channels of the
    service reconciler and the route reconciler.
  \<^item> \<open>API_Types\<close>: src/api/v1alpha1. \<open>Services\<close>: the code that is called and not part of the repository.
  \<^item> \<open>Rule_Reference_Set\<close>, \<open>Reference_String\<close>: src/controllers/common/route53, the traffic policy document
    and the set of rule references, with the locale \<open>go_set\<close> that the string sets share.
  \<^item> \<open>Credentials\<close>: src/controllers/common/route53/route53.go, azure/client.go and google/client.go.
  \<^item> \<open>Endpoint_Status\<close>: endpointstatus.go and common/remotemanager.
  \<^item> \<open>Provider_Interface\<close>: the interface of a provider as the locale \<open>dns_provider\<close>. It is interpreted
    for the four providers \<open>Route53_Provider\<close> (route53provider.go), \<open>External_DNS_Provider\<close>
    (externalDNSProvider.go), \<open>Traffic_Manager_Provider\<close> (trafficManagerProvider.go) and \<open>GCP_Provider\<close>
    (gcpglb.go).
  \<^item> \<open>Manager_Pool\<close>, \<open>Remote_Managers\<close>: the maps of remote managers of both controllers, over the
    locale \<open>manager_pool\<close>; it is interpreted for the record controller and for the discovery.
  \<^item> \<open>Service_Reconciler\<close>, \<open>Record_Controller\<close>: service\_reconciler.go and globaldnsrecord\_controller.go,
    with the locale \<open>provider_source\<close> for the choice of a provider.
  \<^item> \<open>Zone_Controller\<close>: globaldnszone\_controller.go.
  \<^item> \<open>Route_Reconciler\<close>, \<open>Route_Discovery\<close>: routereconciler.go and globalroutediscovery\_controller.go.
  \<^item> \<open>Program_Start\<close>: main.go and the SetupWithManager functions.
  \<^item> \<open>Public_IP_Iterator\<close>: the loop over the public IPs of trafficManagerProvider.go over an arbitrary iterator.
  \<^item> \<open>Heap_Copy\<close>, \<open>Deep_Copies\<close>: zz\_generated.deepcopy.go. The contract of a deep copy is the locale \<open>deep_copy\<close>; it is
    closed under structs, slices, maps and pointers, and interpreted for the parts that need no other package.

  \<^bold>\<open>What is shown.\<close>
  \<^item> Route53 (\<open>Route53_Documents\<close>, \<open>Route53_Converge\<close>, \<open>Route53_Properties\<close>): the document of a record does
    not depend on iteration orders, the comparison decides equality of documents up to the order of the references of the
    rule main, a published policy of a record without health check is not changed by another run, deletions come in the required order and touch only the policies of the record,
    a success has published the record; the panic of the caller reference, the health check that is
    updated for ever and the colliding names are shown as well.
  \<^item> Sets: the operations refine those of mathematical sets; membership, adding and removing agree with them.
  \<^item> External DNS and Traffic Manager: what is published and, for the former, convergence; that the
    deletion names a profile that was never created.
  \<^item> Google (\<open>GCP_Properties\<close>, \<open>GCP_Lifecycle\<close>): the difference of attached and wanted endpoints, that
    every zone is handled under every schedule, the orders of creation and deletion, the published
    address; the lost update, the lost error and the inverted comparison of health checks.
  \<^item> Controllers (\<open>Remote_Managers\<close>, \<open>Record_Properties\<close>, \<open>Service_Reconciler\<close>, \<open>Zone_Controller\<close>): managers match the
    records and are never leaked in any reachable state of the transition system of the controller, the
    finalizer is removed only after a successful clean-up, errors are reported in the status, a success
    has published the record; the probe that never becomes complete and the zone that was deleted first.
  \<^item> Route discovery (\<open>Discovery_Properties\<close>, \<open>Discovery_Routing\<close>): managers are never leaked, the routes a success
    has found and the records it has written, that errors reach the status, the time-to-live annotation as a round trip with its
    bounds, the way of a change of a router to the discoveries, which the shared loop variable can lead astray; the records of
    one host that overwrite each other.
  \<^item> Deep copies: a copy means the same as its original and shares no cell with it.
  \<^item> Public IPs: the loop returns exactly when the iterator ends, and with what the provider works on.
  \<^item> Start: the manager is started only after all controllers and checks are registered, and the exit
    status is 0 only after the whole sequence.

  \<^bold>\<open>Abstractions.\<close> Log output is left out. Strings are ASCII. \<open>reflect.DeepEqual\<close> is equality, so a nil and
  an empty slice are not told apart; the map of endpoints of a traffic policy document is an option, so that nil and
  empty maps are. A send on a channel of the reconcilers carries the address of the loop variable, which Go 1.16 shares among the
  iterations: the assignments to the variable and the sends are events, and \<open>Loop_Variable\<close> says which values a
  receiver can see. A value that is read while it is being written is not modelled. An update in place replaces the resource by
  the answer of the API. Where a deferred deletion from a map runs at the end of a function, it does so
  in the model on every way out, panics included.

  \<^bold>\<open>Not modelled.\<close> The registration of the types with the scheme (groupversion\_info.go) consists of
  calls into the controller runtime. The parsing of the command line in main.go is an argument, because the logging
  package adds flags of its own. The reconciliation of several resources at once is not modelled: a
  controller works on one request at a time, which is the default of the controller runtime.
\<close>

end
